(* ===== verification/Go_Prelude.thy ===== *)
theory Go_Prelude
  imports Main "HOL-Library.Word"
begin

text \<open>
  Shared ground of the development: how Go code is represented.

  \<^item> A Go function that touches shared state is a program \<open>('s, 'a) prog\<close>: a function
    from the state to an outcome and the next state. The outcome \<open>Panic\<close> is a run-time panic
    (nil dereference, index out of range); \<open>andThen\<close> runs two programs in sequence and stops at
    a panic, keeping the state the panic left behind. Errors of Go are ordinary values.
  \<^item> A Go \<open>int\<close> or \<open>int64\<close> is an \<open>int\<close> in the range of 64-bit two's complement;
    every operation of the source that can leave that range goes through \<open>int64_wrap\<close>.
    Unsigned machine integers are words.
  \<^item> A Go map with a zero-value read is \<open>mget\<close>.

  The rule bundles \<open>keeps_intros\<close>, \<open>erases_intros\<close>, \<open>yields_intros\<close> and \<open>ensures_rules\<close> hold the composition rules of
  the program predicates below, so that a claim about a whole handler is derived from claims about
  the calls it makes.
\<close>

section \<open>Programs\<close>

datatype 'a outcome = Done 'a | Panic

type_synonym ('s, 'a) prog = "'s \<Rightarrow> 'a outcome \<times> 's"

fun ret :: "'a \<Rightarrow> ('s, 'a) prog" where
  "ret a s = (Done a, s)"

fun panic :: "('s, 'a) prog" where
  "panic s = (Panic, s)"

fun andThen :: "('s, 'a) prog \<Rightarrow> ('a \<Rightarrow> ('s, 'b) prog) \<Rightarrow> ('s, 'b) prog" where
  "andThen m k s = (case m s of (Done a, s') \<Rightarrow> k a s' | (Panic, s') \<Rightarrow> (Panic, s'))"

text \<open>Reading through a pointer: a nil pointer panics.\<close>

fun deref :: "'a option \<Rightarrow> ('a \<Rightarrow> ('s, 'b) prog) \<Rightarrow> ('s, 'b) prog" where
  "deref None k s = (Panic, s)"
| "deref (Some a) k s = k a s"

text \<open>The equations on a state, taken away where a proof works on programs as a whole.\<close>

lemmas prog_eqs = ret.simps panic.simps andThen.simps deref.simps

lemma andThen_ret [simp]: "andThen (ret a) k = k a"
  by (rule ext) simp

lemma andThen_return: "andThen m ret = m"
  by (rule ext) (auto split: prod.splits outcome.splits)

lemma andThen_assoc: "andThen (andThen m k) l = andThen m (\<lambda>a. andThen (k a) l)"
  by (rule ext) (auto split: prod.splits outcome.splits)

lemma andThen_Done [simp]: "m s = (Done a, s') \<Longrightarrow> andThen m k s = k a s'"
  by simp

lemma andThen_Panic [simp]: "m s = (Panic, s') \<Longrightarrow> andThen m k s = (Panic, s')"
  by simp

text \<open>\<open>defer\<close>: the deferred call runs when the function ends, also by a panic.\<close>

definition with_defer :: "('s, 'a) prog \<Rightarrow> ('s, 'b) prog \<Rightarrow> ('s, 'a) prog" where
  "with_defer m d s = (case m s of (out, s') \<Rightarrow> (out, snd (d s')))"

lemma andThen_DoneE:
  assumes "andThen m k s = (Done b, s'')"
  obtains a s' where "m s = (Done a, s')" and "k a s' = (Done b, s'')"
  using assms by (auto split: prod.splits outcome.splits)

lemma deref_DoneE:
  assumes "deref p k s = (Done b, s')"
  obtains a where "p = Some a" and "k a s = (Done b, s')"
  using assms by (cases p) auto

subsection \<open>Relations kept by every run of a program\<close>

text \<open>
  \<open>keeps R m\<close>: whenever \<open>m\<close> moves the state from \<open>s\<close> to \<open>s'\<close>, with whatever outcome,
  \<open>R s s'\<close> holds. For a reflexive and transitive \<open>R\<close> it is closed under sequencing. The
  locale fixes such a relation; it is interpreted where a component's frame is defined.
\<close>

definition keeps :: "('s \<Rightarrow> 's \<Rightarrow> bool) \<Rightarrow> ('s, 'a) prog \<Rightarrow> bool" where
  "keeps R m \<longleftrightarrow> (\<forall>s. R s (snd (m s)))"

lemma keepsI: "(\<And>s. R s (snd (m s))) \<Longrightarrow> keeps R m"
  by (simp add: keeps_def)

lemma keepsD: "keeps R m \<Longrightarrow> m s = (r, s') \<Longrightarrow> R s s'"
  unfolding keeps_def by (metis snd_conv)

locale state_relation =
  fixes R :: "'s \<Rightarrow> 's \<Rightarrow> bool"
  assumes rel_refl: "R s s"
    and rel_trans: "R s t \<Longrightarrow> R t u \<Longrightarrow> R s u"
begin

lemma keeps_ret: "keeps R (ret a)"
  by (simp add: keeps_def rel_refl)

lemma keeps_panic: "keeps R panic"
  by (simp add: keeps_def rel_refl)

lemma keeps_andThen:
  assumes m: "keeps R m" and k: "\<And>a. keeps R (k a)"
  shows "keeps R (andThen m k)"
proof (rule keepsI)
  fix s
  obtain r t where mt: "m s = (r, t)" by fastforce
  then have Rst: "R s t" using m by (blast dest: keepsD)
  show "R s (snd (andThen m k s))"
  proof (cases r)
    case (Done a)
    have "R t (snd (k a t))" using k [of a] by (simp add: keeps_def)
    with Rst have "R s (snd (k a t))" by (rule rel_trans)
    with mt Done show ?thesis by simp
  next
    case Panic
    with mt Rst show ?thesis by simp
  qed
qed

lemma keeps_deref: "(\<And>a. keeps R (k a)) \<Longrightarrow> keeps R (deref p k)"
  by (cases p) (simp_all add: keeps_def rel_refl)

lemma keeps_if: "(b \<Longrightarrow> keeps R m) \<Longrightarrow> (\<not> b \<Longrightarrow> keeps R n) \<Longrightarrow> keeps R (if b then m else n)"
  by simp

lemma keeps_case_sum:
  "(\<And>e. x = Inl e \<Longrightarrow> keeps R (f e)) \<Longrightarrow> (\<And>v. x = Inr v \<Longrightarrow> keeps R (g v))
    \<Longrightarrow> keeps R (case x of Inl e \<Rightarrow> f e | Inr v \<Rightarrow> g v)"
  by (cases x) simp_all

lemma keeps_case_option:
  "(x = None \<Longrightarrow> keeps R m) \<Longrightarrow> (\<And>v. x = Some v \<Longrightarrow> keeps R (g v))
    \<Longrightarrow> keeps R (case x of None \<Rightarrow> m | Some v \<Rightarrow> g v)"
  by (cases x) simp_all

lemma keeps_case_prod: "(\<And>a b. x = (a, b) \<Longrightarrow> keeps R (f a b)) \<Longrightarrow> keeps R (case x of (a, b) \<Rightarrow> f a b)"
  by (cases x) simp

lemma keeps_let: "(\<And>x. x = a \<Longrightarrow> keeps R (f x)) \<Longrightarrow> keeps R (let x = a in f x)"
  by simp

lemmas keeps_intros = keeps_ret keeps_panic keeps_andThen keeps_deref keeps_if keeps_case_sum
  keeps_case_option keeps_case_prod keeps_let

end

subsection \<open>Running the same program on a richer state\<close>

text \<open>
  \<open>erases p m n\<close>: with \<open>p\<close> forgetting part of the state, a run of \<open>m\<close> is a run of \<open>n\<close>.
  Closed under every way programs are composed, so it lifts from the calls to the handlers.
\<close>

definition erases :: "('s \<Rightarrow> 't) \<Rightarrow> ('s, 'a) prog \<Rightarrow> ('t, 'a) prog \<Rightarrow> bool" where
  "erases p m n \<longleftrightarrow> (\<forall>s. n (p s) = (fst (m s), p (snd (m s))))"

lemma erasesD: "erases p m n \<Longrightarrow> n (p s) = (fst (m s), p (snd (m s)))"
  by (simp add: erases_def)

lemma erases_ret: "erases p (ret a) (ret a)"
  by (simp add: erases_def)

lemma erases_panic: "erases p panic panic"
  by (simp add: erases_def)

lemma erases_andThen:
  assumes m: "erases p m n" and k: "\<And>a. erases p (k a) (l a)"
  shows "erases p (andThen m k) (andThen n l)"
  unfolding erases_def
proof
  fix s
  show "andThen n l (p s) = (fst (andThen m k s), p (snd (andThen m k s)))"
    using erasesD [OF m, of s] erasesD [OF k]
    by (auto split: prod.splits outcome.splits)
qed

lemma erases_deref: "(\<And>a. erases p (k a) (l a)) \<Longrightarrow> erases p (deref x k) (deref x l)"
  by (cases x) (simp_all add: erases_def)

lemma erases_if: "erases p m m' \<Longrightarrow> erases p n n' \<Longrightarrow> erases p (if b then m else n) (if b then m' else n')"
  by simp

lemma erases_case_sum:
  "(\<And>e. erases p (f e) (f' e)) \<Longrightarrow> (\<And>v. erases p (g v) (g' v))
    \<Longrightarrow> erases p (case x of Inl e \<Rightarrow> f e | Inr v \<Rightarrow> g v) (case x of Inl e \<Rightarrow> f' e | Inr v \<Rightarrow> g' v)"
  by (cases x) simp_all

lemma erases_case_option:
  "erases p m m' \<Longrightarrow> (\<And>v. erases p (g v) (g' v))
    \<Longrightarrow> erases p (case x of None \<Rightarrow> m | Some v \<Rightarrow> g v) (case x of None \<Rightarrow> m' | Some v \<Rightarrow> g' v)"
  by (cases x) simp_all

lemma erases_case_prod:
  "(\<And>a b. erases p (f a b) (f' a b)) \<Longrightarrow> erases p (case x of (a, b) \<Rightarrow> f a b) (case x of (a, b) \<Rightarrow> f' a b)"
  by (cases x) simp

lemmas erases_intros = erases_ret erases_panic erases_andThen erases_deref erases_if
  erases_case_sum erases_case_option erases_case_prod

subsection \<open>Runs that return\<close>

text \<open>
  \<open>yields Q m\<close>: no run of \<open>m\<close> panics and every result satisfies \<open>Q\<close>. The rules push the
  claim on the result backwards through the program.
\<close>

definition yields :: "('a \<Rightarrow> bool) \<Rightarrow> ('s, 'a) prog \<Rightarrow> bool" where
  "yields Q m \<longleftrightarrow> (\<forall>s. \<exists>a. fst (m s) = Done a \<and> Q a)"

lemma yieldsD: "yields Q m \<Longrightarrow> \<exists>a s'. m s = (Done a, s') \<and> Q a"
  unfolding yields_def by (metis prod.collapse)

lemma yields_ret: "Q a \<Longrightarrow> yields Q (ret a)"
  by (simp add: yields_def)

lemma yields_andThen:
  assumes "yields (\<lambda>a. yields Q (k a)) m"
  shows "yields Q (andThen m k)"
  unfolding yields_def
proof
  fix s
  obtain a s' where "m s = (Done a, s')" and "yields Q (k a)" using yieldsD [OF assms] by blast
  moreover obtain b s'' where "k a s' = (Done b, s'')" "Q b" using yieldsD [OF \<open>yields Q (k a)\<close>] by blast
  ultimately show "\<exists>b. fst (andThen m k s) = Done b \<and> Q b" by simp
qed

lemma yields_deref: "p \<noteq> None \<Longrightarrow> (\<And>a. p = Some a \<Longrightarrow> yields Q (k a)) \<Longrightarrow> yields Q (deref p k)"
  by (cases p) (auto simp: yields_def)

lemma yields_conseq: "yields P m \<Longrightarrow> (\<And>a. P a \<Longrightarrow> Q a) \<Longrightarrow> yields Q m"
  unfolding yields_def by blast

lemma yields_with_defer: "yields Q m \<Longrightarrow> yields Q (with_defer m d)"
  by (simp add: yields_def with_defer_def split: prod.splits) (metis fst_conv)

lemma yields_if: "(b \<Longrightarrow> yields Q m) \<Longrightarrow> (\<not> b \<Longrightarrow> yields Q n) \<Longrightarrow> yields Q (if b then m else n)"
  by simp

lemma yields_case_sum: "(\<And>e. x = Inl e \<Longrightarrow> yields Q (f e)) \<Longrightarrow> (\<And>v. x = Inr v \<Longrightarrow> yields Q (g v))
    \<Longrightarrow> yields Q (case x of Inl e \<Rightarrow> f e | Inr v \<Rightarrow> g v)"
  by (cases x) simp_all

lemma yields_case_option: "(x = None \<Longrightarrow> yields Q m) \<Longrightarrow> (\<And>v. x = Some v \<Longrightarrow> yields Q (g v))
    \<Longrightarrow> yields Q (case x of None \<Rightarrow> m | Some v \<Rightarrow> g v)"
  by (cases x) simp_all

lemma yields_case_prod: "(\<And>a b. x = (a, b) \<Longrightarrow> yields Q (f a b)) \<Longrightarrow> yields Q (case x of (a, b) \<Rightarrow> f a b)"
  by (cases x) simp

lemmas yields_intros = yields_ret yields_andThen yields_deref yields_if yields_case_sum yields_case_option yields_case_prod

subsection \<open>Results of a program\<close>

text \<open>\<open>ensures P m\<close>: every result of \<open>m\<close> satisfies \<open>P\<close>; \<open>m\<close> may panic.\<close>

definition ensures :: "('a \<Rightarrow> bool) \<Rightarrow> ('s, 'a) prog \<Rightarrow> bool" where
  "ensures P m \<longleftrightarrow> (\<forall>s a. fst (m s) = Done a \<longrightarrow> P a)"

lemma ensuresD: "ensures P m \<Longrightarrow> m s = (Done a, s') \<Longrightarrow> P a"
  unfolding ensures_def by (metis fst_conv)

lemma ensures_ret: "P a \<Longrightarrow> ensures P (ret a)"
  by (simp add: ensures_def)

lemma ensures_panic: "ensures P panic"
  by (simp add: ensures_def)

lemma ensures_andThen: "ensures (\<lambda>a. ensures P (k a)) m \<Longrightarrow> ensures P (andThen m k)"
  unfolding ensures_def by (auto split: prod.splits outcome.splits) (metis fst_conv)

lemma ensures_deref: "(\<And>a. p = Some a \<Longrightarrow> ensures P (k a)) \<Longrightarrow> ensures P (deref p k)"
  by (cases p) (auto simp: ensures_def)

lemma ensures_conseq: "ensures P m \<Longrightarrow> (\<And>a. P a \<Longrightarrow> Q a) \<Longrightarrow> ensures Q m"
  unfolding ensures_def by blast

lemma ensures_any: "(\<And>a. P a) \<Longrightarrow> ensures P m"
  by (simp add: ensures_def)

lemma ensures_if: "(b \<Longrightarrow> ensures P m) \<Longrightarrow> (\<not> b \<Longrightarrow> ensures P n) \<Longrightarrow> ensures P (if b then m else n)"
  by simp

lemma ensures_case_sum: "(\<And>e. x = Inl e \<Longrightarrow> ensures P (f e)) \<Longrightarrow> (\<And>v. x = Inr v \<Longrightarrow> ensures P (g v))
    \<Longrightarrow> ensures P (case x of Inl e \<Rightarrow> f e | Inr v \<Rightarrow> g v)"
  by (cases x) simp_all

lemma ensures_case_option: "(x = None \<Longrightarrow> ensures P m) \<Longrightarrow> (\<And>v. x = Some v \<Longrightarrow> ensures P (g v))
    \<Longrightarrow> ensures P (case x of None \<Rightarrow> m | Some v \<Rightarrow> g v)"
  by (cases x) simp_all

lemma ensures_case_prod: "(\<And>a b. x = (a, b) \<Longrightarrow> ensures P (f a b)) \<Longrightarrow> ensures P (case x of (a, b) \<Rightarrow> f a b)"
  by (cases x) simp

lemmas ensures_rules = ensures_ret ensures_panic ensures_andThen ensures_deref ensures_if ensures_case_sum
  ensures_case_option ensures_case_prod

section \<open>Machine integers\<close>

text \<open>Two's complement reading of the low 64 bits: the value of a Go \<open>int\<close> or \<open>int64\<close>.\<close>

definition int64_wrap :: "int \<Rightarrow> int" where
  "int64_wrap i = (i + 2 ^ 63) mod 2 ^ 64 - 2 ^ 63"

definition is_int64 :: "int \<Rightarrow> bool" where
  "is_int64 i \<longleftrightarrow> - (2 ^ 63) \<le> i \<and> i < 2 ^ 63"

lemma int64_wrap_id: "is_int64 i \<Longrightarrow> int64_wrap i = i"
  unfolding is_int64_def int64_wrap_def by (subst mod_pos_pos_trivial) auto

lemma is_int64_wrap [simp]: "is_int64 (int64_wrap i)"
proof -
  have "0 \<le> (i + 2 ^ 63) mod (2 ^ 64 :: int)" and "(i + 2 ^ 63) mod (2 ^ 64 :: int) < 2 ^ 64"
    by (rule pos_mod_sign, simp) (rule pos_mod_bound, simp)
  then show ?thesis
    unfolding is_int64_def int64_wrap_def by simp
qed

lemma int64_wrap_sint: "int64_wrap i = sint (word_of_int i :: 64 word)"
proof -
  have "sint (word_of_int i :: 64 word) = signed_take_bit 63 i"
    by (simp add: sint_sbintrunc')
  also have "\<dots> = (i + 2 ^ 63) mod 2 ^ 64 - 2 ^ 63"
    by (simp add: signed_take_bit_eq_take_bit_shift take_bit_eq_mod)
  finally show ?thesis
    by (simp add: int64_wrap_def)
qed

section \<open>Go maps\<close>

text \<open>\<open>m[k]\<close> of a \<open>map[string]string\<close>: the zero value when the key is absent.\<close>

definition mget :: "('k \<rightharpoonup> string) \<Rightarrow> 'k \<Rightarrow> string" where
  "mget m k = (case m k of None \<Rightarrow> [] | Some v \<Rightarrow> v)"

lemma mget_empty [simp]: "mget Map.empty k = []"
  by (simp add: mget_def)

lemma mget_upd [simp]: "mget (m(k \<mapsto> v)) k' = (if k' = k then v else mget m k')"
  by (simp add: mget_def)

section \<open>Sums\<close>

fun is_err :: "'e + 'a \<Rightarrow> bool" where
  "is_err (Inl e) = True"
| "is_err (Inr a) = False"

lemma is_err_iff: "is_err x \<longleftrightarrow> (\<exists>e. x = Inl e)"
  by (cases x) auto

end
