(* ===== verification/Go_Strings.thy ===== *)
theory Go_Strings
  imports Go_Prelude
begin

text \<open>
  The parts of Go's standard library the driver uses on strings. A Go string is a sequence of
  bytes, so it is a \<open>string\<close> (a \<open>char\<close> is a byte). Modelled here:
  \<^item> \<open>strconv.Itoa\<close> / \<open>%d\<close>, \<open>strconv.Atoi\<close> and \<open>strconv.ParseInt(s, 10, 0)\<close>,
    with their two errors and the 64-bit range;
  \<^item> \<open>strings.SplitN(s, "-", 2)\<close>, \<open>strings.Split\<close>, \<open>strings.Contains\<close>, \<open>strings.TrimPrefix\<close>;
  \<^item> the number of runes of a string (\<open>len([]rune(s))\<close>), by Go's UTF-8 decoding rules;
  \<^item> \<open>encoding/json\<close>'s rendering of a string.
  The lemmas give the round trip of decimal rendering and parsing and the algebra of splitting
  at the first separator that the volume key codec rests on.
\<close>

section \<open>Decimal numbers\<close>

definition digit_char :: "nat \<Rightarrow> char" where
  "digit_char d = char_of (48 + d)"

definition is_digit :: "char \<Rightarrow> bool" where
  "is_digit c \<longleftrightarrow> 48 \<le> (of_char c :: nat) \<and> (of_char c :: nat) \<le> 57"

definition digit_val :: "char \<Rightarrow> nat" where
  "digit_val c = of_char c - 48"

fun show_nat :: "nat \<Rightarrow> string" where
  "show_nat n = (if n < 10 then [digit_char n] else show_nat (n div 10) @ [digit_char (n mod 10)])"

declare show_nat.simps [simp del]

text \<open>\<open>strconv.Itoa\<close>, and \<open>%d\<close> of \<open>fmt.Sprintf\<close>.\<close>

definition Itoa :: "int \<Rightarrow> string" where
  "Itoa i = (if i < 0 then CHR ''-'' # show_nat (nat (- i)) else show_nat (nat i))"

datatype num_error = ErrSyntax | ErrRange

text \<open>The digit loop of \<open>strconv.ParseUint\<close> with base 10 and 64 bits.\<close>

fun parseUint_loop :: "string \<Rightarrow> nat \<Rightarrow> num_error + nat" where
  "parseUint_loop [] n = Inr n"
| "parseUint_loop (c # cs) n =
     (if \<not> is_digit c then Inl ErrSyntax
      else let n1 = n * 10 + digit_val c
           in if 2 ^ 64 \<le> n1 then Inl ErrRange else parseUint_loop cs n1)"

definition parseUint :: "string \<Rightarrow> num_error + nat" where
  "parseUint s = (if s = [] then Inl ErrSyntax else parseUint_loop s 0)"

text \<open>\<open>strconv.Atoi(s)\<close>, the same as \<open>strconv.ParseInt(s, 10, 0)\<close> on a 64-bit platform: an
  optional sign, then digits, then the range check of the signed type.\<close>

definition Atoi :: "string \<Rightarrow> num_error + int" where
  "Atoi s =
     (case s of
        [] \<Rightarrow> Inl ErrSyntax
      | c # cs \<Rightarrow>
          let neg = (c = CHR ''-'');
              body = (if c = CHR ''-'' \<or> c = CHR ''+'' then cs else s)
          in case parseUint body of
               Inl e \<Rightarrow> Inl e
             | Inr un \<Rightarrow>
                 if \<not> neg \<and> 2 ^ 63 \<le> un then Inl ErrRange
                 else if neg \<and> 2 ^ 63 < un then Inl ErrRange
                 else Inr (if neg then - int un else int un))"

lemma is_digit_digit_char: "d < 10 \<Longrightarrow> is_digit (digit_char d)"
  by (simp add: is_digit_def digit_char_def)

lemma digit_val_digit_char: "d < 10 \<Longrightarrow> digit_val (digit_char d) = d"
  by (simp add: digit_val_def digit_char_def)

lemma is_digit_neq:
  "is_digit c \<Longrightarrow> c \<noteq> CHR ''-''" "is_digit c \<Longrightarrow> c \<noteq> CHR ''+''"
  by (auto simp: is_digit_def)

lemma show_nat_digits: "c \<in> set (show_nat n) \<Longrightarrow> is_digit c"
proof (induction n rule: show_nat.induct)
  case (1 n)
  then show ?case
    by (cases "n < 10")
      (auto simp: show_nat.simps [of n] is_digit_digit_char)
qed

lemma show_nat_nonempty: "show_nat n \<noteq> []"
  by (subst show_nat.simps) simp

lemma Itoa_nonempty: "Itoa i \<noteq> []"
  by (simp add: Itoa_def show_nat_nonempty)

lemma parseUint_loop_append:
  "parseUint_loop (xs @ ys) n =
     (case parseUint_loop xs n of Inl e \<Rightarrow> Inl e | Inr m \<Rightarrow> parseUint_loop ys m)"
  by (induction xs arbitrary: n) (auto simp: Let_def)

lemma parseUint_loop_show_nat: "n < 2 ^ 64 \<Longrightarrow> parseUint_loop (show_nat n) 0 = Inr n"
proof (induction n rule: show_nat.induct)
  case (1 n)
  show ?case
  proof (cases "n < 10")
    case True
    with "1.prems" show ?thesis
      by (simp add: show_nat.simps [of n] is_digit_digit_char digit_val_digit_char)
  next
    case False
    with "1.prems" have "n div 10 < 2 ^ 64" by simp
    with False "1.IH" have "parseUint_loop (show_nat (n div 10)) 0 = Inr (n div 10)" by simp
    moreover have "n div 10 * 10 + n mod 10 = n" by simp
    ultimately show ?thesis
      using False "1.prems"
      by (simp add: show_nat.simps [of n] parseUint_loop_append is_digit_digit_char
          digit_val_digit_char del: div_mult_mod_eq)
  qed
qed

lemma parseUint_loop_bound: "parseUint_loop s n = Inr m \<Longrightarrow> n < 2 ^ 64 \<Longrightarrow> m < 2 ^ 64"
  by (induction s arbitrary: n) (auto simp: Let_def not_le split: if_splits)

lemma parseUint_show_nat: "n < 2 ^ 64 \<Longrightarrow> parseUint (show_nat n) = Inr n"
  by (simp add: parseUint_def show_nat_nonempty parseUint_loop_show_nat)

lemma Atoi_show_nat: "n < 2 ^ 63 \<Longrightarrow> Atoi (show_nat n) = Inr (int n)"
proof -
  assume n: "n < 2 ^ 63"
  obtain c cs where s: "show_nat n = c # cs"
    using show_nat_nonempty by (cases "show_nat n") auto
  then have "is_digit c" using show_nat_digits [of c n] by simp
  then have "c \<noteq> CHR ''-''" and "c \<noteq> CHR ''+''" by (simp_all add: is_digit_neq)
  moreover have "parseUint (c # cs) = Inr n"
    using n parseUint_show_nat [of n] by (simp add: s)
  ultimately show ?thesis using n by (simp add: Atoi_def s)
qed

lemma Atoi_Itoa: "is_int64 i \<Longrightarrow> Atoi (Itoa i) = Inr i"
proof (cases "i < 0")
  case True
  assume "is_int64 i"
  with True have "nat (- i) \<le> 2 ^ 63" by (simp add: is_int64_def)
  with True show ?thesis
    by (simp add: Itoa_def Atoi_def parseUint_show_nat)
next
  case False
  assume "is_int64 i"
  with False show ?thesis
    by (simp add: Itoa_def Atoi_show_nat is_int64_def)
qed

lemma Atoi_range: "Atoi s = Inr i \<Longrightarrow> is_int64 i"
  by (auto simp: Atoi_def is_int64_def Let_def split: list.splits sum.splits if_splits)

lemma Atoi_Nil [simp]: "Atoi [] = Inl ErrSyntax"
  by (simp add: Atoi_def)

section \<open>Splitting and searching\<close>

text \<open>\<open>strings.SplitN(s, sep, 2)\<close> for a one-byte separator: at most two parts, cut at the
  first separator.\<close>

definition SplitN2 :: "char \<Rightarrow> string \<Rightarrow> string list" where
  "SplitN2 sep s =
     (if sep \<in> set s then [takeWhile (\<lambda>c. c \<noteq> sep) s, tl (dropWhile (\<lambda>c. c \<noteq> sep) s)]
      else [s])"

lemma SplitN2_app: "sep \<notin> set a \<Longrightarrow> SplitN2 sep (a @ sep # b) = [a, b]"
  by (simp add: SplitN2_def takeWhile_append dropWhile_append)

lemma SplitN2_two: "SplitN2 sep s = [a, b] \<longleftrightarrow> sep \<notin> set a \<and> s = a @ sep # b"
proof
  assume two: "SplitN2 sep s = [a, b]"
  then have "sep \<in> set s" by (auto simp: SplitN2_def split: if_splits)
  then obtain xs ys where "s = xs @ sep # ys" "sep \<notin> set xs"
    by (meson split_list_first)
  with two show "sep \<notin> set a \<and> s = a @ sep # b"
    by (simp add: SplitN2_app)
qed (simp add: SplitN2_app)

lemma SplitN2_one: "sep \<notin> set s \<Longrightarrow> SplitN2 sep s = [s]"
  by (simp add: SplitN2_def)

lemma SplitN2_length: "length (SplitN2 sep s) = 2 \<longleftrightarrow> sep \<in> set s"
  by (simp add: SplitN2_def)

lemma SplitN2_cases:
  obtains (one) "sep \<notin> set s" "SplitN2 sep s = [s]"
  | (two) a b where "sep \<notin> set a" "s = a @ sep # b" "SplitN2 sep s = [a, b]"
proof (cases "sep \<in> set s")
  case True
  then obtain xs ys where "s = xs @ sep # ys" "sep \<notin> set xs"
    by (meson split_list_first)
  then show thesis using SplitN2_app two by blast
next
  case False
  then show thesis using SplitN2_one one by blast
qed

text \<open>\<open>strings.Split(s, sep)\<close> for a one-byte separator.\<close>

fun Split :: "char \<Rightarrow> string \<Rightarrow> string list" where
  "Split sep [] = [[]]"
| "Split sep (c # cs) =
     (if c = sep then [] # Split sep cs
      else case Split sep cs of [] \<Rightarrow> [[c]] | p # ps \<Rightarrow> (c # p) # ps)"

fun is_prefix :: "string \<Rightarrow> string \<Rightarrow> bool" where
  "is_prefix [] s = True"
| "is_prefix (p # ps) [] = False"
| "is_prefix (p # ps) (c # cs) = (p = c \<and> is_prefix ps cs)"

fun Contains :: "string \<Rightarrow> string \<Rightarrow> bool" where
  "Contains [] sub = (sub = [])"
| "Contains (c # cs) sub = (is_prefix sub (c # cs) \<or> Contains cs sub)"

definition TrimPrefix :: "string \<Rightarrow> string \<Rightarrow> string" where
  "TrimPrefix s p = (if is_prefix p s then drop (length p) s else s)"

lemma is_prefix_iff: "is_prefix p s \<longleftrightarrow> (\<exists>t. s = p @ t)"
  by (induction p s rule: is_prefix.induct) auto

lemma Contains_iff: "Contains s sub \<longleftrightarrow> (\<exists>a b. s = a @ sub @ b)"
proof (induction s)
  case (Cons c cs)
  show ?case
  proof
    assume "Contains (c # cs) sub"
    then consider (here) "is_prefix sub (c # cs)" | (later) "Contains cs sub" by auto
    then show "\<exists>a b. c # cs = a @ sub @ b"
    proof cases
      case here
      then obtain t where "c # cs = [] @ sub @ t" by (auto simp: is_prefix_iff)
      then show ?thesis by blast
    next
      case later
      then obtain a b where "cs = a @ sub @ b" using Cons.IH by blast
      then have "c # cs = (c # a) @ sub @ b" by simp
      then show ?thesis by blast
    qed
  next
    assume "\<exists>a b. c # cs = a @ sub @ b"
    then obtain a b where ab: "c # cs = a @ sub @ b" by blast
    show "Contains (c # cs) sub"
    proof (cases a)
      case Nil
      with ab have "is_prefix sub (c # cs)" by (simp add: is_prefix_iff)
      then show ?thesis by simp
    next
      case (Cons x xs)
      with ab Cons.IH show ?thesis by simp blast
    qed
  qed
qed simp

lemma Split_nonempty: "Split sep s \<noteq> []"
  by (induction s) (auto split: list.splits)

text \<open>Joining the parts with the separator gives the string back, and no part holds it.\<close>

fun join_parts :: "char \<Rightarrow> string list \<Rightarrow> string" where
  "join_parts sep [] = []"
| "join_parts sep [p] = p"
| "join_parts sep (p # q # ps) = p @ sep # join_parts sep (q # ps)"

lemma join_Split: "join_parts sep (Split sep s) = s"
proof (induction s)
  case (Cons c cs)
  obtain p ps where ps: "Split sep cs = p # ps"
    using Split_nonempty [of sep cs] by (cases "Split sep cs") auto
  with Cons.IH show ?case by (cases ps) auto
qed simp

lemma Split_no_sep: "p \<in> set (Split sep s) \<Longrightarrow> sep \<notin> set p"
  by (induction s arbitrary: p) (auto split: list.splits if_splits)

section \<open>Runes\<close>

text \<open>
  The width of the first rune of a non-empty string by Go's UTF-8 decoder: a well-formed
  sequence of two, three or four bytes (no overlong form, no surrogate, nothing above
  U+10FFFF), and one byte otherwise.
\<close>

definition in_range :: "nat \<Rightarrow> nat \<Rightarrow> char \<Rightarrow> bool" where
  "in_range lo hi c \<longleftrightarrow> lo \<le> (of_char c :: nat) \<and> (of_char c :: nat) \<le> hi"

definition second_ok :: "char \<Rightarrow> char \<Rightarrow> bool" where
  "second_ok c0 c1 =
     (let b = (of_char c0 :: nat) in
      if b = 224 then in_range 160 191 c1
      else if b = 237 then in_range 128 159 c1
      else if b = 240 then in_range 144 191 c1
      else if b = 244 then in_range 128 143 c1
      else in_range 128 191 c1)"

fun rune_width :: "string \<Rightarrow> nat" where
  "rune_width (c0 # c1 # c2 # c3 # cs) =
     (if in_range 194 223 c0 \<and> second_ok c0 c1 then 2
      else if in_range 224 239 c0 \<and> second_ok c0 c1 \<and> in_range 128 191 c2 then 3
      else if in_range 240 244 c0 \<and> second_ok c0 c1 \<and> in_range 128 191 c2 \<and> in_range 128 191 c3
      then 4 else 1)"
| "rune_width [c0, c1, c2] =
     (if in_range 194 223 c0 \<and> second_ok c0 c1 then 2
      else if in_range 224 239 c0 \<and> second_ok c0 c1 \<and> in_range 128 191 c2 then 3 else 1)"
| "rune_width [c0, c1] = (if in_range 194 223 c0 \<and> second_ok c0 c1 then 2 else 1)"
| "rune_width _ = 1"

lemma rune_width_pos: "0 < rune_width s"
  by (induction s rule: rune_width.induct) auto

text \<open>\<open>len([]rune(s))\<close>.\<close>

function rune_count :: "string \<Rightarrow> nat" where
  "rune_count s = (if s = [] then 0 else Suc (rune_count (drop (rune_width s) s)))"
  by pat_completeness auto
termination
  by (relation "measure length") (auto simp: rune_width_pos)

declare rune_count.simps [simp del]

lemma rune_count_le_length: "rune_count s \<le> length s"
proof (induction s rule: rune_count.induct)
  case (1 s)
  show ?case
  proof (cases "s = []")
    case False
    have "length (drop (rune_width s) s) < length s"
      using False rune_width_pos [of s] by simp
    with False "1.IH" show ?thesis by (simp add: rune_count.simps [of s])
  qed (simp add: rune_count.simps)
qed

lemma rune_width_ascii:
  assumes "(of_char c :: nat) < 128"
  shows "rune_width (c # cs) = 1"
proof -
  have "\<not> in_range 194 223 c" "\<not> in_range 224 239 c" "\<not> in_range 240 244 c"
    using assms by (auto simp: in_range_def)
  then show ?thesis by (cases "c # cs" rule: rune_width.cases) auto
qed

lemma rune_count_ascii: "(\<And>c. c \<in> set s \<Longrightarrow> (of_char c :: nat) < 128) \<Longrightarrow> rune_count s = length s"
proof (induction s)
  case (Cons c cs)
  then have "rune_width (c # cs) = 1" by (simp add: rune_width_ascii)
  then show ?case using Cons by (simp add: rune_count.simps [of "c # cs"])
qed (simp add: rune_count.simps)

section \<open>JSON strings\<close>

definition hex_digit :: "nat \<Rightarrow> char" where
  "hex_digit d = (if d < 10 then char_of (48 + d) else char_of (87 + d))"

text \<open>
  \<open>encoding/json\<close>'s encoding of the first rune of a string (with HTML escaping, which
  \<open>json.Marshal\<close> uses): the bytes written and the number of bytes read.
\<close>

definition json_rune :: "char \<Rightarrow> string \<Rightarrow> string \<times> nat" where
  "json_rune c cs =
     (let b = (of_char c :: nat) in
      if b < 128 then
        (if b = 92 \<or> b = 34 then [CHR 0x5C, c]
         else if b = 8 then [CHR 0x5C, CHR ''b'']
         else if b = 12 then [CHR 0x5C, CHR ''f'']
         else if b = 10 then [CHR 0x5C, CHR ''n'']
         else if b = 13 then [CHR 0x5C, CHR ''r'']
         else if b = 9 then [CHR 0x5C, CHR ''t'']
         else if b < 32 \<or> b = 60 \<or> b = 62 \<or> b = 38
         then [CHR 0x5C, CHR ''u'', CHR ''0'', CHR ''0'', hex_digit (b div 16), hex_digit (b mod 16)]
         else [c], 1)
      else
        (let w = rune_width (c # cs) in
         if w = 1 then (CHR 0x5C # ''ufffd'', 1)
         else if take w (c # cs) = [CHR 0xE2, CHR 0x80, CHR 0xA8] then (CHR 0x5C # ''u2028'', w)
         else if take w (c # cs) = [CHR 0xE2, CHR 0x80, CHR 0xA9] then (CHR 0x5C # ''u2029'', w)
         else (take w (c # cs), w)))"

lemma json_rune_pos: "0 < snd (json_rune c cs)"
  by (simp add: json_rune_def Let_def rune_width_pos)

function json_body :: "string \<Rightarrow> string" where
  "json_body s = (case s of [] \<Rightarrow> []
     | c # cs \<Rightarrow> fst (json_rune c cs) @ json_body (drop (snd (json_rune c cs)) s))"
  by pat_completeness auto
termination
  by (relation "measure length") (auto simp: json_rune_pos)

declare json_body.simps [simp del]

definition json_string :: "string \<Rightarrow> string" where
  "json_string s = CHR 0x22 # json_body s @ [CHR 0x22]"

text \<open>
  The bytes JSON leaves alone: printable ASCII but the quote, the backslash and the three HTML
  characters. Every label the Linode API accepts is made of such bytes, and on them the
  encoding only adds the quotes.
\<close>

definition json_plain :: "char \<Rightarrow> bool" where
  "json_plain c \<longleftrightarrow> (let b = (of_char c :: nat) in
     32 \<le> b \<and> b < 128 \<and> b \<noteq> 34 \<and> b \<noteq> 92 \<and> b \<noteq> 60 \<and> b \<noteq> 62 \<and> b \<noteq> 38)"

lemma json_rune_plain: "json_plain c \<Longrightarrow> json_rune c cs = ([c], 1)"
  by (auto simp: json_plain_def json_rune_def Let_def)

lemma json_body_plain: "list_all json_plain s \<Longrightarrow> json_body s = s"
  by (induction s) (simp_all add: json_body.simps [of "_ # _"] json_body.simps [of "[]"] json_rune_plain)

text \<open>Nothing else encodes to a plain text.\<close>

lemma json_rune_first: "\<not> json_plain c \<Longrightarrow> \<exists>x xs. fst (json_rune c cs) = x # xs \<and> \<not> json_plain x"
proof -
  have bs: "\<not> json_plain CHR 0x5C" by (simp add: json_plain_def)
  assume c: "\<not> json_plain c"
  show ?thesis
  proof (cases "(of_char c :: nat) < 128")
    case True
    then show ?thesis using c bs by (auto simp: json_rune_def json_plain_def Let_def)
  next
    case False
    obtain w where w: "rune_width (c # cs) = Suc w" using rune_width_pos [of "c # cs"] by (cases "rune_width (c # cs)") auto
    show ?thesis using False c bs w by (auto simp: json_rune_def Let_def)
  qed
qed

lemma json_body_eq_plain: "list_all json_plain l \<Longrightarrow> json_body s = l \<Longrightarrow> s = l"
proof (induction s arbitrary: l rule: json_body.induct)
  case (1 s)
  show ?case
  proof (cases s)
    case Nil
    with "1.prems"(2) show ?thesis by (simp add: json_body.simps)
  next
    case (Cons c cs)
    have body: "fst (json_rune c cs) @ json_body (drop (snd (json_rune c cs)) s) = l"
      using "1.prems"(2) Cons by (simp add: json_body.simps [of "c # cs"])
    have plain: "json_plain c"
    proof (rule ccontr)
      assume "\<not> json_plain c"
      from json_rune_first [OF this, of cs] obtain x xs where "fst (json_rune c cs) = x # xs" "\<not> json_plain x" by blast
      with body "1.prems"(1) show False by auto
    qed
    with body Cons obtain l' where "l = c # l'" "json_body cs = l'" by (auto simp: json_rune_plain)
    with "1.IH" [OF Cons, of l'] "1.prems"(1) plain Cons show ?thesis by (simp add: json_rune_plain)
  qed
qed

end
