(* ===== verification/CSI_Types.thy ===== *)
theory CSI_Types
  imports Go_Strings
begin

text \<open>
  The messages of the Container Storage Interface the driver exchanges with the container
  orchestrator, as records with the fields the driver reads or writes. They are generated
  protobuf types from outside the repository: plain data, with no behaviour but the nil-safe
  getters, which are the record selectors. A pointer field that may be nil is an \<open>option\<close>; a
  \<open>map[string]string\<close> is a map \<open>string \<rightharpoonup> string\<close>; a oneof is a datatype with a
  constructor for the unset case.
\<close>

section \<open>Volume capabilities\<close>

datatype AccessMode_Mode =
    AM_UNKNOWN
  | SINGLE_NODE_WRITER
  | SINGLE_NODE_READER_ONLY
  | MULTI_NODE_READER_ONLY
  | MULTI_NODE_SINGLE_WRITER
  | MULTI_NODE_MULTI_WRITER
  | SINGLE_NODE_SINGLE_WRITER
  | SINGLE_NODE_MULTI_WRITER

record MountVolume =
  FsType :: string
  MountFlags :: "string list"

datatype AccessType = AT_None | AT_Block | AT_Mount MountVolume

record VolumeCapability =
  Cap_AccessType :: AccessType
  Cap_AccessMode :: "AccessMode_Mode option"

fun GetBlock :: "VolumeCapability \<Rightarrow> bool" where
  "GetBlock c = (case Cap_AccessType c of AT_Block \<Rightarrow> True | _ \<Rightarrow> False)"

fun GetMount :: "VolumeCapability \<Rightarrow> MountVolume option" where
  "GetMount c = (case Cap_AccessType c of AT_Mount m \<Rightarrow> Some m | _ \<Rightarrow> None)"

section \<open>Sizes, topology, content sources\<close>

record CapacityRange =
  RequiredBytes :: int
  LimitBytes :: int

type_synonym Segments = "string \<rightharpoonup> string"

record TopologyRequirement =
  Requisite :: "Segments list"
  Preferred :: "Segments list"

text \<open>The oneof of a content source: a volume (its inner message may be nil), a snapshot, unset.\<close>

datatype VolumeContentSource =
    CS_Volume "string option"
  | CS_Snapshot string
  | CS_Unset

section \<open>Requests\<close>

record CreateVolumeRequest =
  CVR_Name :: string
  CVR_CapacityRange :: "CapacityRange option"
  CVR_VolumeCapabilities :: "VolumeCapability option list"
  CVR_Parameters :: "string \<rightharpoonup> string"
  CVR_VolumeContentSource :: "VolumeContentSource option"
  CVR_AccessibilityRequirements :: "TopologyRequirement option"

record DeleteVolumeRequest =
  DVR_VolumeId :: string

record ControllerPublishVolumeRequest =
  CPR_VolumeId :: string
  CPR_NodeId :: string
  CPR_VolumeCapability :: "VolumeCapability option"

record ControllerUnpublishVolumeRequest =
  CUR_VolumeId :: string
  CUR_NodeId :: string

record ValidateVolumeCapabilitiesRequest =
  VVR_VolumeId :: string
  VVR_VolumeCapabilities :: "VolumeCapability option list"

record ListVolumesRequest =
  LVR_MaxEntries :: int
  LVR_StartingToken :: string

record ControllerExpandVolumeRequest =
  CER_VolumeId :: string
  CER_CapacityRange :: "CapacityRange option"

record NodeStageVolumeRequest =
  NSR_VolumeId :: string
  NSR_StagingTargetPath :: string
  NSR_VolumeCapability :: "VolumeCapability option"
  NSR_Secrets :: "string \<rightharpoonup> string"
  NSR_VolumeContext :: "string \<rightharpoonup> string"

record NodeUnstageVolumeRequest =
  NUR_VolumeId :: string
  NUR_StagingTargetPath :: string

record NodePublishVolumeRequest =
  NPR_VolumeId :: string
  NPR_StagingTargetPath :: string
  NPR_TargetPath :: string
  NPR_VolumeCapability :: "VolumeCapability option"
  NPR_Readonly :: bool
  NPR_PublishContext :: "string \<rightharpoonup> string"

record NodeUnpublishVolumeRequest =
  NUP_VolumeId :: string
  NUP_TargetPath :: string

record NodeExpandVolumeRequest =
  NER_VolumeId :: string
  NER_VolumePath :: string
  NER_CapacityRange :: "CapacityRange option"

record NodeGetVolumeStatsRequest =
  NGR_VolumeId :: string
  NGR_VolumePath :: string

section \<open>Responses\<close>

record CSIVolume =
  CV_VolumeId :: string
  CV_CapacityBytes :: int
  CV_AccessibleTopology :: "Segments list"
  CV_VolumeContext :: "string \<rightharpoonup> string"
  CV_ContentSource :: "VolumeContentSource option"

record ListEntry =
  LE_VolumeId :: string
  LE_CapacityBytes :: int
  LE_AccessibleTopology :: "Segments list"
  LE_PublishedNodeIds :: "string list"
  LE_Abnormal :: bool

record ListVolumesResponse =
  LR_Entries :: "ListEntry list"
  LR_NextToken :: string

record ControllerExpandVolumeResponse =
  ER_CapacityBytes :: int
  ER_NodeExpansionRequired :: bool

record NodeGetInfoResponse =
  GI_NodeId :: string
  GI_MaxVolumesPerNode :: int
  GI_AccessibleTopology :: Segments

datatype UsageUnit = BYTES | INODES

record VolumeUsage =
  VU_Available :: int
  VU_Total :: int
  VU_Used :: int
  VU_Unit :: UsageUnit

section \<open>Service capabilities\<close>

datatype ControllerRPC =
    CRPC_UNKNOWN
  | CREATE_DELETE_VOLUME
  | PUBLISH_UNPUBLISH_VOLUME
  | LIST_VOLUMES
  | GET_CAPACITY
  | CREATE_DELETE_SNAPSHOT
  | LIST_SNAPSHOTS
  | CLONE_VOLUME
  | PUBLISH_READONLY
  | EXPAND_VOLUME
  | LIST_VOLUMES_PUBLISHED_NODES
  | VOLUME_CONDITION
  | GET_VOLUME
  | SINGLE_NODE_MULTI_WRITER_RPC
  | MODIFY_VOLUME

datatype NodeRPC =
    NRPC_UNKNOWN
  | STAGE_UNSTAGE_VOLUME
  | GET_VOLUME_STATS
  | NODE_EXPAND_VOLUME
  | NODE_VOLUME_CONDITION
  | NODE_SINGLE_NODE_MULTI_WRITER
  | VOLUME_MOUNT_GROUP

end
