(* ===== verification/Driver_Errors.thy ===== *)
theory Driver_Errors
  imports CSI_Types
begin

text \<open>
  Errors. A Go error value is an \<open>error\<close>: a gRPC status (\<open>status.Error\<close>,
  \<open>status.Errorf\<close>), a plain error (\<open>errors.New\<close>, \<open>fmt.Errorf\<close>), a joined error, or one of
  the typed errors of the libraries the driver inspects. Formatted messages keep the format and
  its arguments apart, so no information of the source is lost and equality of errors is
  equality of what would be printed; an argument printed with \<open>%w\<close> is \<open>ArgWrap\<close>, the only
  one that \<open>errors.As\<close> and \<open>errors.Is\<close> look through.

  The second part is \<open>internal/driver/errors.go\<close>, one definition per error.
\<close>

section \<open>Error values\<close>

datatype code =
    InvalidArgument
  | NotFound
  | AlreadyExists
  | ResourceExhausted
  | FailedPrecondition
  | Aborted
  | Unimplemented
  | Internal
  | Unavailable

datatype error =
    Status code string "arg list"
  | GoError string "arg list"
  | JoinError "error list"
  | NumError string num_error
  | LinodeError int string
  | CryptError int
  | ExitError int
  | ExecErrNotFound
  | Errno nat
  | OtherError string
and arg =
    ArgInt int
  | ArgStr string
  | ArgStrs "string list"
  | ArgCaps "VolumeCapability option list"
  | ArgErr error
  | ArgWrap error

text \<open>\<open>errors.As(err, &target)\<close>: the first error of the chain the selector \<open>sel\<close> accepts.\<close>

fun errors_As :: "(error \<Rightarrow> 'a option) \<Rightarrow> error \<Rightarrow> 'a option"
and errors_As_list :: "(error \<Rightarrow> 'a option) \<Rightarrow> error list \<Rightarrow> 'a option"
and errors_As_args :: "(error \<Rightarrow> 'a option) \<Rightarrow> arg list \<Rightarrow> 'a option" where
  "errors_As sel e =
     (case sel e of
        Some a \<Rightarrow> Some a
      | None \<Rightarrow> (case e of
            GoError f args \<Rightarrow> errors_As_args sel args
          | JoinError es \<Rightarrow> errors_As_list sel es
          | _ \<Rightarrow> None))"
| "errors_As_list sel [] = None"
| "errors_As_list sel (e # es) =
     (case errors_As sel e of Some a \<Rightarrow> Some a | None \<Rightarrow> errors_As_list sel es)"
| "errors_As_args sel [] = None"
| "errors_As_args sel (a # as) =
     (case a of
        ArgWrap e \<Rightarrow> (case errors_As sel e of Some r \<Rightarrow> Some r | None \<Rightarrow> errors_As_args sel as)
      | _ \<Rightarrow> errors_As_args sel as)"

declare errors_As.simps [simp del]

text \<open>\<open>errors.Is(err, target)\<close>. Status errors compare by code and message, sentinels by
  identity; both are equality here.\<close>

definition errors_Is :: "error option \<Rightarrow> error \<Rightarrow> bool" where
  "errors_Is err target =
     (case err of None \<Rightarrow> False
      | Some e \<Rightarrow> errors_As (\<lambda>x. if x = target then Some () else None) e \<noteq> None)"

definition as_linode_message :: "error \<Rightarrow> string option" where
  "as_linode_message = errors_As (\<lambda>e. case e of LinodeError c m \<Rightarrow> Some m | _ \<Rightarrow> None)"

definition as_crypt_code :: "error \<Rightarrow> int option" where
  "as_crypt_code = errors_As (\<lambda>e. case e of CryptError c \<Rightarrow> Some c | _ \<Rightarrow> None)"

definition as_exit_status :: "error \<Rightarrow> int option" where
  "as_exit_status = errors_As (\<lambda>e. case e of ExitError c \<Rightarrow> Some c | _ \<Rightarrow> None)"

lemma errors_As_Status [simp]:
  "errors_As sel (Status c f args) = sel (Status c f args)"
  by (simp add: errors_As.simps split: option.splits)

lemma errors_Is_None [simp]: "\<not> errors_Is None t"
  by (simp add: errors_Is_def)

lemma errors_Is_Status [simp]: "errors_Is (Some (Status c f args)) t \<longleftrightarrow> Status c f args = t"
  by (simp add: errors_Is_def)

fun status_code :: "error \<Rightarrow> code option" where
  "status_code (Status c f args) = Some c"
| "status_code _ = None"

section \<open>internal/driver/errors.go\<close>

definition errNilDriver :: error where
  "errNilDriver = Status Internal ''nil driver'' []"

definition errNoVolumeName :: error where
  "errNoVolumeName = Status InvalidArgument ''volume name is required'' []"

definition errNoVolumeCapabilities :: error where
  "errNoVolumeCapabilities = Status InvalidArgument ''volume capabilities are required'' []"

definition errVolumeInUse :: error where
  "errVolumeInUse = Status FailedPrecondition ''volume is in use'' []"

definition errNoVolumeCapability :: error where
  "errNoVolumeCapability = Status InvalidArgument ''no volume capability set'' []"

definition errNoVolumeID :: error where
  "errNoVolumeID = Status InvalidArgument ''volume id is not set'' []"

definition errNoVolumePath :: error where
  "errNoVolumePath = Status InvalidArgument ''volume path is not set'' []"

definition errNoStagingTargetPath :: error where
  "errNoStagingTargetPath = Status InvalidArgument ''staging target path is not set'' []"

definition errNoTargetPath :: error where
  "errNoTargetPath = Status InvalidArgument ''target path is not set'' []"

definition errInternal :: "string \<Rightarrow> arg list \<Rightarrow> error" where
  "errInternal format args = Status Internal format args"

definition errNotFound :: "string \<Rightarrow> arg list \<Rightarrow> error" where
  "errNotFound format args = Status NotFound format args"

definition errAlreadyExists :: "string \<Rightarrow> arg list \<Rightarrow> error" where
  "errAlreadyExists format args = Status AlreadyExists format args"

definition errNilSource :: error where
  "errNilSource = errInternal ''nil source volume'' []"

definition errNilInstance :: error where
  "errNilInstance = errInternal ''nil instance'' []"

definition errMaxAttachments :: error where
  "errMaxAttachments = Status ResourceExhausted ''max number of volumes already attached to instance'' []"

definition errResizeDown :: error where
  "errResizeDown = errInternal ''volume cannot be resized to be smaller'' []"

definition errUnsupportedVolumeContentSource :: error where
  "errUnsupportedVolumeContentSource = Status InvalidArgument ''unsupported volume content source type'' []"

definition errNoSourceVolume :: error where
  "errNoSourceVolume = Status InvalidArgument ''no volume content source specified'' []"

definition errRegionMismatch :: "string \<Rightarrow> string \<Rightarrow> error" where
  "errRegionMismatch gotRegion wantRegion =
     Status InvalidArgument ''source volume is in region %q, needs to be in region %q''
       [ArgStr gotRegion, ArgStr wantRegion]"

definition errMaxVolumeAttachments :: "int \<Rightarrow> error" where
  "errMaxVolumeAttachments numAttachments =
     Status ResourceExhausted ''max number of volumes (%d) already attached to instance'' [ArgInt numAttachments]"

definition errInstanceNotFound :: "int \<Rightarrow> error" where
  "errInstanceNotFound linodeID = Status NotFound ''linode instance %d not found'' [ArgInt linodeID]"

definition errVolumeAttached :: "int \<Rightarrow> int \<Rightarrow> error" where
  "errVolumeAttached volumeID linodeID =
     Status AlreadyExists ''volume %d is already attached to linode %d'' [ArgInt volumeID, ArgInt linodeID]"

definition errVolumeNotFound :: "int \<Rightarrow> error" where
  "errVolumeNotFound volumeID = Status NotFound ''volume not found: %d'' [ArgInt volumeID]"

definition errInvalidVolumeCapability :: "VolumeCapability option list \<Rightarrow> error" where
  "errInvalidVolumeCapability capability =
     Status InvalidArgument ''invalid volume capability: %v'' [ArgCaps capability]"

lemmas driver_error_defs =
  errNilDriver_def errNoVolumeName_def errNoVolumeCapabilities_def errVolumeInUse_def
  errNoVolumeCapability_def errNoVolumeID_def errNoVolumePath_def errNoStagingTargetPath_def
  errNoTargetPath_def errInternal_def errNotFound_def errAlreadyExists_def errNilSource_def
  errNilInstance_def errMaxAttachments_def errResizeDown_def
  errUnsupportedVolumeContentSource_def errNoSourceVolume_def errRegionMismatch_def
  errMaxVolumeAttachments_def errInstanceNotFound_def errVolumeAttached_def
  errVolumeNotFound_def errInvalidVolumeCapability_def

end
