(* ===== verification/Observability.thy ===== *)
theory Observability
  imports Driver_Errors
begin

text \<open>
  \<open>pkg/observability/metrics.go\<close> and the state a driver program runs on.

  The state \<open>'w world\<close> holds the Prometheus counters and the number of observations of each
  duration histogram (keyed by metric name and \<open>functionStatus\<close> label), and \<open>Ext\<close>, the
  outside world the driver acts on through its client interfaces: the Linode API, the file
  system, mounts, processes, crypt devices. \<open>call\<close> runs one operation of such an interface on
  \<open>Ext\<close>. Measured times, log lines and trace spans have no effect on any result and are
  left out.

  Three frame relations are given as instances of \<open>state_relation\<close>: the metrics do not change,
  the outside world does not change, the counters never decrease. The locale \<open>metered_rpc\<close> is
  the contract of an instrumented RPC handler: every call that returns records exactly one
  outcome.
\<close>

section \<open>State\<close>

record 'w world =
  Totals :: "string \<times> string \<Rightarrow> nat"
  Durations :: "string \<times> string \<Rightarrow> nat"
  Ext :: 'w

definition call :: "('w \<Rightarrow> 'a \<times> 'w) \<Rightarrow> ('w world, 'a) prog" where
  "call f s = (case f (Ext s) of (a, w) \<Rightarrow> (Done a, s\<lparr>Ext := w\<rparr>))"

section \<open>Metrics\<close>

definition Completed :: string where
  "Completed = ''true''"

definition Failed :: string where
  "Failed = ''false''"

lemma Completed_neq_Failed [simp]: "Completed \<noteq> Failed" "Failed \<noteq> Completed"
  by (simp_all add: Completed_def Failed_def)

definition NodePublishTotal :: string where
  "NodePublishTotal = ''csi_node_publish_total''"

definition NodePublishDuration :: string where
  "NodePublishDuration = ''csi_node_publish_duration_seconds''"

definition NodeUnpublishTotal :: string where
  "NodeUnpublishTotal = ''csi_node_unpublish_total''"

definition NodeUnpublishDuration :: string where
  "NodeUnpublishDuration = ''csi_node_unpublish_duration_seconds''"

definition NodeStageVolumeTotal :: string where
  "NodeStageVolumeTotal = ''csi_node_stage_volume_total''"

definition NodeStageVolumeDuration :: string where
  "NodeStageVolumeDuration = ''csi_node_stage_volume_duration_seconds''"

definition NodeUnstageVolumeTotal :: string where
  "NodeUnstageVolumeTotal = ''csi_node_unstage_volume_total''"

definition NodeUnstageVolumeDuration :: string where
  "NodeUnstageVolumeDuration = ''csi_node_unstage_volume_duration_seconds''"

definition NodeExpandTotal :: string where
  "NodeExpandTotal = ''csi_node_expand_total''"

definition NodeExpandDuration :: string where
  "NodeExpandDuration = ''csi_node_expand_duration_seconds''"

definition ControllerCreateVolumeTotal :: string where
  "ControllerCreateVolumeTotal = ''csi_controller_create_volume_total''"

definition ControllerCreateVolumeDuration :: string where
  "ControllerCreateVolumeDuration = ''csi_controller_create_volume_duration_seconds''"

definition ControllerDeleteVolumeTotal :: string where
  "ControllerDeleteVolumeTotal = ''csi_controller_delete_volume_total''"

definition ControllerDeleteVolumeDuration :: string where
  "ControllerDeleteVolumeDuration = ''csi_controller_delete_volume_duration_seconds''"

definition ControllerPublishVolumeTotal :: string where
  "ControllerPublishVolumeTotal = ''csi_controller_publish_volume_total''"

definition ControllerPublishVolumeDuration :: string where
  "ControllerPublishVolumeDuration = ''csi_controller_publish_volume_duration_seconds''"

definition ControllerUnpublishVolumeTotal :: string where
  "ControllerUnpublishVolumeTotal = ''csi_controller_unpublish_volume_total''"

definition ControllerUnpublishVolumeDuration :: string where
  "ControllerUnpublishVolumeDuration = ''csi_controller_unpublish_volume_duration_seconds''"

lemmas metric_names =
  NodePublishTotal_def
  NodePublishDuration_def
  NodeUnpublishTotal_def
  NodeUnpublishDuration_def
  NodeStageVolumeTotal_def
  NodeStageVolumeDuration_def
  NodeUnstageVolumeTotal_def
  NodeUnstageVolumeDuration_def
  NodeExpandTotal_def
  NodeExpandDuration_def
  ControllerCreateVolumeTotal_def
  ControllerCreateVolumeDuration_def
  ControllerDeleteVolumeTotal_def
  ControllerDeleteVolumeDuration_def
  ControllerPublishVolumeTotal_def
  ControllerPublishVolumeDuration_def
  ControllerUnpublishVolumeTotal_def
  ControllerUnpublishVolumeDuration_def

text \<open>\<open>init\<close> registers every metric: registration would panic on a duplicate name.\<close>

definition registered_metrics :: "string list" where
  "registered_metrics =
    [NodePublishTotal,
     NodePublishDuration,
     NodeUnpublishTotal,
     NodeUnpublishDuration,
     NodeStageVolumeTotal,
     NodeStageVolumeDuration,
     NodeUnstageVolumeTotal,
     NodeUnstageVolumeDuration,
     NodeExpandTotal,
     NodeExpandDuration,
     ControllerCreateVolumeTotal,
     ControllerCreateVolumeDuration,
     ControllerDeleteVolumeTotal,
     ControllerDeleteVolumeDuration,
     ControllerPublishVolumeTotal,
     ControllerPublishVolumeDuration,
     ControllerUnpublishVolumeTotal,
     ControllerUnpublishVolumeDuration]"

definition RecordMetrics :: "string \<Rightarrow> string \<Rightarrow> string \<Rightarrow> ('w world, unit) prog" where
  "RecordMetrics tot duration functionStatus s =
     (Done (),
      s\<lparr>Totals := (Totals s)((tot, functionStatus) := Totals s (tot, functionStatus) + 1),
        Durations := (Durations s)((duration, functionStatus) := Durations s (duration, functionStatus) + 1)\<rparr>)"

text \<open>The source's idiom of recording an outcome right before a \<open>return\<close>.\<close>

definition record_return :: "string \<Rightarrow> string \<Rightarrow> string \<Rightarrow> 'a \<Rightarrow> ('w world, 'a) prog" where
  "record_return t d st r = andThen (RecordMetrics t d st) (\<lambda>_. ret r)"

lemma record_return_run: "record_return t d st r s = (Done r, snd (RecordMetrics t d st s))"
  by (simp add: record_return_def RecordMetrics_def)

lemma RecordMetrics_Ext [simp]: "Ext (snd (RecordMetrics t d st s)) = Ext s"
  by (simp add: RecordMetrics_def)

lemma andThen_RecordMetrics:
  "andThen (RecordMetrics t d st) k s = k () (snd (RecordMetrics t d st s))"
  by (simp add: RecordMetrics_def)

lemma andThen_call:
  "andThen (call f) k s = (case f (Ext s) of (a, w) \<Rightarrow> k a (s\<lparr>Ext := w\<rparr>))"
  by (simp add: call_def split: prod.splits)

section \<open>Frames\<close>

definition same_metrics :: "'w world \<Rightarrow> 'w world \<Rightarrow> bool" where
  "same_metrics s t \<longleftrightarrow> Totals t = Totals s \<and> Durations t = Durations s"

definition same_ext :: "'w world \<Rightarrow> 'w world \<Rightarrow> bool" where
  "same_ext s t \<longleftrightarrow> Ext t = Ext s"

definition metrics_grow :: "'w world \<Rightarrow> 'w world \<Rightarrow> bool" where
  "metrics_grow s t \<longleftrightarrow> (\<forall>k. Totals s k \<le> Totals t k \<and> Durations s k \<le> Durations t k)"

interpretation quiet: state_relation same_metrics
  by unfold_locales (auto simp: same_metrics_def)

interpretation inner: state_relation same_ext
  by unfold_locales (auto simp: same_ext_def)

interpretation grows: state_relation metrics_grow
  by (unfold_locales, simp add: metrics_grow_def, meson metrics_grow_def le_trans)

lemma quiet_call: "keeps same_metrics (call f)"
  by (rule keepsI) (simp add: call_def same_metrics_def split: prod.splits)

lemma grows_call: "keeps metrics_grow (call f)"
  by (rule keepsI) (simp add: call_def metrics_grow_def split: prod.splits)

lemma grows_RecordMetrics: "keeps metrics_grow (RecordMetrics t d st)"
  by (rule keepsI) (simp add: RecordMetrics_def metrics_grow_def)

lemma inner_RecordMetrics: "keeps same_ext (RecordMetrics t d st)"
  by (rule keepsI) (simp add: same_ext_def)

lemma grows_record_return: "keeps metrics_grow (record_return t d st r)"
  unfolding record_return_def
  by (intro grows.keeps_intros grows_RecordMetrics)

lemma inner_record_return: "keeps same_ext (record_return t d st r)"
  unfolding record_return_def
  by (intro inner.keeps_intros inner_RecordMetrics)

lemmas quiet_intros = quiet.keeps_intros quiet_call
lemmas grows_intros = grows.keeps_intros grows_call grows_RecordMetrics grows_record_return
lemmas inner_intros = inner.keeps_intros inner_RecordMetrics inner_record_return

lemma ensures_call: "(\<And>w. P (fst (f w))) \<Longrightarrow> ensures P (call f)"
  by (simp add: ensures_def call_def split: prod.splits) (metis fst_conv)

lemma ensures_RecordMetrics: "P () \<Longrightarrow> ensures P (RecordMetrics t d st)"
  by (simp add: ensures_def)

lemma ensures_record_return: "P r \<Longrightarrow> ensures P (record_return t d st r)"
  by (simp add: ensures_def record_return_run)

lemmas ensures_intros = ensures_rules ensures_record_return ensures_RecordMetrics ensures_call

lemma yields_call: "(\<And>w. Q (fst (f w))) \<Longrightarrow> yields Q (call f)"
  by (simp add: yields_def call_def split: prod.splits) (metis fst_conv)

lemma yields_RecordMetrics: "Q () \<Longrightarrow> yields Q (RecordMetrics t d st)"
  by (simp add: yields_def RecordMetrics_def)

lemma yields_record_return: "Q r \<Longrightarrow> yields Q (record_return t d st r)"
  by (simp add: yields_def record_return_run)

section \<open>Instrumented handlers\<close>

text \<open>
  \<open>records t d m\<close>: a run of \<open>m\<close> that returns has recorded exactly one outcome, in the
  counter \<open>t\<close> and the histogram \<open>d\<close>, with label \<open>Completed\<close> or \<open>Failed\<close>.
\<close>

definition recorded :: "string \<Rightarrow> string \<Rightarrow> string \<Rightarrow> 'w world \<Rightarrow> 'w world \<Rightarrow> bool" where
  "recorded t d st s s' \<longleftrightarrow>
     Totals s' = (Totals s)((t, st) := Totals s (t, st) + 1) \<and>
     Durations s' = (Durations s)((d, st) := Durations s (d, st) + 1)"

definition records :: "string \<Rightarrow> string \<Rightarrow> ('w world, 'a) prog \<Rightarrow> bool" where
  "records t d m \<longleftrightarrow>
     (\<forall>s r s'. m s = (Done r, s') \<longrightarrow> (\<exists>st \<in> {Completed, Failed}. recorded t d st s s'))"

lemma recordsD:
  "records t d m \<Longrightarrow> m s = (Done r, s') \<Longrightarrow> \<exists>st \<in> {Completed, Failed}. recorded t d st s s'"
  by (simp add: records_def)

lemma records_RecordMetrics:
  assumes "st \<in> {Completed, Failed}" and "\<And>u. keeps same_metrics (k u)"
  shows "records t d (andThen (RecordMetrics t d st) k)"
  unfolding records_def
proof (intro allI impI)
  fix s r s'
  assume run: "andThen (RecordMetrics t d st) k s = (Done r, s')"
  let ?s1 = "snd (RecordMetrics t d st s)"
  from run have "k () ?s1 = (Done r, s')" by (simp only: andThen_RecordMetrics)
  then have "same_metrics ?s1 s'" using assms(2) by (blast dest: keepsD)
  then have "recorded t d st s s'"
    by (auto simp: same_metrics_def recorded_def RecordMetrics_def)
  then show "\<exists>st \<in> {Completed, Failed}. recorded t d st s s'" using assms(1) by blast
qed

lemma records_record_return: "st \<in> {Completed, Failed} \<Longrightarrow> records t d (record_return t d st r)"
  unfolding record_return_def by (rule records_RecordMetrics) (simp_all add: quiet.keeps_ret)

lemma records_andThen_quiet:
  assumes "keeps same_metrics m" and "\<And>a. records t d (k a)"
  shows "records t d (andThen m k)"
  unfolding records_def
proof (intro allI impI)
  fix s r s'
  assume "andThen m k s = (Done r, s')"
  then obtain a s1 where m: "m s = (Done a, s1)" and k: "k a s1 = (Done r, s')"
    by (rule andThen_DoneE)
  have "same_metrics s s1" using assms(1) m by (rule keepsD)
  moreover obtain st where "st \<in> {Completed, Failed}" "recorded t d st s1 s'"
    using recordsD [OF assms(2) k] by blast
  ultimately have "recorded t d st s s'" by (auto simp: same_metrics_def recorded_def)
  with \<open>st \<in> {Completed, Failed}\<close> show "\<exists>st \<in> {Completed, Failed}. recorded t d st s s'" by blast
qed

lemma records_deref: "(\<And>a. records t d (k a)) \<Longrightarrow> records t d (deref p k)"
  by (cases p) (simp_all add: records_def)

lemma records_if: "(b \<Longrightarrow> records t d m) \<Longrightarrow> (\<not> b \<Longrightarrow> records t d n) \<Longrightarrow> records t d (if b then m else n)"
  by simp

lemma records_case_sum:
  "(\<And>e. x = Inl e \<Longrightarrow> records t d (f e)) \<Longrightarrow> (\<And>v. x = Inr v \<Longrightarrow> records t d (g v))
    \<Longrightarrow> records t d (case x of Inl e \<Rightarrow> f e | Inr v \<Rightarrow> g v)"
  by (cases x) simp_all

lemma records_case_option:
  "(x = None \<Longrightarrow> records t d m) \<Longrightarrow> (\<And>v. x = Some v \<Longrightarrow> records t d (g v))
    \<Longrightarrow> records t d (case x of None \<Rightarrow> m | Some v \<Rightarrow> g v)"
  by (cases x) simp_all

lemma records_case_prod:
  "(\<And>a b. x = (a, b) \<Longrightarrow> records t d (f a b)) \<Longrightarrow> records t d (case x of (a, b) \<Rightarrow> f a b)"
  by (cases x) simp

lemmas records_intros = records_record_return records_RecordMetrics records_andThen_quiet records_deref records_if
  records_case_sum records_case_option records_case_prod

text \<open>The outcomes counted for one operation, whatever their label.\<close>

definition outcome_count :: "string \<Rightarrow> 'w world \<Rightarrow> nat" where
  "outcome_count t s = Totals s (t, Completed) + Totals s (t, Failed)"

text \<open>Serving a list of requests one after the other; \<open>None\<close> once a call panicked.\<close>

fun serve_all :: "('q \<Rightarrow> ('w world, 'r) prog) \<Rightarrow> 'q list \<Rightarrow> 'w world \<Rightarrow> ('r list \<times> 'w world) option" where
  "serve_all h [] s = Some ([], s)"
| "serve_all h (q # qs) s =
     (case h q s of
        (Done r, s') \<Rightarrow> map_option (\<lambda>(rs, t). (r # rs, t)) (serve_all h qs s')
      | (Panic, s') \<Rightarrow> None)"

locale metered_rpc =
  fixes handler :: "'q \<Rightarrow> ('w world, 'r) prog"
    and tot duration :: string
  assumes one_outcome: "records tot duration (handler q)"
begin

lemma outcome_count_step: "handler q s = (Done r, s') \<Longrightarrow> outcome_count tot s' = outcome_count tot s + 1"
  using recordsD [OF one_outcome] by (fastforce simp: recorded_def outcome_count_def)

lemma outcome_count_run:
  "serve_all handler qs s = Some (rs, s') \<Longrightarrow> outcome_count tot s' = outcome_count tot s + length qs"
proof (induction qs arbitrary: s rs)
  case (Cons q qs)
  from Cons.prems obtain r s1 rs' where h: "handler q s = (Done r, s1)"
    and rest: "serve_all handler qs s1 = Some (rs', s')"
    by (auto split: prod.splits outcome.splits)
  from Cons.IH [OF rest] outcome_count_step [OF h] show ?case by simp
qed simp

lemma other_counters_untouched:
  assumes "handler q s = (Done r, s')" and "t \<noteq> tot"
  shows "outcome_count t s' = outcome_count t s"
  using recordsD [OF one_outcome assms(1)] assms(2) by (auto simp: recorded_def outcome_count_def)

lemma other_counters_run:
  "serve_all handler qs s = Some (rs, s') \<Longrightarrow> t \<noteq> tot \<Longrightarrow> outcome_count t s' = outcome_count t s"
proof (induction qs arbitrary: s rs)
  case (Cons q qs)
  from Cons.prems(1) obtain r s1 rs' where h: "handler q s = (Done r, s1)"
    and rest: "serve_all handler qs s1 = Some (rs', s')"
    by (auto split: prod.splits outcome.splits)
  from Cons.IH [OF rest Cons.prems(2)] other_counters_untouched [OF h Cons.prems(2)] show ?case by simp
qed simp

end

end
