(* ===== verification/Host_Interfaces.thy ===== *)
theory Host_Interfaces
  imports Observability
begin

text \<open>
  The interfaces through which the node side of the driver acts on the host:
  \<open>pkg/filesystem/filesystem.go\<close> (\<open>FileSystem\<close>), \<open>pkg/mount-manager/safe_mounter.go\<close> (\<open>Mounter\<close>,
  \<open>Executor\<close>) and \<open>pkg/cryptsetup-client/cryptsetup_client.go\<close> (\<open>CryptSetupClient\<close>, \<open>Device\<close>).

  They are made from the packages \<open>os\<close> and \<open>path/filepath\<close>, \<open>k8s.io/mount-utils\<close>, \<open>k8s.io/utils/exec\<close>
  and \<open>go-cryptsetup\<close>, none of which is in the repository: each interface is a record of
  operations on an outside world of any type, an argument of what uses it. A file or a crypt
  device is a handle. Results the driver never looks at (a \<open>FileInfo\<close>, the path
  \<open>LookPath\<close> finds) are left out of the answers.
\<close>

section \<open>File system\<close>

record 'w FileSystem =
  IsNotExist_fs :: "error \<Rightarrow> bool"
  MkdirAll_fs :: "string \<Rightarrow> nat \<Rightarrow> 'w \<Rightarrow> error option \<times> 'w"
  Stat_fs :: "string \<Rightarrow> 'w \<Rightarrow> error option \<times> 'w"
  Remove_fs :: "string \<Rightarrow> 'w \<Rightarrow> error option \<times> 'w"
  OpenFile_fs :: "string \<Rightarrow> nat \<Rightarrow> nat \<Rightarrow> 'w \<Rightarrow> (error + int) \<times> 'w"
  Open_fs :: "string \<Rightarrow> 'w \<Rightarrow> (error + int) \<times> 'w"
  Read_fs :: "int \<Rightarrow> nat \<Rightarrow> 'w \<Rightarrow> (string \<times> error option) \<times> 'w"
  Close_fs :: "int \<Rightarrow> 'w \<Rightarrow> error option \<times> 'w"
  Glob_fs :: "string \<Rightarrow> 'w \<Rightarrow> (string list \<times> error option) \<times> 'w"
  EvalSymlinks_fs :: "string \<Rightarrow> 'w \<Rightarrow> (error + string) \<times> 'w"

text \<open>The functions of the packages \<open>os\<close> and \<open>path/filepath\<close> that act on the host.\<close>

record 'w OS =
  os_IsNotExist :: "error \<Rightarrow> bool"
  os_MkdirAll :: "string \<Rightarrow> nat \<Rightarrow> 'w \<Rightarrow> error option \<times> 'w"
  os_Stat :: "string \<Rightarrow> 'w \<Rightarrow> error option \<times> 'w"
  os_Remove :: "string \<Rightarrow> 'w \<Rightarrow> error option \<times> 'w"
  os_OpenFile :: "string \<Rightarrow> nat \<Rightarrow> nat \<Rightarrow> 'w \<Rightarrow> (error + int) \<times> 'w"
  os_Open :: "string \<Rightarrow> 'w \<Rightarrow> (error + int) \<times> 'w"
  File_Read :: "int \<Rightarrow> nat \<Rightarrow> 'w \<Rightarrow> (string \<times> error option) \<times> 'w"
  File_Close :: "int \<Rightarrow> 'w \<Rightarrow> error option \<times> 'w"
  filepath_Glob :: "string \<Rightarrow> 'w \<Rightarrow> (string list \<times> error option) \<times> 'w"
  filepath_EvalSymlinks :: "string \<Rightarrow> 'w \<Rightarrow> (error + string) \<times> 'w"

text \<open>\<open>NewFileSystem\<close>, with the methods of \<open>OSFileSystem\<close>. The files it opens are those of \<open>os\<close>.\<close>

definition NewFileSystem :: "'w OS \<Rightarrow> 'w FileSystem" where
  "NewFileSystem os =
    \<lparr>IsNotExist_fs = (\<lambda>err. os_IsNotExist os err),
     MkdirAll_fs = (\<lambda>path perm. os_MkdirAll os path perm),
     Stat_fs = (\<lambda>name. os_Stat os name),
     Remove_fs = (\<lambda>path. os_Remove os path),
     OpenFile_fs = (\<lambda>name flag perm. os_OpenFile os name flag perm),
     Open_fs = (\<lambda>name. os_Open os name),
     Read_fs = File_Read os,
     Close_fs = File_Close os,
     Glob_fs = (\<lambda>pattern. filepath_Glob os pattern),
     EvalSymlinks_fs = (\<lambda>path. filepath_EvalSymlinks os path)\<rparr>"

section \<open>Mounts and processes\<close>

text \<open>\<open>mount.SafeFormatAndMount\<close>, and \<open>mount.CleanupMountPoint\<close> on its interface.\<close>

record 'w Mounter =
  IsLikelyNotMountPoint_m :: "string \<Rightarrow> 'w \<Rightarrow> (bool \<times> error option) \<times> 'w"
  Mount_m :: "string \<Rightarrow> string \<Rightarrow> string \<Rightarrow> string list \<Rightarrow> 'w \<Rightarrow> error option \<times> 'w"
  FormatAndMount_m :: "string \<Rightarrow> string \<Rightarrow> string \<Rightarrow> string list \<Rightarrow> 'w \<Rightarrow> error option \<times> 'w"
  CleanupMountPoint_m :: "string \<Rightarrow> bool \<Rightarrow> 'w \<Rightarrow> error option \<times> 'w"

record 'w Executor =
  LookPath_x :: "string \<Rightarrow> 'w \<Rightarrow> error option \<times> 'w"
  Run_x :: "string \<Rightarrow> string list \<Rightarrow> 'w \<Rightarrow> error option \<times> 'w"
  CombinedOutput_x :: "string \<Rightarrow> string list \<Rightarrow> 'w \<Rightarrow> (string \<times> error option) \<times> 'w"

text \<open>\<open>SafeFormatAndMount\<close> runs its tools through an executor: \<open>mountNew\<close> gives the mounter that mount-utils makes from
  \<open>mount.New\<close> and an executor, \<open>execNew\<close> is \<open>exec.New()\<close>.\<close>

record 'w SafeFormatAndMount =
  sfm_Mounter :: "'w Mounter"
  sfm_Exec :: "'w Executor"

definition NewSafeMounter :: "('w Executor \<Rightarrow> 'w Mounter) \<Rightarrow> 'w Executor \<Rightarrow> 'w SafeFormatAndMount" where
  "NewSafeMounter mountNew execNew =
     (let realExec = execNew in \<lparr>sfm_Mounter = mountNew realExec, sfm_Exec = realExec\<rparr>)"

section \<open>Crypt devices\<close>

record GenericParams =
  Cipher :: string
  CipherMode :: string
  VolumeKey :: string
  VolumeKeySize :: int

text \<open>\<open>go-cryptsetup\<close>: the two constructors of a device, and the methods of a device the driver
  calls. The device type is always \<open>LUKS2\<close> with a sector size.\<close>

record 'w CryptLib =
  Init_lib :: "string \<Rightarrow> 'w \<Rightarrow> (error + int) \<times> 'w"
  InitByName_lib :: "string \<Rightarrow> 'w \<Rightarrow> (error + int) \<times> 'w"
  Format_dev :: "int \<Rightarrow> nat \<Rightarrow> GenericParams \<Rightarrow> 'w \<Rightarrow> error option \<times> 'w"
  KeyslotAddByVolumeKey_dev :: "int \<Rightarrow> int \<Rightarrow> string \<Rightarrow> string \<Rightarrow> 'w \<Rightarrow> error option \<times> 'w"
  ActivateByPassphrase_dev :: "int \<Rightarrow> string \<Rightarrow> int \<Rightarrow> string \<Rightarrow> int \<Rightarrow> 'w \<Rightarrow> error option \<times> 'w"
  Load_dev :: "int \<Rightarrow> nat \<Rightarrow> 'w \<Rightarrow> error option \<times> 'w"
  Free_dev :: "int \<Rightarrow> 'w \<Rightarrow> bool \<times> 'w"
  Deactivate_dev :: "int \<Rightarrow> string \<Rightarrow> 'w \<Rightarrow> error option \<times> 'w"

text \<open>\<open>CryptSetup.Init\<close> and \<open>CryptSetup.InitByName\<close>, which wrap the library's error.\<close>

definition CryptSetup_Init :: "'w CryptLib \<Rightarrow> string \<Rightarrow> ('w world, error + int) prog" where
  "CryptSetup_Init c devicePath =
     andThen (call (Init_lib c devicePath)) (\<lambda>r.
     case r of
       Inl err \<Rightarrow> ret (Inl (GoError ''init cryptsetup by device path %q: %w'' [ArgStr devicePath, ArgWrap err]))
     | Inr device \<Rightarrow> ret (Inr device))"

definition CryptSetup_InitByName :: "'w CryptLib \<Rightarrow> string \<Rightarrow> ('w world, error + int) prog" where
  "CryptSetup_InitByName c name =
     andThen (call (InitByName_lib c name)) (\<lambda>r.
     case r of
       Inl err \<Rightarrow> ret (Inl (GoError ''init cryptsetup by name %q: %w'' [ArgStr name, ArgWrap err]))
     | Inr device \<Rightarrow> ret (Inr device))"

record LuksDevice =
  LD_Identifier :: string
  LD_Device :: int

definition NewLuksDevice :: "'w CryptLib \<Rightarrow> string \<Rightarrow> ('w world, error + LuksDevice) prog" where
  "NewLuksDevice crypt path =
     andThen (CryptSetup_Init crypt path) (\<lambda>r.
     case r of
       Inl err \<Rightarrow> ret (Inl err)
     | Inr dev \<Rightarrow> ret (Inr \<lparr>LD_Identifier = path, LD_Device = dev\<rparr>))"

definition NewLuksDeviceByName :: "'w CryptLib \<Rightarrow> string \<Rightarrow> ('w world, error + LuksDevice) prog" where
  "NewLuksDeviceByName crypt name =
     andThen (CryptSetup_InitByName crypt name) (\<lambda>r.
     case r of
       Inl err \<Rightarrow> ret (Inl err)
     | Inr dev \<Rightarrow> ret (Inr \<lparr>LD_Identifier = name, LD_Device = dev\<rparr>))"

lemma quiet_CryptSetup: "keeps same_metrics (NewLuksDevice c p)" "keeps same_metrics (NewLuksDeviceByName c p)"
  unfolding NewLuksDevice_def NewLuksDeviceByName_def CryptSetup_Init_def CryptSetup_InitByName_def
  by (intro quiet_intros)+

end
