(* ===== verification/Linode_Volumes.thy ===== *)
theory Linode_Volumes
  imports Driver_Errors
begin

unbundle bit_operations_syntax

text \<open>
  \<open>pkg/linode-volumes/utils.go\<close>: the volume key \<open>"<id>-<label>"\<close> that is the CSI volume ID
  of every Linode volume, its parser and printer, the normalisation of labels, and the
  extraction of numeric IDs from requests with the FNV-1a fallback for ill-formed ones.

  The locale \<open>key_codec\<close> states what a printer and a parser of keys promise each other; it is
  interpreted on \<open>GetVolumeKey\<close> and \<open>ParseLinodeVolumeKey\<close>.
\<close>

section \<open>Definitions\<close>

definition LinodeVolumeLabelLength :: nat where
  "LinodeVolumeLabelLength = 32"

text \<open>\<open>hash/fnv\<close>'s 32-bit FNV-1a over the bytes of a string.\<close>

definition fnv32a :: "string \<Rightarrow> 32 word" where
  "fnv32a b = fold (\<lambda>c h. (h XOR of_nat (of_char c)) * 16777619) b 2166136261"

definition hashStringToInt :: "string \<Rightarrow> int" where
  "hashStringToInt b = uint (fnv32a b)"

record LinodeVolumeKey =
  VolumeID :: int
  Key_Label :: string

definition CreateLinodeVolumeKey :: "int \<Rightarrow> string \<Rightarrow> LinodeVolumeKey" where
  "CreateLinodeVolumeKey i label = \<lparr>VolumeID = i, Key_Label = label\<rparr>"

definition ParseLinodeVolumeKey :: "string \<Rightarrow> error + LinodeVolumeKey" where
  "ParseLinodeVolumeKey key =
     (let keys = SplitN2 CHR ''-'' key in
      if length keys \<noteq> 2 then Inl (GoError ''invalid linode volume key: %q'' [ArgStr key])
      else case Atoi (keys ! 0) of
             Inl e \<Rightarrow> Inl (GoError ''invalid linode volume id: %q'' [ArgStr (keys ! 0)])
           | Inr volumeID \<Rightarrow> Inr \<lparr>VolumeID = volumeID, Key_Label = keys ! 1\<rparr>)"

definition GetVolumeID :: "LinodeVolumeKey \<Rightarrow> int" where
  "GetVolumeID key = VolumeID key"

definition GetVolumeLabel :: "LinodeVolumeKey \<Rightarrow> string" where
  "GetVolumeLabel key = Key_Label key"

definition GetNormalizedLabel :: "LinodeVolumeKey \<Rightarrow> string" where
  "GetNormalizedLabel key =
     (let label = Key_Label key in
      if LinodeVolumeLabelLength < length label then take LinodeVolumeLabelLength label else label)"

definition GetNormalizedLabelWithPrefix :: "LinodeVolumeKey \<Rightarrow> string \<Rightarrow> string" where
  "GetNormalizedLabelWithPrefix key prefix =
     (let label = prefix @ GetNormalizedLabel key in
      if LinodeVolumeLabelLength < length label then take LinodeVolumeLabelLength label else label)"

definition GetVolumeKey :: "LinodeVolumeKey \<Rightarrow> string" where
  "GetVolumeKey key =
     (let volumeName = GetNormalizedLabel key in Itoa (VolumeID key) @ ''-'' @ volumeName)"

text \<open>The caller's name in an error message gets a trailing blank unless it is empty.\<close>

definition VolumeIdAsInt :: "string \<Rightarrow> string \<Rightarrow> error + int" where
  "VolumeIdAsInt caller strVolID =
     (let caller = (if caller \<noteq> [] then caller @ '' '' else caller) in
      if strVolID = [] then Inl (Status InvalidArgument ''%sVolume ID must be provided'' [ArgStr caller])
      else case ParseLinodeVolumeKey strVolID of
             Inr key \<Rightarrow> Inr (GetVolumeID key)
           | Inl err \<Rightarrow> Inr (hashStringToInt strVolID))"

definition NodeIdAsInt :: "string \<Rightarrow> string \<Rightarrow> error + int" where
  "NodeIdAsInt caller strNodeID =
     (let caller = (if caller \<noteq> [] then caller @ '' '' else caller) in
      if strNodeID = [] then Inl (Status InvalidArgument ''%sNode ID must be provided'' [ArgStr caller])
      else case Atoi strNodeID of
             Inr nodeID \<Rightarrow> Inr nodeID
           | Inl err \<Rightarrow> Inr (hashStringToInt strNodeID))"

section \<open>The codec contract\<close>

locale key_codec =
  fixes encode :: "'k \<Rightarrow> string"
    and decode :: "string \<Rightarrow> 'e + 'k"
    and norm :: "'k \<Rightarrow> 'k"
    and valid :: "'k \<Rightarrow> bool"
  assumes decode_encode: "valid k \<Longrightarrow> decode (encode k) = Inr (norm k)"
    and encode_norm: "encode (norm k) = encode k"
    and valid_norm: "valid (norm k) \<longleftrightarrow> valid k"
begin

lemma encode_inj: "valid k \<Longrightarrow> valid l \<Longrightarrow> encode k = encode l \<longleftrightarrow> norm k = norm l"
  by (metis decode_encode encode_norm sum.inject(2))

lemma norm_idem: "valid k \<Longrightarrow> norm (norm k) = norm k"
  by (metis decode_encode encode_norm valid_norm sum.inject(2))

lemma decode_again: "valid k \<Longrightarrow> decode (encode k) = Inr l \<Longrightarrow> decode (encode l) = Inr l"
  by (metis decode_encode encode_norm sum.inject(2))

end

definition normalized_key :: "LinodeVolumeKey \<Rightarrow> LinodeVolumeKey" where
  "normalized_key k = k\<lparr>Key_Label := GetNormalizedLabel k\<rparr>"

definition valid_key :: "LinodeVolumeKey \<Rightarrow> bool" where
  "valid_key k \<longleftrightarrow> 0 \<le> VolumeID k \<and> is_int64 (VolumeID k)"

section \<open>Labels\<close>

lemma GetNormalizedLabel_take: "GetNormalizedLabel k = take 32 (Key_Label k)"
  by (simp add: GetNormalizedLabel_def LinodeVolumeLabelLength_def Let_def)

lemma GetNormalizedLabelWithPrefix_take:
  "GetNormalizedLabelWithPrefix k p = take 32 (p @ Key_Label k)"
  by (simp add: GetNormalizedLabelWithPrefix_def LinodeVolumeLabelLength_def Let_def
      GetNormalizedLabel_take min_def)

lemma GetNormalizedLabel_normalized [simp]: "GetNormalizedLabel (normalized_key k) = GetNormalizedLabel k"
  by (simp add: normalized_key_def GetNormalizedLabel_take)

section \<open>Keys\<close>

lemma Itoa_no_dash: "0 \<le> i \<Longrightarrow> CHR ''-'' \<notin> set (Itoa i)"
  using show_nat_digits is_digit_neq(1) by (fastforce simp: Itoa_def)

lemma SplitN2_volume_key:
  assumes "0 \<le> i"
  shows "SplitN2 CHR ''-'' (Itoa i @ ''-'' @ label) = [Itoa i, label]"
  using SplitN2_app [OF Itoa_no_dash [OF assms], of label] by simp

lemma Parse_GetVolumeKey:
  assumes "valid_key k"
  shows "ParseLinodeVolumeKey (GetVolumeKey k) = Inr (normalized_key k)"
  using assms
  by (cases k)
    (simp add: ParseLinodeVolumeKey_def GetVolumeKey_def valid_key_def SplitN2_volume_key [simplified]
      Atoi_Itoa normalized_key_def Let_def)

interpretation volume_key: key_codec GetVolumeKey ParseLinodeVolumeKey normalized_key valid_key
proof unfold_locales
  show "\<And>k. valid_key k \<Longrightarrow> ParseLinodeVolumeKey (GetVolumeKey k) = Inr (normalized_key k)"
    by (rule Parse_GetVolumeKey)
  show "\<And>k. GetVolumeKey (normalized_key k) = GetVolumeKey k"
    by (simp add: GetVolumeKey_def) (simp add: normalized_key_def)
  show "\<And>k. valid_key (normalized_key k) = valid_key k"
    by (simp add: valid_key_def normalized_key_def)
qed

lemma ParseLinodeVolumeKey_iff:
  "ParseLinodeVolumeKey s = Inr k \<longleftrightarrow>
     (\<exists>a. CHR ''-'' \<notin> set a \<and> s = a @ CHR ''-'' # Key_Label k \<and> Atoi a = Inr (VolumeID k))"
proof (cases rule: SplitN2_cases [of "CHR ''-''" s])
  case one
  then show ?thesis by (auto simp: ParseLinodeVolumeKey_def)
next
  case (two a b)
  have uniq: "a' = a \<and> b' = b" if "CHR ''-'' \<notin> set a'" "s = a' @ CHR ''-'' # b'" for a' b'
  proof -
    have "SplitN2 CHR ''-'' s = [a', b']"
      unfolding that(2) by (rule SplitN2_app [OF that(1)])
    with two(3) show ?thesis by simp
  qed
  have parse: "ParseLinodeVolumeKey s = Inr k \<longleftrightarrow> Key_Label k = b \<and> Atoi a = Inr (VolumeID k)"
    using two(3) by (cases k) (auto simp: ParseLinodeVolumeKey_def Let_def split: sum.splits)
  show ?thesis
  proof
    assume "ParseLinodeVolumeKey s = Inr k"
    then have "Key_Label k = b" and "Atoi a = Inr (VolumeID k)" by (simp_all add: parse)
    with two(1,2) show "\<exists>a. CHR ''-'' \<notin> set a \<and> s = a @ CHR ''-'' # Key_Label k \<and> Atoi a = Inr (VolumeID k)"
      by blast
  next
    assume "\<exists>a. CHR ''-'' \<notin> set a \<and> s = a @ CHR ''-'' # Key_Label k \<and> Atoi a = Inr (VolumeID k)"
    then obtain a' where a': "CHR ''-'' \<notin> set a'" "s = a' @ CHR ''-'' # Key_Label k" "Atoi a' = Inr (VolumeID k)"
      by blast
    from a'(3) uniq [OF a'(1,2)] have "Key_Label k = b \<and> Atoi a = Inr (VolumeID k)" by simp
    then show "ParseLinodeVolumeKey s = Inr k" by (rule parse [THEN iffD2])
  qed
qed

lemma ParseLinodeVolumeKey_int64: "ParseLinodeVolumeKey s = Inr k \<Longrightarrow> is_int64 (VolumeID k)"
  by (auto simp: ParseLinodeVolumeKey_iff Atoi_range)

lemma hashStringToInt_bounds: "0 \<le> hashStringToInt s" "hashStringToInt s < 2 ^ 32"
  using uint_lt2p [of "fnv32a s"] by (simp_all add: hashStringToInt_def)

lemma VolumeIdAsInt_int64:
  assumes "VolumeIdAsInt c s = Inr i"
  shows "is_int64 i"
proof -
  have "is_int64 (hashStringToInt s)"
    using hashStringToInt_bounds [of s] by (simp add: is_int64_def)
  with assms show ?thesis
    by (auto simp: VolumeIdAsInt_def GetVolumeID_def ParseLinodeVolumeKey_int64
        split: if_splits sum.splits)
qed

lemma VolumeIdAsInt_key:
  assumes "valid_key k"
  shows "VolumeIdAsInt c (GetVolumeKey k) = Inr (VolumeID k)"
proof -
  have "GetVolumeKey k \<noteq> []" by (simp add: GetVolumeKey_def Let_def)
  then show ?thesis
    by (simp add: VolumeIdAsInt_def Parse_GetVolumeKey [OF assms] GetVolumeID_def normalized_key_def)
qed

lemma VolumeIdAsInt_err: "VolumeIdAsInt c s = Inl e \<Longrightarrow> s = [] \<and> status_code e = Some InvalidArgument"
  by (auto simp: VolumeIdAsInt_def Let_def split: if_splits sum.splits)

lemma NodeIdAsInt_err: "NodeIdAsInt c s = Inl e \<Longrightarrow> s = [] \<and> status_code e = Some InvalidArgument"
  by (auto simp: NodeIdAsInt_def Let_def split: if_splits sum.splits)

lemma NodeIdAsInt_Itoa: "is_int64 i \<Longrightarrow> NodeIdAsInt c (Itoa i) = Inr i"
  by (simp add: NodeIdAsInt_def Atoi_Itoa Itoa_nonempty Let_def)

end
