(* ===== verification/Linode_Client.thy ===== *)
theory Linode_Client
  imports Observability Linode_Volumes
begin

text \<open>
  \<open>pkg/linode-client/linode_client.go\<close>: the interface \<open>LinodeClient\<close> the driver uses to
  reach the Linode API, the splitting of the API URL, and the settings of a new client.

  The implementation of the interface is the \<open>linodego\<close> library, which is not part of the
  repository: the interface is a record of operations on an outside world of any type \<open>'w\<close>,
  passed as an argument to everything that uses it. Each operation takes its arguments and the
  world to a result and the next world. A Go result \<open>(T, error)\<close> with a pointer type is the
  pair \<open>'t option \<times> error option\<close>, so that a client may return a nil pointer with or without
  an error; slices are lists. \<open>IsNotFound\<close> and \<open>NewListOptions\<close> are the library's classifier of errors and its
  constructor of list options, two functions the driver calls, and parameters as well. The data types are the fields of \<open>linodego\<close>'s structs the driver reads.

  What the driver relies on is stated as predicates on the record, one per documented fact:
  \<open>returns_value\<close> (no error means a non-nil pointer), \<open>nil_is_found\<close> (no error is not a
  "not found" error), \<open>attached_after_wait\<close> (a successful wait for an attachment returns the
  attached volume). Theorems that need one of them name it as a hypothesis.
\<close>

section \<open>Data\<close>

datatype VolumeStatus = VolumeCreating | VolumeActive | VolumeResizing | VolumeContactSupport

record Volume =
  Vol_ID :: int
  Vol_Label :: string
  Vol_Status :: VolumeStatus
  Vol_Region :: string
  Vol_Size :: int
  Vol_LinodeID :: "int option"
  Vol_FilesystemPath :: string

record InstanceSpec =
  Spec_Memory :: int

record Instance =
  Inst_ID :: int
  Inst_Label :: string
  Inst_Region :: string
  Inst_Specs :: "InstanceSpec option"

record InstanceDisk =
  Disk_ID :: int

record Region =
  Region_ID :: string
  Region_Capabilities :: "string list"

record ListOptions =
  Opt_Page :: int
  Opt_PageSize :: int
  Opt_Filter :: string

record VolumeCreateOptions =
  VCO_Region :: string
  VCO_Label :: string
  VCO_Size :: int
  VCO_Encryption :: string
  VCO_Tags :: "string list"

record VolumeAttachOptions =
  VAO_LinodeID :: int
  VAO_PersistAcrossBoots :: "bool option"

section \<open>The interface\<close>

text \<open>Of the value of any type that names an entity, and of an event poller, a number stands for the whole.\<close>

record 'w LinodeClient =
  ListInstances_api :: "ListOptions option \<Rightarrow> 'w \<Rightarrow> (Instance list \<times> error option) \<times> 'w"
  ListVolumes_api :: "ListOptions \<Rightarrow> 'w \<Rightarrow> (Volume list \<times> error option) \<times> 'w"
  ListInstanceVolumes_api :: "int \<Rightarrow> ListOptions option \<Rightarrow> 'w \<Rightarrow> (Volume list \<times> error option) \<times> 'w"
  ListInstanceDisks_api :: "int \<Rightarrow> ListOptions option \<Rightarrow> 'w \<Rightarrow> (InstanceDisk list \<times> error option) \<times> 'w"
  GetRegion_api :: "string \<Rightarrow> 'w \<Rightarrow> (Region option \<times> error option) \<times> 'w"
  GetInstance_api :: "int \<Rightarrow> 'w \<Rightarrow> (Instance option \<times> error option) \<times> 'w"
  GetVolume_api :: "int \<Rightarrow> 'w \<Rightarrow> (Volume option \<times> error option) \<times> 'w"
  CreateVolume_api :: "VolumeCreateOptions \<Rightarrow> 'w \<Rightarrow> (Volume option \<times> error option) \<times> 'w"
  CloneVolume_api :: "int \<Rightarrow> string \<Rightarrow> 'w \<Rightarrow> (Volume option \<times> error option) \<times> 'w"
  AttachVolume_api :: "int \<Rightarrow> VolumeAttachOptions \<Rightarrow> 'w \<Rightarrow> (Volume option \<times> error option) \<times> 'w"
  DetachVolume_api :: "int \<Rightarrow> 'w \<Rightarrow> error option \<times> 'w"
  WaitForVolumeLinodeID_api :: "int \<Rightarrow> int option \<Rightarrow> int \<Rightarrow> 'w \<Rightarrow> (Volume option \<times> error option) \<times> 'w"
  WaitForVolumeStatus_api :: "int \<Rightarrow> VolumeStatus \<Rightarrow> int \<Rightarrow> 'w \<Rightarrow> (Volume option \<times> error option) \<times> 'w"
  DeleteVolume_api :: "int \<Rightarrow> 'w \<Rightarrow> error option \<times> 'w"
  ResizeVolume_api :: "int \<Rightarrow> int \<Rightarrow> 'w \<Rightarrow> error option \<times> 'w"
  NewEventPoller_api :: "int \<Rightarrow> string \<Rightarrow> string \<Rightarrow> 'w \<Rightarrow> (int option \<times> error option) \<times> 'w"
  IsNotFound :: "error option \<Rightarrow> bool"
  NewListOptions :: "int \<Rightarrow> string \<Rightarrow> ListOptions"

section \<open>Documented facts the driver relies on\<close>

definition returns_value :: "('w \<Rightarrow> ('a option \<times> error option) \<times> 'w) \<Rightarrow> bool" where
  "returns_value f \<longleftrightarrow> (\<forall>w v w'. f w = ((v, None), w') \<longrightarrow> v \<noteq> None)"

definition nil_is_found :: "'w LinodeClient \<Rightarrow> bool" where
  "nil_is_found c \<longleftrightarrow> \<not> IsNotFound c None"

lemma returns_valueD: "returns_value f \<Longrightarrow> f w = ((v, None), w') \<Longrightarrow> \<exists>a. v = Some a"
  by (auto simp: returns_value_def)

lemma yields_call_value:
  "returns_value f \<Longrightarrow> (\<And>v e. (e = None \<Longrightarrow> v \<noteq> None) \<Longrightarrow> Q (v, e)) \<Longrightarrow> yields Q (call f)"
  by (rule yields_call) (metis prod.collapse returns_value_def)

text \<open>The pointer-returning operations together.\<close>

definition returns_values :: "'w LinodeClient \<Rightarrow> bool" where
  "returns_values c \<longleftrightarrow> nil_is_found c \<and>
     (\<forall>r. returns_value (GetRegion_api c r)) \<and> (\<forall>i. returns_value (GetInstance_api c i)) \<and>
     (\<forall>v. returns_value (GetVolume_api c v)) \<and> (\<forall>opts. returns_value (CreateVolume_api c opts)) \<and>
     (\<forall>v l. returns_value (CloneVolume_api c v l)) \<and>
     (\<forall>v l t. returns_value (WaitForVolumeLinodeID_api c v l t)) \<and>
     (\<forall>v st t. returns_value (WaitForVolumeStatus_api c v st t))"

lemma yields_pointer_calls:
  assumes "returns_values c" and "\<And>v e. (e = None \<Longrightarrow> v \<noteq> None) \<Longrightarrow> Q (v, e)"
  shows "yields Q (call (GetVolume_api c v))" "yields Q (call (CreateVolume_api c opts))"
    "yields Q (call (CloneVolume_api c v l))" "yields Q (call (WaitForVolumeStatus_api c v st t))"
    "yields Q (call (WaitForVolumeLinodeID_api c v lid t))"
  using assms unfolding returns_values_def by (auto intro!: yields_call_value)

lemma yields_other_pointer_calls:
  "returns_values c \<Longrightarrow> (\<And>v e. (e = None \<Longrightarrow> v \<noteq> None) \<Longrightarrow> Q (v, e)) \<Longrightarrow> yields Q (call (GetInstance_api c i))"
  "returns_values c \<Longrightarrow> (\<And>v e. (e = None \<Longrightarrow> v \<noteq> None) \<Longrightarrow> P (v, e)) \<Longrightarrow> yields P (call (GetRegion_api c r))"
  unfolding returns_values_def by (auto intro!: yields_call_value)

lemma yields_plain_calls:
  "(\<And>r. Q r) \<Longrightarrow> yields Q (call (ListVolumes_api c opts))"
  "(\<And>r. Q r) \<Longrightarrow> yields Q (call (ListInstanceVolumes_api c i opts'))"
  "(\<And>r. P r) \<Longrightarrow> yields P (call (ListInstanceDisks_api c i opts'))"
  "(\<And>r. B r) \<Longrightarrow> yields B (call (AttachVolume_api c v ao))"
  "(\<And>r. R r) \<Longrightarrow> yields R (call (DetachVolume_api c v))"
  "(\<And>r. R r) \<Longrightarrow> yields R (call (DeleteVolume_api c v))"
  "(\<And>r. R r) \<Longrightarrow> yields R (call (ResizeVolume_api c v n))"
  by (rule yields_call, simp)+

lemmas yields_steps = yields_intros yields_RecordMetrics yields_record_return
  yields_pointer_calls yields_other_pointer_calls yields_plain_calls

lemma nil_not_not_found: "returns_values c \<Longrightarrow> \<not> IsNotFound c None"
  by (simp add: returns_values_def nil_is_found_def)

text \<open>\<open>WaitForVolumeLinodeID\<close> returns once the volume is attached to the given instance.\<close>

definition attached_after_wait :: "'w LinodeClient \<Rightarrow> bool" where
  "attached_after_wait c \<longleftrightarrow>
     (\<forall>v l t w vol w'. WaitForVolumeLinodeID_api c v (Some l) t w = ((Some vol, None), w') \<longrightarrow> Vol_LinodeID vol = Some l)"

lemma yields_call_attached:
  assumes "returns_values c" "attached_after_wait c"
    "\<And>v e. (e = None \<Longrightarrow> \<exists>vol. v = Some vol \<and> Vol_LinodeID vol = Some l) \<Longrightarrow> Q (v, e)"
  shows "yields Q (call (WaitForVolumeLinodeID_api c v (Some l) t))"
proof (rule yields_call)
  fix w
  obtain vol e w' where r: "WaitForVolumeLinodeID_api c v (Some l) t w = ((vol, e), w')" by (metis surj_pair)
  have "e = None \<Longrightarrow> \<exists>x. vol = Some x \<and> Vol_LinodeID x = Some l"
    using assms(1,2) r unfolding returns_values_def returns_value_def attached_after_wait_def
    by (metis option.collapse)
  then show "Q (fst (WaitForVolumeLinodeID_api c v (Some l) t w))" using assms(3) r by simp
qed

text \<open>A wait that always hands back the volume, also when it fails.\<close>

definition wait_keeps_volume :: "'w LinodeClient \<Rightarrow> bool" where
  "wait_keeps_volume c \<longleftrightarrow>
     (\<forall>v st t w e w'. WaitForVolumeStatus_api c v st t w \<noteq> ((None, e), w'))"

lemma yields_call_wait: "wait_keeps_volume c \<Longrightarrow> (\<And>v e. Q (Some v, e)) \<Longrightarrow> yields Q (call (WaitForVolumeStatus_api c v st t))"
  by (rule yields_call) (metis prod.collapse wait_keeps_volume_def option.exhaust_sel)

section \<open>API URL\<close>

text \<open>
  \<open>getAPIURLComponents\<close>. The fields \<open>Scheme\<close>, \<open>Host\<close>, \<open>Path\<close> are those of the parsed URL;
  \<open>parse\<close> stands for \<open>url.Parse\<close>.
\<close>

record URL =
  Scheme :: string
  Host :: string
  Path :: string

definition getAPIURLComponents :: "(string \<Rightarrow> error + URL) \<Rightarrow> string \<Rightarrow> error + (string \<times> string)" where
  "getAPIURLComponents parse apiURL =
     (case parse apiURL of
        Inl err \<Rightarrow> Inl err
      | Inr urlObj \<Rightarrow>
          let host = Scheme urlObj @ ''://'' @ Host urlObj;
              trimmed = TrimPrefix (Path urlObj) ''/''
          in if trimmed \<noteq> [] then
               let pathSegments = Split CHR ''/'' trimmed
               in Inr (host, if 0 < length pathSegments then pathSegments ! 0 else [])
             else Inr (host, []))"

text \<open>
  \<open>NewLinodeClient\<close>: the settings it gives to the \<open>linodego\<close> client. The client itself is the
  library's, made from the settings by \<open>mk\<close>.
\<close>

record ClientSettings =
  set_UserAgent :: string
  set_Token :: string
  set_BaseURL :: "string option"
  set_APIVersion :: "string option"

definition NewLinodeClient ::
  "(ClientSettings \<Rightarrow> 'w LinodeClient) \<Rightarrow> (string \<Rightarrow> error + URL) \<Rightarrow> string \<Rightarrow> string \<Rightarrow> string
     \<Rightarrow> error + 'w LinodeClient" where
  "NewLinodeClient mk parse token ua apiURL =
     (let settings = \<lparr>set_UserAgent = ua, set_Token = token, set_BaseURL = None, set_APIVersion = None\<rparr>
      in if apiURL \<noteq> [] then
           (case getAPIURLComponents parse apiURL of
              Inl err \<Rightarrow> Inl err
            | Inr (host, version) \<Rightarrow>
                let settings = settings\<lparr>set_BaseURL := Some host\<rparr>
                in Inr (mk (if version \<noteq> [] then settings\<lparr>set_APIVersion := Some version\<rparr> else settings)))
         else Inr (mk settings))"

lemma getAPIURLComponents_version:
  assumes "getAPIURLComponents parse u = Inr (host, version)"
  shows "CHR ''/'' \<notin> set version"
proof -
  have "CHR ''/'' \<notin> set (Split CHR ''/'' s ! 0)" for s
    using Split_nonempty [of "CHR ''/''" s] Split_no_sep [of _ "CHR ''/''" s]
    by (metis length_greater_0_conv nth_mem)
  with assms show ?thesis
    by (auto simp: getAPIURLComponents_def Let_def split: sum.splits if_splits)
qed

end
