(* ===== verification/Limits_Capabilities.thy ===== *)
theory Limits_Capabilities
  imports CSI_Types
begin

text \<open>
  \<open>internal/driver/limits.go\<close>, \<open>capabilities.go\<close> and \<open>lifecycle.go\<close>: the attachment limit of
  an instance as a function of its memory, the capabilities the driver announces, and the
  lifecycle phases.

  \<open>uint\<close> is a 64-bit word. A list of pointers to capability messages that are each built around
  one RPC type is the list of those types.
\<close>

section \<open>Attachment limits\<close>

definition maxPersistentAttachments :: int where
  "maxPersistentAttachments = 8"

definition maxAttachments :: int where
  "maxAttachments = 64"

definition maxVolumeAttachments :: "64 word \<Rightarrow> int" where
  "maxVolumeAttachments memoryBytes =
     (let attachments = drop_bit 30 memoryBytes in
      if word_of_int maxAttachments < attachments then maxAttachments
      else if attachments < word_of_int maxPersistentAttachments then maxPersistentAttachments
      else uint attachments)"

lemma uint_drop_30: "uint (drop_bit 30 (m :: 64 word)) = uint m div 2 ^ 30"
  by (simp add: drop_bit_eq_div uint_div)

lemma maxVolumeAttachments_eq: "maxVolumeAttachments m = max 8 (min 64 (uint m div 2 ^ 30))"
  unfolding maxVolumeAttachments_def maxAttachments_def maxPersistentAttachments_def
  by (simp only: Let_def word_less_def uint_drop_30) (auto simp: max_def min_def)

lemma maxVolumeAttachments_bounds: "8 \<le> maxVolumeAttachments m" "maxVolumeAttachments m \<le> 64"
  by (simp_all add: maxVolumeAttachments_eq)

lemma maxVolumeAttachments_mono:
  assumes "m \<le> n"
  shows "maxVolumeAttachments m \<le> maxVolumeAttachments n"
proof -
  have "uint m div 2 ^ 30 \<le> uint n div (2 ^ 30 :: int)"
    using assms by (simp add: zdiv_mono1 word_le_def)
  then show ?thesis by (auto simp: maxVolumeAttachments_eq max_def min_def)
qed

section \<open>Capabilities\<close>

definition ControllerServiceCapabilities :: "ControllerRPC list" where
  "ControllerServiceCapabilities =
     [PUBLISH_READONLY, CREATE_DELETE_VOLUME, PUBLISH_UNPUBLISH_VOLUME, EXPAND_VOLUME,
      CLONE_VOLUME, LIST_VOLUMES, LIST_VOLUMES_PUBLISHED_NODES, VOLUME_CONDITION]"

definition NodeServiceCapabilities :: "NodeRPC list" where
  "NodeServiceCapabilities =
     [STAGE_UNSTAGE_VOLUME, NODE_EXPAND_VOLUME, GET_VOLUME_STATS, NODE_VOLUME_CONDITION]"

definition VolumeCapabilityAccessModes :: "AccessMode_Mode list" where
  "VolumeCapabilityAccessModes = [SINGLE_NODE_WRITER]"

section \<open>Lifecycle phases\<close>

datatype VolumeLifecycle =
    VolumeLifecycleNodeStageVolume
  | VolumeLifecycleNodePublishVolume
  | VolumeLifecycleNodeUnstageVolume
  | VolumeLifecycleNodeUnpublishVolume

end
