(* ===== verification/Driver_Types.thy ===== *)
theory Driver_Types
  imports Linode_Client Limits_Capabilities
begin

text \<open>
  The driver's own data types and constants: \<open>LinodeDriver\<close> (\<open>internal/driver/driver.go\<close>),
  \<open>Metadata\<close> (\<open>metadata.go\<close>), \<open>ControllerServer\<close> (\<open>controllerserver.go\<close>), and the keys the
  controller and the node side use to hand data to each other through the orchestrator.

  \<open>LinodeDriver\<close> leaves out the pointers back to its three servers; the servers hold the driver.
\<close>

definition Name :: string where
  "Name = ''linodebs.csi.linode.com''"

record LinodeDriver =
  Drv_name :: string
  Drv_vendorVersion :: string
  Drv_volumeLabelPrefix :: string
  Drv_vcap :: "AccessMode_Mode list"
  Drv_cscap :: "ControllerRPC list"
  Drv_nscap :: "NodeRPC list"
  Drv_ready :: bool
  Drv_enableMetrics :: string
  Drv_metricsPort :: string
  Drv_enableTracing :: string
  Drv_tracingPort :: string

record Metadata =
  Meta_ID :: int
  Meta_Label :: string
  Meta_Region :: string
  Meta_Memory :: "64 word"

record 'w ControllerServer =
  cs_driver :: LinodeDriver
  cs_client :: "'w LinodeClient"
  cs_metadata :: Metadata

definition MaxVolumeLabelPrefixLength :: nat where
  "MaxVolumeLabelPrefixLength = 12"

definition True_str :: string where
  "True_str = ''true''"

definition VolumeTags :: string where
  "VolumeTags = Name @ ''/volumeTags''"

definition PublishInfoVolumeName :: string where
  "PublishInfoVolumeName = Name @ ''/volume-name''"

definition VolumeTopologyRegion :: string where
  "VolumeTopologyRegion = ''topology.linode.com/region''"

definition devicePathKey :: string where
  "devicePathKey = ''devicePath''"

definition VolumeEncryption :: string where
  "VolumeEncryption = Name @ ''/encrypted''"

definition LuksEncryptedAttribute :: string where
  "LuksEncryptedAttribute = Name @ ''/luks-encrypted''"

definition LuksCipherAttribute :: string where
  "LuksCipherAttribute = Name @ ''/luks-cipher''"

definition LuksKeySizeAttribute :: string where
  "LuksKeySizeAttribute = Name @ ''/luks-key-size''"

definition LuksKeyAttribute :: string where
  "LuksKeyAttribute = ''luksKey''"

text \<open>\<open>json.Marshal(map[string]string{"label": label})\<close>, which does not fail on such a map; the
  filter both the controller and the node side list volumes with.\<close>

definition label_filter :: "string \<Rightarrow> string" where
  "label_filter label = CHR ''{'' # json_string ''label'' @ [CHR '':''] @ json_string label @ [CHR ''}'']"

lemma label_filter_inj: "list_all json_plain l \<Longrightarrow> label_filter s = label_filter l \<longleftrightarrow> s = l"
  by (auto simp: label_filter_def json_string_def json_body_plain dest: json_body_eq_plain)

lemmas attribute_key_defs =
  VolumeTags_def PublishInfoVolumeName_def VolumeTopologyRegion_def devicePathKey_def
  VolumeEncryption_def LuksEncryptedAttribute_def LuksCipherAttribute_def
  LuksKeySizeAttribute_def LuksKeyAttribute_def Name_def

lemma context_keys_distinct:
  "distinct [LuksEncryptedAttribute, PublishInfoVolumeName, LuksCipherAttribute,
     LuksKeySizeAttribute, VolumeTopologyRegion]"
  by (simp add: attribute_key_defs)

lemma context_key_neqs [simp]:
  "LuksEncryptedAttribute \<noteq> PublishInfoVolumeName" "LuksEncryptedAttribute \<noteq> LuksCipherAttribute"
  "LuksEncryptedAttribute \<noteq> LuksKeySizeAttribute" "LuksEncryptedAttribute \<noteq> VolumeTopologyRegion"
  "PublishInfoVolumeName \<noteq> LuksCipherAttribute" "PublishInfoVolumeName \<noteq> LuksKeySizeAttribute"
  "PublishInfoVolumeName \<noteq> VolumeTopologyRegion" "LuksCipherAttribute \<noteq> LuksKeySizeAttribute"
  "LuksCipherAttribute \<noteq> VolumeTopologyRegion" "LuksKeySizeAttribute \<noteq> VolumeTopologyRegion"
  using context_keys_distinct by (simp_all only: distinct.simps list.set insert_iff not_False_eq_True de_Morgan_disj)

end
