(* ===== verification/Luks.thy ===== *)
theory Luks
  imports Host_Interfaces Driver_Types
begin

text \<open>
  \<open>internal/driver/luks.go\<close>: the LUKS context of a volume, formatting, opening and closing the
  encrypted device, and the check whether a device already holds data.

  A deferred \<open>Free\<close> runs on every return after the \<open>defer\<close> statement; it is written where those
  returns are. Go's integer division truncates toward zero (\<open>go_div\<close>).
\<close>

section \<open>Definitions\<close>

record LuksContext =
  EncryptionEnabled :: bool
  EncryptionKey :: string
  EncryptionCipher :: string
  EncryptionKeySize :: string
  LC_VolumeName :: string
  LC_VolumeLifecycle :: VolumeLifecycle

text \<open>\<open>errors.Join(err, e)\<close> with a possibly nil first error.\<close>

definition errors_Join :: "error option \<Rightarrow> error \<Rightarrow> error" where
  "errors_Join err e = JoinError (case err of None \<Rightarrow> [e] | Some e0 \<Rightarrow> [e0, e])"

definition LuksContext_validate :: "LuksContext \<Rightarrow> error option" where
  "LuksContext_validate ctx =
     (if \<not> EncryptionEnabled ctx then None
      else
        let err = None;
            err = (if LC_VolumeName ctx = [] then Some (errors_Join err (GoError ''no volume name provided'' [])) else err);
            err = (if EncryptionKey ctx = [] then Some (errors_Join err (GoError ''no encryption key provided'' [])) else err);
            err = (if EncryptionCipher ctx = [] then Some (errors_Join err (GoError ''no encryption cipher provided'' [])) else err);
            err = (if EncryptionKeySize ctx = [] then Some (errors_Join err (GoError ''no encryption key size provided'' [])) else err)
        in err)"

record 'w Encryption =
  Enc_Exec :: "'w Executor"
  Enc_FileSystem :: "'w FileSystem"
  Enc_CryptSetup :: "'w CryptLib"

definition NewLuksEncryption :: "'w Executor \<Rightarrow> 'w FileSystem \<Rightarrow> 'w CryptLib \<Rightarrow> 'w Encryption" where
  "NewLuksEncryption executor fileSystem cryptSetup =
     \<lparr>Enc_Exec = executor, Enc_FileSystem = fileSystem, Enc_CryptSetup = cryptSetup\<rparr>"

definition getLuksContext :: "(string \<rightharpoonup> string) \<Rightarrow> (string \<rightharpoonup> string) \<Rightarrow> VolumeLifecycle \<Rightarrow> LuksContext" where
  "getLuksContext secrets volContext lifecycle =
     (if mget volContext LuksEncryptedAttribute \<noteq> True_str then
        \<lparr>EncryptionEnabled = False, EncryptionKey = [], EncryptionCipher = [], EncryptionKeySize = [],
         LC_VolumeName = [], LC_VolumeLifecycle = lifecycle\<rparr>
      else
        \<lparr>EncryptionEnabled = True,
         EncryptionKey = mget secrets LuksKeyAttribute,
         EncryptionCipher = mget volContext LuksCipherAttribute,
         EncryptionKeySize = mget volContext LuksKeySizeAttribute,
         LC_VolumeName = mget volContext PublishInfoVolumeName,
         LC_VolumeLifecycle = lifecycle\<rparr>)"

definition go_div :: "int \<Rightarrow> int \<Rightarrow> int" where
  "go_div a b = (if a < 0 then - ((- a) div b) else a div b)"

definition luksFormat :: "'w Encryption \<Rightarrow> LuksContext \<Rightarrow> string \<Rightarrow> ('w world, error + string) prog" where
  "luksFormat e luksCtx source =
     (let devicePath = ''/dev/mapper/'' @ LC_VolumeName luksCtx; crypt = Enc_CryptSetup e
      in case Atoi (EncryptionKeySize luksCtx) of
           Inl err \<Rightarrow> ret (Inl (GoError ''keysize str to int coversion: %w''
                       [ArgWrap (NumError (EncryptionKeySize luksCtx) err)]))
         | Inr keySize \<Rightarrow>
             (let cipherString = SplitN2 CHR ''-'' (EncryptionCipher luksCtx)
              in if length cipherString < 2 then panic
                 else
                   let genericParams =
                         \<lparr>Cipher = cipherString ! 0, CipherMode = cipherString ! 1,
                          VolumeKey = EncryptionKey luksCtx, VolumeKeySize = go_div keySize 8\<rparr>
                   in andThen (NewLuksDevice crypt source) (\<lambda>r.
                      case r of
                        Inl err \<Rightarrow> ret (Inl (GoError ''initializing luks device to format: %w'' [ArgWrap err]))
                      | Inr dev \<Rightarrow>
                          andThen (call (Format_dev crypt (LD_Device dev) 512 genericParams)) (\<lambda>err.
                          case err of
                            Some x \<Rightarrow> ret (Inl (GoError ''formatting luks device: %w'' [ArgWrap x]))
                          | None \<Rightarrow>
                              andThen (call (KeyslotAddByVolumeKey_dev crypt (LD_Device dev) 0 [] (EncryptionKey luksCtx))) (\<lambda>err.
                              case err of
                                Some x \<Rightarrow> ret (Inl (GoError ''adding keysot by volumekey: %w'' [ArgWrap x]))
                              | None \<Rightarrow>
                                  andThen (call (ActivateByPassphrase_dev crypt (LD_Device dev) (LC_VolumeName luksCtx) 0
                                    (EncryptionKey luksCtx) 0)) (\<lambda>err.
                                  andThen (call (Free_dev crypt (LD_Device dev))) (\<lambda>freed.
                                  case err of
                                    Some x \<Rightarrow> ret (Inl (GoError ''activating %s luks device %s volumekey %s: %w''
                                                [ArgStr (LD_Identifier dev), ArgStr (LC_VolumeName luksCtx),
                                                 ArgStr (EncryptionKey luksCtx), ArgWrap x]))
                                  | None \<Rightarrow> ret (Inr devicePath))))))))"

definition luksOpen :: "'w Encryption \<Rightarrow> LuksContext \<Rightarrow> string \<Rightarrow> ('w world, error + string) prog" where
  "luksOpen e luksCtx source =
     (let crypt = Enc_CryptSetup e
      in andThen (NewLuksDevice crypt source) (\<lambda>r.
         case r of
           Inl err \<Rightarrow> ret (Inl (GoError ''initializing luks device to open: %w'' [ArgWrap err]))
         | Inr dev \<Rightarrow>
             andThen (call (Load_dev crypt (LD_Device dev) 512)) (\<lambda>err.
             case err of
               Some x \<Rightarrow>
                 andThen (call (Free_dev crypt (LD_Device dev))) (\<lambda>freed.
                 ret (Inl (GoError ''Loading %s luks device %s volumekey %s: %w''
                        [ArgStr (LD_Identifier dev), ArgStr (LC_VolumeName luksCtx),
                         ArgStr (EncryptionKey luksCtx), ArgWrap x])))
             | None \<Rightarrow>
                 andThen (call (ActivateByPassphrase_dev crypt (LD_Device dev) (LC_VolumeName luksCtx) 0
                   (EncryptionKey luksCtx) 0)) (\<lambda>err.
                 andThen (call (Free_dev crypt (LD_Device dev))) (\<lambda>freed.
                 case err of
                   Some x \<Rightarrow>
                     if as_crypt_code x = Some (- 17) then ret (Inr (''/dev/mapper/'' @ LC_VolumeName luksCtx))
                     else ret (Inl (GoError ''activating %s luks device %s volumekey %s: %w''
                            [ArgStr (LD_Identifier dev), ArgStr (LC_VolumeName luksCtx),
                             ArgStr (EncryptionKey luksCtx), ArgWrap x]))
                 | None \<Rightarrow> ret (Inr (''/dev/mapper/'' @ LC_VolumeName luksCtx)))))))"

definition luksClose :: "'w Encryption \<Rightarrow> string \<Rightarrow> ('w world, error option) prog" where
  "luksClose e volumeName =
     (let crypt = Enc_CryptSetup e
      in andThen (NewLuksDeviceByName crypt volumeName) (\<lambda>r.
         case r of
           Inl err \<Rightarrow> ret None
         | Inr dev \<Rightarrow>
             andThen (call (Deactivate_dev crypt (LD_Device dev) volumeName)) (\<lambda>err.
             case err of
               Some x \<Rightarrow> ret (Some (GoError ''deactivating %s luks device: %w'' [ArgStr volumeName, ArgWrap x]))
             | None \<Rightarrow>
                 andThen (call (Free_dev crypt (LD_Device dev))) (\<lambda>freed.
                 if \<not> freed then ret (Some (GoError ''could not release/free the luks device'' []))
                 else ret None))))"

definition blkidValid :: "'w Encryption \<Rightarrow> string \<Rightarrow> ('w world, error + bool) prog" where
  "blkidValid e source =
     (if source = [] then ret (Inl (GoError ''invalid source'' []))
      else
        andThen (call (LookPath_x (Enc_Exec e) ''blkid'')) (\<lambda>err.
        case err of
          Some x \<Rightarrow>
            if errors_Is (Some x) ExecErrNotFound
            then ret (Inl (GoError ''%q executable invalid'' [ArgStr ''blkid'']))
            else ret (Inl x)
        | None \<Rightarrow>
            andThen (call (Run_x (Enc_Exec e) ''blkid'' [source])) (\<lambda>err.
            case err of
              Some x \<Rightarrow>
                (case as_exit_status x of
                   None \<Rightarrow> ret (Inl (GoError ''checking blkdid failed: %w cmd: %q, args: %q''
                             [ArgWrap x, ArgStr ''blkid'', ArgStrs [source]]))
                 | Some exitCode \<Rightarrow>
                     if exitCode = 2 then ret (Inr False)
                     else ret (Inl (GoError ''checking blkdid failed'' [])))
            | None \<Rightarrow> ret (Inr True))))"

section \<open>Facts\<close>

lemma LuksContext_validate_None:
  "LuksContext_validate ctx = None \<longleftrightarrow>
     (EncryptionEnabled ctx \<longrightarrow> LC_VolumeName ctx \<noteq> [] \<and> EncryptionKey ctx \<noteq> [] \<and>
        EncryptionCipher ctx \<noteq> [] \<and> EncryptionKeySize ctx \<noteq> [])"
  by (simp add: LuksContext_validate_def Let_def)

lemma getLuksContext_enabled:
  "EncryptionEnabled (getLuksContext secrets c l) \<longleftrightarrow> mget c LuksEncryptedAttribute = True_str"
  by (simp add: getLuksContext_def)

lemma go_div_8: "0 \<le> k \<Longrightarrow> go_div k 8 = k div 8" "go_div (- k) 8 = - go_div k 8"
  by (auto simp: go_div_def)

lemma quiet_luks:
  "keeps same_metrics (luksFormat e ctx src)" "keeps same_metrics (luksOpen e ctx src)"
  "keeps same_metrics (luksClose e nm)" "keeps same_metrics (blkidValid e src)"
  unfolding luksFormat_def luksOpen_def luksClose_def blkidValid_def
  by (intro quiet_intros quiet_CryptSetup)+

end
