(* ===== verification/Go_Path.thy ===== *)
theory Go_Path
  imports Go_Strings
begin

text \<open>
  \<open>path.Clean\<close>, \<open>path.Join\<close> and \<open>filepath.Dir\<close> of the standard library on Unix paths, as far
  as the driver uses them: lexical clean-up of a path, element by element.
\<close>

section \<open>Definitions\<close>

text \<open>One element: empty and \<open>"."\<close> vanish, \<open>".."\<close> takes back the element before it. The
  elements kept so far are in reverse order.\<close>

definition clean_step :: "bool \<Rightarrow> string \<Rightarrow> string list \<Rightarrow> string list" where
  "clean_step rooted e kept =
     (if e = [] \<or> e = ''.'' then kept
      else if e = ''..'' then
        (case kept of
           [] \<Rightarrow> if rooted then [] else [e]
         | k # ks \<Rightarrow> if k = ''..'' then e # kept else ks)
      else e # kept)"

definition Clean :: "string \<Rightarrow> string" where
  "Clean p =
     (if p = [] then ''.''
      else
        let rooted = is_prefix ''/'' p;
            kept = rev (fold (clean_step rooted) (Split CHR ''/'' p) []);
            body = join_parts CHR ''/'' kept
        in if rooted then CHR ''/'' # body
           else if kept = [] then ''.'' else body)"

definition Join2 :: "string \<Rightarrow> string \<Rightarrow> string" where
  "Join2 a b =
     (let parts = filter (\<lambda>e. e \<noteq> []) [a, b]
      in if parts = [] then [] else Clean (join_parts CHR ''/'' parts))"

text \<open>\<open>path[:i+1]\<close> for the last separator at \<open>i\<close>; nothing when there is none.\<close>

definition up_to_last_slash :: "string \<Rightarrow> string" where
  "up_to_last_slash p = rev (dropWhile (\<lambda>c. c \<noteq> CHR ''/'') (rev p))"

definition Dir :: "string \<Rightarrow> string" where
  "Dir p = Clean (up_to_last_slash p)"

section \<open>Facts\<close>

lemma Split_app: "sep \<notin> set b \<Longrightarrow> Split sep (a @ sep # b) = Split sep a @ [b]"
proof (induction a)
  case Nil
  have "Split sep b = [b]" using Nil by (induction b) auto
  then show ?case by simp
next
  case (Cons c a)
  obtain p ps where "Split sep a = p # ps"
    using Split_nonempty [of sep a] by (cases "Split sep a") auto
  with Cons show ?case by auto
qed

lemma clean_step_plain: "e \<noteq> [] \<Longrightarrow> e \<noteq> ''.'' \<Longrightarrow> e \<noteq> ''..'' \<Longrightarrow> clean_step r e kept = e # kept"
  by (simp add: clean_step_def)

text \<open>A name without a separator, appended to a clean directory, stays as it is.\<close>

lemma Join2_by_id:
  assumes "CHR ''/'' \<notin> set n" and "n \<noteq> []" "n \<noteq> ''.''" "n \<noteq> ''..''"
  shows "Join2 ''/dev/disk/by-id/'' n = ''/dev/disk/by-id/'' @ n"
proof -
  have split: "Split CHR ''/'' (''/dev/disk/by-id/'' @ CHR ''/'' # n) = [[], ''dev'', ''disk'', ''by-id'', [], n]"
    using Split_app [OF assms(1), of "''/dev/disk/by-id/''"] by simp
  have "clean_step True n kept = n # kept" for kept
    using assms by (simp add: clean_step_plain)
  then have "rev (fold (clean_step True) [[], ''dev'', ''disk'', ''by-id'', [], n] []) = [''dev'', ''disk'', ''by-id'', n]"
    by (simp add: clean_step_def)
  then have "Clean (''/dev/disk/by-id/'' @ CHR ''/'' # n) = ''/dev/disk/by-id/'' @ n"
    unfolding Clean_def Let_def split by simp
  then show ?thesis using assms(2) by (simp add: Join2_def)
qed

lemma clean_step_kept: "[] \<notin> set ks \<Longrightarrow> [] \<notin> set (clean_step r e ks)"
  by (cases ks) (simp_all add: clean_step_def eq_commute [of "[]"])

lemma fold_clean_kept: "[] \<notin> set ks \<Longrightarrow> [] \<notin> set (fold (clean_step r) es ks)"
  by (induction es arbitrary: ks) (simp_all add: clean_step_kept)

lemma Clean_nonempty: "Clean p \<noteq> []"
proof -
  have "join_parts CHR ''/'' (k # ks) \<noteq> []" if "k \<noteq> []" for k ks
    using that by (cases ks) simp_all
  then have "join_parts CHR ''/'' ks \<noteq> []" if "ks \<noteq> []" "[] \<notin> set ks" for ks
    using that by (cases ks) auto
  with fold_clean_kept [of "[]"] show ?thesis by (auto simp: Clean_def Let_def)
qed

end
