(* ===== verification/Device_Manager.thy ===== *)
theory Device_Manager
  imports Go_Path Host_Interfaces
begin

text \<open>
  \<open>pkg/device-manager/device.go\<close>: where the block device of a Linode volume may appear, and
  which of these paths exists.

  The interface \<open>DeviceUtils\<close> is a record; \<open>NewDeviceUtils\<close> is its implementation over a file
  system and an executor. The locale \<open>device_utils\<close> is what the node server relies on: a
  verified path is one of the candidates, or none. It is interpreted on \<open>NewDeviceUtils\<close>.
\<close>

section \<open>Definitions\<close>

definition diskByIdPath :: string where
  "diskByIdPath = ''/dev/disk/by-id/''"

definition diskLinodePrefix :: string where
  "diskLinodePrefix = ''linode-''"

definition diskScsiLinodePrefix :: string where
  "diskScsiLinodePrefix = ''scsi-0Linode_Volume_''"

definition diskPartitionSuffix :: string where
  "diskPartitionSuffix = ''-part''"

definition diskSDPath :: string where
  "diskSDPath = ''/dev/sd''"

definition diskSDPattern :: string where
  "diskSDPattern = ''/dev/sd*''"

lemmas disk_name_defs = diskByIdPath_def diskLinodePrefix_def diskScsiLinodePrefix_def
  diskPartitionSuffix_def diskSDPath_def diskSDPattern_def

record 'w DeviceUtils =
  GetDiskByIdPaths_du :: "string \<Rightarrow> string \<Rightarrow> string list"
  VerifyDevicePath_du :: "string list \<Rightarrow> ('w world, error + string) prog"

definition GetDiskByIdPaths :: "string \<Rightarrow> string \<Rightarrow> string list" where
  "GetDiskByIdPaths deviceName partition' =
     (let devicePaths =
        [Join2 diskByIdPath (diskLinodePrefix @ deviceName),
         Join2 diskByIdPath (diskScsiLinodePrefix @ deviceName)]
      in if partition' \<noteq> []
         then map (\<lambda>devicePath. devicePath @ diskPartitionSuffix @ partition') devicePaths
         else devicePaths)"

definition pathExists :: "string \<Rightarrow> 'w FileSystem \<Rightarrow> ('w world, error + bool) prog" where
  "pathExists devicePath fs =
     andThen (call (Stat_fs fs devicePath)) (\<lambda>err.
     case err of
       None \<Rightarrow> ret (Inr True)
     | Some e \<Rightarrow> if IsNotExist_fs fs e then ret (Inr False) else ret (Inl e))"

definition udevadmChangeToDrive :: "string \<Rightarrow> 'w FileSystem \<Rightarrow> 'w Executor \<Rightarrow> ('w world, error option) prog" where
  "udevadmChangeToDrive drivePath fs exec =
     andThen (call (EvalSymlinks_fs fs drivePath)) (\<lambda>r.
     case r of
       Inl err \<Rightarrow> ret (Some (GoError ''eval symlinks %q: %w'' [ArgStr drivePath, ArgWrap err]))
     | Inr drive \<Rightarrow>
         if \<not> Contains drive diskSDPath
         then ret (Some (GoError ''invalid disk %q: path must start with %q'' [ArgStr drive, ArgStr diskSDPattern]))
         else
           andThen (call (CombinedOutput_x exec ''udevadm''
             [''trigger'', ''--action=change'', ''--property-match=DEVNAME='' @ drive])) (\<lambda>(out, err).
           case err of
             Some e \<Rightarrow> ret (Some (GoError ''udevadm trigger failed for %q: %w'' [ArgStr drive, ArgWrap e]))
           | None \<Rightarrow> ret None))"

text \<open>The loop over the drives: the first new drive is triggered and ends the loop.\<close>

fun trigger_first_new :: "string list \<Rightarrow> string set \<Rightarrow> 'w FileSystem \<Rightarrow> 'w Executor \<Rightarrow> ('w world, error option) prog" where
  "trigger_first_new [] sdBeforeSet fs exec = ret None"
| "trigger_first_new (sd # sds) sdBeforeSet fs exec =
     (if sd \<notin> sdBeforeSet then udevadmChangeToDrive sd fs exec
      else trigger_first_new sds sdBeforeSet fs exec)"

definition udevadmChangeToNewDrives :: "string set \<Rightarrow> 'w FileSystem \<Rightarrow> 'w Executor \<Rightarrow> ('w world, error option) prog" where
  "udevadmChangeToNewDrives sdBeforeSet fs exec =
     andThen (call (Glob_fs fs diskSDPattern)) (\<lambda>(sdAfter, err).
     case err of
       Some e \<Rightarrow> ret (Some (GoError (''error filepath.Glob('' @ [CHR 0x22] @ ''%s'' @ [CHR 0x22] @ ''): %w'')
                   [ArgStr diskSDPattern, ArgWrap e]))
     | None \<Rightarrow> trigger_first_new sdAfter sdBeforeSet fs exec)"

fun first_existing :: "string list \<Rightarrow> 'w FileSystem \<Rightarrow> ('w world, error + string) prog" where
  "first_existing [] fs = ret (Inr [])"
| "first_existing (devicePath # devicePaths) fs =
     andThen (pathExists devicePath fs) (\<lambda>r.
     case r of
       Inl err \<Rightarrow> ret (Inl (GoError ''error checking if path exists: %w'' [ArgWrap err]))
     | Inr found \<Rightarrow> if found then ret (Inr devicePath) else first_existing devicePaths fs)"

definition VerifyDevicePath :: "'w FileSystem \<Rightarrow> 'w Executor \<Rightarrow> string list \<Rightarrow> ('w world, error + string) prog" where
  "VerifyDevicePath fs exec devicePaths =
     andThen (call (Glob_fs fs diskSDPattern)) (\<lambda>(sdBefore, globErr).
     andThen (udevadmChangeToNewDrives (set sdBefore) fs exec) (\<lambda>udevErr.
     first_existing devicePaths fs))"

definition NewDeviceUtils :: "'w FileSystem \<Rightarrow> 'w Executor \<Rightarrow> 'w DeviceUtils" where
  "NewDeviceUtils fs exec =
     \<lparr>GetDiskByIdPaths_du = GetDiskByIdPaths, VerifyDevicePath_du = VerifyDevicePath fs exec\<rparr>"

text \<open>The loops' equations between programs, not applied to a state.\<close>

lemma trigger_first_new_eqs:
  "trigger_first_new [] bs fs exec = ret None"
  "trigger_first_new (sd # sds) bs fs exec =
     (if sd \<notin> bs then udevadmChangeToDrive sd fs exec else trigger_first_new sds bs fs exec)"
  by (rule ext, simp)+

lemma first_existing_eqs:
  "first_existing [] fs = ret (Inr [])"
  "first_existing (p # ps) fs =
     andThen (pathExists p fs) (\<lambda>r.
     case r of
       Inl err \<Rightarrow> ret (Inl (GoError ''error checking if path exists: %w'' [ArgWrap err]))
     | Inr found \<Rightarrow> if found then ret (Inr p) else first_existing ps fs)"
  by (rule ext, simp)+

declare trigger_first_new.simps [simp del] first_existing.simps [simp del]

section \<open>Candidate paths\<close>

lemma GetDiskByIdPaths_plain:
  assumes "CHR ''/'' \<notin> set deviceName"
  shows "GetDiskByIdPaths deviceName [] =
    [''/dev/disk/by-id/linode-'' @ deviceName, ''/dev/disk/by-id/scsi-0Linode_Volume_'' @ deviceName]"
  using assms by (simp add: GetDiskByIdPaths_def disk_name_defs Join2_by_id)

lemma GetDiskByIdPaths_nonempty: "[] \<notin> set (GetDiskByIdPaths n p)"
  unfolding GetDiskByIdPaths_def Let_def by (simp add: Join2_def disk_name_defs Clean_nonempty eq_commute [of "[]"])

section \<open>The contract of the node server\<close>

locale device_utils =
  fixes du :: "'w DeviceUtils"
  assumes candidates: "[] \<notin> set (GetDiskByIdPaths_du du name part)"
    and verified: "yields (\<lambda>r. \<forall>p. r = Inr p \<longrightarrow> p = [] \<or> p \<in> set paths) (VerifyDevicePath_du du paths)"
    and no_metrics: "keeps same_metrics (VerifyDevicePath_du du paths)"
begin

lemma verified_nonempty:
  "yields (\<lambda>r. \<forall>p. r = Inr p \<longrightarrow> p \<noteq> [] \<longrightarrow> p \<in> set paths) (VerifyDevicePath_du du paths)"
  using verified [of paths] unfolding yields_def by blast

end

lemma yields_pathExists: "(\<And>r. Q r) \<Longrightarrow> yields Q (pathExists p fs)"
  unfolding pathExists_def by (intro yields_intros yields_call) simp_all

lemma yields_udevadm: "(\<And>r. Q r) \<Longrightarrow> yields Q (udevadmChangeToDrive p fs x)"
  unfolding udevadmChangeToDrive_def by (auto intro!: yields_intros yields_call)

lemma yields_trigger: "(\<And>r. Q r) \<Longrightarrow> yields Q (trigger_first_new sds bs fs x)"
  by (induction sds) (simp_all add: trigger_first_new_eqs yields_ret yields_udevadm)

lemma yields_first_existing:
  "yields (\<lambda>r. \<forall>p. r = Inr p \<longrightarrow> p = [] \<or> p \<in> set paths) (first_existing paths fs)"
proof (induction paths)
  case Nil
  show ?case unfolding first_existing_eqs by (rule yields_ret) simp
next
  case (Cons a paths)
  have "yields (\<lambda>r. \<forall>p. r = Inr p \<longrightarrow> p = [] \<or> p \<in> set (a # paths)) (first_existing paths fs)"
    using Cons.IH unfolding yields_def by fastforce
  then show ?case
    unfolding first_existing_eqs
    by (intro yields_andThen yields_pathExists yields_case_sum yields_if yields_ret) simp_all
qed

lemma quiet_first_existing: "keeps same_metrics (first_existing paths fs)"
proof (induction paths)
  case Nil
  show ?case unfolding first_existing_eqs by (rule quiet.keeps_ret)
next
  case (Cons a paths)
  then show ?case unfolding first_existing_eqs pathExists_def by (intro quiet_intros)
qed

lemma quiet_udevadmChangeToDrive: "keeps same_metrics (udevadmChangeToDrive sd fs x)"
  unfolding udevadmChangeToDrive_def by (intro quiet_intros)

lemma quiet_trigger: "keeps same_metrics (trigger_first_new sds bs fs x)"
proof (induction sds)
  case Nil
  show ?case unfolding trigger_first_new_eqs by (rule quiet.keeps_ret)
next
  case (Cons a sds)
  then show ?case unfolding trigger_first_new_eqs by (intro quiet_intros quiet_udevadmChangeToDrive)
qed

interpretation linode_devices: device_utils "NewDeviceUtils fs exec"
  for fs :: "'w FileSystem" and exec
proof unfold_locales
  fix name part :: string and paths
  show "[] \<notin> set (GetDiskByIdPaths_du (NewDeviceUtils fs exec) name part)"
    by (simp add: NewDeviceUtils_def GetDiskByIdPaths_nonempty)
  show "yields (\<lambda>r. \<forall>p. r = Inr p \<longrightarrow> p = [] \<or> p \<in> set paths) (VerifyDevicePath_du (NewDeviceUtils fs exec) paths)"
    by (auto simp: NewDeviceUtils_def VerifyDevicePath_def udevadmChangeToNewDrives_def
        intro!: yields_intros yields_call yields_trigger yields_first_existing)
  show "keeps same_metrics (VerifyDevicePath_du (NewDeviceUtils fs exec) paths)"
    unfolding NewDeviceUtils_def VerifyDevicePath_def udevadmChangeToNewDrives_def DeviceUtils.simps
    by (intro quiet_intros quiet_trigger quiet_first_existing)
qed

end
