(* ===== verification/Node_Helpers.thy ===== *)
theory Node_Helpers
  imports Luks Device_Manager
begin

text \<open>
  \<open>internal/driver/nodeserver_helpers.go\<close>: validation of the node requests, file system type and
  mount options, the device path, mount points, and the helpers of staging, publishing and
  unstaging. \<open>NodeServer\<close> is the record of \<open>nodeserver.go\<close>; its mutex, which keeps
  the handlers apart, is modelled in \<open>Node_Concurrency\<close>.
\<close>

section \<open>The node server\<close>

record 'w NodeServer =
  ns_driver :: LinodeDriver
  ns_mounter :: "'w Mounter"
  ns_deviceutils :: "'w DeviceUtils"
  ns_client :: "'w LinodeClient"
  ns_metadata :: Metadata
  ns_encrypt :: "'w Encryption"

definition defaultFSType :: string where
  "defaultFSType = ''ext4''"

text \<open>The permission bits \<open>0o755\<close> and \<open>0o660\<close>, and \<open>os.O_CREATE\<close> on Linux.\<close>

definition rwPermission :: nat where
  "rwPermission = 493"

definition ownerGroupReadWritePermissions :: nat where
  "ownerGroupReadWritePermissions = 432"

definition O_CREATE :: nat where
  "O_CREATE = 64"

section \<open>Validation\<close>

definition validateNodeStageVolumeRequest :: "NodeStageVolumeRequest \<Rightarrow> error option" where
  "validateNodeStageVolumeRequest req =
     (if NSR_VolumeId req = [] then Some errNoVolumeID
      else if NSR_StagingTargetPath req = [] then Some errNoStagingTargetPath
      else if NSR_VolumeCapability req = None then Some errNoVolumeCapability
      else None)"

definition validateNodeUnstageVolumeRequest :: "NodeUnstageVolumeRequest \<Rightarrow> error option" where
  "validateNodeUnstageVolumeRequest req =
     (if NUR_VolumeId req = [] then Some errNoVolumeID
      else if NUR_StagingTargetPath req = [] then Some errNoStagingTargetPath
      else None)"

definition validateNodeExpandVolumeRequest :: "NodeExpandVolumeRequest \<Rightarrow> error option" where
  "validateNodeExpandVolumeRequest req =
     (if NER_VolumeId req = [] then Some errNoVolumeID
      else if NER_VolumePath req = [] then Some errNoVolumePath
      else None)"

definition validateNodePublishVolumeRequest :: "NodePublishVolumeRequest \<Rightarrow> error option" where
  "validateNodePublishVolumeRequest req =
     (if NPR_VolumeId req = [] then Some errNoVolumeID
      else if NPR_StagingTargetPath req = [] then Some errNoStagingTargetPath
      else if NPR_TargetPath req = [] then Some errNoTargetPath
      else if NPR_VolumeCapability req = None then Some errNoVolumeCapability
      else None)"

definition validateNodeUnpublishVolumeRequest :: "NodeUnpublishVolumeRequest \<Rightarrow> error option" where
  "validateNodeUnpublishVolumeRequest req =
     (if NUP_VolumeId req = [] then Some errNoVolumeID
      else if NUP_TargetPath req = [] then Some errNoTargetPath
      else None)"

section \<open>File system type and mount options\<close>

text \<open>The getters of a nil capability return nil, like those of one without a mount.\<close>

definition cap_mount :: "VolumeCapability option \<Rightarrow> MountVolume option" where
  "cap_mount c = (case c of None \<Rightarrow> None | Some cap \<Rightarrow> GetMount cap)"

definition cap_block :: "VolumeCapability option \<Rightarrow> bool" where
  "cap_block c = (case c of None \<Rightarrow> False | Some cap \<Rightarrow> GetBlock cap)"

definition getFSTypeAndMountOptions :: "VolumeCapability option \<Rightarrow> string \<times> string list" where
  "getFSTypeAndMountOptions volumeCapability =
     (let (fsType, mountOptions) =
        (case cap_mount volumeCapability of
           None \<Rightarrow> (defaultFSType, [])
         | Some mnt \<Rightarrow> (if FsType mnt \<noteq> [] then FsType mnt else defaultFSType, MountFlags mnt))
      in (fsType, if fsType = ''xfs'' then mountOptions @ [''nouuid''] else mountOptions))"

section \<open>Devices and mount points\<close>

definition findDevicePath :: "'w NodeServer \<Rightarrow> LinodeVolumeKey \<Rightarrow> string \<Rightarrow> ('w world, error + string) prog" where
  "findDevicePath ns key partition' =
     (let deviceName = GetNormalizedLabel key;
          devicePaths = GetDiskByIdPaths_du (ns_deviceutils ns) deviceName partition'
      in andThen (VerifyDevicePath_du (ns_deviceutils ns) devicePaths) (\<lambda>r.
         case r of
           Inl err \<Rightarrow> ret (Inl (errInternal ''Error verifying Linode Volume (%q) is attached: %v''
                       [ArgStr (GetVolumeLabel key), ArgErr err]))
         | Inr devicePath \<Rightarrow>
             if devicePath = []
             then ret (Inl (errInternal ''Unable to find device path out of attempted paths: %v'' [ArgStrs devicePaths]))
             else ret (Inr devicePath)))"

definition ensureMountPoint :: "'w NodeServer \<Rightarrow> string \<Rightarrow> 'w FileSystem \<Rightarrow> ('w world, error + bool) prog" where
  "ensureMountPoint ns path fs =
     andThen (call (IsLikelyNotMountPoint_m (ns_mounter ns) path)) (\<lambda>(notMnt, err).
     case err of
       Some e \<Rightarrow>
         if IsNotExist_fs fs e then
           andThen (call (MkdirAll_fs fs path rwPermission)) (\<lambda>err.
           case err of
             Some e' \<Rightarrow> ret (Inl (errInternal ''Failed to create directory (%q): %v'' [ArgStr path, ArgErr e']))
           | None \<Rightarrow> ret (Inr notMnt))
         else ret (Inl (errInternal ''Unknown error when checking mount point (%q): %v'' [ArgStr path, ArgErr e]))
     | None \<Rightarrow> ret (Inr notMnt))"

definition nodePublishVolumeBlock ::
  "'w NodeServer \<Rightarrow> NodePublishVolumeRequest \<Rightarrow> string list \<Rightarrow> 'w FileSystem \<Rightarrow> ('w world, error + unit) prog" where
  "nodePublishVolumeBlock ns req mountOptions fs =
     (let targetPath = NPR_TargetPath req;
          targetPathDir = Dir targetPath;
          devicePath = mget (NPR_PublishContext req) devicePathKey
      in if devicePath = [] then ret (Inl (errInternal ''devicePath cannot be found'' []))
         else
           andThen (call (MkdirAll_fs fs targetPathDir rwPermission)) (\<lambda>err.
           case err of
             Some e \<Rightarrow> ret (Inl (errInternal ''Failed to create directory %q: %v'' [ArgStr targetPathDir, ArgErr e]))
           | None \<Rightarrow>
               andThen (call (OpenFile_fs fs targetPath O_CREATE ownerGroupReadWritePermissions)) (\<lambda>r.
               case r of
                 Inl e \<Rightarrow>
                   andThen (call (Remove_fs fs targetPath)) (\<lambda>removeErr.
                   if removeErr \<noteq> None
                   then ret (Inl (errInternal ''Failed remove mount target %q: %v'' [ArgStr targetPath, ArgErr e]))
                   else ret (Inl (errInternal ''Failed to create file %s: %v'' [ArgStr targetPath, ArgErr e])))
               | Inr file \<Rightarrow>
                   andThen (call (Mount_m (ns_mounter ns) devicePath targetPath [] mountOptions)) (\<lambda>err.
                   case err of
                     Some e \<Rightarrow>
                       andThen (call (Remove_fs fs targetPath)) (\<lambda>removeErr.
                       andThen (call (Close_fs fs file)) (\<lambda>closed.
                       case removeErr of
                         Some re \<Rightarrow> ret (Inl (errInternal
                           ''Failed to mount %q at %q: %v. Additionally, failed to remove mount target: %v''
                           [ArgStr devicePath, ArgStr targetPath, ArgErr e, ArgErr re]))
                       | None \<Rightarrow> ret (Inl (errInternal ''Failed to mount %q at %q: %v''
                           [ArgStr devicePath, ArgStr targetPath, ArgErr e]))))
                   | None \<Rightarrow>
                       andThen (call (Close_fs fs file)) (\<lambda>closed. ret (Inr ()))))))"

section \<open>Staging\<close>

definition formatLUKSVolume :: "'w NodeServer \<Rightarrow> string \<Rightarrow> LuksContext \<Rightarrow> ('w world, error + string) prog" where
  "formatLUKSVolume ns devicePath luksContext =
     andThen (blkidValid (ns_encrypt ns) devicePath) (\<lambda>r.
     case r of
       Inl err \<Rightarrow> ret (Inl (errInternal ''Failed to validate blkid (%q): %v'' [ArgStr devicePath, ArgErr err]))
     | Inr formatted \<Rightarrow>
         (case LuksContext_validate luksContext of
            Some err \<Rightarrow> ret (Inl (errInternal ''Failed to luks format validation (%q): %v'' [ArgStr devicePath, ArgErr err]))
          | None \<Rightarrow>
              if \<not> formatted then
                andThen (luksFormat (ns_encrypt ns) luksContext devicePath) (\<lambda>r.
                case r of
                  Inl err \<Rightarrow> ret (Inl (errInternal ''Failed to luks format (%q): %v'' [ArgStr devicePath, ArgErr err]))
                | Inr luksSource \<Rightarrow> ret (Inr luksSource))
              else
                andThen (luksOpen (ns_encrypt ns) luksContext devicePath) (\<lambda>r.
                case r of
                  Inl err \<Rightarrow> ret (Inl (errInternal ''Failed to luks open (%q): %v'' [ArgStr devicePath, ArgErr err]))
                | Inr luksSource \<Rightarrow> ret (Inr luksSource))))"

definition mountVolume :: "'w NodeServer \<Rightarrow> string \<Rightarrow> NodeStageVolumeRequest \<Rightarrow> ('w world, error option) prog" where
  "mountVolume ns devicePath req =
     (let stagingTargetPath = NSR_StagingTargetPath req;
          (fsType, mountOptions) = getFSTypeAndMountOptions (NSR_VolumeCapability req);
          luksContext = getLuksContext (NSR_Secrets req) (NSR_VolumeContext req) VolumeLifecycleNodeStageVolume
      in andThen
           (if EncryptionEnabled luksContext then formatLUKSVolume ns devicePath luksContext
            else ret (Inr devicePath)) (\<lambda>r.
         case r of
           Inl err \<Rightarrow> ret (Some err)
         | Inr fmtAndMountSource \<Rightarrow>
             andThen (call (FormatAndMount_m (ns_mounter ns) fmtAndMountSource stagingTargetPath fsType mountOptions)) (\<lambda>err.
             case err of
               Some e \<Rightarrow> ret (Some (errInternal
                 ''Failed to format and mount device from (%q)---(%q) to (%q) with fstype (%q) and options (%q): %v''
                 [ArgStr fmtAndMountSource, ArgStr devicePath, ArgStr stagingTargetPath, ArgStr fsType,
                  ArgStrs mountOptions, ArgErr e]))
             | None \<Rightarrow> ret None)))"

section \<open>Unstaging\<close>

definition getMountSource :: "string \<Rightarrow> error + string" where
  "getMountSource input =
     (let parts = SplitN2 CHR ''-'' input
      in if length parts \<noteq> 2 then Inl (GoError ''invalid input format: %s'' [ArgStr input])
         else Inr (parts ! 1))"

definition closeLuksMountSource :: "'w NodeServer \<Rightarrow> string \<Rightarrow> ('w world, error option) prog" where
  "closeLuksMountSource ns volumeID =
     (case getMountSource volumeID of
        Inl err \<Rightarrow> ret (Some (errInternal ''closeLuksMountSource failed to get mount source %s: %v''
                    [ArgStr volumeID, ArgErr err]))
      | Inr volumeName \<Rightarrow>
          andThen (luksClose (ns_encrypt ns) volumeName) (\<lambda>r.
          case r of
            Some err \<Rightarrow> ret (Some (errInternal ''closeLuksMountSource failed to close luks mount %s: %v''
                         [ArgStr volumeName, ArgErr err]))
          | None \<Rightarrow> ret None))"

section \<open>Facts\<close>

lemma getMountSource_key: "0 \<le> VolumeID k \<Longrightarrow> getMountSource (GetVolumeKey k) = Inr (GetNormalizedLabel k)"
  by (simp add: getMountSource_def GetVolumeKey_def SplitN2_volume_key [simplified] Let_def)

lemma getMountSource_Parse:
  "ParseLinodeVolumeKey s = Inr k \<Longrightarrow> getMountSource s = Inr (Key_Label k)"
  by (auto simp: ParseLinodeVolumeKey_def getMountSource_def Let_def split: if_splits sum.splits)

lemma getFSTypeAndMountOptions_xfs:
  "fst (getFSTypeAndMountOptions c) = ''xfs'' \<Longrightarrow> ''nouuid'' \<in> set (snd (getFSTypeAndMountOptions c))"
  by (simp add: getFSTypeAndMountOptions_def split: prod.splits)

lemma getFSTypeAndMountOptions_nonempty: "fst (getFSTypeAndMountOptions c) \<noteq> []"
  by (auto simp: getFSTypeAndMountOptions_def defaultFSType_def split: option.splits)

lemma quiet_ensureMountPoint: "keeps same_metrics (ensureMountPoint ns p fs)"
  unfolding ensureMountPoint_def by (intro quiet_intros)

lemma quiet_nodePublishVolumeBlock: "keeps same_metrics (nodePublishVolumeBlock ns req opts fs)"
  unfolding nodePublishVolumeBlock_def by (intro quiet_intros)

lemma quiet_mountVolume: "keeps same_metrics (mountVolume ns p req)"
  unfolding mountVolume_def formatLUKSVolume_def by (intro quiet_intros quiet_luks)

lemma quiet_closeLuksMountSource: "keeps same_metrics (closeLuksMountSource ns v)"
  unfolding closeLuksMountSource_def by (intro quiet_intros quiet_luks)

lemma quiet_findDevicePath:
  "(\<And>ps. keeps same_metrics (VerifyDevicePath_du (ns_deviceutils ns) ps)) \<Longrightarrow> keeps same_metrics (findDevicePath ns k p)"
  unfolding findDevicePath_def by (intro quiet_intros)

end
