(* ===== verification/Node_Server.thy ===== *)
theory Node_Server
  imports Node_Helpers
begin

text \<open>
  \<open>internal/driver/nodeserver.go\<close> and \<open>nodeserver_all.go\<close> (with \<open>nodeserver_windows.go\<close>): the RPC
  handlers of the node service.

  The handlers make their own \<open>filesystem.NewFileSystem()\<close>, the operating system's; it is the
  argument \<open>osfs\<close>. \<open>unixStatfs\<close> is an argument of the statistics handler. The mutex of the node
  server is held for the whole of the four stage and publish handlers, so what
  is said here of one handler holds of handlers that run at the same time (\<open>Node_Concurrency\<close>).
\<close>

section \<open>NewNodeServer\<close>

definition NewNodeServer ::
  "LinodeDriver option \<Rightarrow> 'w Mounter option \<Rightarrow> 'w DeviceUtils option \<Rightarrow> 'w LinodeClient option \<Rightarrow> Metadata
     \<Rightarrow> 'w Encryption \<Rightarrow> error + 'w NodeServer" where
  "NewNodeServer linodeDriver mounter deviceUtils client metadata encrypt =
     (case linodeDriver of None \<Rightarrow> Inl (GoError ''linodeDriver is nil'' [])
      | Some d \<Rightarrow>
     (case mounter of None \<Rightarrow> Inl (GoError ''mounter is nil'' [])
      | Some m \<Rightarrow>
     (case deviceUtils of None \<Rightarrow> Inl (GoError ''deviceUtils is nil'' [])
      | Some u \<Rightarrow>
     (case client of None \<Rightarrow> Inl (GoError ''linode client is nil'' [])
      | Some c \<Rightarrow> Inr \<lparr>ns_driver = d, ns_mounter = m, ns_deviceutils = u, ns_client = c,
                       ns_metadata = metadata, ns_encrypt = encrypt\<rparr>))))"

section \<open>NodePublishVolume\<close>

definition NodePublishVolume ::
  "'w NodeServer \<Rightarrow> 'w FileSystem \<Rightarrow> NodePublishVolumeRequest \<Rightarrow> ('w world, error + unit) prog" where
  "NodePublishVolume ns osfs req =
     (case validateNodePublishVolumeRequest req of
        Some err \<Rightarrow> record_return NodePublishTotal NodePublishDuration Failed (Inl err)
      | None \<Rightarrow>
          let options = (if NPR_Readonly req then [''bind'', ''ro''] else [''bind''])
          in if cap_block (NPR_VolumeCapability req) then
               andThen (nodePublishVolumeBlock ns req options osfs) (\<lambda>response.
               andThen (if is_err response then RecordMetrics NodePublishTotal NodePublishDuration Failed else ret ()) (\<lambda>_.
               record_return NodePublishTotal NodePublishDuration Completed response))
             else
               let targetPath = NPR_TargetPath req
               in andThen (ensureMountPoint ns targetPath osfs) (\<lambda>r.
                  case r of
                    Inl err \<Rightarrow> record_return NodePublishTotal NodePublishDuration Failed (Inl err)
                  | Inr notMnt \<Rightarrow>
                      if \<not> notMnt then record_return NodePublishTotal NodePublishDuration Failed (Inr ())
                      else
                        let stagingTargetPath = NPR_StagingTargetPath req
                        in andThen (call (Mount_m (ns_mounter ns) stagingTargetPath targetPath ''ext4'' options)) (\<lambda>err.
                           case err of
                             Some e \<Rightarrow> record_return NodePublishTotal NodePublishDuration Failed
                                         (Inl (errInternal ''NodePublishVolume could not mount %s at %s: %v''
                                           [ArgStr stagingTargetPath, ArgStr targetPath, ArgErr e]))
                           | None \<Rightarrow> record_return NodePublishTotal NodePublishDuration Completed (Inr ()))))"

section \<open>NodeUnpublishVolume\<close>

definition NodeUnpublishVolume ::
  "'w NodeServer \<Rightarrow> NodeUnpublishVolumeRequest \<Rightarrow> ('w world, error + unit) prog" where
  "NodeUnpublishVolume ns req =
     (case validateNodeUnpublishVolumeRequest req of
        Some err \<Rightarrow> record_return NodeUnpublishTotal NodeUnpublishDuration Failed (Inl err)
      | None \<Rightarrow>
          let targetPath = NUP_TargetPath req
          in andThen (call (CleanupMountPoint_m (ns_mounter ns) targetPath True)) (\<lambda>err.
             case err of
               Some e \<Rightarrow> record_return NodeUnpublishTotal NodeUnpublishDuration Failed
                           (Inl (errInternal ''NodeUnpublishVolume could not unmount %s: %v'' [ArgStr targetPath, ArgErr e]))
             | None \<Rightarrow> record_return NodeUnpublishTotal NodeUnpublishDuration Completed (Inr ())))"

section \<open>NodeStageVolume\<close>

definition NodeStageVolume ::
  "'w NodeServer \<Rightarrow> 'w FileSystem \<Rightarrow> NodeStageVolumeRequest \<Rightarrow> ('w world, error + unit) prog" where
  "NodeStageVolume ns osfs req =
     (case validateNodeStageVolumeRequest req of
        Some err \<Rightarrow> record_return NodeStageVolumeTotal NodeStageVolumeDuration Failed (Inl err)
      | None \<Rightarrow>
          (case ParseLinodeVolumeKey (NSR_VolumeId req) of
             Inl err \<Rightarrow> record_return NodeStageVolumeTotal NodeStageVolumeDuration Failed (Inl err)
           | Inr key \<Rightarrow>
               let partition' = (case NSR_VolumeContext req ''partition'' of Some part \<Rightarrow> part | None \<Rightarrow> [])
               in andThen (findDevicePath ns key partition') (\<lambda>r.
                  case r of
                    Inl err \<Rightarrow> record_return NodeStageVolumeTotal NodeStageVolumeDuration Failed (Inl err)
                  | Inr devicePath \<Rightarrow>
                      andThen (ensureMountPoint ns (NSR_StagingTargetPath req) osfs) (\<lambda>r.
                      case r of
                        Inl err \<Rightarrow> record_return NodeStageVolumeTotal NodeStageVolumeDuration Failed (Inl err)
                      | Inr notMnt \<Rightarrow>
                          if \<not> notMnt then record_return NodeStageVolumeTotal NodeStageVolumeDuration Failed (Inr ())
                          else if cap_block (NSR_VolumeCapability req)
                          then record_return NodeStageVolumeTotal NodeStageVolumeDuration Failed (Inr ())
                          else
                            andThen (mountVolume ns devicePath req) (\<lambda>err.
                            case err of
                              Some e \<Rightarrow> record_return NodeStageVolumeTotal NodeStageVolumeDuration Failed (Inl e)
                            | None \<Rightarrow> record_return NodeStageVolumeTotal NodeStageVolumeDuration Completed (Inr ()))))))"

section \<open>NodeUnstageVolume\<close>

definition NodeUnstageVolume ::
  "'w NodeServer \<Rightarrow> NodeUnstageVolumeRequest \<Rightarrow> ('w world, error + unit) prog" where
  "NodeUnstageVolume ns req =
     (case validateNodeUnstageVolumeRequest req of
        Some err \<Rightarrow> record_return NodeUnstageVolumeTotal NodeUnstageVolumeDuration Failed (Inl err)
      | None \<Rightarrow>
          let stagingTargetPath = NUR_StagingTargetPath req; volumeID = NUR_VolumeId req
          in andThen (call (CleanupMountPoint_m (ns_mounter ns) stagingTargetPath True)) (\<lambda>err.
             case err of
               Some e \<Rightarrow> record_return NodeUnstageVolumeTotal NodeUnstageVolumeDuration Failed
                           (Inl (errInternal ''NodeUnstageVolume failed to unmount at path %s: %v''
                             [ArgStr stagingTargetPath, ArgErr e]))
             | None \<Rightarrow>
                 andThen (closeLuksMountSource ns volumeID) (\<lambda>err.
                 case err of
                   Some e \<Rightarrow> record_return NodeUnstageVolumeTotal NodeUnstageVolumeDuration Failed
                               (Inl (GoError ''closing luks to unstage volume %s: %w'' [ArgStr volumeID, ArgWrap e]))
                 | None \<Rightarrow> record_return NodeUnstageVolumeTotal NodeUnstageVolumeDuration Completed (Inr ()))))"

section \<open>NodeExpandVolume\<close>

text \<open>The result is the capacity of the response.\<close>

definition NodeExpandVolume ::
  "'w NodeServer \<Rightarrow> NodeExpandVolumeRequest \<Rightarrow> ('w world, error + int) prog" where
  "NodeExpandVolume ns req =
     (case validateNodeExpandVolumeRequest req of
        Some err \<Rightarrow> record_return NodeExpandTotal NodeExpandDuration Failed (Inl err)
      | None \<Rightarrow>
          (case ParseLinodeVolumeKey (NER_VolumeId req) of
             Inl err \<Rightarrow> record_return NodeExpandTotal NodeExpandDuration Failed
                         (Inl (errNotFound ''volume not found: %v'' [ArgErr err]))
           | Inr key \<Rightarrow>
               andThen (call (ListVolumes_api (ns_client ns)
                 (NewListOptions (ns_client ns) 0 (label_filter (Key_Label key))))) (\<lambda>(volumes, err).
               case err of
                 Some e \<Rightarrow> record_return NodeExpandTotal NodeExpandDuration Failed (Inl (errVolumeNotFound (VolumeID key)))
               | None \<Rightarrow> record_return NodeExpandTotal NodeExpandDuration Completed
                           (Inr (case NER_CapacityRange req of None \<Rightarrow> 0 | Some r \<Rightarrow> RequiredBytes r)))))"

section \<open>NodeGetCapabilities and NodeGetInfo\<close>

definition NodeGetCapabilities :: "'w NodeServer \<Rightarrow> ('w world, error + NodeRPC list) prog" where
  "NodeGetCapabilities ns = ret (Inr (Drv_nscap (ns_driver ns)))"

definition NodeGetInfo :: "'w NodeServer \<Rightarrow> ('w world, error + NodeGetInfoResponse) prog" where
  "NodeGetInfo ns =
     andThen (call (ListInstanceDisks_api (ns_client ns) (Meta_ID (ns_metadata ns)) None)) (\<lambda>(disks, err).
     case err of
       Some e \<Rightarrow> ret (Inl (errInternal ''list instance disks: %v'' [ArgErr e]))
     | None \<Rightarrow>
         ret (Inr \<lparr>GI_NodeId = Itoa (Meta_ID (ns_metadata ns)),
                   GI_MaxVolumesPerNode = maxVolumeAttachments (Meta_Memory (ns_metadata ns)) - int (length disks),
                   GI_AccessibleTopology = [VolumeTopologyRegion \<mapsto> Meta_Region (ns_metadata ns)]\<rparr>))"

section \<open>NodeGetVolumeStats\<close>

text \<open>\<open>unix.Statfs_t\<close> on 64-bit Linux; \<open>Bsize\<close> is signed, the counters are not. A condition's
  message keeps its format and arguments, like that of an error.\<close>

record Statfs =
  Bsize :: "64 word"
  Blocks :: "64 word"
  Bfree :: "64 word"
  Bavail :: "64 word"
  Files :: "64 word"
  Ffree :: "64 word"

record NodeGetVolumeStatsResponse =
  SR_Usage :: "VolumeUsage list"
  SR_Abnormal :: bool
  SR_Message :: "string \<times> arg list"

definition EIO :: error where
  "EIO = Errno 5"

definition ENOENT :: error where
  "ENOENT = Errno 2"

definition volume_usage :: "Statfs \<Rightarrow> VolumeUsage list" where
  "volume_usage st =
     [\<lparr>VU_Available = sint (Bavail st * Bsize st),
       VU_Total = sint (Blocks st * Bsize st),
       VU_Used = sint ((Blocks st - Bfree st) * Bsize st),
       VU_Unit = BYTES\<rparr>,
      \<lparr>VU_Available = sint (Ffree st),
       VU_Total = sint (Files st),
       VU_Used = sint (Files st - Ffree st),
       VU_Unit = INODES\<rparr>]"

definition nodeGetVolumeStats ::
  "(string \<Rightarrow> 'w \<Rightarrow> (Statfs \<times> error option) \<times> 'w) \<Rightarrow> NodeGetVolumeStatsRequest
     \<Rightarrow> ('w world, error + NodeGetVolumeStatsResponse) prog" where
  "nodeGetVolumeStats unixStatfs req =
     (if NGR_VolumeId req = [] \<or> NGR_VolumePath req = []
      then ret (Inl (Status InvalidArgument ''volume ID or path empty'' []))
      else
        andThen (call (unixStatfs (NGR_VolumePath req))) (\<lambda>(statfs, err).
        case err of
          Some e \<Rightarrow>
            if errors_Is (Some e) EIO then
              ret (Inr \<lparr>SR_Usage = [], SR_Abnormal = True, SR_Message = (''failed to get stats: %v'', [ArgErr e])\<rparr>)
            else if errors_Is (Some e) ENOENT then
              ret (Inl (Status NotFound ''volume path not found: %v'' [ArgErr e]))
            else ret (Inl (Status Internal ''failed to get stats: %v'' [ArgErr e]))
        | None \<Rightarrow>
            ret (Inr \<lparr>SR_Usage = volume_usage statfs, SR_Abnormal = False, SR_Message = (''healthy'', [])\<rparr>)))"

definition nodeGetVolumeStats_windows ::
  "NodeGetVolumeStatsRequest \<Rightarrow> ('w world, error + NodeGetVolumeStatsResponse) prog" where
  "nodeGetVolumeStats_windows req =
     ret (Inl (Status Unimplemented ''NodeGetVolumeStats is not yet implemented on Windows'' []))"

definition NodeGetVolumeStats ::
  "(string \<Rightarrow> 'w \<Rightarrow> (Statfs \<times> error option) \<times> 'w) \<Rightarrow> NodeGetVolumeStatsRequest
     \<Rightarrow> ('w world, error + NodeGetVolumeStatsResponse) prog" where
  "NodeGetVolumeStats unixStatfs req = nodeGetVolumeStats unixStatfs req"

section \<open>Outcomes recorded\<close>

lemma NodeUnpublishVolume_records: "records NodeUnpublishTotal NodeUnpublishDuration (NodeUnpublishVolume ns req)"
  unfolding NodeUnpublishVolume_def Let_def by (intro records_intros quiet_intros) simp_all

lemma NodeUnstageVolume_records: "records NodeUnstageVolumeTotal NodeUnstageVolumeDuration (NodeUnstageVolume ns req)"
  unfolding NodeUnstageVolume_def Let_def
  by (intro records_intros quiet_intros quiet_closeLuksMountSource) simp_all

lemma NodeExpandVolume_records: "records NodeExpandTotal NodeExpandDuration (NodeExpandVolume ns req)"
  unfolding NodeExpandVolume_def by (intro records_intros quiet_intros) simp_all

lemma NodeStageVolume_records:
  assumes "ns_deviceutils ns = NewDeviceUtils fs exec"
  shows "records NodeStageVolumeTotal NodeStageVolumeDuration (NodeStageVolume ns osfs req)"
  unfolding NodeStageVolume_def Let_def
  by (intro records_intros quiet_intros quiet_findDevicePath quiet_ensureMountPoint quiet_mountVolume)
    (simp_all add: assms linode_devices.no_metrics)

interpretation unpublish_node_rpc: metered_rpc "NodeUnpublishVolume ns" NodeUnpublishTotal NodeUnpublishDuration
  for ns by unfold_locales (rule NodeUnpublishVolume_records)

interpretation unstage_node_rpc: metered_rpc "NodeUnstageVolume ns" NodeUnstageVolumeTotal NodeUnstageVolumeDuration
  for ns by unfold_locales (rule NodeUnstageVolume_records)

interpretation expand_node_rpc: metered_rpc "NodeExpandVolume ns" NodeExpandTotal NodeExpandDuration
  for ns by unfold_locales (rule NodeExpandVolume_records)

end
