(* ===== verification/Controller_Helper.thy ===== *)
theory Controller_Helper
  imports Driver_Types
begin

text \<open>
  \<open>internal/driver/controllerserver_helper.go\<close>: sizes, request validation, and the steps the
  controller's RPC handlers are composed of, in the order of the source. A method that calls
  the Linode API is a program; one that only computes is a plain function.

  A helper that returns \<open>(T, error)\<close> returns \<open>error + 't\<close>; one that returns \<open>error\<close> alone
  returns \<open>error option\<close>. A pointer the source reads through without a check is read with
  \<open>deref\<close>, so a nil pointer there is a panic.

  The lemmas after the definitions say what each helper computes: on sizes (bounds, rounding,
  what an accepted capacity range gives), on capabilities and attachment limits, and that the
  helpers leave the metrics alone.
\<close>

section \<open>Sizes\<close>

definition MinVolumeSizeBytes :: int where
  "MinVolumeSizeBytes = push_bit 30 10"

definition bytesToGB :: "int \<Rightarrow> int" where
  "bytesToGB numBytes = drop_bit 30 numBytes"

definition gbToBytes :: "int \<Rightarrow> int" where
  "gbToBytes gb = int64_wrap (push_bit 30 gb)"

text \<open>\<open>time.Duration\<close> counts nanoseconds; \<open>Truncate(time.Second).Seconds()\<close> gives whole seconds.\<close>

definition time_Second :: int where
  "time_Second = 1000000000"

definition WaitTimeout :: int where
  "WaitTimeout = 5 * (60 * time_Second)"

definition CloneTimeout :: int where
  "CloneTimeout = 15 * (60 * time_Second)"

definition waitTimeout :: int where
  "waitTimeout = (WaitTimeout - WaitTimeout mod time_Second) div time_Second"

definition cloneTimeout :: int where
  "cloneTimeout = (CloneTimeout - CloneTimeout mod time_Second) div time_Second"

record VolumeParams =
  VP_VolumeName :: string
  VP_TargetSizeGB :: int
  VP_Size :: int
  VP_EncryptionStatus :: string
  VP_Region :: string

section \<open>Attachment capacity\<close>

definition maxAllowedVolumeAttachments ::
  "'w ControllerServer \<Rightarrow> Instance option \<Rightarrow> ('w world, error + int) prog" where
  "maxAllowedVolumeAttachments cs inst =
     (case inst of
        None \<Rightarrow> ret (Inl errNilInstance)
      | Some i \<Rightarrow>
          (case Inst_Specs i of
             None \<Rightarrow> ret (Inl errNilInstance)
           | Some specs \<Rightarrow>
               andThen (call (ListInstanceDisks_api (cs_client cs) (Inst_ID i) None)) (\<lambda>(disks, err).
               case err of
                 Some e \<Rightarrow> ret (Inl (errInternal ''list instance disks: %v'' [ArgErr e]))
               | None \<Rightarrow>
                   let memBytes = push_bit 20 (word_of_int (Spec_Memory specs) :: 64 word)
                   in ret (Inr (maxVolumeAttachments memBytes - int (length disks))))))"

definition canAttach :: "'w ControllerServer \<Rightarrow> Instance option \<Rightarrow> ('w world, error + bool) prog" where
  "canAttach cs inst =
     deref inst (\<lambda>i.
     andThen (maxAllowedVolumeAttachments cs inst) (\<lambda>r.
     case r of
       Inl err \<Rightarrow> ret (Inl err)
     | Inr limit \<Rightarrow>
         andThen (call (ListInstanceVolumes_api (cs_client cs) (Inst_ID i) None)) (\<lambda>(volumes, err).
         case err of
           Some e \<Rightarrow> ret (Inl (errInternal ''list instance volumes: %v'' [ArgErr e]))
         | None \<Rightarrow> ret (Inr (int (length volumes) < limit)))))"

section \<open>Content source and creation\<close>

definition getRegionFromTopology :: "TopologyRequirement \<Rightarrow> string" where
  "getRegionFromTopology requirements =
     (let topologies = Preferred requirements;
          topologies = (if length topologies = 0 then Requisite requirements else topologies)
      in if 0 < length topologies then
           (case (topologies ! 0) VolumeTopologyRegion of Some val \<Rightarrow> val | None \<Rightarrow> [])
         else [])"

definition getContentSourceVolume ::
  "'w ControllerServer \<Rightarrow> VolumeContentSource option \<Rightarrow> TopologyRequirement option
     \<Rightarrow> ('w world, error + LinodeVolumeKey option) prog" where
  "getContentSourceVolume cs contentSource accessibilityRequirements =
     (case contentSource of
        None \<Rightarrow> ret (Inr None)
      | Some (CS_Snapshot snap) \<Rightarrow> ret (Inl errUnsupportedVolumeContentSource)
      | Some CS_Unset \<Rightarrow> ret (Inl errUnsupportedVolumeContentSource)
      | Some (CS_Volume sourceVolume) \<Rightarrow>
          (case sourceVolume of
             None \<Rightarrow> ret (Inl errNoSourceVolume)
           | Some volumeId \<Rightarrow>
               (case ParseLinodeVolumeKey volumeId of
                  Inl err \<Rightarrow> ret (Inl (errInternal ''parse volume info from content source: %v'' [ArgErr err]))
                | Inr volKey \<Rightarrow>
                    andThen (call (GetVolume_api (cs_client cs) (VolumeID volKey))) (\<lambda>(volumeData, err).
                    case err of
                      Some e \<Rightarrow> ret (Inl (errInternal ''get volume %d: %v'' [ArgInt (VolumeID volKey), ArgErr e]))
                    | None \<Rightarrow>
                        (case volumeData of
                           None \<Rightarrow> ret (Inl (errInternal ''source volume *linodego.Volume is nil'' []))
                         | Some vol \<Rightarrow>
                             let requiredRegion =
                                   (case accessibilityRequirements of
                                      None \<Rightarrow> Meta_Region (cs_metadata cs)
                                    | Some reqs \<Rightarrow>
                                        let topologyRegion = getRegionFromTopology reqs
                                        in if topologyRegion \<noteq> [] then topologyRegion
                                           else Meta_Region (cs_metadata cs))
                             in if Vol_Region vol \<noteq> requiredRegion
                                then ret (Inl (errRegionMismatch (Vol_Region vol) requiredRegion))
                                else ret (Inr (Some volKey)))))))"

definition createLinodeVolume ::
  "'w ControllerServer \<Rightarrow> string \<Rightarrow> string \<Rightarrow> string \<Rightarrow> int \<Rightarrow> string
     \<Rightarrow> ('w world, error + Volume option) prog" where
  "createLinodeVolume cs label tags encryptionStatus sizeGB region =
     (let volumeReq = \<lparr>VCO_Region = region, VCO_Label = label, VCO_Size = sizeGB,
                       VCO_Encryption = encryptionStatus, VCO_Tags = []\<rparr>;
          volumeReq = (if tags \<noteq> [] then volumeReq\<lparr>VCO_Tags := Split CHR '','' tags\<rparr> else volumeReq)
      in andThen (call (CreateVolume_api (cs_client cs) volumeReq)) (\<lambda>(result, err).
         case err of
           Some e \<Rightarrow> ret (Inl (errInternal ''create volume: %v'' [ArgErr e]))
         | None \<Rightarrow> ret (Inr result)))"

definition cloneLinodeVolume ::
  "'w ControllerServer \<Rightarrow> string \<Rightarrow> int \<Rightarrow> ('w world, error + Volume option) prog" where
  "cloneLinodeVolume cs label sourceID =
     andThen (call (CloneVolume_api (cs_client cs) sourceID label)) (\<lambda>(result, err).
     case err of
       Some e \<Rightarrow> ret (Inl (errInternal ''clone volume %d: %v'' [ArgInt sourceID, ArgErr e]))
     | None \<Rightarrow> ret (Inr result))"

definition attemptCreateLinodeVolume ::
  "'w ControllerServer \<Rightarrow> string \<Rightarrow> string \<Rightarrow> string \<Rightarrow> int \<Rightarrow> LinodeVolumeKey option \<Rightarrow> string
     \<Rightarrow> ('w world, error + Volume option) prog" where
  "attemptCreateLinodeVolume cs label tags volumeEncryption sizeGB sourceVolume region =
     (let jsonFilter = label_filter label
      in andThen (call (ListVolumes_api (cs_client cs) (NewListOptions (cs_client cs) 0 jsonFilter))) (\<lambda>(volumes, err).
         case err of
           Some e \<Rightarrow> ret (Inl (errInternal ''list volumes: %v'' [ArgErr e]))
         | None \<Rightarrow>
             if 1 < length volumes
             then ret (Inl (errAlreadyExists ''more than one volume with the label %q exists'' [ArgStr label]))
             else if length volumes = 1 then ret (Inr (Some (volumes ! 0)))
             else (case sourceVolume of
                     Some src \<Rightarrow> cloneLinodeVolume cs label (VolumeID src)
                   | None \<Rightarrow> createLinodeVolume cs label tags volumeEncryption sizeGB region)))"

fun has_capability :: "string list \<Rightarrow> string \<Rightarrow> bool" where
  "has_capability [] target = False"
| "has_capability (capability # rest) target = (if capability = target then True else has_capability rest target)"

definition isEncryptionSupported :: "'w ControllerServer \<Rightarrow> string \<Rightarrow> ('w world, error + bool) prog" where
  "isEncryptionSupported cs region =
     andThen (call (GetRegion_api (cs_client cs) region)) (\<lambda>(regionDetails, err).
     case err of
       Some e \<Rightarrow> ret (Inl (errInternal ''failed to fetch region %s: %v'' [ArgStr region, ArgErr e]))
     | None \<Rightarrow> deref regionDetails (\<lambda>details.
         ret (Inr (has_capability (Region_Capabilities details) ''Block Storage Encryption''))))"

section \<open>Requested size\<close>

definition adjustToMinimumSize :: "int \<Rightarrow> int" where
  "adjustToMinimumSize sz = (if sz < MinVolumeSizeBytes then MinVolumeSizeBytes else sz)"

definition determineOptimalSize :: "int \<Rightarrow> int \<Rightarrow> int" where
  "determineOptimalSize reqSize maxSize = (if reqSize = 0 \<or> reqSize < maxSize then maxSize else reqSize)"

definition getRequestCapacitySize :: "CapacityRange option \<Rightarrow> error + int" where
  "getRequestCapacitySize capRange =
     (case capRange of
        None \<Rightarrow> Inr MinVolumeSizeBytes
      | Some r \<Rightarrow>
          let reqSize = RequiredBytes r; maxSize = LimitBytes r
          in if reqSize = 0 \<and> maxSize = 0
             then Inl (GoError ''either RequiredBytes or LimitBytes must be set'' [])
             else if reqSize < 0 \<or> maxSize < 0
             then Inl (GoError ''RequiredBytes and LimitBytes must not be negative'' [])
             else if maxSize = 0 then Inr (adjustToMinimumSize reqSize)
             else if maxSize < MinVolumeSizeBytes
             then Inl (GoError ''limit bytes %v is less than minimum allowed bytes %v''
                         [ArgInt maxSize, ArgInt MinVolumeSizeBytes])
             else Inr (determineOptimalSize reqSize maxSize))"

section \<open>Validation and preparation of a CreateVolume request\<close>

fun validVolumeCapabilities :: "VolumeCapability option list \<Rightarrow> bool" where
  "validVolumeCapabilities [] = True"
| "validVolumeCapabilities (cap # caps) =
     (case cap of
        None \<Rightarrow> False
      | Some c \<Rightarrow>
          (case Cap_AccessMode c of
             None \<Rightarrow> False
           | Some accMode \<Rightarrow>
               if accMode \<noteq> SINGLE_NODE_WRITER then False else validVolumeCapabilities caps))"

definition validateCreateVolumeRequest :: "CreateVolumeRequest \<Rightarrow> error option" where
  "validateCreateVolumeRequest req =
     (if CVR_Name req = [] then Some errNoVolumeName
      else let volCaps = CVR_VolumeCapabilities req in
        if length volCaps = 0 then Some errNoVolumeCapabilities
        else if \<not> validVolumeCapabilities volCaps then Some (errInvalidVolumeCapability volCaps)
        else None)"

definition prepareVolumeParams ::
  "'w ControllerServer \<Rightarrow> CreateVolumeRequest \<Rightarrow> ('w world, error + VolumeParams) prog" where
  "prepareVolumeParams cs req =
     (case getRequestCapacitySize (CVR_CapacityRange req) of
        Inl err \<Rightarrow> ret (Inl err)
      | Inr sz \<Rightarrow>
          let region =
                (case CVR_AccessibilityRequirements req of
                   None \<Rightarrow> Meta_Region (cs_metadata cs)
                 | Some reqs \<Rightarrow>
                     let topologyRegion = getRegionFromTopology reqs
                     in if topologyRegion \<noteq> [] then topologyRegion else Meta_Region (cs_metadata cs));
              preKey = CreateLinodeVolumeKey 0 (CVR_Name req);
              volumeName = GetNormalizedLabelWithPrefix preKey (Drv_volumeLabelPrefix (cs_driver cs));
              targetSizeGB = bytesToGB sz;
              params = (\<lambda>encryptionStatus.
                \<lparr>VP_VolumeName = volumeName, VP_TargetSizeGB = targetSizeGB, VP_Size = sz,
                 VP_EncryptionStatus = encryptionStatus, VP_Region = region\<rparr>)
          in if mget (CVR_Parameters req) VolumeEncryption = True_str then
               andThen (isEncryptionSupported cs region) (\<lambda>r.
               case r of
                 Inl err \<Rightarrow> ret (Inl err)
               | Inr supported \<Rightarrow>
                   if \<not> supported
                   then ret (Inl (errInternal ''Volume encryption is not supported in the %s region'' [ArgStr region]))
                   else ret (Inr (params ''enabled'')))
             else ret (Inr (params ''disabled'')))"

definition createVolumeContext :: "CreateVolumeRequest \<Rightarrow> Volume \<Rightarrow> (string \<rightharpoonup> string)" where
  "createVolumeContext req vol =
     (let volumeContext = Map.empty;
          volumeContext =
            (if mget (CVR_Parameters req) LuksEncryptedAttribute = True_str then
               volumeContext(LuksEncryptedAttribute \<mapsto> True_str,
                 PublishInfoVolumeName \<mapsto> CVR_Name req,
                 LuksCipherAttribute \<mapsto> mget (CVR_Parameters req) LuksCipherAttribute,
                 LuksKeySizeAttribute \<mapsto> mget (CVR_Parameters req) LuksKeySizeAttribute)
             else volumeContext)
      in volumeContext(VolumeTopologyRegion \<mapsto> Vol_Region vol))"

definition createAndWaitForVolume ::
  "'w ControllerServer \<Rightarrow> string \<Rightarrow> (string \<rightharpoonup> string) \<Rightarrow> string \<Rightarrow> int \<Rightarrow> LinodeVolumeKey option \<Rightarrow> string
     \<Rightarrow> ('w world, error + Volume) prog" where
  "createAndWaitForVolume cs name parameters encryptionStatus sizeGB sourceInfo region =
     andThen (attemptCreateLinodeVolume cs name (mget parameters VolumeTags) encryptionStatus sizeGB sourceInfo region) (\<lambda>r.
     case r of
       Inl err \<Rightarrow> ret (Inl err)
     | Inr created \<Rightarrow> deref created (\<lambda>vol.
         if Vol_Size vol \<noteq> sizeGB \<and> sourceInfo = None
         then ret (Inl (errAlreadyExists ''volume %d already exists with size %d''
                          [ArgInt (Vol_ID vol), ArgInt (Vol_Size vol)]))
         else
           let statusPollTimeout = (if sourceInfo \<noteq> None then cloneTimeout else waitTimeout)
           in andThen (call (WaitForVolumeStatus_api (cs_client cs) (Vol_ID vol) VolumeActive statusPollTimeout)) (\<lambda>(waited, err).
              case err of
                Some e \<Rightarrow> deref waited (\<lambda>v.
                  ret (Inl (errInternal ''Timed out waiting for volume %d to be active: %v'' [ArgInt (Vol_ID v), ArgErr e])))
              | None \<Rightarrow> deref waited (\<lambda>v. ret (Inr v)))))"

definition source_volume_id :: "VolumeContentSource option \<Rightarrow> string" where
  "source_volume_id contentSource =
     (case contentSource of Some (CS_Volume (Some volumeId)) \<Rightarrow> volumeId | _ \<Rightarrow> [])"

definition prepareCreateVolumeResponse ::
  "Volume \<Rightarrow> int \<Rightarrow> (string \<rightharpoonup> string) \<Rightarrow> LinodeVolumeKey option \<Rightarrow> VolumeContentSource option \<Rightarrow> CSIVolume" where
  "prepareCreateVolumeResponse vol sz volContext sourceInfo contentSource =
     (let key = CreateLinodeVolumeKey (Vol_ID vol) (Vol_Label vol);
          resp = \<lparr>CV_VolumeId = GetVolumeKey key, CV_CapacityBytes = sz,
                  CV_AccessibleTopology = [[VolumeTopologyRegion \<mapsto> Vol_Region vol]],
                  CV_VolumeContext = volContext, CV_ContentSource = None\<rparr>
      in if sourceInfo \<noteq> None
         then resp\<lparr>CV_ContentSource := Some (CS_Volume (Some (source_volume_id contentSource)))\<rparr>
         else resp)"

section \<open>Publishing\<close>

definition validateControllerPublishVolumeRequest ::
  "ControllerPublishVolumeRequest \<Rightarrow> error + (int \<times> int)" where
  "validateControllerPublishVolumeRequest req =
     (case NodeIdAsInt ''ControllerPublishVolume'' (CPR_NodeId req) of
        Inl err \<Rightarrow> Inl err
      | Inr linodeID \<Rightarrow>
          (case VolumeIdAsInt ''ControllerPublishVolume'' (CPR_VolumeId req) of
             Inl err \<Rightarrow> Inl err
           | Inr volumeID \<Rightarrow>
               (case CPR_VolumeCapability req of
                  None \<Rightarrow> Inl errNoVolumeCapability
                | Some volCap \<Rightarrow>
                    if \<not> validVolumeCapabilities [Some volCap]
                    then Inl (errInvalidVolumeCapability [Some volCap])
                    else Inr (linodeID, volumeID))))"

definition getAndValidateVolume ::
  "'w ControllerServer \<Rightarrow> int \<Rightarrow> Instance option \<Rightarrow> ('w world, error + string) prog" where
  "getAndValidateVolume cs volumeID inst =
     deref inst (\<lambda>i.
     andThen (call (GetVolume_api (cs_client cs) volumeID)) (\<lambda>(volume, err).
     if IsNotFound (cs_client cs) err then ret (Inl (errVolumeNotFound volumeID))
     else case err of
       Some e \<Rightarrow> ret (Inl (errInternal ''get volume %d: %v'' [ArgInt volumeID, ArgErr e]))
     | None \<Rightarrow> deref volume (\<lambda>vol.
         case Vol_LinodeID vol of
           Some lid \<Rightarrow>
             if lid = Inst_ID i then ret (Inr (Vol_FilesystemPath vol))
             else ret (Inl (errVolumeAttached volumeID (Inst_ID i)))
         | None \<Rightarrow> ret (Inr []))))"

definition getInstance :: "'w ControllerServer \<Rightarrow> int \<Rightarrow> ('w world, error + Instance option) prog" where
  "getInstance cs linodeID =
     andThen (call (GetInstance_api (cs_client cs) linodeID)) (\<lambda>(inst, err).
     if IsNotFound (cs_client cs) err then ret (Inl (errInstanceNotFound linodeID))
     else case err of
       Some e \<Rightarrow> ret (Inl (errInternal ''get linode instance %d: %v'' [ArgInt linodeID, ArgErr e]))
     | None \<Rightarrow> ret (Inr inst))"

definition checkAttachmentCapacity ::
  "'w ControllerServer \<Rightarrow> Instance option \<Rightarrow> ('w world, error option) prog" where
  "checkAttachmentCapacity cs inst =
     deref inst (\<lambda>_.
     andThen (canAttach cs inst) (\<lambda>r.
     case r of
       Inl err \<Rightarrow> ret (Some err)
     | Inr can \<Rightarrow>
         if \<not> can then
           andThen (maxAllowedVolumeAttachments cs inst) (\<lambda>lim.
           case lim of
             Inl err \<Rightarrow>
               if errors_Is (Some err) errNilInstance
               then ret (Some (errInternal ''cannot calculate max volume attachments for a nil instance'' []))
               else ret (Some errMaxAttachments)
           | Inr limit \<Rightarrow> ret (Some (errMaxVolumeAttachments limit)))
         else ret None))"

definition attachVolume :: "'w ControllerServer \<Rightarrow> int \<Rightarrow> int \<Rightarrow> ('w world, error option) prog" where
  "attachVolume cs volumeID linodeID =
     andThen (call (AttachVolume_api (cs_client cs) volumeID
       \<lparr>VAO_LinodeID = linodeID, VAO_PersistAcrossBoots = Some False\<rparr>)) (\<lambda>(vol, err).
     case err of
       Some e \<Rightarrow>
         let code = (case as_linode_message e of
                       Some msg \<Rightarrow> if Contains msg ''is already attached'' then Unavailable else Internal
                     | None \<Rightarrow> Internal)
         in ret (Some (Status code ''attach volume: %v'' [ArgErr e]))
     | None \<Rightarrow> ret None)"

section \<open>Sizes\<close>

lemma MinVolumeSizeBytes_eq: "MinVolumeSizeBytes = 10737418240"
  by (simp add: MinVolumeSizeBytes_def push_bit_eq_mult)

lemma bytesToGB_div: "bytesToGB n = n div 2 ^ 30"
  by (simp add: bytesToGB_def drop_bit_eq_div)

lemma gbToBytes_mult: "0 \<le> gb \<Longrightarrow> gb < 2 ^ 33 \<Longrightarrow> gbToBytes gb = gb * 2 ^ 30"
  unfolding gbToBytes_def push_bit_eq_mult
  by (rule int64_wrap_id) (simp add: is_int64_def)

lemma bytesToGB_range:
  assumes "0 \<le> n" and "is_int64 n"
  shows "0 \<le> bytesToGB n \<and> bytesToGB n < 2 ^ 33"
proof -
  have "n div 2 ^ 30 * 2 ^ 30 + n mod 2 ^ 30 = n" by (rule div_mult_mod_eq)
  moreover have "0 \<le> n mod 2 ^ 30" by simp
  moreover have "n < 2 ^ 33 * 2 ^ 30" using assms(2) by (simp add: is_int64_def)
  ultimately have "n div 2 ^ 30 < 2 ^ 33" by simp
  with assms(1) show ?thesis by (simp add: bytesToGB_div)
qed

lemma gbToBytes_bytesToGB:
  assumes "0 \<le> n" and "is_int64 n"
  shows "gbToBytes (bytesToGB n) = n - n mod 2 ^ 30"
proof -
  have "gbToBytes (bytesToGB n) = bytesToGB n * 2 ^ 30"
    using bytesToGB_range [OF assms] by (simp add: gbToBytes_mult)
  then show ?thesis by (simp add: bytesToGB_div minus_mod_eq_div_mult)
qed

lemma timeouts: "waitTimeout = 300" "cloneTimeout = 900"
  by (simp_all add: waitTimeout_def cloneTimeout_def WaitTimeout_def CloneTimeout_def time_Second_def)

text \<open>Every way an accepted capacity range determines the size.\<close>

lemma getRequestCapacitySize_cases:
  assumes "getRequestCapacitySize cap = Inr sz"
  obtains (default) "cap = None" "sz = MinVolumeSizeBytes"
  | (required) r where "cap = Some r" "LimitBytes r = 0" "0 < RequiredBytes r"
      "sz = max MinVolumeSizeBytes (RequiredBytes r)"
  | (limited) r where "cap = Some r" "MinVolumeSizeBytes \<le> LimitBytes r" "0 \<le> RequiredBytes r"
      "sz = max (LimitBytes r) (RequiredBytes r)"
  using assms that
  by (auto simp: getRequestCapacitySize_def adjustToMinimumSize_def determineOptimalSize_def
      Let_def max_def MinVolumeSizeBytes_eq split: option.splits if_splits)

lemma getRequestCapacitySize_ge_min:
  "getRequestCapacitySize cap = Inr sz \<Longrightarrow> MinVolumeSizeBytes \<le> sz"
  by (erule getRequestCapacitySize_cases) auto

lemma getRequestCapacitySize_ge_required:
  "getRequestCapacitySize (Some r) = Inr sz \<Longrightarrow> RequiredBytes r \<le> sz"
  by (erule getRequestCapacitySize_cases) auto

lemma getRequestCapacitySize_le_limit:
  "getRequestCapacitySize (Some r) = Inr sz \<Longrightarrow> LimitBytes r \<noteq> 0
     \<Longrightarrow> sz \<le> LimitBytes r \<longleftrightarrow> RequiredBytes r \<le> LimitBytes r"
  by (erule getRequestCapacitySize_cases) auto

lemma getRequestCapacitySize_err:
  "is_err (getRequestCapacitySize cap) \<longleftrightarrow>
     (\<exists>r. cap = Some r \<and> (RequiredBytes r = 0 \<and> LimitBytes r = 0 \<or> RequiredBytes r < 0 \<or> LimitBytes r < 0
        \<or> LimitBytes r \<noteq> 0 \<and> LimitBytes r < MinVolumeSizeBytes))"
  by (auto simp: getRequestCapacitySize_def Let_def MinVolumeSizeBytes_eq split: option.splits)

definition is_CapacityRange :: "CapacityRange option \<Rightarrow> bool" where
  "is_CapacityRange cap = (case cap of None \<Rightarrow> True | Some r \<Rightarrow> is_int64 (RequiredBytes r) \<and> is_int64 (LimitBytes r))"

lemma getRequestCapacitySize_int64:
  assumes "getRequestCapacitySize cap = Inr sz" and "is_CapacityRange cap"
  shows "0 \<le> sz" "is_int64 sz"
  using assms
  by (auto elim!: getRequestCapacitySize_cases simp: is_CapacityRange_def MinVolumeSizeBytes_eq is_int64_def)

section \<open>Capabilities and capacity\<close>

lemma validVolumeCapabilities_iff:
  "validVolumeCapabilities caps \<longleftrightarrow>
     (\<forall>cap \<in> set caps. \<exists>c. cap = Some c \<and> Cap_AccessMode c = Some SINGLE_NODE_WRITER)"
  by (induction caps) (auto split: option.splits)

lemma has_capability_iff: "has_capability cs t \<longleftrightarrow> t \<in> set cs"
  by (induction cs) auto

section \<open>Helpers leave the metrics alone\<close>

lemma quiet_maxAllowedVolumeAttachments: "keeps same_metrics (maxAllowedVolumeAttachments cs i)"
  unfolding maxAllowedVolumeAttachments_def by (intro quiet_intros)

lemma quiet_canAttach: "keeps same_metrics (canAttach cs i)"
  unfolding canAttach_def by (intro quiet_intros quiet_maxAllowedVolumeAttachments)

lemma quiet_getContentSourceVolume: "keeps same_metrics (getContentSourceVolume cs src reqs)"
  unfolding getContentSourceVolume_def
  by (cases src; (cases "the src")?) (auto intro!: quiet_intros)

lemma quiet_createLinodeVolume: "keeps same_metrics (createLinodeVolume cs l t e n r)"
  unfolding createLinodeVolume_def by (intro quiet_intros)

lemma quiet_cloneLinodeVolume: "keeps same_metrics (cloneLinodeVolume cs l n)"
  unfolding cloneLinodeVolume_def by (intro quiet_intros)

lemma quiet_attemptCreateLinodeVolume: "keeps same_metrics (attemptCreateLinodeVolume cs l t e n src r)"
  unfolding attemptCreateLinodeVolume_def
  by (intro quiet_intros quiet_cloneLinodeVolume quiet_createLinodeVolume)

lemma quiet_isEncryptionSupported: "keeps same_metrics (isEncryptionSupported cs r)"
  unfolding isEncryptionSupported_def by (intro quiet_intros)

lemma quiet_prepareVolumeParams: "keeps same_metrics (prepareVolumeParams cs req)"
  unfolding prepareVolumeParams_def by (intro quiet_intros quiet_isEncryptionSupported)

lemma quiet_createAndWaitForVolume: "keeps same_metrics (createAndWaitForVolume cs nm ps e n src r)"
  unfolding createAndWaitForVolume_def by (intro quiet_intros quiet_attemptCreateLinodeVolume)

lemma quiet_getAndValidateVolume: "keeps same_metrics (getAndValidateVolume cs v i)"
  unfolding getAndValidateVolume_def by (intro quiet_intros)

lemma quiet_getInstance: "keeps same_metrics (getInstance cs l)"
  unfolding getInstance_def by (intro quiet_intros)

lemma quiet_checkAttachmentCapacity: "keeps same_metrics (checkAttachmentCapacity cs i)"
  unfolding checkAttachmentCapacity_def
  by (intro quiet_intros quiet_canAttach quiet_maxAllowedVolumeAttachments)

lemma quiet_attachVolume: "keeps same_metrics (attachVolume cs v l)"
  unfolding attachVolume_def by (intro quiet_intros)

lemmas quiet_helpers = quiet_maxAllowedVolumeAttachments quiet_canAttach quiet_getContentSourceVolume
  quiet_attemptCreateLinodeVolume quiet_prepareVolumeParams
  quiet_createAndWaitForVolume quiet_getAndValidateVolume quiet_getInstance
  quiet_checkAttachmentCapacity quiet_attachVolume

end
