(* ===== verification/Controller_Server.thy ===== *)
theory Controller_Server
  imports Controller_Helper
begin

text \<open>
  \<open>internal/driver/controllerserver.go\<close>: the RPC handlers of the controller service, each as one
  program on the state, with the outcome it records.

  A handler returns \<open>error + 'r\<close>: on an error gRPC sends the error and drops the response
  value the Go code returns with it. Log lines are left out, except that a log line which reads
  through a pointer panics on nil like any other read.
\<close>

section \<open>NewControllerServer\<close>

definition NewControllerServer ::
  "LinodeDriver option \<Rightarrow> 'w LinodeClient option \<Rightarrow> Metadata \<Rightarrow> error + 'w ControllerServer" where
  "NewControllerServer drv cli metadata =
     (case drv of
        None \<Rightarrow> Inl errNilDriver
      | Some d \<Rightarrow>
          (case cli of
             None \<Rightarrow> Inl (GoError ''nil client'' [])
           | Some c \<Rightarrow> Inr \<lparr>cs_driver = d, cs_client = c, cs_metadata = metadata\<rparr>))"

section \<open>CreateVolume\<close>

definition CreateVolume ::
  "'w ControllerServer \<Rightarrow> CreateVolumeRequest \<Rightarrow> ('w world, error + CSIVolume) prog" where
  "CreateVolume cs req =
     (case validateCreateVolumeRequest req of
        Some err \<Rightarrow> record_return ControllerCreateVolumeTotal ControllerCreateVolumeDuration Failed (Inl err)
      | None \<Rightarrow>
          andThen (prepareVolumeParams cs req) (\<lambda>r.
          case r of
            Inl err \<Rightarrow> record_return ControllerCreateVolumeTotal ControllerCreateVolumeDuration Failed (Inl err)
          | Inr params \<Rightarrow>
              let contentSource = CVR_VolumeContentSource req;
                  accessibilityRequirements = CVR_AccessibilityRequirements req
              in andThen (getContentSourceVolume cs contentSource accessibilityRequirements) (\<lambda>r.
                 case r of
                   Inl err \<Rightarrow> record_return ControllerCreateVolumeTotal ControllerCreateVolumeDuration Failed (Inl err)
                 | Inr sourceVolInfo \<Rightarrow>
                     andThen (createAndWaitForVolume cs (VP_VolumeName params) (CVR_Parameters req)
                       (VP_EncryptionStatus params) (VP_TargetSizeGB params) sourceVolInfo (VP_Region params)) (\<lambda>r.
                     case r of
                       Inl err \<Rightarrow> record_return ControllerCreateVolumeTotal ControllerCreateVolumeDuration Failed (Inl err)
                     | Inr vol \<Rightarrow>
                         let volContext = createVolumeContext req vol;
                             resp = prepareCreateVolumeResponse vol (VP_Size params) volContext sourceVolInfo contentSource
                         in record_return ControllerCreateVolumeTotal ControllerCreateVolumeDuration Completed (Inr resp)))))"

section \<open>DeleteVolume\<close>

definition DeleteVolume ::
  "'w ControllerServer \<Rightarrow> DeleteVolumeRequest \<Rightarrow> ('w world, error + unit) prog" where
  "DeleteVolume cs req =
     (case VolumeIdAsInt ''DeleteVolume'' (DVR_VolumeId req) of
        Inl statusErr \<Rightarrow> record_return ControllerDeleteVolumeTotal ControllerDeleteVolumeDuration Failed (Inl statusErr)
      | Inr volID \<Rightarrow>
          andThen (call (GetVolume_api (cs_client cs) volID)) (\<lambda>(volp, err).
          if IsNotFound (cs_client cs) err
          then record_return ControllerDeleteVolumeTotal ControllerDeleteVolumeDuration Failed (Inr ())
          else case err of
            Some e \<Rightarrow> record_return ControllerDeleteVolumeTotal ControllerDeleteVolumeDuration Failed
                        (Inl (errInternal ''get volume %d: %v'' [ArgInt volID, ArgErr e]))
          | None \<Rightarrow> deref volp (\<lambda>vol.
              if Vol_LinodeID vol \<noteq> None
              then record_return ControllerDeleteVolumeTotal ControllerDeleteVolumeDuration Failed (Inl errVolumeInUse)
              else
                andThen (call (DeleteVolume_api (cs_client cs) volID)) (\<lambda>err.
                case err of
                  Some e \<Rightarrow> record_return ControllerDeleteVolumeTotal ControllerDeleteVolumeDuration Failed
                              (Inl (errInternal ''delete volume %d: %v'' [ArgInt volID, ArgErr e]))
                | None \<Rightarrow> record_return ControllerDeleteVolumeTotal ControllerDeleteVolumeDuration Completed (Inr ())))))"

section \<open>ControllerPublishVolume\<close>

definition ControllerPublishVolume ::
  "'w ControllerServer \<Rightarrow> ControllerPublishVolumeRequest \<Rightarrow> ('w world, error + (string \<rightharpoonup> string)) prog" where
  "ControllerPublishVolume cs req =
     (case validateControllerPublishVolumeRequest req of
        Inl err \<Rightarrow> record_return ControllerPublishVolumeTotal ControllerPublishVolumeDuration Failed (Inl err)
      | Inr (linodeID, volumeID) \<Rightarrow>
          andThen (getInstance cs linodeID) (\<lambda>r.
          case r of
            Inl err \<Rightarrow> record_return ControllerPublishVolumeTotal ControllerPublishVolumeDuration Failed (Inl err)
          | Inr inst \<Rightarrow>
              andThen (getAndValidateVolume cs volumeID inst) (\<lambda>r.
              case r of
                Inl err \<Rightarrow> record_return ControllerPublishVolumeTotal ControllerPublishVolumeDuration Failed (Inl err)
              | Inr devicePath \<Rightarrow>
                  if devicePath \<noteq> []
                  then record_return ControllerPublishVolumeTotal ControllerPublishVolumeDuration Failed
                         (Inr [devicePathKey \<mapsto> devicePath])
                  else
                    andThen (checkAttachmentCapacity cs inst) (\<lambda>capErr.
                    case capErr of
                      Some err \<Rightarrow> record_return ControllerPublishVolumeTotal ControllerPublishVolumeDuration Failed (Inl err)
                    | None \<Rightarrow>
                        andThen (attachVolume cs volumeID linodeID) (\<lambda>attachErr.
                        case attachErr of
                          Some err \<Rightarrow> record_return ControllerPublishVolumeTotal ControllerPublishVolumeDuration Failed (Inl err)
                        | None \<Rightarrow>
                            andThen (call (WaitForVolumeLinodeID_api (cs_client cs) volumeID (Some linodeID) waitTimeout)) (\<lambda>(volp, err).
                            case err of
                              Some e \<Rightarrow> record_return ControllerPublishVolumeTotal ControllerPublishVolumeDuration Failed (Inl e)
                            | None \<Rightarrow>
                                andThen (RecordMetrics ControllerPublishVolumeTotal ControllerPublishVolumeDuration Completed) (\<lambda>_.
                                deref volp (\<lambda>volume.
                                deref (Vol_LinodeID volume) (\<lambda>_.
                                ret (Inr [devicePathKey \<mapsto> Vol_FilesystemPath volume]))))))))))"

section \<open>ControllerUnpublishVolume\<close>

definition ControllerUnpublishVolume ::
  "'w ControllerServer \<Rightarrow> ControllerUnpublishVolumeRequest \<Rightarrow> ('w world, error + unit) prog" where
  "ControllerUnpublishVolume cs req =
     (case VolumeIdAsInt ''ControllerUnpublishVolume'' (CUR_VolumeId req) of
        Inl statusErr \<Rightarrow> record_return ControllerUnpublishVolumeTotal ControllerUnpublishVolumeDuration Failed (Inl statusErr)
      | Inr volumeID \<Rightarrow>
          (case NodeIdAsInt ''ControllerUnpublishVolume'' (CUR_NodeId req) of
             Inl statusErr \<Rightarrow> record_return ControllerUnpublishVolumeTotal ControllerUnpublishVolumeDuration Failed (Inl statusErr)
           | Inr linodeID \<Rightarrow>
               andThen (call (GetVolume_api (cs_client cs) volumeID)) (\<lambda>(volp, err).
               if IsNotFound (cs_client cs) err
               then record_return ControllerUnpublishVolumeTotal ControllerUnpublishVolumeDuration Failed (Inr ())
               else case err of
                 Some e \<Rightarrow> record_return ControllerUnpublishVolumeTotal ControllerUnpublishVolumeDuration Failed
                             (Inl (errInternal ''get volume %d: %v'' [ArgInt volumeID, ArgErr e]))
               | None \<Rightarrow> deref volp (\<lambda>volume.
                   if (case Vol_LinodeID volume of Some lid \<Rightarrow> lid \<noteq> linodeID | None \<Rightarrow> False)
                   then record_return ControllerUnpublishVolumeTotal ControllerUnpublishVolumeDuration Failed (Inr ())
                   else
                     andThen (call (DetachVolume_api (cs_client cs) volumeID)) (\<lambda>err.
                     if IsNotFound (cs_client cs) err
                     then record_return ControllerUnpublishVolumeTotal ControllerUnpublishVolumeDuration Failed (Inr ())
                     else case err of
                       Some e \<Rightarrow> record_return ControllerUnpublishVolumeTotal ControllerUnpublishVolumeDuration Failed
                                   (Inl (errInternal ''detach volume %d: %v'' [ArgInt volumeID, ArgErr e]))
                     | None \<Rightarrow>
                         andThen (call (WaitForVolumeLinodeID_api (cs_client cs) volumeID None waitTimeout)) (\<lambda>(waited, err).
                         case err of
                           Some e \<Rightarrow> record_return ControllerUnpublishVolumeTotal ControllerUnpublishVolumeDuration Failed
                                       (Inl (errInternal ''wait for volume %d to detach: %v'' [ArgInt volumeID, ArgErr e]))
                         | None \<Rightarrow> record_return ControllerUnpublishVolumeTotal ControllerUnpublishVolumeDuration Completed (Inr ())))))))"

section \<open>ValidateVolumeCapabilities\<close>

definition ValidateVolumeCapabilities ::
  "'w ControllerServer \<Rightarrow> ValidateVolumeCapabilitiesRequest
     \<Rightarrow> ('w world, error + VolumeCapability option list option) prog" where
  "ValidateVolumeCapabilities cs req =
     (case VolumeIdAsInt ''ControllerValidateVolumeCapabilities'' (VVR_VolumeId req) of
        Inl statusErr \<Rightarrow> ret (Inl statusErr)
      | Inr volumeID \<Rightarrow>
          let volumeCapabilities = VVR_VolumeCapabilities req
          in if length volumeCapabilities = 0 then ret (Inl errNoVolumeCapabilities)
             else
               andThen (call (GetVolume_api (cs_client cs) volumeID)) (\<lambda>(volp, err).
               if IsNotFound (cs_client cs) err then ret (Inl (errVolumeNotFound volumeID))
               else case err of
                 Some e \<Rightarrow> ret (Inl (errInternal ''get volume: %v'' [ArgErr e]))
               | None \<Rightarrow>
                   ret (Inr (if validVolumeCapabilities volumeCapabilities then Some volumeCapabilities else None))))"

section \<open>ListVolumes\<close>

definition list_entry :: "Volume \<Rightarrow> ListEntry" where
  "list_entry volume =
     (let key = CreateLinodeVolumeKey (Vol_ID volume) (Vol_Label volume);
          publishedNodeIDs = (case Vol_LinodeID volume of Some lid \<Rightarrow> [Itoa lid] | None \<Rightarrow> [])
      in \<lparr>LE_VolumeId = GetVolumeKey key,
          LE_CapacityBytes = gbToBytes (Vol_Size volume),
          LE_AccessibleTopology = [[VolumeTopologyRegion \<mapsto> Vol_Region volume]],
          LE_PublishedNodeIds = publishedNodeIDs,
          LE_Abnormal = False\<rparr>)"

definition ListVolumes ::
  "'w ControllerServer \<Rightarrow> ListVolumesRequest \<Rightarrow> ('w world, error + ListVolumesResponse) prog" where
  "ListVolumes cs req =
     (let startingToken = LVR_StartingToken req;
          listOpts = NewListOptions (cs_client cs) 0 [];
          listOpts = (if 0 < LVR_MaxEntries req then listOpts\<lparr>Opt_PageSize := LVR_MaxEntries req\<rparr> else listOpts);
          listing = (\<lambda>opts nextToken.
            andThen (call (ListVolumes_api (cs_client cs) opts)) (\<lambda>(volumes, err).
            case err of
              Some e \<Rightarrow> ret (Inl (errInternal ''list volumes: %v'' [ArgErr e]))
            | None \<Rightarrow> ret (Inr \<lparr>LR_Entries = map list_entry volumes, LR_NextToken = nextToken\<rparr>)))
      in if startingToken \<noteq> [] then
           (case Atoi startingToken of
              Inl errParse \<Rightarrow> ret (Inl (Status Aborted ''invalid starting token: %q'' [ArgStr startingToken]))
            | Inr startingPage \<Rightarrow>
                if startingPage < - (2 ^ 63) \<or> 2 ^ 63 - 1 < startingPage
                then ret (Inl (Status Aborted ''starting token out of bounds: %q'' [ArgStr startingToken]))
                else
                  let listOpts = listOpts\<lparr>Opt_Page := startingPage\<rparr>;
                      nextToken = Itoa (int64_wrap (Opt_Page listOpts + 1))
                  in listing listOpts nextToken)
         else listing listOpts [])"

section \<open>ControllerGetCapabilities\<close>

definition ControllerGetCapabilities :: "'w ControllerServer \<Rightarrow> ('w world, error + ControllerRPC list) prog" where
  "ControllerGetCapabilities cs = ret (Inr (Drv_cscap (cs_driver cs)))"

section \<open>ControllerExpandVolume\<close>

definition ControllerExpandVolume ::
  "'w ControllerServer \<Rightarrow> ControllerExpandVolumeRequest \<Rightarrow> ('w world, error + ControllerExpandVolumeResponse) prog" where
  "ControllerExpandVolume cs req =
     (case VolumeIdAsInt ''ControllerExpandVolume'' (CER_VolumeId req) of
        Inl statusErr \<Rightarrow> ret (Inl statusErr)
      | Inr volumeID \<Rightarrow>
          (case getRequestCapacitySize (CER_CapacityRange req) of
             Inl err \<Rightarrow> ret (Inl (errInternal ''get requested size from capacity range: %v'' [ArgErr err]))
           | Inr sz \<Rightarrow>
               andThen (call (GetVolume_api (cs_client cs) volumeID)) (\<lambda>(volp, err).
               case err of
                 Some e \<Rightarrow> ret (Inl (errInternal ''get volume: %v'' [ArgErr e]))
               | None \<Rightarrow> deref volp (\<lambda>vol.
                   if bytesToGB sz < Vol_Size vol then ret (Inl errResizeDown)
                   else
                     andThen (call (ResizeVolume_api (cs_client cs) volumeID (bytesToGB sz))) (\<lambda>err.
                     case err of
                       Some e \<Rightarrow> ret (Inl (errInternal ''resize volume %d: %v'' [ArgInt volumeID, ArgErr e]))
                     | None \<Rightarrow>
                         andThen (call (WaitForVolumeStatus_api (cs_client cs) (Vol_ID vol) VolumeActive waitTimeout)) (\<lambda>(waited, err).
                         case err of
                           Some e \<Rightarrow> ret (Inl (errInternal ''timed out waiting for volume %d to become active: %v''
                                       [ArgInt volumeID, ArgErr e]))
                         | None \<Rightarrow> ret (Inr \<lparr>ER_CapacityBytes = sz, ER_NodeExpansionRequired = False\<rparr>)))))))"

section \<open>Every instrumented call records one outcome\<close>

lemma CreateVolume_records:
  "records ControllerCreateVolumeTotal ControllerCreateVolumeDuration (CreateVolume cs req)"
  unfolding CreateVolume_def Let_def
  by (intro records_intros quiet_intros quiet_helpers) simp_all

lemma DeleteVolume_records:
  "records ControllerDeleteVolumeTotal ControllerDeleteVolumeDuration (DeleteVolume cs req)"
  unfolding DeleteVolume_def
  by (intro records_intros quiet_intros quiet_helpers) simp_all

lemma ControllerPublishVolume_records:
  "records ControllerPublishVolumeTotal ControllerPublishVolumeDuration (ControllerPublishVolume cs req)"
  unfolding ControllerPublishVolume_def
  by (intro records_intros quiet_intros quiet_helpers) simp_all

lemma ControllerUnpublishVolume_records:
  "records ControllerUnpublishVolumeTotal ControllerUnpublishVolumeDuration (ControllerUnpublishVolume cs req)"
  unfolding ControllerUnpublishVolume_def
  by (intro records_intros quiet_intros quiet_helpers) simp_all

interpretation create_rpc: metered_rpc "CreateVolume cs" ControllerCreateVolumeTotal ControllerCreateVolumeDuration
  for cs by unfold_locales (rule CreateVolume_records)

interpretation delete_rpc: metered_rpc "DeleteVolume cs" ControllerDeleteVolumeTotal ControllerDeleteVolumeDuration
  for cs by unfold_locales (rule DeleteVolume_records)

interpretation publish_rpc: metered_rpc "ControllerPublishVolume cs" ControllerPublishVolumeTotal ControllerPublishVolumeDuration
  for cs by unfold_locales (rule ControllerPublishVolume_records)

interpretation unpublish_rpc: metered_rpc "ControllerUnpublishVolume cs" ControllerUnpublishVolumeTotal ControllerUnpublishVolumeDuration
  for cs by unfold_locales (rule ControllerUnpublishVolume_records)

end
