(* ===== verification/Call_Trace.thy ===== *)
theory Call_Trace
  imports Observability
begin

text \<open>
  Logging the calls a program makes to the outside world.

  A logged world carries a list of events beside the outside world; \<open>log_call\<close> makes one call
  as before and appends its event, which holds the answer. A handler whose interfaces all log is
  the handler itself once the log is forgotten (\<open>erases\<close>), so a fact about the log is a fact
  about the calls the handler makes. The events of the Linode API and those of the host are
  two instances.
\<close>

section \<open>Logged calls\<close>

type_synonym ('e, 'w) logged = "'e list \<times> 'w"

definition log_call :: "('r \<Rightarrow> 'e) \<Rightarrow> ('w \<Rightarrow> 'r \<times> 'w) \<Rightarrow> ('e, 'w) logged \<Rightarrow> 'r \<times> ('e, 'w) logged" where
  "log_call ev f lw = (case f (snd lw) of (r, w) \<Rightarrow> (r, (fst lw @ [ev r], w)))"

text \<open>A call that is not logged.\<close>

definition through_log :: "('w \<Rightarrow> 'r \<times> 'w) \<Rightarrow> ('e, 'w) logged \<Rightarrow> 'r \<times> ('e, 'w) logged" where
  "through_log f lw = (case f (snd lw) of (r, w) \<Rightarrow> (r, (fst lw, w)))"

section \<open>Erasing the log\<close>

definition forget_log :: "('e, 'w) logged world \<Rightarrow> 'w world" where
  "forget_log s = \<lparr>Totals = Totals s, Durations = Durations s, Ext = snd (Ext s)\<rparr>"

definition trace_log :: "('e, 'w) logged world \<Rightarrow> 'e list" where
  "trace_log s = fst (Ext s)"

lemma erases_call: "erases forget_log (call (log_call ev f)) (call f)"
  by (simp add: erases_def call_def log_call_def forget_log_def split: prod.splits)

lemma erases_RecordMetrics: "erases forget_log (RecordMetrics t d st) (RecordMetrics t d st)"
  by (simp add: erases_def RecordMetrics_def forget_log_def)

lemma erases_record_return: "erases forget_log (record_return t d st r) (record_return t d st r)"
  unfolding record_return_def by (intro erases_intros erases_RecordMetrics)

lemmas erase_log_intros = erases_intros erases_call erases_RecordMetrics erases_record_return

section \<open>The calls of a run\<close>

text \<open>A run started with an empty log, and the calls it made.\<close>

definition with_log :: "'w world \<Rightarrow> ('e, 'w) logged world" where
  "with_log s = \<lparr>Totals = Totals s, Durations = Durations s, Ext = ([], Ext s)\<rparr>"

definition calls_of :: "(('e, 'w) logged world, 'a) prog \<Rightarrow> 'w world \<Rightarrow> 'e list" where
  "calls_of m s = trace_log (snd (m (with_log s)))"

lemma with_log_sel [simp]: "Ext (with_log s) = ([], Ext s)" "trace_log (with_log s) = []"
  by (simp_all add: with_log_def trace_log_def)

lemma forget_with_log [simp]: "forget_log (with_log s) = s"
  by (simp add: with_log_def forget_log_def)

lemma trace_log_simps [simp]:
  "trace_log (s\<lparr>Ext := (l, w)\<rparr>) = l"
  "trace_log (snd (RecordMetrics t d st s)) = trace_log s"
  "trace_log (snd (record_return t d st r s)) = trace_log s"
  by (simp_all add: trace_log_def record_return_run)

lemma call_log:
  "call (log_call ev f) s = (case f (snd (Ext s)) of (r, w) \<Rightarrow> (Done r, s\<lparr>Ext := (trace_log s @ [ev r], w)\<rparr>))"
  by (simp add: call_def log_call_def trace_log_def split: prod.splits)

text \<open>
  \<open>emits Q m\<close>: every run of \<open>m\<close> appends calls \<open>es\<close> to the log and ends with an outcome \<open>out\<close>
  such that \<open>Q es out\<close>. The rules push a postcondition backwards through a program, so that the
  claim about a handler becomes one claim per path through it, about an explicit list of calls.
\<close>

definition emits :: "('e list \<Rightarrow> 'a outcome \<Rightarrow> bool) \<Rightarrow> (('e, 'w) logged world, 'a) prog \<Rightarrow> bool" where
  "emits Q m \<longleftrightarrow> (\<forall>s. \<exists>es. trace_log (snd (m s)) = trace_log s @ es \<and> Q es (fst (m s)))"

definition after_calls ::
  "('e list \<Rightarrow> 'b outcome \<Rightarrow> bool) \<Rightarrow> ('a \<Rightarrow> (('e, 'w) logged world, 'b) prog)
    \<Rightarrow> 'e list \<Rightarrow> 'a outcome \<Rightarrow> bool" where
  "after_calls Q k es out =
     (case out of Panic \<Rightarrow> Q es Panic | Done a \<Rightarrow> emits (\<lambda>es'. Q (es @ es')) (k a))"

lemma emits_calls_of: "emits Q m \<Longrightarrow> Q (calls_of m s) (fst (m (with_log s)))"
  unfolding emits_def calls_of_def by (metis append_Nil with_log_sel(2))

lemma after_calls_Done: "emits (\<lambda>es'. Q (es @ es')) (k a) \<Longrightarrow> after_calls Q k es (Done a)"
  by (simp add: after_calls_def)

lemma after_calls_Panic: "Q es Panic \<Longrightarrow> after_calls Q k es Panic"
  by (simp add: after_calls_def)

lemma emits_ret: "Q [] (Done a) \<Longrightarrow> emits Q (ret a)"
  by (simp add: emits_def)

lemma emits_record_return: "Q [] (Done r) \<Longrightarrow> emits Q (record_return t d st r)"
  by (simp add: emits_def) (simp add: record_return_run)

lemma emits_RecordMetrics: "Q [] (Done ()) \<Longrightarrow> emits Q (RecordMetrics t d st)"
  by (simp add: emits_def) (simp add: RecordMetrics_def)

lemma emits_call: "(\<And>r. Q [ev r] (Done r)) \<Longrightarrow> emits Q (call (log_call ev f))"
  by (simp add: emits_def call_log split: prod.splits)

lemma emits_andThen:
  assumes "emits (after_calls Q k) m"
  shows "emits Q (andThen m k)"
  unfolding emits_def
proof
  fix s
  obtain out s1 where m: "m s = (out, s1)" by fastforce
  obtain es where es: "trace_log s1 = trace_log s @ es" "after_calls Q k es out"
    using assms m unfolding emits_def by (metis fst_conv snd_conv)
  show "\<exists>es. trace_log (snd (andThen m k s)) = trace_log s @ es \<and> Q es (fst (andThen m k s))"
  proof (cases out)
    case (Done a)
    with es(2) have "emits (\<lambda>es'. Q (es @ es')) (k a)" by (simp add: after_calls_def)
    then obtain es' where "trace_log (snd (k a s1)) = trace_log s1 @ es'" "Q (es @ es') (fst (k a s1))"
      unfolding emits_def by blast
    with es(1) m Done show ?thesis by auto
  next
    case Panic
    with es m show ?thesis by (simp add: after_calls_def)
  qed
qed

lemma emits_deref: "(p = None \<Longrightarrow> Q [] Panic) \<Longrightarrow> (\<And>a. p = Some a \<Longrightarrow> emits Q (k a)) \<Longrightarrow> emits Q (deref p k)"
  by (cases p) (simp_all add: emits_def)

lemma emits_if: "(b \<Longrightarrow> emits Q m) \<Longrightarrow> (\<not> b \<Longrightarrow> emits Q n) \<Longrightarrow> emits Q (if b then m else n)"
  by simp

lemma emits_case_sum:
  "(\<And>e. x = Inl e \<Longrightarrow> emits Q (f e)) \<Longrightarrow> (\<And>v. x = Inr v \<Longrightarrow> emits Q (g v))
    \<Longrightarrow> emits Q (case x of Inl e \<Rightarrow> f e | Inr v \<Rightarrow> g v)"
  by (cases x) simp_all

lemma emits_case_option:
  "(x = None \<Longrightarrow> emits Q m) \<Longrightarrow> (\<And>v. x = Some v \<Longrightarrow> emits Q (g v))
    \<Longrightarrow> emits Q (case x of None \<Rightarrow> m | Some v \<Rightarrow> g v)"
  by (cases x) simp_all

lemma emits_case_prod:
  "(\<And>a b. x = (a, b) \<Longrightarrow> emits Q (f a b)) \<Longrightarrow> emits Q (case x of (a, b) \<Rightarrow> f a b)"
  by (cases x) simp

lemma emits_let: "(\<And>x. x = a \<Longrightarrow> emits Q (f x)) \<Longrightarrow> emits Q (let x = a in f x)"
  by simp

lemma emits_case_source:
  "(\<And>v. x = CS_Volume v \<Longrightarrow> emits Q (f v)) \<Longrightarrow> (\<And>n. x = CS_Snapshot n \<Longrightarrow> emits Q (g n)) \<Longrightarrow> (x = CS_Unset \<Longrightarrow> emits Q m)
    \<Longrightarrow> emits Q (case x of CS_Volume v \<Rightarrow> f v | CS_Snapshot n \<Rightarrow> g n | CS_Unset \<Rightarrow> m)"
  by (cases x) simp_all

lemmas emits_steps = emits_ret emits_record_return
  emits_RecordMetrics emits_call emits_andThen emits_deref emits_if emits_case_sum
  emits_case_option emits_case_prod emits_case_source emits_let

lemma emits_panic: "Q [] Panic \<Longrightarrow> emits Q panic"
  by (simp add: emits_def)

lemma emits_conseq: "emits P m \<Longrightarrow> (\<And>es out. P es out \<Longrightarrow> Q es out) \<Longrightarrow> emits Q m"
  unfolding emits_def by blast

lemma emits_All:
  assumes "\<And>m. emits (\<lambda>es out. P m es out) prog"
  shows "emits (\<lambda>es out. \<forall>m. P m es out) prog"
  unfolding emits_def
proof
  fix s
  have ex: "\<exists>es. trace_log (snd (prog s)) = trace_log s @ es \<and> P m es (fst (prog s))" for m
    using assms unfolding emits_def by blast
  then obtain es where es: "trace_log (snd (prog s)) = trace_log s @ es" by blast
  with ex have "P m es (fst (prog s))" for m by (metis same_append_eq)
  with es show "\<exists>es. trace_log (snd (prog s)) = trace_log s @ es \<and> (\<forall>m. P m es (fst (prog s)))" by blast
qed

text \<open>The idiom of wrapping the error of a call.\<close>

lemma emits_wrap_error:
  assumes "emits P m"
    and "\<And>es e. P es (Done (Inl e)) \<Longrightarrow> Q es (Done (Inl (f e)))"
    and "\<And>es v. P es (Done (Inr v)) \<Longrightarrow> Q es (Done (Inr v))"
    and "\<And>es. P es Panic \<Longrightarrow> Q es Panic"
  shows "emits Q (andThen m (\<lambda>r. case r of Inl err \<Rightarrow> ret (Inl (f err)) | Inr v \<Rightarrow> ret (Inr v)))"
proof (rule emits_andThen, rule emits_conseq [OF assms(1)])
  fix es out assume P: "P es out"
  show "after_calls Q (\<lambda>r. case r of Inl err \<Rightarrow> ret (Inl (f err)) | Inr v \<Rightarrow> ret (Inr v)) es out"
  proof (cases out)
    case (Done r)
    with P assms(2,3) show ?thesis
      by (cases r) (auto simp: after_calls_def intro!: emits_ret)
  next
    case Panic
    with P assms(4) show ?thesis by (simp add: after_calls_def)
  qed
qed

text \<open>A claim on the log and the outcome, read at a run of the handler itself.\<close>

lemma emits_run: "emits Q m \<Longrightarrow> erases forget_log m n \<Longrightarrow> Q (calls_of m s) (fst (n s))"
  using emits_calls_of [of Q m s] erasesD [of forget_log m n "with_log s"] by simp

section \<open>Guarded calls\<close>

definition ends_with :: "'e list \<Rightarrow> 'e list \<Rightarrow> bool" where
  "ends_with es hist \<longleftrightarrow> length es \<le> length hist \<and> drop (length hist - length es) hist = es"

lemma ends_with_longer: "ends_with es hist \<Longrightarrow> ends_with es (pre @ hist)"
  by (auto simp: ends_with_def)

text \<open>
  \<open>guarded mut g hist es\<close>: every call \<open>e\<close> of \<open>es\<close> that \<open>mut\<close> selects satisfies \<open>g h e\<close>, where \<open>h\<close> are all calls made before it: \<open>hist\<close> and
  those of \<open>es\<close> that stand before \<open>e\<close>. A guard that a longer history cannot break (\<open>stable_guard\<close>) can be checked one handler at a time.
\<close>

fun guarded :: "('e \<Rightarrow> bool) \<Rightarrow> ('e list \<Rightarrow> 'e \<Rightarrow> bool) \<Rightarrow> 'e list \<Rightarrow> 'e list \<Rightarrow> bool" where
  "guarded mut g hist [] = True"
| "guarded mut g hist (e # es) = ((mut e \<longrightarrow> g hist e) \<and> guarded mut g (hist @ [e]) es)"

definition stable_guard :: "('e list \<Rightarrow> 'e \<Rightarrow> bool) \<Rightarrow> bool" where
  "stable_guard g \<longleftrightarrow> (\<forall>pre hist e. g hist e \<longrightarrow> g (pre @ hist) e)"

lemma guarded_longer: "stable_guard g \<Longrightarrow> guarded mut g hist es \<Longrightarrow> guarded mut g (pre @ hist) es"
  by (induction es arbitrary: hist) (auto simp: stable_guard_def)

lemma guarded_append:
  assumes "stable_guard g" and "guarded mut g [] es" and "guarded mut g [] es'"
  shows "guarded mut g [] (es @ es')"
proof -
  have "guarded mut g hist es \<Longrightarrow> guarded mut g (hist @ es) es' \<Longrightarrow> guarded mut g hist (es @ es')" for hist
    by (induction es arbitrary: hist) auto
  with assms guarded_longer [OF assms(1,3), of es] show ?thesis by simp
qed

lemma guarded_mono: "guarded mut g hist es \<Longrightarrow> (\<And>h e. g h e \<Longrightarrow> k h e) \<Longrightarrow> guarded mut k hist es"
  by (induction es arbitrary: hist) auto

lemma guarded_call: "guarded mut g hist (xs @ e # ys) \<Longrightarrow> mut e \<Longrightarrow> g (hist @ xs) e"
  by (induction xs arbitrary: hist) fastforce+

lemma emits_extends:
  "emits (\<lambda>es out. P es) m \<Longrightarrow> \<exists>es. trace_log (snd (m s)) = trace_log s @ es \<and> P es"
  by (auto simp: emits_def)

section \<open>Monitors\<close>

text \<open>A monitor reads the log event by event; \<open>None\<close> is a call it rejects.\<close>

fun monitor_run :: "('m \<Rightarrow> 'e \<Rightarrow> 'm option) \<Rightarrow> 'm \<Rightarrow> 'e list \<Rightarrow> 'm option" where
  "monitor_run \<delta> m [] = Some m"
| "monitor_run \<delta> m (e # es) = (case \<delta> m e of None \<Rightarrow> None | Some m' \<Rightarrow> monitor_run \<delta> m' es)"

definition accepts :: "('m \<Rightarrow> 'e \<Rightarrow> 'm option) \<Rightarrow> 'm \<Rightarrow> 'e list \<Rightarrow> bool" where
  "accepts \<delta> m es \<longleftrightarrow> monitor_run \<delta> m es \<noteq> None"

lemma monitor_run_append:
  "monitor_run \<delta> m (es @ es') = (case monitor_run \<delta> m es of None \<Rightarrow> None | Some m' \<Rightarrow> monitor_run \<delta> m' es')"
  by (induction es arbitrary: m) (auto split: option.splits)

lemma accepts_Nil [simp]: "accepts \<delta> m []"
  by (simp add: accepts_def)

lemma accepts_Cons [simp]: "accepts \<delta> m (e # es) = (case \<delta> m e of None \<Rightarrow> False | Some m' \<Rightarrow> accepts \<delta> m' es)"
  by (simp add: accepts_def split: option.splits)

lemma accepts_append:
  "accepts \<delta> m (es @ es') = (case monitor_run \<delta> m es of None \<Rightarrow> False | Some m' \<Rightarrow> accepts \<delta> m' es')"
  by (simp add: accepts_def monitor_run_append split: option.splits)

end
