(* ===== verification/API_Trace.thy ===== *)
theory API_Trace
  imports Controller_Server Call_Trace
begin

text \<open>
  Which calls a controller handler makes, in which order, with which answers.

  \<open>traced c\<close> is the client \<open>c\<close> with a log: every call is made as before and appended to the log
  together with its answer. The erasure lemmas show that a handler on the traced client, with
  the log forgotten, is the handler on \<open>c\<close>: a fact about the calls in the log is a fact about
  the calls the handler makes through any client.
\<close>

section \<open>Events\<close>

datatype api_event =
    EvListVolumes ListOptions "Volume list \<times> error option"
  | EvListInstanceVolumes int "Volume list \<times> error option"
  | EvListInstanceDisks int "InstanceDisk list \<times> error option"
  | EvGetRegion string "Region option \<times> error option"
  | EvGetInstance int "Instance option \<times> error option"
  | EvGetVolume int "Volume option \<times> error option"
  | EvCreateVolume VolumeCreateOptions "Volume option \<times> error option"
  | EvCloneVolume int string "Volume option \<times> error option"
  | EvAttachVolume int VolumeAttachOptions "Volume option \<times> error option"
  | EvDetachVolume int "error option"
  | EvWaitForVolumeLinodeID int "int option" "Volume option \<times> error option"
  | EvWaitForVolumeStatus int VolumeStatus "Volume option \<times> error option"
  | EvDeleteVolume int "error option"
  | EvResizeVolume int int "error option"

text \<open>The calls that change something on the Linode side.\<close>

fun mutating :: "api_event \<Rightarrow> bool" where
  "mutating (EvCreateVolume opts r) = True"
| "mutating (EvCloneVolume i l r) = True"
| "mutating (EvAttachVolume v opts r) = True"
| "mutating (EvDetachVolume v r) = True"
| "mutating (EvDeleteVolume v r) = True"
| "mutating (EvResizeVolume v n r) = True"
| "mutating _ = False"

text \<open>The two operations that nothing in the driver calls are not logged.\<close>

definition traced :: "'w LinodeClient \<Rightarrow> (api_event, 'w) logged LinodeClient" where
  "traced c =
    \<lparr>ListInstances_api = (\<lambda>opts. through_log (ListInstances_api c opts)),
     ListVolumes_api = (\<lambda>opts. log_call (EvListVolumes opts) (ListVolumes_api c opts)),
     ListInstanceVolumes_api = (\<lambda>i opts. log_call (EvListInstanceVolumes i) (ListInstanceVolumes_api c i opts)),
     ListInstanceDisks_api = (\<lambda>i opts. log_call (EvListInstanceDisks i) (ListInstanceDisks_api c i opts)),
     GetRegion_api = (\<lambda>r. log_call (EvGetRegion r) (GetRegion_api c r)),
     GetInstance_api = (\<lambda>i. log_call (EvGetInstance i) (GetInstance_api c i)),
     GetVolume_api = (\<lambda>v. log_call (EvGetVolume v) (GetVolume_api c v)),
     CreateVolume_api = (\<lambda>opts. log_call (EvCreateVolume opts) (CreateVolume_api c opts)),
     CloneVolume_api = (\<lambda>v l. log_call (EvCloneVolume v l) (CloneVolume_api c v l)),
     AttachVolume_api = (\<lambda>v opts. log_call (EvAttachVolume v opts) (AttachVolume_api c v opts)),
     DetachVolume_api = (\<lambda>v. log_call (EvDetachVolume v) (DetachVolume_api c v)),
     WaitForVolumeLinodeID_api = (\<lambda>v l t. log_call (EvWaitForVolumeLinodeID v l) (WaitForVolumeLinodeID_api c v l t)),
     WaitForVolumeStatus_api = (\<lambda>v st t. log_call (EvWaitForVolumeStatus v st) (WaitForVolumeStatus_api c v st t)),
     DeleteVolume_api = (\<lambda>v. log_call (EvDeleteVolume v) (DeleteVolume_api c v)),
     ResizeVolume_api = (\<lambda>v n. log_call (EvResizeVolume v n) (ResizeVolume_api c v n)),
     NewEventPoller_api = (\<lambda>i t a. through_log (NewEventPoller_api c i t a)),
     IsNotFound = IsNotFound c,
     NewListOptions = NewListOptions c\<rparr>"

definition traced_cs :: "'w ControllerServer \<Rightarrow> (api_event, 'w) logged ControllerServer" where
  "traced_cs cs = \<lparr>cs_driver = cs_driver cs, cs_client = traced (cs_client cs), cs_metadata = cs_metadata cs\<rparr>"

lemma traced_cs_simps [simp]:
  "cs_driver (traced_cs cs) = cs_driver cs"
  "cs_client (traced_cs cs) = traced (cs_client cs)"
  "cs_metadata (traced_cs cs) = cs_metadata cs"
  by (simp_all add: traced_cs_def)

lemma traced_simps [simp]:
  "ListVolumes_api (traced c) opts = log_call (EvListVolumes opts) (ListVolumes_api c opts)"
  "ListInstanceVolumes_api (traced c) i o' = log_call (EvListInstanceVolumes i) (ListInstanceVolumes_api c i o')"
  "ListInstanceDisks_api (traced c) i o' = log_call (EvListInstanceDisks i) (ListInstanceDisks_api c i o')"
  "GetRegion_api (traced c) r = log_call (EvGetRegion r) (GetRegion_api c r)"
  "GetInstance_api (traced c) i = log_call (EvGetInstance i) (GetInstance_api c i)"
  "GetVolume_api (traced c) v = log_call (EvGetVolume v) (GetVolume_api c v)"
  "CreateVolume_api (traced c) co = log_call (EvCreateVolume co) (CreateVolume_api c co)"
  "CloneVolume_api (traced c) v l = log_call (EvCloneVolume v l) (CloneVolume_api c v l)"
  "AttachVolume_api (traced c) v ao = log_call (EvAttachVolume v ao) (AttachVolume_api c v ao)"
  "DetachVolume_api (traced c) v = log_call (EvDetachVolume v) (DetachVolume_api c v)"
  "WaitForVolumeLinodeID_api (traced c) v li t = log_call (EvWaitForVolumeLinodeID v li) (WaitForVolumeLinodeID_api c v li t)"
  "WaitForVolumeStatus_api (traced c) v st t = log_call (EvWaitForVolumeStatus v st) (WaitForVolumeStatus_api c v st t)"
  "DeleteVolume_api (traced c) v = log_call (EvDeleteVolume v) (DeleteVolume_api c v)"
  "ResizeVolume_api (traced c) v n = log_call (EvResizeVolume v n) (ResizeVolume_api c v n)"
  "IsNotFound (traced c) = IsNotFound c"
  "NewListOptions (traced c) = NewListOptions c"
  by (simp_all add: traced_def)

section \<open>Erasing the log\<close>

lemma erase_maxAllowed: "erases forget_log (maxAllowedVolumeAttachments (traced_cs cs) i) (maxAllowedVolumeAttachments cs i)"
  unfolding maxAllowedVolumeAttachments_def Let_def traced_cs_simps traced_simps
  by (intro erase_log_intros)

lemma erase_canAttach: "erases forget_log (canAttach (traced_cs cs) i) (canAttach cs i)"
  unfolding canAttach_def traced_cs_simps traced_simps
  by (intro erase_log_intros erase_maxAllowed)

lemma erase_getContentSourceVolume:
  "erases forget_log (getContentSourceVolume (traced_cs cs) src reqs) (getContentSourceVolume cs src reqs)"
  unfolding getContentSourceVolume_def Let_def traced_cs_simps traced_simps
  by (cases src; (cases "the src")?) (auto intro!: erase_log_intros)

lemma erase_attemptCreate:
  "erases forget_log (attemptCreateLinodeVolume (traced_cs cs) l t e n src r) (attemptCreateLinodeVolume cs l t e n src r)"
  unfolding attemptCreateLinodeVolume_def cloneLinodeVolume_def createLinodeVolume_def Let_def
    traced_cs_simps traced_simps
  by (intro erase_log_intros)

lemma erase_prepareVolumeParams:
  "erases forget_log (prepareVolumeParams (traced_cs cs) req) (prepareVolumeParams cs req)"
  unfolding prepareVolumeParams_def isEncryptionSupported_def Let_def traced_cs_simps traced_simps
  by (intro erase_log_intros)

lemma erase_createAndWait:
  "erases forget_log (createAndWaitForVolume (traced_cs cs) nm ps e n src r) (createAndWaitForVolume cs nm ps e n src r)"
  unfolding createAndWaitForVolume_def Let_def traced_cs_simps traced_simps
  by (intro erase_log_intros erase_attemptCreate)

lemma erase_getAndValidateVolume:
  "erases forget_log (getAndValidateVolume (traced_cs cs) v i) (getAndValidateVolume cs v i)"
  unfolding getAndValidateVolume_def traced_cs_simps traced_simps by (intro erase_log_intros)

lemma erase_getInstance: "erases forget_log (getInstance (traced_cs cs) l) (getInstance cs l)"
  unfolding getInstance_def traced_cs_simps traced_simps by (intro erase_log_intros)

lemma erase_checkAttachmentCapacity:
  "erases forget_log (checkAttachmentCapacity (traced_cs cs) i) (checkAttachmentCapacity cs i)"
  unfolding checkAttachmentCapacity_def
  by (intro erase_log_intros erase_canAttach erase_maxAllowed)

lemma erase_attachVolume: "erases forget_log (attachVolume (traced_cs cs) v l) (attachVolume cs v l)"
  unfolding attachVolume_def Let_def traced_cs_simps traced_simps by (intro erase_log_intros)

lemmas erase_helpers = erase_getContentSourceVolume erase_prepareVolumeParams erase_createAndWait
  erase_getAndValidateVolume erase_getInstance erase_checkAttachmentCapacity erase_attachVolume

lemma erase_CreateVolume: "erases forget_log (CreateVolume (traced_cs cs) req) (CreateVolume cs req)"
  unfolding CreateVolume_def Let_def by (intro erase_log_intros erase_helpers)

lemma erase_DeleteVolume: "erases forget_log (DeleteVolume (traced_cs cs) req) (DeleteVolume cs req)"
  unfolding DeleteVolume_def traced_cs_simps traced_simps by (intro erase_log_intros)

lemma erase_ControllerPublishVolume:
  "erases forget_log (ControllerPublishVolume (traced_cs cs) req) (ControllerPublishVolume cs req)"
  unfolding ControllerPublishVolume_def traced_cs_simps traced_simps
  by (intro erase_log_intros erase_helpers)

lemma erase_ControllerUnpublishVolume:
  "erases forget_log (ControllerUnpublishVolume (traced_cs cs) req) (ControllerUnpublishVolume cs req)"
  unfolding ControllerUnpublishVolume_def traced_cs_simps traced_simps by (intro erase_log_intros)

lemma erase_ControllerExpandVolume:
  "erases forget_log (ControllerExpandVolume (traced_cs cs) req) (ControllerExpandVolume cs req)"
  unfolding ControllerExpandVolume_def traced_cs_simps traced_simps by (intro erase_log_intros)

lemma erase_ListVolumes: "erases forget_log (ListVolumes (traced_cs cs) req) (ListVolumes cs req)"
  unfolding ListVolumes_def Let_def traced_cs_simps traced_simps by (intro erase_log_intros)

lemma erase_ValidateVolumeCapabilities:
  "erases forget_log (ValidateVolumeCapabilities (traced_cs cs) req) (ValidateVolumeCapabilities cs req)"
  unfolding ValidateVolumeCapabilities_def Let_def traced_cs_simps traced_simps by (intro erase_log_intros)

end
