(* ===== verification/Node_Trace.thy ===== *)
theory Node_Trace
  imports Node_Server API_Trace
begin

text \<open>
  Which calls the node handlers make to the host, in which order, with which answers.

  A \<open>Host\<close> bundles the interfaces of the node side; \<open>node_of\<close> builds the node server from them
  the way \<open>main.go\<close> does: the device utilities and the encryption share the file system and the
  executor. \<open>traced_host\<close> is the host with a log. The erasure lemmas show that a handler on the
  traced host, with the log forgotten, is the handler on the host.
\<close>

section \<open>Events\<close>

datatype host_event =
    EvMkdirAll string "error option"
  | EvStat string "error option"
  | EvRemove string "error option"
  | EvOpenFile string "error + int"
  | EvOpen string "error + int"
  | EvRead int "string \<times> error option"
  | EvClose int "error option"
  | EvGlob string "string list \<times> error option"
  | EvEvalSymlinks string "error + string"
  | EvIsLikelyNotMountPoint string "bool \<times> error option"
  | EvMount string string string "string list" "error option"
  | EvFormatAndMount string string string "string list" "error option"
  | EvCleanupMountPoint string "error option"
  | EvLookPath string "error option"
  | EvRun string "string list" "error option"
  | EvCombinedOutput string "string list" "string \<times> error option"
  | EvInit string "error + int"
  | EvInitByName string "error + int"
  | EvFormat int GenericParams "error option"
  | EvKeyslotAdd int "error option"
  | EvActivate int string "error option"
  | EvLoad int "error option"
  | EvFree int bool
  | EvDeactivate int string "error option"
  | EvApi api_event

section \<open>The traced host\<close>

record 'w Host =
  h_fs :: "'w FileSystem"
  h_mounter :: "'w Mounter"
  h_exec :: "'w Executor"
  h_crypt :: "'w CryptLib"
  h_client :: "'w LinodeClient"

definition node_of :: "LinodeDriver \<Rightarrow> Metadata \<Rightarrow> 'w Host \<Rightarrow> 'w NodeServer" where
  "node_of drv md h =
    \<lparr>ns_driver = drv, ns_mounter = h_mounter h, ns_deviceutils = NewDeviceUtils (h_fs h) (h_exec h),
     ns_client = h_client h, ns_metadata = md,
     ns_encrypt = NewLuksEncryption (h_exec h) (h_fs h) (h_crypt h)\<rparr>"

definition traced_fs :: "'w FileSystem \<Rightarrow> (host_event, 'w) logged FileSystem" where
  "traced_fs f =
    \<lparr>IsNotExist_fs = IsNotExist_fs f,
     MkdirAll_fs = (\<lambda>p m. log_call (EvMkdirAll p) (MkdirAll_fs f p m)),
     Stat_fs = (\<lambda>p. log_call (EvStat p) (Stat_fs f p)),
     Remove_fs = (\<lambda>p. log_call (EvRemove p) (Remove_fs f p)),
     OpenFile_fs = (\<lambda>p fl m. log_call (EvOpenFile p) (OpenFile_fs f p fl m)),
     Open_fs = (\<lambda>p. log_call (EvOpen p) (Open_fs f p)),
     Read_fs = (\<lambda>d n. log_call (EvRead d) (Read_fs f d n)),
     Close_fs = (\<lambda>d. log_call (EvClose d) (Close_fs f d)),
     Glob_fs = (\<lambda>p. log_call (EvGlob p) (Glob_fs f p)),
     EvalSymlinks_fs = (\<lambda>p. log_call (EvEvalSymlinks p) (EvalSymlinks_fs f p))\<rparr>"

definition traced_mounter :: "'w Mounter \<Rightarrow> (host_event, 'w) logged Mounter" where
  "traced_mounter m =
    \<lparr>IsLikelyNotMountPoint_m = (\<lambda>p. log_call (EvIsLikelyNotMountPoint p) (IsLikelyNotMountPoint_m m p)),
     Mount_m = (\<lambda>s t f opts. log_call (EvMount s t f opts) (Mount_m m s t f opts)),
     FormatAndMount_m = (\<lambda>s t f opts. log_call (EvFormatAndMount s t f opts) (FormatAndMount_m m s t f opts)),
     CleanupMountPoint_m = (\<lambda>p b. log_call (EvCleanupMountPoint p) (CleanupMountPoint_m m p b))\<rparr>"

definition traced_exec :: "'w Executor \<Rightarrow> (host_event, 'w) logged Executor" where
  "traced_exec x =
    \<lparr>LookPath_x = (\<lambda>c. log_call (EvLookPath c) (LookPath_x x c)),
     Run_x = (\<lambda>c as. log_call (EvRun c as) (Run_x x c as)),
     CombinedOutput_x = (\<lambda>c as. log_call (EvCombinedOutput c as) (CombinedOutput_x x c as))\<rparr>"

definition traced_crypt :: "'w CryptLib \<Rightarrow> (host_event, 'w) logged CryptLib" where
  "traced_crypt c =
    \<lparr>Init_lib = (\<lambda>p. log_call (EvInit p) (Init_lib c p)),
     InitByName_lib = (\<lambda>n. log_call (EvInitByName n) (InitByName_lib c n)),
     Format_dev = (\<lambda>d s p. log_call (EvFormat d p) (Format_dev c d s p)),
     KeyslotAddByVolumeKey_dev = (\<lambda>d i a b. log_call (EvKeyslotAdd d) (KeyslotAddByVolumeKey_dev c d i a b)),
     ActivateByPassphrase_dev = (\<lambda>d n i k fl. log_call (EvActivate d n) (ActivateByPassphrase_dev c d n i k fl)),
     Load_dev = (\<lambda>d s. log_call (EvLoad d) (Load_dev c d s)),
     Free_dev = (\<lambda>d. log_call (EvFree d) (Free_dev c d)),
     Deactivate_dev = (\<lambda>d n. log_call (EvDeactivate d n) (Deactivate_dev c d n))\<rparr>"

text \<open>The client of the node server: the two operations it calls are logged; the others, which
  it never calls, are left as they are.\<close>

definition traced_node_client :: "'w LinodeClient \<Rightarrow> (host_event, 'w) logged LinodeClient" where
  "traced_node_client c =
    \<lparr>ListInstances_api = (\<lambda>opts. through_log (ListInstances_api c opts)),
     ListVolumes_api = (\<lambda>opts. log_call (\<lambda>r. EvApi (EvListVolumes opts r)) (ListVolumes_api c opts)),
     ListInstanceVolumes_api = (\<lambda>i opts. through_log (ListInstanceVolumes_api c i opts)),
     ListInstanceDisks_api = (\<lambda>i opts. log_call (\<lambda>r. EvApi (EvListInstanceDisks i r)) (ListInstanceDisks_api c i opts)),
     GetRegion_api = (\<lambda>r. through_log (GetRegion_api c r)),
     GetInstance_api = (\<lambda>i. through_log (GetInstance_api c i)),
     GetVolume_api = (\<lambda>v. through_log (GetVolume_api c v)),
     CreateVolume_api = (\<lambda>opts. through_log (CreateVolume_api c opts)),
     CloneVolume_api = (\<lambda>v l. through_log (CloneVolume_api c v l)),
     AttachVolume_api = (\<lambda>v opts. through_log (AttachVolume_api c v opts)),
     DetachVolume_api = (\<lambda>v. through_log (DetachVolume_api c v)),
     WaitForVolumeLinodeID_api = (\<lambda>v l t. through_log (WaitForVolumeLinodeID_api c v l t)),
     WaitForVolumeStatus_api = (\<lambda>v st t. through_log (WaitForVolumeStatus_api c v st t)),
     DeleteVolume_api = (\<lambda>v. through_log (DeleteVolume_api c v)),
     ResizeVolume_api = (\<lambda>v n. through_log (ResizeVolume_api c v n)),
     NewEventPoller_api = (\<lambda>i t a. through_log (NewEventPoller_api c i t a)),
     IsNotFound = IsNotFound c,
     NewListOptions = NewListOptions c\<rparr>"

definition traced_host :: "'w Host \<Rightarrow> (host_event, 'w) logged Host" where
  "traced_host h =
    \<lparr>h_fs = traced_fs (h_fs h), h_mounter = traced_mounter (h_mounter h), h_exec = traced_exec (h_exec h),
     h_crypt = traced_crypt (h_crypt h), h_client = traced_node_client (h_client h)\<rparr>"

lemma traced_host_sel [simp]:
  "h_fs (traced_host h) = traced_fs (h_fs h)" "h_mounter (traced_host h) = traced_mounter (h_mounter h)"
  "h_exec (traced_host h) = traced_exec (h_exec h)" "h_crypt (traced_host h) = traced_crypt (h_crypt h)"
  "h_client (traced_host h) = traced_node_client (h_client h)"
  by (simp_all add: traced_host_def)

lemma node_of_sel [simp]:
  "ns_driver (node_of drv md h) = drv" "ns_mounter (node_of drv md h) = h_mounter h"
  "ns_deviceutils (node_of drv md h) = NewDeviceUtils (h_fs h) (h_exec h)"
  "ns_client (node_of drv md h) = h_client h" "ns_metadata (node_of drv md h) = md"
  "ns_encrypt (node_of drv md h) = NewLuksEncryption (h_exec h) (h_fs h) (h_crypt h)"
  by (simp_all add: node_of_def)

lemma encryption_sel [simp]:
  "Enc_Exec (NewLuksEncryption x f c) = x" "Enc_FileSystem (NewLuksEncryption x f c) = f"
  "Enc_CryptSetup (NewLuksEncryption x f c) = c"
  by (simp_all add: NewLuksEncryption_def)

lemma device_utils_sel [simp]:
  "GetDiskByIdPaths_du (NewDeviceUtils f x) = GetDiskByIdPaths"
  "VerifyDevicePath_du (NewDeviceUtils f x) = VerifyDevicePath f x"
  by (simp_all add: NewDeviceUtils_def)

lemma traced_parts [simp]:
  "IsNotExist_fs (traced_fs f) = IsNotExist_fs f"
  "MkdirAll_fs (traced_fs f) p m = log_call (EvMkdirAll p) (MkdirAll_fs f p m)"
  "Stat_fs (traced_fs f) p = log_call (EvStat p) (Stat_fs f p)"
  "Remove_fs (traced_fs f) p = log_call (EvRemove p) (Remove_fs f p)"
  "OpenFile_fs (traced_fs f) p fl m = log_call (EvOpenFile p) (OpenFile_fs f p fl m)"
  "Open_fs (traced_fs f) p = log_call (EvOpen p) (Open_fs f p)"
  "Read_fs (traced_fs f) d n = log_call (EvRead d) (Read_fs f d n)"
  "Close_fs (traced_fs f) d = log_call (EvClose d) (Close_fs f d)"
  "Glob_fs (traced_fs f) p = log_call (EvGlob p) (Glob_fs f p)"
  "EvalSymlinks_fs (traced_fs f) p = log_call (EvEvalSymlinks p) (EvalSymlinks_fs f p)"
  "IsLikelyNotMountPoint_m (traced_mounter mo) p = log_call (EvIsLikelyNotMountPoint p) (IsLikelyNotMountPoint_m mo p)"
  "Mount_m (traced_mounter mo) s t ft opts = log_call (EvMount s t ft opts) (Mount_m mo s t ft opts)"
  "FormatAndMount_m (traced_mounter mo) s t ft opts = log_call (EvFormatAndMount s t ft opts) (FormatAndMount_m mo s t ft opts)"
  "CleanupMountPoint_m (traced_mounter mo) p b = log_call (EvCleanupMountPoint p) (CleanupMountPoint_m mo p b)"
  "LookPath_x (traced_exec x) c = log_call (EvLookPath c) (LookPath_x x c)"
  "Run_x (traced_exec x) c as = log_call (EvRun c as) (Run_x x c as)"
  "CombinedOutput_x (traced_exec x) c as = log_call (EvCombinedOutput c as) (CombinedOutput_x x c as)"
  "Init_lib (traced_crypt l) p = log_call (EvInit p) (Init_lib l p)"
  "InitByName_lib (traced_crypt l) p = log_call (EvInitByName p) (InitByName_lib l p)"
  "Format_dev (traced_crypt l) d sz gp = log_call (EvFormat d gp) (Format_dev l d sz gp)"
  "KeyslotAddByVolumeKey_dev (traced_crypt l) d i k k' = log_call (EvKeyslotAdd d) (KeyslotAddByVolumeKey_dev l d i k k')"
  "ActivateByPassphrase_dev (traced_crypt l) d nm i k fls = log_call (EvActivate d nm) (ActivateByPassphrase_dev l d nm i k fls)"
  "Load_dev (traced_crypt l) d sz = log_call (EvLoad d) (Load_dev l d sz)"
  "Free_dev (traced_crypt l) d = log_call (EvFree d) (Free_dev l d)"
  "Deactivate_dev (traced_crypt l) d nm = log_call (EvDeactivate d nm) (Deactivate_dev l d nm)"
  "ListVolumes_api (traced_node_client cl) lo = log_call (\<lambda>r. EvApi (EvListVolumes lo r)) (ListVolumes_api cl lo)"
  "ListInstanceDisks_api (traced_node_client cl) i lo' = log_call (\<lambda>r. EvApi (EvListInstanceDisks i r)) (ListInstanceDisks_api cl i lo')"
  "NewListOptions (traced_node_client cl) = NewListOptions cl"
  by (simp_all add: traced_fs_def traced_mounter_def traced_exec_def traced_crypt_def traced_node_client_def)

lemmas traced_sel = traced_parts traced_host_sel node_of_sel encryption_sel device_utils_sel

section \<open>Erasing the log\<close>

lemma erase_first_existing: "erases forget_log (first_existing ps (traced_fs f)) (first_existing ps f)"
proof (induction ps)
  case Nil
  show ?case unfolding first_existing_eqs by (intro erase_log_intros)
next
  case (Cons p ps)
  then show ?case
    unfolding first_existing_eqs pathExists_def traced_sel by (intro erase_log_intros)
qed

lemma erase_trigger: "erases forget_log (trigger_first_new ds bs (traced_fs f) (traced_exec x)) (trigger_first_new ds bs f x)"
proof (induction ds)
  case Nil
  show ?case unfolding trigger_first_new_eqs by (intro erase_log_intros)
next
  case (Cons d ds)
  then show ?case
    unfolding trigger_first_new_eqs udevadmChangeToDrive_def traced_sel by (intro erase_log_intros)
qed

lemma erase_VerifyDevicePath:
  "erases forget_log (VerifyDevicePath (traced_fs f) (traced_exec x) ps) (VerifyDevicePath f x ps)"
  unfolding VerifyDevicePath_def udevadmChangeToNewDrives_def traced_sel
  by (intro erase_log_intros erase_first_existing erase_trigger)

lemmas luks_defs = luksFormat_def luksOpen_def luksClose_def blkidValid_def NewLuksDevice_def
  NewLuksDeviceByName_def CryptSetup_Init_def CryptSetup_InitByName_def

lemma erase_mountVolume:
  "erases forget_log (mountVolume (node_of drv md (traced_host h)) p req) (mountVolume (node_of drv md h) p req)"
  unfolding mountVolume_def formatLUKSVolume_def luks_defs Let_def traced_sel
  by (intro erase_log_intros)

lemma erase_ensureMountPoint:
  "erases forget_log (ensureMountPoint (node_of drv md (traced_host h)) p (traced_fs f)) (ensureMountPoint (node_of drv md h) p f)"
  unfolding ensureMountPoint_def traced_sel by (intro erase_log_intros)

lemma erase_NodeStageVolume:
  "erases forget_log (NodeStageVolume (node_of drv md (traced_host h)) (traced_fs f) req) (NodeStageVolume (node_of drv md h) f req)"
  unfolding NodeStageVolume_def findDevicePath_def Let_def traced_sel
  by (intro erase_log_intros erase_mountVolume erase_ensureMountPoint erase_VerifyDevicePath)

lemma erase_NodePublishVolume:
  "erases forget_log (NodePublishVolume (node_of drv md (traced_host h)) (traced_fs f) req) (NodePublishVolume (node_of drv md h) f req)"
  unfolding NodePublishVolume_def nodePublishVolumeBlock_def Let_def traced_sel
  by (intro erase_log_intros erase_ensureMountPoint)

lemma erase_NodeUnpublishVolume:
  "erases forget_log (NodeUnpublishVolume (node_of drv md (traced_host h)) req) (NodeUnpublishVolume (node_of drv md h) req)"
  unfolding NodeUnpublishVolume_def Let_def traced_sel by (intro erase_log_intros)

lemma erase_NodeUnstageVolume:
  "erases forget_log (NodeUnstageVolume (node_of drv md (traced_host h)) req) (NodeUnstageVolume (node_of drv md h) req)"
  unfolding NodeUnstageVolume_def closeLuksMountSource_def luks_defs Let_def traced_sel by (intro erase_log_intros)

lemma erase_NodeExpandVolume:
  "erases forget_log (NodeExpandVolume (node_of drv md (traced_host h)) req) (NodeExpandVolume (node_of drv md h) req)"
  unfolding NodeExpandVolume_def traced_sel by (intro erase_log_intros)

lemma erase_NodeGetInfo:
  "erases forget_log (NodeGetInfo (node_of drv md (traced_host h))) (NodeGetInfo (node_of drv md h))"
  unfolding NodeGetInfo_def traced_sel by (intro erase_log_intros)

end
