(* ===== verification/Node_Safety.thy ===== *)
theory Node_Safety
  imports Node_Trace
begin

text \<open>
  What the node handlers do to the host, on every path: a LUKS format only on a device that
  \<open>blkid\<close> reported blank, a mount only on a path that is not a mount point yet, the mapper device
  and never the raw one for an encrypted volume, unmounting before the mapper device goes.

  A monitor reads the log of host calls and rejects a call that is not justified by what came
  before; the handlers are shown accepted, and the state machine at the end lifts this to every
  sequence of node RPCs.
\<close>

section \<open>The monitor of the host\<close>

text \<open>
  What must have been seen before a dangerous call. \<open>blank\<close>: the devices on which \<open>blkid\<close> found
  nothing (exit status 2) since they were last formatted; \<open>opened_on\<close>: the path a crypt device was
  initialised on; \<open>mountable\<close>: the paths found not to be a mount point, or just opened or created as a
  file, on which nothing was mounted since. A LUKS format is accepted only on a blank device, a
  mount only on a mountable path.
\<close>

record host_monitor =
  blank :: "string set"
  opened_on :: "int \<rightharpoonup> string"
  mountable :: "string set"

fun host_next :: "host_monitor \<Rightarrow> host_event \<Rightarrow> host_monitor option" where
  "host_next m (EvRun c as r) =
     Some (if c = ''blkid'' then
             (if (case r of None \<Rightarrow> False | Some e \<Rightarrow> as_exit_status e = Some 2) then m\<lparr>blank := blank m \<union> set as\<rparr>
              else m\<lparr>blank := blank m - set as\<rparr>)
           else m)"
| "host_next m (EvInit p r) = Some (case r of Inl e \<Rightarrow> m | Inr d \<Rightarrow> m\<lparr>opened_on := (opened_on m)(d \<mapsto> p)\<rparr>)"
| "host_next m (EvFormat d params r) =
     (case opened_on m d of
        None \<Rightarrow> None
      | Some p \<Rightarrow> if p \<in> blank m then Some (m\<lparr>blank := blank m - {p}\<rparr>) else None)"
| "host_next m (EvIsLikelyNotMountPoint p r) =
     Some (if fst r then m\<lparr>mountable := insert p (mountable m)\<rparr> else m\<lparr>mountable := mountable m - {p}\<rparr>)"
| "host_next m (EvOpenFile p r) =
     Some (if is_err r then m else m\<lparr>mountable := insert p (mountable m)\<rparr>)"
| "host_next m (EvMount src tgt ft opts r) =
     (if tgt \<in> mountable m then Some (m\<lparr>mountable := mountable m - {tgt}\<rparr>) else None)"
| "host_next m (EvFormatAndMount src tgt ft opts r) =
     (if tgt \<in> mountable m then Some (m\<lparr>mountable := mountable m - {tgt}\<rparr>) else None)"
| "host_next m e = Some m"

text \<open>The calls of the search for the device, which the monitor ignores.\<close>

fun probing :: "host_event \<Rightarrow> bool" where
  "probing (EvGlob p r) = True"
| "probing (EvStat p r) = True"
| "probing (EvEvalSymlinks p r) = True"
| "probing (EvCombinedOutput c as r) = True"
| "probing e = False"

lemma host_next_probing: "probing e \<Longrightarrow> host_next m e = Some m"
  by (cases e) auto

lemma accepts_probing: "list_all probing es \<Longrightarrow> accepts host_next m (es @ es') = accepts host_next m es'"
  by (induction es) (auto simp: host_next_probing)

lemma accepts_probing_only: "list_all probing es \<Longrightarrow> accepts host_next m es"
  using accepts_probing [of es m "[]"] by simp

section \<open>Looking for the device\<close>

lemma emits_pathExists:
  "(\<And>es r. list_all probing es \<Longrightarrow> Q es (Done r)) \<Longrightarrow> emits Q (pathExists p (traced_fs f))"
  unfolding pathExists_def traced_sel by (auto simp: after_calls_def intro!: emits_steps)

lemma emits_first_existing:
  "emits (\<lambda>es out. list_all probing es \<and> (\<exists>r. out = Done r \<and> (\<forall>p. r = Inr p \<longrightarrow> p = [] \<or> p \<in> set ps)))
     (first_existing ps (traced_fs f))"
proof (induction ps)
  case Nil
  show ?case unfolding first_existing_eqs by (rule emits_ret) simp
next
  case (Cons p ps)
  have "emits (\<lambda>es' out. list_all probing (es @ es') \<and> (\<exists>r. out = Done r \<and> (\<forall>q. r = Inr q \<longrightarrow> q = [] \<or> q \<in> set (p # ps))))
     (first_existing ps (traced_fs f))" if "list_all probing es" for es
    using that by (intro emits_conseq [OF Cons.IH]) auto
  then show ?case
    unfolding first_existing_eqs
    by (intro emits_andThen emits_pathExists) (auto simp: after_calls_def intro!: emits_case_sum emits_if emits_ret)
qed

lemma emits_trigger:
  "emits (\<lambda>es out. list_all probing es \<and> (\<exists>r. out = Done r)) (trigger_first_new ds bs (traced_fs f) (traced_exec x))"
proof (induction ds)
  case Nil
  show ?case unfolding trigger_first_new_eqs by (rule emits_ret) simp
next
  case (Cons d ds)
  have "emits (\<lambda>es out. list_all probing es \<and> (\<exists>r. out = Done r)) (udevadmChangeToDrive d (traced_fs f) (traced_exec x))"
    unfolding udevadmChangeToDrive_def traced_sel by (auto simp: after_calls_def intro!: emits_steps)
  with Cons show ?case unfolding trigger_first_new_eqs by (intro emits_if)
qed

lemma emits_VerifyDevicePath:
  assumes "\<And>es r. list_all probing es \<Longrightarrow> (\<And>p. r = Inr p \<Longrightarrow> p = [] \<or> p \<in> set ps) \<Longrightarrow> Q es (Done r)"
  shows "emits Q (VerifyDevicePath (traced_fs f) (traced_exec x) ps)"
proof -
  have "emits (\<lambda>es out. list_all probing es \<and> (\<exists>r. out = Done r \<and> (\<forall>p. r = Inr p \<longrightarrow> p = [] \<or> p \<in> set ps)))
     (VerifyDevicePath (traced_fs f) (traced_exec x) ps)" (is "emits ?Q _")
    unfolding VerifyDevicePath_def udevadmChangeToNewDrives_def traced_sel
    apply (rule emits_andThen)
    apply (rule emits_call)
    apply (simp add: after_calls_def)
    apply (rule emits_case_prod)
    apply (rule emits_andThen)
    apply (rule emits_andThen)
    apply (rule emits_call)
    apply (simp add: after_calls_def)
    apply (rule emits_case_prod)
    apply (rule emits_case_option)
     apply (rule emits_conseq [OF emits_trigger])
    apply (auto simp: after_calls_def intro!: emits_ret emits_conseq [OF emits_first_existing])
    done
  then show ?thesis by (rule emits_conseq) (use assms in blast)
qed


section \<open>The calls of each handler\<close>

text \<open>The mounts of a log: source and target of each.\<close>

definition mounts_of :: "host_event list \<Rightarrow> (string \<times> string) list" where
  "mounts_of es = concat (map (\<lambda>e. case e of EvFormatAndMount src tgt ft opts r \<Rightarrow> [(src, tgt)] | EvMount src tgt ft opts r \<Rightarrow> [(src, tgt)] | _ \<Rightarrow> []) es)"

lemma mounts_of_simps [simp]: "mounts_of [] = []" "mounts_of (es @ es') = mounts_of es @ mounts_of es'"
  "mounts_of (e # es) = (case e of EvFormatAndMount src tgt ft opts r \<Rightarrow> [(src, tgt)] | EvMount src tgt ft opts r \<Rightarrow> [(src, tgt)] | _ \<Rightarrow> []) @ mounts_of es"
  by (simp_all add: mounts_of_def)

lemma mounts_of_probing [simp]: "list_all probing es \<Longrightarrow> mounts_of es = []"
proof (induction es)
  case (Cons e es)
  then show ?case by (cases e) simp_all
qed simp


definition keeps_mountable :: "host_monitor \<Rightarrow> host_event list \<Rightarrow> bool" where
  "keeps_mountable m es \<longleftrightarrow> (\<exists>m'. monitor_run host_next m es = Some m' \<and> mountable m' = mountable m)"

lemma luksFormat_calls:
  assumes "src \<in> blank m"
  shows "emits (\<lambda>es out. keeps_mountable m es \<and> mounts_of es = [] \<and>
       (\<forall>p. out = Done (Inr p) \<longrightarrow> p = ''/dev/mapper/'' @ LC_VolumeName ctx))
     (luksFormat (NewLuksEncryption (traced_exec x) (traced_fs f) (traced_crypt c)) ctx src)"
  using assms unfolding luks_defs Let_def traced_sel
  by (auto simp: after_calls_def keeps_mountable_def simp del: prog_eqs intro!: emits_steps emits_panic)

lemma luksOpen_calls:
  "emits (\<lambda>es out. keeps_mountable m es \<and> mounts_of es = [] \<and>
       (\<forall>p. out = Done (Inr p) \<longrightarrow> p = ''/dev/mapper/'' @ LC_VolumeName ctx))
     (luksOpen (NewLuksEncryption (traced_exec x) (traced_fs f) (traced_crypt c)) ctx src)"
  unfolding luks_defs Let_def traced_sel
  by (auto simp: after_calls_def keeps_mountable_def simp del: prog_eqs intro!: emits_steps)

lemma blkidValid_calls:
  "emits (\<lambda>es out. mounts_of es = [] \<and> (\<exists>m'. monitor_run host_next m es = Some m' \<and> mountable m' = mountable m \<and>
       (out = Done (Inr False) \<longrightarrow> src \<in> blank m')) \<and> out \<noteq> Panic)
     (blkidValid (NewLuksEncryption (traced_exec x) (traced_fs f) (traced_crypt c)) src)"
  unfolding luks_defs Let_def traced_sel
  by (auto simp: after_calls_def simp del: prog_eqs intro!: emits_steps)

lemma keeps_mountable_after:
  "monitor_run host_next m es = Some m' \<Longrightarrow> mountable m' = mountable m \<Longrightarrow> keeps_mountable m' es' \<Longrightarrow> keeps_mountable m (es @ es')"
  by (auto simp: keeps_mountable_def monitor_run_append)

lemma keeps_mountable_id: "monitor_run host_next m es = Some m' \<Longrightarrow> mountable m' = mountable m \<Longrightarrow> keeps_mountable m es"
  by (simp add: keeps_mountable_def)

lemma formatLUKSVolume_calls:
  "emits (\<lambda>es out. keeps_mountable m es \<and> mounts_of es = [] \<and>
       (\<forall>p. out = Done (Inr p) \<longrightarrow> p = ''/dev/mapper/'' @ LC_VolumeName ctx))
     (formatLUKSVolume (node_of drv md (traced_host h)) p0 ctx)" (is "emits ?Q _")
  unfolding formatLUKSVolume_def traced_sel
proof (rule emits_andThen, rule emits_conseq [OF blkidValid_calls [of m]], elim conjE exE)
  let ?enc = "NewLuksEncryption (traced_exec (h_exec h)) (traced_fs (h_fs h)) (traced_crypt (h_crypt h))"
  fix es and out :: "(error + bool) outcome" and m'
  assume quiet: "mounts_of es = []" and run: "monitor_run host_next m es = Some m'" "mountable m' = mountable m"
    and blank: "out = Done (Inr False) \<longrightarrow> p0 \<in> blank m'" and "out \<noteq> Panic"
  note after = keeps_mountable_after [OF run]
  have here: "?Q (es @ []) (Done (Inl e))" for e
    using keeps_mountable_id [OF run] quiet by simp
  have fmt: "emits (\<lambda>es' out. ?Q (es @ es') out)
      (andThen (luksFormat ?enc ctx p0) (\<lambda>r. case r of Inl err \<Rightarrow> ret (Inl (e1 err)) | Inr s \<Rightarrow> ret (Inr s)))"
    if "p0 \<in> blank m'" for e1
    by (rule emits_wrap_error [OF luksFormat_calls [OF that]]) (simp_all add: after quiet)
  have opn: "emits (\<lambda>es' out. ?Q (es @ es') out)
      (andThen (luksOpen ?enc ctx p0) (\<lambda>r. case r of Inl err \<Rightarrow> ret (Inl (e1 err)) | Inr s \<Rightarrow> ret (Inr s)))" for e1
    by (rule emits_wrap_error [OF luksOpen_calls [of m']]) (simp_all add: after quiet)
  obtain r where out: "out = Done r" using \<open>out \<noteq> Panic\<close> by (cases out) auto
  show "after_calls ?Q (\<lambda>r. case r of
         Inl err \<Rightarrow> ret (Inl (errInternal ''Failed to validate blkid (%q): %v'' [ArgStr p0, ArgErr err]))
       | Inr formatted \<Rightarrow>
          (case LuksContext_validate ctx of
            Some err \<Rightarrow> ret (Inl (errInternal ''Failed to luks format validation (%q): %v'' [ArgStr p0, ArgErr err]))
          | None \<Rightarrow>
              if \<not> formatted then
                andThen (luksFormat ?enc ctx p0) (\<lambda>r.
                case r of
                  Inl err \<Rightarrow> ret (Inl (errInternal ''Failed to luks format (%q): %v'' [ArgStr p0, ArgErr err]))
                | Inr luksSource \<Rightarrow> ret (Inr luksSource))
              else
                andThen (luksOpen ?enc ctx p0) (\<lambda>r.
                case r of
                  Inl err \<Rightarrow> ret (Inl (errInternal ''Failed to luks open (%q): %v'' [ArgStr p0, ArgErr err]))
                | Inr luksSource \<Rightarrow> ret (Inr luksSource)))) es out"
    unfolding out after_calls_def outcome.case
    by (intro emits_case_sum emits_case_option emits_if emits_ret fmt opn here) (use blank out in simp)
qed

text \<open>What \<open>mountVolume\<close> mounts: the mapper device of an encrypted volume, the device itself otherwise.\<close>

definition mount_source :: "NodeStageVolumeRequest \<Rightarrow> string \<Rightarrow> string" where
  "mount_source req devicePath =
     (if mget (NSR_VolumeContext req) LuksEncryptedAttribute = True_str
      then ''/dev/mapper/'' @ mget (NSR_VolumeContext req) PublishInfoVolumeName else devicePath)"

lemma mountVolume_calls:
  assumes "NSR_StagingTargetPath req \<in> mountable m"
  shows "emits (\<lambda>es out. accepts host_next m es \<and>
      mounts_of es \<in> {[], [(mount_source req devicePath, NSR_StagingTargetPath req)]})
    (mountVolume (node_of drv md (traced_host h)) devicePath req)"
    (is "emits ?Q _")
  unfolding mountVolume_def Let_def split_beta traced_sel
proof (rule emits_andThen)
  let ?ctx = "getLuksContext (NSR_Secrets req) (NSR_VolumeContext req) VolumeLifecycleNodeStageVolume"
  let ?fs = "getFSTypeAndMountOptions (NSR_VolumeCapability req)"
  let ?k = "\<lambda>r. case r of
           Inl err \<Rightarrow> ret (Some err)
         | Inr src \<Rightarrow>
             andThen (call (log_call (EvFormatAndMount src (NSR_StagingTargetPath req) (fst ?fs) (snd ?fs))
               (FormatAndMount_m (h_mounter h) src (NSR_StagingTargetPath req) (fst ?fs) (snd ?fs)))) (\<lambda>err.
             case err of
               Some e \<Rightarrow> ret (Some (errInternal
                 ''Failed to format and mount device from (%q)---(%q) to (%q) with fstype (%q) and options (%q): %v''
                 [ArgStr src, ArgStr devicePath, ArgStr (NSR_StagingTargetPath req), ArgStr (fst ?fs),
                  ArgStrs (snd ?fs), ArgErr e]))
             | None \<Rightarrow> ret None)"
  have mount: "after_calls ?Q ?k es out"
    if es: "keeps_mountable m es" "mounts_of es = []" and src: "\<forall>p. out = Done (Inr p) \<longrightarrow> p = mount_source req devicePath" for es out
  proof -
    obtain m' where m': "monitor_run host_next m es = Some m'" "mountable m' = mountable m"
      using es(1) by (auto simp: keeps_mountable_def)
    with assms have "NSR_StagingTargetPath req \<in> mountable m'" by simp
    moreover have "accepts host_next m es" using m'(1) by (simp add: accepts_def)
    ultimately have fin: "NSR_StagingTargetPath req \<in> mountable m'" "accepts host_next m es" by simp_all
    note fin = fin m'(1) es(2) accepts_append
    show ?thesis
    proof (cases out)
      case Panic
      with m'(1) es(2) show ?thesis by (simp add: after_calls_def accepts_def)
    next
      case (Done r)
      show ?thesis
      proof (cases r)
        case (Inl e)
        have "emits (\<lambda>es'. ?Q (es @ es')) (ret (Some e))"
          by (rule emits_ret) (simp add: fin)
        with Done Inl show ?thesis by (simp add: after_calls_def)
      next
        case (Inr p)
        have Q: "?Q (es @ ([EvFormatAndMount p (NSR_StagingTargetPath req) (fst ?fs) (snd ?fs) r'] @ [])) out'" for r' out'
          using src Done Inr by (simp add: fin)
        show ?thesis
          unfolding Done Inr after_calls_def outcome.case sum.case
          by (rule emits_andThen, rule emits_call, unfold after_calls_def outcome.case)
            (rule emits_case_option; rule emits_ret; rule Q)
      qed
    qed
  qed
  have "emits (after_calls ?Q ?k) (formatLUKSVolume (node_of drv md (traced_host h)) devicePath ?ctx)"
    if "EncryptionEnabled ?ctx"
    using that by (intro emits_conseq [OF formatLUKSVolume_calls [of m]] mount)
      (auto simp: mount_source_def getLuksContext_def split: if_splits)
  moreover have "emits (after_calls ?Q ?k) (ret (Inr devicePath))" if "\<not> EncryptionEnabled ?ctx"
    using that by (intro emits_ret mount) (auto simp: mount_source_def getLuksContext_def keeps_mountable_def split: if_splits)
  ultimately show "emits (after_calls ?Q ?k)
     (if EncryptionEnabled ?ctx then formatLUKSVolume (node_of drv md (traced_host h)) devicePath ?ctx
      else ret (Inr devicePath))"
    by (intro emits_if)
qed


lemma emits_mountVolume:
  assumes "\<And>es out. (\<And>m. NSR_StagingTargetPath req \<in> mountable m \<Longrightarrow> accepts host_next m es) \<Longrightarrow>
      mounts_of es = [] \<or> mounts_of es = [(mount_source req devicePath, NSR_StagingTargetPath req)] \<Longrightarrow> Q es out"
  shows "emits Q (mountVolume (node_of drv md (traced_host h)) devicePath req)"
proof -
  have "emits (\<lambda>es out. \<forall>m. NSR_StagingTargetPath req \<in> mountable m \<longrightarrow> accepts host_next m es \<and>
      mounts_of es \<in> {[], [(mount_source req devicePath, NSR_StagingTargetPath req)]})
    (mountVolume (node_of drv md (traced_host h)) devicePath req)"
  proof (rule emits_All)
    fix m
    show "emits (\<lambda>es out. NSR_StagingTargetPath req \<in> mountable m \<longrightarrow> accepts host_next m es \<and>
      mounts_of es \<in> {[], [(mount_source req devicePath, NSR_StagingTargetPath req)]})
      (mountVolume (node_of drv md (traced_host h)) devicePath req)"
    proof (cases "NSR_StagingTargetPath req \<in> mountable m")
      case True
      show ?thesis by (rule emits_conseq [OF mountVolume_calls [OF True]]) simp
    next
      case False
      have "emits (\<lambda>es out. True) (mountVolume (node_of drv md (traced_host h)) devicePath req)"
        by (rule emits_conseq [OF mountVolume_calls [of req "\<lparr>blank = {}, opened_on = Map.empty, mountable = {NSR_StagingTargetPath req}\<rparr>"]]) simp_all
      with False show ?thesis by (auto elim: emits_conseq)
    qed
  qed
  then show ?thesis
  proof (rule emits_conseq)
    fix es out
    assume all: "\<forall>m. NSR_StagingTargetPath req \<in> mountable m \<longrightarrow> accepts host_next m es \<and>
      mounts_of es \<in> {[], [(mount_source req devicePath, NSR_StagingTargetPath req)]}"
    from spec [OF all, of "\<lparr>blank = {}, opened_on = Map.empty, mountable = {NSR_StagingTargetPath req}\<rparr>"] all
    show "Q es out" by (intro assms) auto
  qed
qed

definition stage_devices :: "NodeStageVolumeRequest \<Rightarrow> string list" where
  "stage_devices req =
     (case ParseLinodeVolumeKey (NSR_VolumeId req) of
        Inl e \<Rightarrow> []
      | Inr key \<Rightarrow> GetDiskByIdPaths (GetNormalizedLabel key)
                    (case NSR_VolumeContext req ''partition'' of Some part \<Rightarrow> part | None \<Rightarrow> []))"

lemma NodeStageVolume_calls:
  "emits (\<lambda>es out. accepts host_next m es \<and>
     (mounts_of es = [] \<or> \<not> cap_block (NSR_VolumeCapability req) \<and>
       (\<exists>devicePath \<in> set (stage_devices req). mounts_of es = [(mount_source req devicePath, NSR_StagingTargetPath req)])))
   (NodeStageVolume (node_of drv md (traced_host h)) (traced_fs f) req)"
  unfolding NodeStageVolume_def findDevicePath_def ensureMountPoint_def Let_def traced_sel
  by (auto simp: after_calls_def accepts_probing accepts_probing_only stage_devices_def simp del: prog_eqs
     intro!: emits_steps emits_VerifyDevicePath emits_mountVolume split: option.splits outcome.splits) blast+

definition publish_options :: "NodePublishVolumeRequest \<Rightarrow> string list" where
  "publish_options req = (if NPR_Readonly req then [''bind'', ''ro''] else [''bind''])"

lemma NodePublishVolume_accepted:
  "emits (\<lambda>es out. accepts host_next m es) (NodePublishVolume (node_of drv md (traced_host h)) (traced_fs f) req)"
  unfolding NodePublishVolume_def nodePublishVolumeBlock_def ensureMountPoint_def Let_def traced_sel
  by (auto simp: after_calls_def simp del: prog_eqs intro!: emits_steps)

lemma NodePublishVolume_mounts:
  "emits (\<lambda>es out. \<forall>src tgt ft opts r. EvMount src tgt ft opts r \<in> set es \<longrightarrow>
      tgt = NPR_TargetPath req \<and> opts = publish_options req \<and>
      src = (if cap_block (NPR_VolumeCapability req) then mget (NPR_PublishContext req) devicePathKey
             else NPR_StagingTargetPath req) \<and>
      (r \<noteq> None \<longrightarrow> (\<exists>e. out = Done (Inl e) \<and> status_code e = Some Internal)) \<and>
      (r = None \<longrightarrow> out = Done (Inr ())))
    (NodePublishVolume (node_of drv md (traced_host h)) (traced_fs f) req)"
  unfolding NodePublishVolume_def nodePublishVolumeBlock_def ensureMountPoint_def Let_def traced_sel publish_options_def
  by (auto simp: after_calls_def errInternal_def simp del: prog_eqs intro!: emits_steps)

lemma NodePublishVolume_block_cleanup:
  assumes "cap_block (NPR_VolumeCapability req)"
  shows "emits (\<lambda>es out. \<forall>src tgt ft opts e. EvMount src tgt ft opts (Some e) \<in> set es \<longrightarrow>
      (\<exists>pre re d c. es = pre @ [EvMount src tgt ft opts (Some e), EvRemove (NPR_TargetPath req) re, EvClose d c]))
    (NodePublishVolume (node_of drv md (traced_host h)) (traced_fs f) req)"
  using assms
  unfolding NodePublishVolume_def nodePublishVolumeBlock_def ensureMountPoint_def Let_def traced_sel
  by (auto simp: after_calls_def simp del: prog_eqs intro!: emits_steps)

lemma NodeUnpublishVolume_accepted:
  "emits (\<lambda>es out. accepts host_next m es) (NodeUnpublishVolume (node_of drv md (traced_host h)) req)"
  unfolding NodeUnpublishVolume_def Let_def traced_sel
  by (auto simp: after_calls_def simp del: prog_eqs intro!: emits_steps)

lemma NodeUnstageVolume_accepted:
  "emits (\<lambda>es out. accepts host_next m es) (NodeUnstageVolume (node_of drv md (traced_host h)) req)"
  unfolding NodeUnstageVolume_def closeLuksMountSource_def luks_defs Let_def traced_sel
  by (auto simp: after_calls_def simp del: prog_eqs intro!: emits_steps)

lemma NodeUnstageVolume_order:
  "emits (\<lambda>es out. \<forall>d n r. EvDeactivate d n r \<in> set es \<longrightarrow>
      getMountSource (NUR_VolumeId req) = Inr n \<and>
      (\<exists>rest. es = EvCleanupMountPoint (NUR_StagingTargetPath req) None # EvInitByName n (Inr d) # EvDeactivate d n r # rest))
    (NodeUnstageVolume (node_of drv md (traced_host h)) req)"
  unfolding NodeUnstageVolume_def closeLuksMountSource_def luks_defs Let_def traced_sel
  by (auto simp: after_calls_def simp del: prog_eqs intro!: emits_steps)

lemma NodeExpandVolume_accepted:
  "emits (\<lambda>es out. accepts host_next m es) (NodeExpandVolume (node_of drv md (traced_host h)) req)"
  unfolding NodeExpandVolume_def Let_def traced_sel
  by (auto simp: after_calls_def simp del: prog_eqs intro!: emits_steps)

lemma NodeGetInfo_accepted:
  "emits (\<lambda>es out. accepts host_next m es) (NodeGetInfo (node_of drv md (traced_host h)))"
  unfolding NodeGetInfo_def Let_def traced_sel
  by (auto simp: after_calls_def simp del: prog_eqs intro!: emits_steps)

section \<open>The node server as a state machine\<close>

text \<open>
  One step is one RPC served to its end (the mutex of the node server keeps them apart), or any
  change of the host that the driver did not make.
\<close>

inductive node_step :: "LinodeDriver \<Rightarrow> Metadata \<Rightarrow> 'w Host \<Rightarrow> (host_event, 'w) logged world \<Rightarrow> (host_event, 'w) logged world \<Rightarrow> bool"
  for drv md h where
  step_NodePublishVolume: "node_step drv md h s (snd (NodePublishVolume (node_of drv md (traced_host h)) (traced_fs (h_fs h)) pub s))"
| step_NodeUnpublishVolume: "node_step drv md h s (snd (NodeUnpublishVolume (node_of drv md (traced_host h)) unpub s))"
| step_NodeStageVolume: "node_step drv md h s (snd (NodeStageVolume (node_of drv md (traced_host h)) (traced_fs (h_fs h)) stage s))"
| step_NodeUnstageVolume: "node_step drv md h s (snd (NodeUnstageVolume (node_of drv md (traced_host h)) unstage s))"
| step_NodeExpandVolume: "node_step drv md h s (snd (NodeExpandVolume (node_of drv md (traced_host h)) expand s))"
| step_NodeGetInfo: "node_step drv md h s (snd (NodeGetInfo (node_of drv md (traced_host h)) s))"
| step_NodeGetCapabilities: "node_step drv md h s (snd (NodeGetCapabilities (node_of drv md (traced_host h)) s))"
| step_host: "node_step drv md h s (s\<lparr>Ext := (trace_log s, w)\<rparr>)"

inductive node_reach :: "LinodeDriver \<Rightarrow> Metadata \<Rightarrow> 'w Host \<Rightarrow> 'w world \<Rightarrow> (host_event, 'w) logged world \<Rightarrow> bool"
  for drv md h s0 where
  node_start: "node_reach drv md h s0 (with_log s0)"
| node_next: "node_reach drv md h s0 s \<Longrightarrow> node_step drv md h s s' \<Longrightarrow> node_reach drv md h s0 s'"

lemma NodeStageVolume_accepted:
  "emits (\<lambda>es out. accepts host_next m es) (NodeStageVolume (node_of drv md (traced_host h)) (traced_fs f) req)"
  by (rule emits_conseq [OF NodeStageVolume_calls [of m]]) simp

lemmas node_accepted = NodePublishVolume_accepted NodeUnpublishVolume_accepted NodeStageVolume_accepted
  NodeUnstageVolume_accepted NodeExpandVolume_accepted NodeGetInfo_accepted

lemma node_step_accepts:
  assumes "node_step drv md h s s'"
  shows "\<exists>es. trace_log s' = trace_log s @ es \<and> accepts host_next m es"
  using assms
  by cases (auto simp: NodeGetCapabilities_def intro: node_accepted [THEN emits_extends])

lemma node_reach_accepts: "node_reach drv md h s0 s \<Longrightarrow> accepts host_next m (trace_log s)"
proof (induction rule: node_reach.induct)
  case (node_next s s')
  obtain m' where m': "monitor_run host_next m (trace_log s) = Some m'"
    using node_next.IH by (auto simp: accepts_def)
  obtain es where "trace_log s' = trace_log s @ es" "accepts host_next m' es"
    using node_step_accepts [OF node_next.hyps(2)] by blast
  with m' show ?case by (simp add: accepts_append)
qed simp

end
