(* ===== verification/Controller_Safety.thy ===== *)
theory Controller_Safety
  imports API_Trace
begin

text \<open>
  What the controller's handlers do to the outside world.

  \<open>*_emits\<close>: the exact calls around every mutating call of a handler, on every path.
  \<open>*_yields\<close>: no panic, given what the client documents. \<open>*_guarded\<close>: every mutating call comes
  right after the call that justifies it; the state machine at the end lifts this to every
  sequence of RPCs, interleaved with arbitrary changes made by others.
\<close>

section \<open>The calls of each handler\<close>

lemmas create_path_defs = CreateVolume_def prepareVolumeParams_def isEncryptionSupported_def
  getContentSourceVolume_def createAndWaitForVolume_def attemptCreateLinodeVolume_def
  cloneLinodeVolume_def createLinodeVolume_def

lemmas publish_path_defs = ControllerPublishVolume_def getInstance_def getAndValidateVolume_def
  checkAttachmentCapacity_def canAttach_def maxAllowedVolumeAttachments_def attachVolume_def

lemma DeleteVolume_emits:
  "emits (\<lambda>es out. \<forall>v r. EvDeleteVolume v r \<in> set es \<longrightarrow>
      VolumeIdAsInt ''DeleteVolume'' (DVR_VolumeId req) = Inr v \<and>
      (\<exists>vol. es = [EvGetVolume v (Some vol, None), EvDeleteVolume v r] \<and> Vol_LinodeID vol = None))
    (DeleteVolume (traced_cs cs) req)"
  unfolding DeleteVolume_def traced_cs_simps traced_simps
  by (auto simp: after_calls_def intro!: emits_steps)

lemma ControllerPublishVolume_emits:
  "emits (\<lambda>es out. \<forall>v ao r. EvAttachVolume v ao r \<in> set es \<longrightarrow>
     (\<exists>l i specs vol disks vols rest.
        validateControllerPublishVolumeRequest req = Inr (l, v) \<and>
        ao = \<lparr>VAO_LinodeID = l, VAO_PersistAcrossBoots = Some False\<rparr> \<and>
        es = [EvGetInstance l (Some i, None), EvGetVolume v (Some vol, None),
              EvListInstanceDisks (Inst_ID i) (disks, None), EvListInstanceVolumes (Inst_ID i) (vols, None),
              EvAttachVolume v ao r] @ rest \<and>
        (Vol_LinodeID vol = None \<or> Vol_LinodeID vol = Some (Inst_ID i) \<and> Vol_FilesystemPath vol = []) \<and>
        Inst_Specs i = Some specs \<and>
        int (length vols) + int (length disks) < maxVolumeAttachments (push_bit 20 (word_of_int (Spec_Memory specs))) \<and>
        (\<forall>e \<in> set rest. \<not> mutating e)))
   (ControllerPublishVolume (traced_cs cs) req)"
  unfolding publish_path_defs traced_cs_simps traced_simps
  by (auto simp: after_calls_def intro!: emits_steps)

lemma ControllerUnpublishVolume_emits:
  "emits (\<lambda>es out. \<forall>v r. EvDetachVolume v r \<in> set es \<longrightarrow>
     (\<exists>l vol rest.
        VolumeIdAsInt ''ControllerUnpublishVolume'' (CUR_VolumeId req) = Inr v \<and>
        NodeIdAsInt ''ControllerUnpublishVolume'' (CUR_NodeId req) = Inr l \<and>
        es = [EvGetVolume v (Some vol, None), EvDetachVolume v r] @ rest \<and>
        Vol_LinodeID vol \<in> {None, Some l} \<and> (\<forall>e \<in> set rest. \<not> mutating e)))
   (ControllerUnpublishVolume (traced_cs cs) req)"
  unfolding ControllerUnpublishVolume_def traced_cs_simps traced_simps
  by (auto simp: after_calls_def split: option.splits intro!: emits_steps)

lemma ControllerExpandVolume_emits:
  "emits (\<lambda>es out. \<forall>v n r. EvResizeVolume v n r \<in> set es \<longrightarrow>
     (\<exists>vol sz rest.
        VolumeIdAsInt ''ControllerExpandVolume'' (CER_VolumeId req) = Inr v \<and>
        getRequestCapacitySize (CER_CapacityRange req) = Inr sz \<and> n = bytesToGB sz \<and>
        es = [EvGetVolume v (Some vol, None), EvResizeVolume v n r] @ rest \<and>
        Vol_Size vol \<le> n \<and> (\<forall>e \<in> set rest. \<not> mutating e)))
   (ControllerExpandVolume (traced_cs cs) req)"
  unfolding ControllerExpandVolume_def traced_cs_simps traced_simps
  by (auto simp: after_calls_def intro!: emits_steps)

text \<open>
  The only mutating calls of \<open>CreateVolume\<close>: creating or cloning a volume with the normalised
  label, right after the API listed no volume under that label.
\<close>

definition create_guard :: "'w ControllerServer \<Rightarrow> CreateVolumeRequest \<Rightarrow> api_event list \<Rightarrow> api_event \<Rightarrow> bool" where
  "create_guard cs req hist e =
     (let name = GetNormalizedLabelWithPrefix (CreateLinodeVolumeKey 0 (CVR_Name req))
                   (Drv_volumeLabelPrefix (cs_driver cs))
      in ends_with [EvListVolumes (NewListOptions (cs_client cs) 0 (label_filter name)) ([], None)] hist \<and>
         (case e of
            EvCreateVolume opts r \<Rightarrow>
              VCO_Label opts = name \<and>
              (\<exists>sz. getRequestCapacitySize (CVR_CapacityRange req) = Inr sz \<and> VCO_Size opts = bytesToGB sz)
          | EvCloneVolume src label r \<Rightarrow> label = name
          | _ \<Rightarrow> False))"

lemma not_one_not_many: "\<not> Suc 0 < length xs \<Longrightarrow> length xs \<noteq> Suc 0 \<Longrightarrow> xs = []"
  by (cases xs) auto

lemma CreateVolume_emits:
  "emits (\<lambda>es out. length (filter mutating es) \<le> 1 \<and> guarded mutating (create_guard cs req) [] es)
    (CreateVolume (traced_cs cs) req)"
  unfolding create_path_defs
    traced_cs_simps traced_simps
  by (auto simp: after_calls_def Let_def create_guard_def ends_with_def not_one_not_many intro!: emits_steps)

lemma CreateVolume_response:
  "emits (\<lambda>es out. \<forall>resp. out = Done (Inr resp) \<longrightarrow>
     (\<exists>pre i vol sz. es = pre @ [EvWaitForVolumeStatus i VolumeActive (Some vol, None)] \<and>
        getRequestCapacitySize (CVR_CapacityRange req) = Inr sz \<and> CV_CapacityBytes resp = sz \<and>
        CV_VolumeId resp = GetVolumeKey (CreateLinodeVolumeKey (Vol_ID vol) (Vol_Label vol)) \<and>
        CV_VolumeContext resp = createVolumeContext req vol \<and>
        CV_AccessibleTopology resp = [[VolumeTopologyRegion \<mapsto> Vol_Region vol]] \<and>
        (CV_ContentSource resp = None \<longleftrightarrow> CVR_VolumeContentSource req = None)))
    (CreateVolume (traced_cs cs) req)"
  unfolding create_path_defs
    traced_cs_simps traced_simps
  by (auto simp: after_calls_def Let_def prepareCreateVolumeResponse_def simp del: prog_eqs intro!: emits_steps)

lemma CreateVolume_existing:
  "emits (\<lambda>es out. \<forall>opts v. EvListVolumes opts ([v], None) \<in> set es \<longrightarrow>
     list_all (\<lambda>e. \<not> mutating e) es \<and>
     (\<forall>resp. out = Done (Inr resp) \<longrightarrow> (\<exists>t r. last es = EvWaitForVolumeStatus (Vol_ID v) VolumeActive (Some t, r) \<and>
        CV_VolumeId resp = GetVolumeKey (CreateLinodeVolumeKey (Vol_ID t) (Vol_Label t)))))
    (CreateVolume (traced_cs cs) req)"
  unfolding create_path_defs
    traced_cs_simps traced_simps
  by (auto simp: after_calls_def Let_def prepareCreateVolumeResponse_def length_Suc_conv simp del: prog_eqs intro!: emits_steps)

lemma CreateVolume_wait_failed:
  "emits (\<lambda>es out. \<forall>i st e. EvWaitForVolumeStatus i st (None, Some e) \<in> set es \<longrightarrow> out = Panic)
    (CreateVolume (traced_cs cs) req)"
  unfolding create_path_defs
    traced_cs_simps traced_simps
  by (auto simp: after_calls_def Let_def simp del: prog_eqs intro!: emits_steps)

lemma ListVolumes_emits:
  "emits (\<lambda>es out. \<forall>resp. out = Done (Inr resp) \<longrightarrow>
     (\<exists>opts volumes. es = [EvListVolumes opts (volumes, None)] \<and>
        LR_Entries resp = map list_entry volumes \<and>
        (LVR_StartingToken req = [] \<longrightarrow> LR_NextToken resp = []) \<and>
        (LVR_StartingToken req \<noteq> [] \<longrightarrow> Atoi (LVR_StartingToken req) = Inr (Opt_Page opts) \<and>
           Atoi (LR_NextToken resp) = Inr (int64_wrap (Opt_Page opts + 1)))))
    (ListVolumes (traced_cs cs) req)"
  unfolding ListVolumes_def Let_def traced_cs_simps traced_simps
  by (auto simp: after_calls_def Atoi_Itoa simp del: prog_eqs intro!: emits_steps)

section \<open>No handler panics\<close>

lemma DeleteVolume_yields:
  assumes "returns_values (cs_client cs)"
  shows "yields (\<lambda>r. True) (DeleteVolume cs req)"
  unfolding DeleteVolume_def
  by (auto intro!: yields_steps assms)

lemma ControllerUnpublishVolume_yields:
  assumes "returns_values (cs_client cs)"
  shows "yields (\<lambda>r. True) (ControllerUnpublishVolume cs req)"
  unfolding ControllerUnpublishVolume_def
  by (auto intro!: yields_steps assms)

lemma ControllerExpandVolume_yields:
  assumes "returns_values (cs_client cs)"
  shows "yields (\<lambda>r. \<forall>resp. r = Inr resp \<longrightarrow> getRequestCapacitySize (CER_CapacityRange req) = Inr (ER_CapacityBytes resp) \<and> \<not> ER_NodeExpansionRequired resp) (ControllerExpandVolume cs req)"
  unfolding ControllerExpandVolume_def
  by (auto intro!: yields_steps assms)

lemma ControllerPublishVolume_yields:
  assumes "returns_values (cs_client cs)" "attached_after_wait (cs_client cs)"
  shows "yields (\<lambda>r. True) (ControllerPublishVolume cs req)"
  unfolding publish_path_defs
  using nil_not_not_found [OF assms(1)]
  by (auto intro!: yields_intros yields_RecordMetrics yields_record_return yields_call_attached
     yields_pointer_calls(1) yields_other_pointer_calls yields_plain_calls assms)

lemma CreateVolume_yields:
  assumes "returns_values (cs_client cs)" "wait_keeps_volume (cs_client cs)"
  shows "yields (\<lambda>r. True) (CreateVolume cs req)"
  unfolding create_path_defs Let_def
  by (auto intro!: yields_intros yields_record_return yields_call_wait
     yields_pointer_calls(1,2,3) yields_other_pointer_calls yields_plain_calls assms split: VolumeContentSource.splits)

section \<open>Guarded calls\<close>

text \<open>
  What the calls right before a mutating call must have shown. Before an attachment these are the four calls that look at the instance
  the volume is attached to, at the volume, and at the disks and the volumes of that instance.
\<close>

definition api_guard :: "'w LinodeClient \<Rightarrow> api_event list \<Rightarrow> api_event \<Rightarrow> bool" where
  "api_guard c hist e =
     (case e of
        EvDeleteVolume v r \<Rightarrow> (\<exists>vol. ends_with [EvGetVolume v (Some vol, None)] hist \<and> Vol_LinodeID vol = None)
      | EvDetachVolume v r \<Rightarrow> (\<exists>vol. ends_with [EvGetVolume v (Some vol, None)] hist)
      | EvResizeVolume v n r \<Rightarrow> (\<exists>vol. ends_with [EvGetVolume v (Some vol, None)] hist \<and> Vol_Size vol \<le> n)
      | EvCreateVolume opts r \<Rightarrow> ends_with [EvListVolumes (NewListOptions c 0 (label_filter (VCO_Label opts))) ([], None)] hist
      | EvCloneVolume v label r \<Rightarrow> ends_with [EvListVolumes (NewListOptions c 0 (label_filter label)) ([], None)] hist
      | EvAttachVolume v opts r \<Rightarrow>
          (\<exists>inst specs vol disks vols.
             ends_with [EvGetInstance (VAO_LinodeID opts) (Some inst, None), EvGetVolume v (Some vol, None),
                     EvListInstanceDisks (Inst_ID inst) (disks, None), EvListInstanceVolumes (Inst_ID inst) (vols, None)] hist \<and>
             Vol_LinodeID vol \<in> {None, Some (Inst_ID inst)} \<and> Inst_Specs inst = Some specs \<and>
             int (length vols) < maxVolumeAttachments (push_bit 20 (word_of_int (Spec_Memory specs))) - int (length disks))
      | _ \<Rightarrow> False)"

lemma stable_api_guard: "stable_guard (api_guard c)"
  unfolding stable_guard_def api_guard_def by (auto split: api_event.splits intro: ends_with_longer) (meson ends_with_longer)+

lemma create_guard_api: "create_guard cs req hist e \<Longrightarrow> api_guard (cs_client cs) hist e"
  by (auto simp: create_guard_def api_guard_def Let_def split: api_event.splits)

lemma CreateVolume_guarded:
  "emits (\<lambda>es out. guarded mutating (api_guard (cs_client cs)) [] es) (CreateVolume (traced_cs cs) req)"
  by (rule emits_conseq [OF CreateVolume_emits]) (blast intro: guarded_mono create_guard_api)

lemma DeleteVolume_guarded:
  "emits (\<lambda>es out. guarded mutating (api_guard (cs_client cs)) [] es) (DeleteVolume (traced_cs cs) req)"
  unfolding DeleteVolume_def traced_cs_simps traced_simps
  by (auto simp: after_calls_def api_guard_def ends_with_def intro!: emits_steps)

lemma attachments_lt: "int n < maxVolumeAttachments m - int k \<Longrightarrow> int n < maxAttachments"
  using maxVolumeAttachments_bounds(2) [of m] by (simp add: maxAttachments_def)

lemma ControllerPublishVolume_guarded:
  "emits (\<lambda>es out. guarded mutating (api_guard (cs_client cs)) [] es) (ControllerPublishVolume (traced_cs cs) req)"
  unfolding publish_path_defs traced_cs_simps traced_simps
  by (auto simp: after_calls_def api_guard_def ends_with_def intro!: emits_steps)

lemma ControllerUnpublishVolume_guarded:
  "emits (\<lambda>es out. guarded mutating (api_guard (cs_client cs)) [] es) (ControllerUnpublishVolume (traced_cs cs) req)"
  unfolding ControllerUnpublishVolume_def traced_cs_simps traced_simps
  by (auto simp: after_calls_def api_guard_def ends_with_def split: option.splits intro!: emits_steps)

lemma ControllerExpandVolume_guarded:
  "emits (\<lambda>es out. guarded mutating (api_guard (cs_client cs)) [] es) (ControllerExpandVolume (traced_cs cs) req)"
  unfolding ControllerExpandVolume_def traced_cs_simps traced_simps
  by (auto simp: after_calls_def api_guard_def ends_with_def intro!: emits_steps)

lemma ListVolumes_guarded:
  "emits (\<lambda>es out. guarded mutating (api_guard (cs_client cs)) [] es) (ListVolumes (traced_cs cs) req)"
  unfolding ListVolumes_def Let_def traced_cs_simps traced_simps
  by (auto simp: after_calls_def intro!: emits_steps)

lemma ValidateVolumeCapabilities_guarded:
  "emits (\<lambda>es out. guarded mutating (api_guard (cs_client cs)) [] es) (ValidateVolumeCapabilities (traced_cs cs) req)"
  unfolding ValidateVolumeCapabilities_def Let_def traced_cs_simps traced_simps
  by (auto simp: after_calls_def intro!: emits_steps)

section \<open>The controller as a state machine\<close>

text \<open>
  One step is one RPC served to its end, whatever it returns, or any change of the outside world
  that the driver did not make. The log is not part of the program: it only observes.
\<close>

inductive ctl_step :: "'w ControllerServer \<Rightarrow> (api_event, 'w) logged world \<Rightarrow> (api_event, 'w) logged world \<Rightarrow> bool" for cs where
  step_CreateVolume: "ctl_step cs s (snd (CreateVolume (traced_cs cs) req s))"
| step_DeleteVolume: "ctl_step cs s (snd (DeleteVolume (traced_cs cs) req s))"
| step_ControllerPublishVolume: "ctl_step cs s (snd (ControllerPublishVolume (traced_cs cs) req s))"
| step_ControllerUnpublishVolume: "ctl_step cs s (snd (ControllerUnpublishVolume (traced_cs cs) req s))"
| step_ValidateVolumeCapabilities: "ctl_step cs s (snd (ValidateVolumeCapabilities (traced_cs cs) req s))"
| step_ListVolumes: "ctl_step cs s (snd (ListVolumes (traced_cs cs) req s))"
| step_ControllerGetCapabilities: "ctl_step cs s (snd (ControllerGetCapabilities (traced_cs cs) s))"
| step_ControllerExpandVolume: "ctl_step cs s (snd (ControllerExpandVolume (traced_cs cs) req s))"
| step_outside: "ctl_step cs s (s\<lparr>Ext := (trace_log s, w)\<rparr>)"

inductive ctl_reach :: "'w ControllerServer \<Rightarrow> 'w world \<Rightarrow> (api_event, 'w) logged world \<Rightarrow> bool" for cs s0 where
  reach_start: "ctl_reach cs s0 (with_log s0)"
| reach_step: "ctl_reach cs s0 s \<Longrightarrow> ctl_step cs s s' \<Longrightarrow> ctl_reach cs s0 s'"

lemma ctl_step_guarded:
  "ctl_step cs s s' \<Longrightarrow> \<exists>es. trace_log s' = trace_log s @ es \<and> guarded mutating (api_guard (cs_client cs)) [] es"
  by (induction rule: ctl_step.induct)
    (auto simp: ControllerGetCapabilities_def
      intro: emits_extends [OF CreateVolume_guarded] emits_extends [OF DeleteVolume_guarded] 
       emits_extends [OF ControllerPublishVolume_guarded] emits_extends [OF ControllerUnpublishVolume_guarded]
       emits_extends [OF ValidateVolumeCapabilities_guarded] emits_extends [OF ListVolumes_guarded]
       emits_extends [OF ControllerExpandVolume_guarded])

lemma ctl_reach_guarded: "ctl_reach cs s0 s \<Longrightarrow> guarded mutating (api_guard (cs_client cs)) [] (trace_log s)"
  by (induction rule: ctl_reach.induct) (auto dest!: ctl_step_guarded intro: guarded_append [OF stable_api_guard])

end
