(* ===== verification/Sample_Cloud.thy ===== *)
theory Sample_Cloud
  imports Controller_Safety
begin

text \<open>
  One concrete client of the Linode API, a list of volumes and instances kept in memory, and a
  controller that uses it. The theorems of the development hold for every client; this one
  is the concrete input their hypotheses are checked on.
\<close>

section \<open>The client\<close>

record cloud =
  cl_volumes :: "Volume list"
  cl_instances :: "Instance list"
  cl_next :: int

definition not_found :: error where
  "not_found = LinodeError 404 ''Not found''"

definition wait_timeout :: error where
  "wait_timeout = OtherError ''context deadline exceeded''"

definition set_volume :: "int \<Rightarrow> (Volume \<Rightarrow> Volume) \<Rightarrow> cloud \<Rightarrow> cloud" where
  "set_volume i f w = w\<lparr>cl_volumes := map (\<lambda>v. if Vol_ID v = i then f v else v) (cl_volumes w)\<rparr>"

definition get_volume :: "int \<Rightarrow> cloud \<Rightarrow> Volume option \<times> error option" where
  "get_volume i w =
     (case find (\<lambda>v. Vol_ID v = i) (cl_volumes w) of Some v \<Rightarrow> (Some v, None) | None \<Rightarrow> (None, Some not_found))"

definition add_volume :: "string \<Rightarrow> int \<Rightarrow> string \<Rightarrow> cloud \<Rightarrow> (Volume option \<times> error option) \<times> cloud" where
  "add_volume label sz region w =
     (let v = \<lparr>Vol_ID = cl_next w, Vol_Label = label, Vol_Status = VolumeActive, Vol_Region = region,
               Vol_Size = sz, Vol_LinodeID = None, Vol_FilesystemPath = ''/dev/disk/by-id/scsi-0Linode_Volume_'' @ label\<rparr>
      in ((Some v, None), w\<lparr>cl_volumes := cl_volumes w @ [v], cl_next := cl_next w + 1\<rparr>))"

definition cloud_client :: "cloud LinodeClient" where
  "cloud_client =
    \<lparr>ListInstances_api = (\<lambda>opts w. ((cl_instances w, None), w)),
     ListVolumes_api = (\<lambda>opts w.
       ((filter (\<lambda>v. Opt_Filter opts = [] \<or> label_filter (Vol_Label v) = Opt_Filter opts) (cl_volumes w), None), w)),
     ListInstanceVolumes_api = (\<lambda>i opts w. ((filter (\<lambda>v. Vol_LinodeID v = Some i) (cl_volumes w), None), w)),
     ListInstanceDisks_api = (\<lambda>i opts w. (([\<lparr>Disk_ID = i\<rparr>], None), w)),
     GetRegion_api = (\<lambda>r w. ((Some \<lparr>Region_ID = r, Region_Capabilities = [''Block Storage Encryption'']\<rparr>, None), w)),
     GetInstance_api = (\<lambda>i w.
       (case find (\<lambda>x. Inst_ID x = i) (cl_instances w) of Some x \<Rightarrow> (Some x, None) | None \<Rightarrow> (None, Some not_found), w)),
     GetVolume_api = (\<lambda>i w. (get_volume i w, w)),
     CreateVolume_api = (\<lambda>opts. add_volume (VCO_Label opts) (VCO_Size opts) (VCO_Region opts)),
     CloneVolume_api = (\<lambda>i label w.
       (case get_volume i w of (Some v, None) \<Rightarrow> add_volume label (Vol_Size v) (Vol_Region v) w | r \<Rightarrow> (r, w))),
     AttachVolume_api = (\<lambda>i opts w.
       (let w' = set_volume i (\<lambda>v. v\<lparr>Vol_LinodeID := Some (VAO_LinodeID opts)\<rparr>) w in (get_volume i w', w'))),
     DetachVolume_api = (\<lambda>i w. (snd (get_volume i w), set_volume i (\<lambda>v. v\<lparr>Vol_LinodeID := None\<rparr>) w)),
     WaitForVolumeLinodeID_api = (\<lambda>i l t w.
       (case get_volume i w of
          (Some v, None) \<Rightarrow> if Vol_LinodeID v = l then (Some v, None) else (None, Some wait_timeout)
        | r \<Rightarrow> r, w)),
     WaitForVolumeStatus_api = (\<lambda>i st t w. (get_volume i w, w)),
     DeleteVolume_api = (\<lambda>i w. (snd (get_volume i w), w\<lparr>cl_volumes := filter (\<lambda>v. Vol_ID v \<noteq> i) (cl_volumes w)\<rparr>)),
     ResizeVolume_api = (\<lambda>i n w. (snd (get_volume i w), set_volume i (\<lambda>v. v\<lparr>Vol_Size := n\<rparr>) w)),
     NewEventPoller_api = (\<lambda>i t a w. ((None, Some not_found), w)),
     IsNotFound = (\<lambda>e. e = Some not_found),
     NewListOptions = (\<lambda>p f. \<lparr>Opt_Page = p, Opt_PageSize = 0, Opt_Filter = f\<rparr>)\<rparr>"

section \<open>A controller and its requests\<close>

definition sample_driver :: LinodeDriver where
  "sample_driver = \<lparr>Drv_name = Name, Drv_vendorVersion = ''1'', Drv_volumeLabelPrefix = ''csi'',
     Drv_vcap = VolumeCapabilityAccessModes, Drv_cscap = ControllerServiceCapabilities,
     Drv_nscap = NodeServiceCapabilities, Drv_ready = True, Drv_enableMetrics = ''true'', Drv_metricsPort = ''8081'',
     Drv_enableTracing = ''false'', Drv_tracingPort = ''4318''\<rparr>"

definition sample_cs :: "cloud ControllerServer" where
  "sample_cs = \<lparr>cs_driver = sample_driver, cs_client = cloud_client,
     cs_metadata = \<lparr>Meta_ID = 9, Meta_Label = ''node'', Meta_Region = ''us-east'', Meta_Memory = 8589934592\<rparr>\<rparr>"

definition sample_volume :: Volume where
  "sample_volume = \<lparr>Vol_ID = 42, Vol_Label = ''csipvc1'', Vol_Status = VolumeActive, Vol_Region = ''us-east'',
     Vol_Size = 10, Vol_LinodeID = None, Vol_FilesystemPath = ''/dev/disk/by-id/scsi-0Linode_Volume_csipvc1''\<rparr>"

definition sample_instance :: Instance where
  "sample_instance = \<lparr>Inst_ID = 9, Inst_Label = ''node'', Inst_Region = ''us-east'', Inst_Specs = Some \<lparr>Spec_Memory = 8192\<rparr>\<rparr>"

definition fresh :: "'w \<Rightarrow> 'w world" where
  "fresh w = \<lparr>Totals = (\<lambda>_. 0), Durations = (\<lambda>_. 0), Ext = w\<rparr>"

definition sample_state :: "cloud world" where
  "sample_state = fresh \<lparr>cl_volumes = [sample_volume], cl_instances = [sample_instance], cl_next = 43\<rparr>"

lemmas cloud_defs = cloud_client_def get_volume_def set_volume_def add_volume_def not_found_def wait_timeout_def
lemmas sample_defs = sample_cs_def sample_driver_def sample_volume_def sample_instance_def sample_state_def fresh_def


lemmas id_defs = VolumeIdAsInt_def ParseLinodeVolumeKey_def SplitN2_def Atoi_def parseUint_def is_digit_def digit_val_def GetVolumeID_def NodeIdAsInt_def

lemma sample_ids [simp]:
  "VolumeIdAsInt c ''42-csipvc1'' = Inr 42"
  "NodeIdAsInt c ''9'' = Inr 9"
  by (simp_all add: id_defs)

lemma sample_client_simps [simp]:
  "cs_client sample_cs = cloud_client"
  "Ext sample_state = \<lparr>cl_volumes = [sample_volume], cl_instances = [sample_instance], cl_next = 43\<rparr>"
  by (simp_all add: sample_cs_def sample_state_def fresh_def)

lemmas run_simps = calls_of_def call_log record_return_run RecordMetrics_def trace_log_def

definition sample_cap :: VolumeCapability where
  "sample_cap = \<lparr>Cap_AccessType = AT_Block, Cap_AccessMode = Some SINGLE_NODE_WRITER\<rparr>"

lemmas publish_run_defs = publish_path_defs validateControllerPublishVolumeRequest_def sample_cap_def
  maxVolumeAttachments_eq timeouts

lemmas create_run_defs = create_path_defs validateCreateVolumeRequest_def sample_cap_def
  getRequestCapacitySize_def GetNormalizedLabelWithPrefix_take CreateLinodeVolumeKey_def
  label_filter_def json_string_def json_body_plain json_plain_def bytesToGB_div
  MinVolumeSizeBytes_eq timeouts True_str_def

lemma cloud_returns_values: "returns_values cloud_client"
  by (auto simp: returns_values_def returns_value_def nil_is_found_def cloud_defs Let_def
      split: option.splits if_splits)

lemma cloud_attached_after_wait: "attached_after_wait cloud_client"
  by (auto simp: attached_after_wait_def cloud_defs split: option.splits if_splits)

end
