(* ===== verification/Node_Metadata.thy ===== *)
theory Node_Metadata
  imports Host_Interfaces Driver_Types
begin

text \<open>
  \<open>internal/driver/metadata.go\<close>: what the node knows about itself, from the metadata service or,
  failing that, from the Linode API and the ID file the init container left.

  The metadata service's client is \<open>go-metadata\<close>, outside the repository: a function of the
  outside world. \<open>io.ReadAll\<close> over \<open>io.LimitReader\<close> is a loop that need not end (a reader may
  return no bytes and no error for ever), so it runs on fuel and gives \<open>None\<close> when the
  fuel, the number of reads, is used up. \<open>LinodeIDFuel\<close> reads are enough for every reader that
  makes progress (\<open>readAll_returns\<close>): the limit is 1024 bytes.
\<close>

section \<open>Memory\<close>

definition minMemory :: "64 word" where
  "minMemory = push_bit 30 1"

definition memoryToBytes :: "int \<Rightarrow> 64 word" where
  "memoryToBytes sizeMB = (if sizeMB < push_bit 10 1 then minMemory else push_bit 20 (word_of_int sizeMB))"

definition LinodeIDPath :: string where
  "LinodeIDPath = ''/linode-info/linode-id''"

definition errNilClient :: error where
  "errNilClient = GoError ''nil client'' []"

section \<open>The metadata service\<close>

record InstanceData =
  ID_ID :: int
  ID_Label :: string
  ID_Region :: string
  ID_Memory :: int

type_synonym 'w MetadataClient = "'w \<Rightarrow> (InstanceData option \<times> error option) \<times> 'w"

definition GetMetadata :: "'w MetadataClient option \<Rightarrow> ('w world, error + Metadata) prog" where
  "GetMetadata client =
     (case client of
        None \<Rightarrow> ret (Inl errNilClient)
      | Some c \<Rightarrow>
          andThen (call c) (\<lambda>(datap, err).
          case err of
            Some e \<Rightarrow> ret (Inl (GoError ''get instance data: %w'' [ArgWrap e]))
          | None \<Rightarrow> deref datap (\<lambda>data.
              ret (Inr \<lparr>Meta_ID = ID_ID data, Meta_Label = ID_Label data, Meta_Region = ID_Region data,
                        Meta_Memory = memoryToBytes (ID_Memory data)\<rparr>))))"

section \<open>Reading the ID file\<close>

definition io_EOF :: error where
  "io_EOF = OtherError ''EOF''"

text \<open>
  The loop of \<open>io.ReadAll(io.LimitReader(f, n))\<close>: \<open>b\<close> is what was read, \<open>n\<close> what the limit leaves,
  \<open>room (length b)\<close> the free part of the buffer, which the runtime's growth policy decides.
\<close>

fun readAll ::
  "nat \<Rightarrow> (nat \<Rightarrow> nat) \<Rightarrow> 'w FileSystem \<Rightarrow> int \<Rightarrow> nat \<Rightarrow> string \<Rightarrow> ('w world, (string \<times> error option) option) prog" where
  "readAll 0 room fs f n b = ret None"
| "readAll (Suc fuel) room fs f n b =
     (if n = 0 then ret (Some (b, None))
      else
        andThen (call (Read_fs fs f (min (room (length b)) n))) (\<lambda>(chunk, err).
        case err of
          Some e \<Rightarrow> if e = io_EOF then ret (Some (b @ chunk, None)) else ret (Some (b @ chunk, Some e))
        | None \<Rightarrow> readAll fuel room fs f (n - length chunk) (b @ chunk)))"

definition LinodeIDLimit :: nat where
  "LinodeIDLimit = 2 ^ 10"

definition LinodeIDFuel :: nat where
  "LinodeIDFuel = LinodeIDLimit + 1"

section \<open>The Linode API\<close>

definition GetMetadataFromAPI ::
  "(nat \<Rightarrow> nat) \<Rightarrow> 'w LinodeClient option \<Rightarrow> 'w FileSystem \<Rightarrow> ('w world, (error + Metadata) option) prog" where
  "GetMetadataFromAPI room client fs =
     (case client of
        None \<Rightarrow> ret (Some (Inl errNilClient))
      | Some c \<Rightarrow>
          andThen (call (Stat_fs fs LinodeIDPath)) (\<lambda>err.
          case err of
            Some e \<Rightarrow> ret (Some (Inl (GoError ''stat %s: %w'' [ArgStr LinodeIDPath, ArgWrap e])))
          | None \<Rightarrow>
              andThen (call (Open_fs fs LinodeIDPath)) (\<lambda>r.
              case r of
                Inl e \<Rightarrow> ret (Some (Inl (GoError ''open: %w'' [ArgWrap e])))
              | Inr fileObj \<Rightarrow>
                  with_defer
                    (andThen (readAll LinodeIDFuel room fs fileObj LinodeIDLimit []) (\<lambda>rd.
                     case rd of
                       None \<Rightarrow> ret None
                     | Some (data, err) \<Rightarrow>
                         (case err of
                            Some e \<Rightarrow> ret (Some (Inl (GoError ''read all: %w'' [ArgWrap e])))
                          | None \<Rightarrow>
                              (case Atoi data of
                                 Inl e \<Rightarrow> ret (Some (Inl (GoError ''atoi: %w'' [ArgWrap (NumError data e)])))
                               | Inr linodeID \<Rightarrow>
                                   andThen (call (GetInstance_api c linodeID)) (\<lambda>(inst, err).
                                   case err of
                                     Some e \<Rightarrow> ret (Some (Inl (GoError ''get instance: %w'' [ArgWrap e])))
                                   | None \<Rightarrow> deref inst (\<lambda>i.
                                       let memory = (case Inst_Specs i of
                                                       Some specs \<Rightarrow> memoryToBytes (Spec_Memory specs)
                                                     | None \<Rightarrow> minMemory)
                                       in ret (Some (Inr \<lparr>Meta_ID = linodeID, Meta_Label = Inst_Label i,
                                                          Meta_Region = Inst_Region i, Meta_Memory = memory\<rparr>))))))))
                    (call (Close_fs fs fileObj)))))"

section \<open>Both\<close>

definition GetNodeMetadata ::
  "('w \<Rightarrow> ('w MetadataClient option \<times> error option) \<times> 'w) \<Rightarrow> (nat \<Rightarrow> nat)
     \<Rightarrow> 'w LinodeClient option \<Rightarrow> 'w FileSystem \<Rightarrow> ('w world, (error + Metadata) option) prog" where
  "GetNodeMetadata NewMetadataClient room cloudProvider fileSystem =
     andThen (call NewMetadataClient) (\<lambda>(cl, err).
     let linodeMetadataClient = (if err \<noteq> None then None else cl);
         verify = (\<lambda>nodeMetadata.
           if Meta_ID nodeMetadata = 0 then ret (Some (Inl (GoError ''failed to obtain valid node metadata'' [])))
           else ret (Some (Inr nodeMetadata)));
         fallback =
           andThen (GetMetadataFromAPI room cloudProvider fileSystem) (\<lambda>r.
           case r of
             None \<Rightarrow> ret None
           | Some (Inl e) \<Rightarrow> ret (Some (Inl (GoError ''failed to get metadata from API: %w'' [ArgWrap e])))
           | Some (Inr nodeMetadata) \<Rightarrow> verify nodeMetadata)
     in case linodeMetadataClient of
          None \<Rightarrow> fallback
        | Some c \<Rightarrow>
            andThen (GetMetadata (Some c)) (\<lambda>r.
            case r of
              Inl e \<Rightarrow> fallback
            | Inr nodeMetadata \<Rightarrow> verify nodeMetadata))"

section \<open>Facts\<close>

lemma memoryToBytes_uint:
  assumes "1024 \<le> mb" and "mb < 2 ^ 44"
  shows "uint (memoryToBytes mb) = mb * 2 ^ 20"
proof -
  have "uint (push_bit 20 (word_of_int mb :: 64 word)) = mb * 2 ^ 20 mod 2 ^ 64"
    using assms by (simp add: push_bit_eq_mult uint_word_ariths uint_word_of_int take_bit_eq_mod
        mod_mult_left_eq)
  also have "\<dots> = mb * 2 ^ 20" using assms by simp
  finally show ?thesis using assms by (simp add: memoryToBytes_def push_bit_eq_mult)
qed

text \<open>A reader that makes progress: a read into a buffer with room gives a byte or an error.\<close>

definition progressing :: "'w FileSystem \<Rightarrow> bool" where
  "progressing fs \<longleftrightarrow> (\<forall>f k w chunk w'. 0 < k \<longrightarrow> Read_fs fs f k w = ((chunk, None), w') \<longrightarrow> chunk \<noteq> [])"

definition reads_at_most :: "'w FileSystem \<Rightarrow> bool" where
  "reads_at_most fs \<longleftrightarrow> (\<forall>f k w chunk err w'. Read_fs fs f k w = ((chunk, err), w') \<longrightarrow> length chunk \<le> k)"

lemma readAll_eqs:
  "readAll 0 room fs f n b = ret None"
  "readAll (Suc fuel) room fs f n b =
     (if n = 0 then ret (Some (b, None))
      else
        andThen (call (Read_fs fs f (min (room (length b)) n))) (\<lambda>(chunk, err).
        case err of
          Some e \<Rightarrow> if e = io_EOF then ret (Some (b @ chunk, None)) else ret (Some (b @ chunk, Some e))
        | None \<Rightarrow> readAll fuel room fs f (n - length chunk) (b @ chunk)))"
  by (rule ext, simp)+

declare readAll.simps [simp del]

definition read_done :: "nat \<Rightarrow> (string \<times> error option) option \<Rightarrow> bool" where
  "read_done k r = (case r of None \<Rightarrow> False | Some (data, err) \<Rightarrow> length data \<le> k)"

lemma readAll_returns:
  assumes "progressing fs" and "reads_at_most fs" and room: "\<And>k. 0 < room k" and "n < fuel"
  shows "yields (read_done (length b + n)) (readAll fuel room fs f n b)"
  using assms(4)
proof (induction fuel arbitrary: n b)
  case (Suc fuel)
  show ?case
    unfolding readAll_eqs
  proof (rule yields_if)
    assume "n = 0"
    show "yields (read_done (length b + n)) (ret (Some (b, None)))"
      by (rule yields_ret) (simp add: read_done_def)
  next
    assume n: "n \<noteq> 0"
    have *: "yields (read_done (length b + n))
        (readAll fuel room fs f (n - length chunk) (b @ chunk))" if "chunk \<noteq> []" "length chunk \<le> n" for chunk
      using Suc.IH [of "n - length chunk" "b @ chunk"] Suc.prems that n
      by (auto simp: length_greater_0_conv [symmetric] simp del: length_greater_0_conv)
    show "yields (read_done (length b + n))
        (andThen (call (Read_fs fs f (min (room (length b)) n))) (\<lambda>(chunk, err).
        case err of
          Some e \<Rightarrow> if e = io_EOF then ret (Some (b @ chunk, None)) else ret (Some (b @ chunk, Some e))
        | None \<Rightarrow> readAll fuel room fs f (n - length chunk) (b @ chunk)))"
    proof (rule yields_andThen, rule yields_call)
      fix w
      obtain chunk err w' where r: "Read_fs fs f (min (room (length b)) n) w = ((chunk, err), w')"
        by (metis surj_pair)
      have len: "length chunk \<le> n" using assms(2) r unfolding reads_at_most_def by fastforce
      have "0 < min (room (length b)) n" using room n by simp
      then have "chunk \<noteq> []" if "err = None" using assms(1) r that unfolding progressing_def by blast
      with len show "yields (read_done (length b + n))
        (case fst (Read_fs fs f (min (room (length b)) n) w) of (chunk, err) \<Rightarrow>
        case err of
          Some e \<Rightarrow> if e = io_EOF then ret (Some (b @ chunk, None)) else ret (Some (b @ chunk, Some e))
        | None \<Rightarrow> readAll fuel room fs f (n - length chunk) (b @ chunk))"
        unfolding r by (auto intro!: yields_case_option yields_if yields_ret * simp: read_done_def simp del: prog_eqs)
    qed
  qed
qed simp

text \<open>Asking for the metadata always ends with an answer, and never with the ID zero.\<close>

lemma GetMetadataFromAPI_yields:
  assumes "progressing fs" "reads_at_most fs" "\<And>k. 0 < room k" and inst: "\<And>c i. client = Some c \<Longrightarrow> returns_value (GetInstance_api c i)"
  shows "yields (\<lambda>r. r \<noteq> None) (GetMetadataFromAPI room client fs)"
proof -
  have rd: "yields (read_done LinodeIDLimit) (readAll LinodeIDFuel room fs f LinodeIDLimit [])" for f
    using readAll_returns [OF assms(1-3), of LinodeIDLimit LinodeIDFuel "[]"] by (simp add: LinodeIDFuel_def)
  show ?thesis
    unfolding GetMetadataFromAPI_def Let_def
    by (auto intro!: yields_intros yields_with_defer yields_call yields_conseq [OF rd]
        simp: read_done_def simp del: prog_eqs split: option.splits)
      (metis inst not_None_eq prod.collapse returns_value_def)
qed

lemma GetNodeMetadata_yields:
  assumes "progressing fs" "reads_at_most fs" "\<And>k. 0 < room k" and "\<And>c i. client = Some c \<Longrightarrow> returns_value (GetInstance_api c i)"
    and "\<And>c e w w'. newc w = ((Some c, e), w') \<Longrightarrow> returns_value c"
  shows "yields (\<lambda>r. \<exists>a. r = Some a \<and> (\<forall>md. a = Inr md \<longrightarrow> Meta_ID md \<noteq> 0)) (GetNodeMetadata newc room client fs)"
  (is "yields ?Q _")
proof -
  let ?verify = "\<lambda>md. if Meta_ID md = 0 then ret (Some (Inl (GoError ''failed to obtain valid node metadata'' [])))
     else ret (Some (Inr md))"
  let ?fallback = "andThen (GetMetadataFromAPI room client fs) (\<lambda>r. case r of None \<Rightarrow> ret None
     | Some (Inl e) \<Rightarrow> ret (Some (Inl (GoError ''failed to get metadata from API: %w'' [ArgWrap e])))
     | Some (Inr md) \<Rightarrow> ?verify md)"
  have verify: "yields ?Q (?verify md)" for md
    by (intro yields_if yields_ret) simp_all
  have fallback: "yields ?Q ?fallback"
    by (rule yields_andThen, rule yields_conseq [OF GetMetadataFromAPI_yields [OF assms(1-4)]])
      (auto intro!: yields_ret verify split: sum.splits simp del: prog_eqs)
  have service: "yields ?Q (andThen (GetMetadata (Some c)) (\<lambda>r. case r of Inl e \<Rightarrow> ?fallback | Inr md \<Rightarrow> ?verify md))"
    if "returns_value c" for c
    using yields_call_value [OF that] unfolding GetMetadata_def
    by (auto intro!: yields_intros fallback verify yields_call_value [OF that] simp del: prog_eqs)
  show ?thesis
    unfolding GetNodeMetadata_def Let_def
  proof (rule yields_andThen, rule yields_call)
    fix w
    obtain cl err w' where w: "newc w = ((cl, err), w')" by (metis surj_pair)
    have "cl = Some c \<Longrightarrow> returns_value c" for c using assms(5) [of w c err w'] w by simp
    then show "yields ?Q (case fst (newc w) of (cl, err) \<Rightarrow>
        case if err \<noteq> None then None else cl of None \<Rightarrow> ?fallback
        | Some c \<Rightarrow> andThen (GetMetadata (Some c)) (\<lambda>r. case r of Inl e \<Rightarrow> ?fallback | Inr md \<Rightarrow> ?verify md))"
      unfolding w fst_conv prod.case by (intro yields_case_option fallback service) (simp split: if_splits)
  qed
qed

lemma memoryToBytes_limit:
  assumes "0 \<le> mb"
  shows "maxVolumeAttachments (memoryToBytes mb) = maxVolumeAttachments (push_bit 20 (word_of_int mb))"
proof (cases "mb < 1024")
  case True
  have "uint (push_bit 20 (word_of_int mb :: 64 word)) = mb * 2 ^ 20 mod 2 ^ 64"
    using assms True by (simp add: push_bit_eq_mult uint_word_ariths uint_word_of_int take_bit_eq_mod mod_mult_left_eq)
  with assms True have "uint (push_bit 20 (word_of_int mb :: 64 word)) div 2 ^ 30 < 1" by simp
  moreover have "uint minMemory div 2 ^ 30 = 1" by (simp add: minMemory_def push_bit_eq_mult)
  ultimately show ?thesis
    using True by (simp add: memoryToBytes_def maxVolumeAttachments_eq push_bit_eq_mult)
next
  case False
  then show ?thesis by (simp add: memoryToBytes_def push_bit_eq_mult)
qed

end
