(* ===== verification/Sample_Host.thy ===== *)
theory Sample_Host
  imports Node_Safety Sample_Cloud Node_Metadata
begin

text \<open>
  One concrete host, a few lists kept in memory, and a node server on it. The theorems of the
  development hold for every host; this one is the concrete input their hypotheses are
  checked on.
\<close>

record box =
  devices :: "string list"
  empty_devices :: "string list"
  mounted :: "(string \<times> string) list"
  mappings :: "string list"
  box_cloud :: cloud

definition box_fs :: "box FileSystem" where
  "box_fs =
    \<lparr>IsNotExist_fs = (\<lambda>e. e = ENOENT),
     MkdirAll_fs = (\<lambda>p m w. (None, w)),
     Stat_fs = (\<lambda>p w. (if p \<in> set (devices w) then None else Some ENOENT, w)),
     Remove_fs = (\<lambda>p w. (None, w)),
     OpenFile_fs = (\<lambda>p fl m w. (Inr 3, w)),
     Open_fs = (\<lambda>p w. (Inr 3, w)),
     Read_fs = (\<lambda>f n w. ((take n ''9'', Some io_EOF), w)),
     Close_fs = (\<lambda>f w. (None, w)),
     Glob_fs = (\<lambda>p w. (([], None), w)),
     EvalSymlinks_fs = (\<lambda>p w. (Inr p, w))\<rparr>"

definition box_os :: "box OS" where
  "box_os =
    \<lparr>os_IsNotExist = IsNotExist_fs box_fs, os_MkdirAll = MkdirAll_fs box_fs, os_Stat = Stat_fs box_fs, os_Remove = Remove_fs box_fs,
     os_OpenFile = OpenFile_fs box_fs, os_Open = Open_fs box_fs, File_Read = Read_fs box_fs, File_Close = Close_fs box_fs,
     filepath_Glob = Glob_fs box_fs, filepath_EvalSymlinks = EvalSymlinks_fs box_fs\<rparr>"

lemma box_os_fs [simp]: "NewFileSystem box_os = box_fs"
  by (simp add: NewFileSystem_def box_os_def)

definition mount_at :: "string \<Rightarrow> string \<Rightarrow> box \<Rightarrow> error option \<times> box" where
  "mount_at src tgt w =
     (if src = ''/dev/missing'' then (Some ENOENT, w) else (None, w\<lparr>mounted := (tgt, src) # mounted w\<rparr>))"

definition box_mounter :: "box Mounter" where
  "box_mounter =
    \<lparr>IsLikelyNotMountPoint_m = (\<lambda>p w. ((p \<notin> fst ` set (mounted w), None), w)),
     Mount_m = (\<lambda>src tgt ft opts. mount_at src tgt),
     FormatAndMount_m = (\<lambda>src tgt ft opts. mount_at src tgt),
     CleanupMountPoint_m = (\<lambda>p b w. (None, w\<lparr>mounted := filter (\<lambda>(tgt, src). tgt \<noteq> p) (mounted w)\<rparr>))\<rparr>"

definition box_exec :: "box Executor" where
  "box_exec =
    \<lparr>LookPath_x = (\<lambda>c w. (None, w)),
     Run_x = (\<lambda>c args w. (if set args \<subseteq> set (empty_devices w) then Some (ExitError 2) else None, w)),
     CombinedOutput_x = (\<lambda>c args w. (([], None), w))\<rparr>"

definition box_crypt :: "box CryptLib" where
  "box_crypt =
    \<lparr>Init_lib = (\<lambda>p w. (Inr 1, w)),
     InitByName_lib = (\<lambda>n w. (if n \<in> set (mappings w) then Inr 2 else Inl ENOENT, w)),
     Format_dev = (\<lambda>d sz ps w. (None, w)),
     KeyslotAddByVolumeKey_dev = (\<lambda>d i a b w. (None, w)),
     ActivateByPassphrase_dev = (\<lambda>d n i k fl w. (None, w\<lparr>mappings := n # mappings w\<rparr>)),
     Load_dev = (\<lambda>d sz w. (None, w)),
     Free_dev = (\<lambda>d w. (True, w)),
     Deactivate_dev = (\<lambda>d n w. (None, w\<lparr>mappings := filter (\<lambda>q. q \<noteq> n) (mappings w)\<rparr>))\<rparr>"

text \<open>The cloud client, on the cloud part of the box.\<close>

definition in_box :: "(cloud \<Rightarrow> 'r \<times> cloud) \<Rightarrow> box \<Rightarrow> 'r \<times> box" where
  "in_box f w = (case f (box_cloud w) of (r, c) \<Rightarrow> (r, w\<lparr>box_cloud := c\<rparr>))"

definition box_client :: "box LinodeClient" where
  "box_client =
    \<lparr>ListInstances_api = (\<lambda>opts. in_box (ListInstances_api cloud_client opts)),
     ListVolumes_api = (\<lambda>opts. in_box (ListVolumes_api cloud_client opts)),
     ListInstanceVolumes_api = (\<lambda>i opts. in_box (ListInstanceVolumes_api cloud_client i opts)),
     ListInstanceDisks_api = (\<lambda>i opts. in_box (ListInstanceDisks_api cloud_client i opts)),
     GetRegion_api = (\<lambda>r. in_box (GetRegion_api cloud_client r)),
     GetInstance_api = (\<lambda>i. in_box (GetInstance_api cloud_client i)),
     GetVolume_api = (\<lambda>v. in_box (GetVolume_api cloud_client v)),
     CreateVolume_api = (\<lambda>opts. in_box (CreateVolume_api cloud_client opts)),
     CloneVolume_api = (\<lambda>v l. in_box (CloneVolume_api cloud_client v l)),
     AttachVolume_api = (\<lambda>v opts. in_box (AttachVolume_api cloud_client v opts)),
     DetachVolume_api = (\<lambda>v. in_box (DetachVolume_api cloud_client v)),
     WaitForVolumeLinodeID_api = (\<lambda>v l t. in_box (WaitForVolumeLinodeID_api cloud_client v l t)),
     WaitForVolumeStatus_api = (\<lambda>v st t. in_box (WaitForVolumeStatus_api cloud_client v st t)),
     DeleteVolume_api = (\<lambda>v. in_box (DeleteVolume_api cloud_client v)),
     ResizeVolume_api = (\<lambda>v n. in_box (ResizeVolume_api cloud_client v n)),
     NewEventPoller_api = (\<lambda>i t a. in_box (NewEventPoller_api cloud_client i t a)),
     IsNotFound = IsNotFound cloud_client,
     NewListOptions = NewListOptions cloud_client\<rparr>"

definition box_host :: "box Host" where
  "box_host = \<lparr>h_fs = box_fs, h_mounter = box_mounter, h_exec = box_exec, h_crypt = box_crypt, h_client = box_client\<rparr>"

definition sample_metadata :: Metadata where
  "sample_metadata = \<lparr>Meta_ID = 9, Meta_Label = ''node'', Meta_Region = ''us-east'', Meta_Memory = memoryToBytes 8192\<rparr>"

definition box_state :: "box world" where
  "box_state = fresh \<lparr>devices = [''/dev/disk/by-id/scsi-0Linode_Volume_csipvc1''],
     empty_devices = [''/dev/disk/by-id/scsi-0Linode_Volume_csipvc1''], mounted = [], mappings = [''csipvc1''],
     box_cloud = Ext sample_state\<rparr>"

definition sample_stage :: "(string \<rightharpoonup> string) \<Rightarrow> NodeStageVolumeRequest" where
  "sample_stage ctx = \<lparr>NSR_VolumeId = ''42-csipvc1'', NSR_StagingTargetPath = ''/stage'',
     NSR_VolumeCapability = Some \<lparr>Cap_AccessType = AT_Mount \<lparr>FsType = [], MountFlags = []\<rparr>, Cap_AccessMode = Some SINGLE_NODE_WRITER\<rparr>,
     NSR_Secrets = [LuksKeyAttribute \<mapsto> ''secret''], NSR_VolumeContext = ctx\<rparr>"

definition luks_ctx :: "string \<rightharpoonup> string" where
  "luks_ctx = [LuksEncryptedAttribute \<mapsto> True_str, PublishInfoVolumeName \<mapsto> ''pvc1'',
     LuksCipherAttribute \<mapsto> ''aes-xts-plain64'', LuksKeySizeAttribute \<mapsto> ''512'']"

abbreviation box_node :: "(host_event, box) logged NodeServer" where
  "box_node \<equiv> node_of sample_driver sample_metadata (traced_host box_host)"

lemma box_host_sel [simp]:
  "h_fs box_host = box_fs" "h_mounter box_host = box_mounter" "h_exec box_host = box_exec"
  "h_crypt box_host = box_crypt" "h_client box_host = box_client"
  by (simp_all add: box_host_def)

lemmas box_defs = box_fs_def box_mounter_def mount_at_def box_exec_def box_crypt_def box_client_def in_box_def

lemma box_Ext [simp]: "Ext box_state = \<lparr>devices = [''/dev/disk/by-id/scsi-0Linode_Volume_csipvc1''],
     empty_devices = [''/dev/disk/by-id/scsi-0Linode_Volume_csipvc1''], mounted = [], mappings = [''csipvc1''],
     box_cloud = Ext sample_state\<rparr>"
  by (simp add: box_state_def fresh_def)

lemma sample_key [simp]: "ParseLinodeVolumeKey ''42-csipvc1'' = Inr \<lparr>VolumeID = 42, Key_Label = ''csipvc1''\<rparr>"
  by (simp add: id_defs)

lemma sample_paths [simp]:
  "GetDiskByIdPaths ''csipvc1'' [] =
     [''/dev/disk/by-id/linode-csipvc1'', ''/dev/disk/by-id/scsi-0Linode_Volume_csipvc1'']"
  by (simp add: GetDiskByIdPaths_plain)

end
