(* ===== verification/Controller_Properties.thy ===== *)
theory Controller_Properties
  imports Sample_Cloud
begin

text \<open>
  The properties of the controller service, each with a run on the sample cloud where it has
  hypotheses. \<open>calls_of\<close> is the list of Linode API calls of a run, with their answers.
\<close>

section \<open>Requests on the sample cloud\<close>

definition sample_create :: "string \<Rightarrow> CreateVolumeRequest" where
  "sample_create name = \<lparr>CVR_Name = name, CVR_CapacityRange = None, CVR_VolumeCapabilities = [Some sample_cap],
     CVR_Parameters = Map.empty, CVR_VolumeContentSource = None, CVR_AccessibilityRequirements = None\<rparr>"

definition sample_publish :: ControllerPublishVolumeRequest where
  "sample_publish = \<lparr>CPR_VolumeId = ''42-csipvc1'', CPR_NodeId = ''9'', CPR_VolumeCapability = Some sample_cap\<rparr>"

lemmas log_run = calls_of_def call_log record_return_run RecordMetrics_def trace_log_def
lemmas plain_run = call_def record_return_run RecordMetrics_def

section \<open>CreateVolume\<close>

text \<open>
  Creating a volume makes at most one call that changes anything on the Linode side, on
  every path: it creates or clones a volume under the normalised label, with the requested size,
  right after the API listed no volume of that label.
\<close>

lemma create_guarded:
  "length (filter mutating (calls_of (CreateVolume (traced_cs cs) req) s)) \<le> 1 \<and>
   guarded mutating (create_guard cs req) [] (calls_of (CreateVolume (traced_cs cs) req) s)"
  by (rule emits_calls_of [OF CreateVolume_emits])

text \<open>
  C17. A successful \<open>CreateVolume\<close> ended with the API reporting a volume active, and describes
  that volume: its ID parses back to the volume's ID, and its size, region and context are
  those of the request and the volume.
\<close>

theorem create_response:
  assumes "fst (CreateVolume cs req s) = Done (Inr resp)"
  shows "\<exists>pre i vol. calls_of (CreateVolume (traced_cs cs) req) s = pre @ [EvWaitForVolumeStatus i VolumeActive (Some vol, None)] \<and>
    getRequestCapacitySize (CVR_CapacityRange req) = Inr (CV_CapacityBytes resp) \<and>
    (0 \<le> Vol_ID vol \<and> is_int64 (Vol_ID vol) \<longrightarrow> VolumeIdAsInt caller (CV_VolumeId resp) = Inr (Vol_ID vol)) \<and>
    CV_VolumeContext resp = createVolumeContext req vol \<and>
    CV_AccessibleTopology resp = [[VolumeTopologyRegion \<mapsto> Vol_Region vol]] \<and>
    (CV_ContentSource resp = None \<longleftrightarrow> CVR_VolumeContentSource req = None)"
proof -
  have "VolumeIdAsInt caller (GetVolumeKey (CreateLinodeVolumeKey i l)) = Inr i" if "0 \<le> i" "is_int64 i" for i l
    using VolumeIdAsInt_key [of "CreateLinodeVolumeKey i l"] that by (simp add: valid_key_def CreateLinodeVolumeKey_def)
  then show ?thesis
    using emits_run [OF CreateVolume_response erase_CreateVolume, of cs req s] assms by fastforce
qed

theorem create_response_witness:
  "\<exists>resp. fst (CreateVolume sample_cs (sample_create ''pvc2'') sample_state) = Done (Inr resp) \<and>
     VolumeIdAsInt [] (CV_VolumeId resp) = Inr 43 \<and>
     CV_AccessibleTopology resp = [[VolumeTopologyRegion \<mapsto> ''us-east'']]"
proof -
  let ?v = "\<lparr>Vol_ID = 43, Vol_Label = ''csipvc2'', Vol_Status = VolumeActive, Vol_Region = ''us-east'', Vol_Size = 10,
    Vol_LinodeID = None, Vol_FilesystemPath = ''/dev/disk/by-id/scsi-0Linode_Volume_csipvc2''\<rparr>"
  obtain resp where run: "fst (CreateVolume sample_cs (sample_create ''pvc2'') sample_state) = Done (Inr resp)"
    by (simp add: plain_run create_run_defs sample_create_def cloud_defs sample_defs Let_def)
  have last: "last (calls_of (CreateVolume (traced_cs sample_cs) (sample_create ''pvc2'')) sample_state)
     = EvWaitForVolumeStatus 43 VolumeActive (Some ?v, None)"
    by (simp add: log_run create_run_defs sample_create_def cloud_defs sample_defs Let_def)
  from create_response [OF run, of "[]"] last have "VolumeIdAsInt [] (CV_VolumeId resp) = Inr 43 \<and>
     CV_AccessibleTopology resp = [[VolumeTopologyRegion \<mapsto> ''us-east'']]"
    by (auto simp: is_int64_def)
  with run show ?thesis by blast
qed


text \<open>
  C16. Creating is idempotent: when the API already lists exactly one volume under the label,
  no call of the run changes anything, and a success describes what the API then reports for
  that volume.
\<close>

theorem create_idempotent:
  assumes "EvListVolumes opts ([v], None) \<in> set (calls_of (CreateVolume (traced_cs cs) req) s)"
  shows "list_all (\<lambda>e. \<not> mutating e) (calls_of (CreateVolume (traced_cs cs) req) s) \<and>
    (\<forall>resp. fst (CreateVolume cs req s) = Done (Inr resp) \<longrightarrow>
      (\<exists>t r. last (calls_of (CreateVolume (traced_cs cs) req) s) = EvWaitForVolumeStatus (Vol_ID v) VolumeActive (Some t, r) \<and>
         CV_VolumeId resp = GetVolumeKey (CreateLinodeVolumeKey (Vol_ID t) (Vol_Label t))))"
  using emits_run [OF CreateVolume_existing erase_CreateVolume, of cs req s] assms by metis

theorem create_idempotent_witness:
  "list_all (\<lambda>e. \<not> mutating e) (calls_of (CreateVolume (traced_cs sample_cs) (sample_create ''pvc1'')) sample_state)"
proof -
  have "EvListVolumes \<lparr>Opt_Page = 0, Opt_PageSize = 0, Opt_Filter = label_filter ''csipvc1''\<rparr> ([sample_volume], None)
     \<in> set (calls_of (CreateVolume (traced_cs sample_cs) (sample_create ''pvc1'')) sample_state)"
    by (simp add: log_run create_run_defs sample_create_def cloud_defs sample_defs Let_def)
  then show ?thesis by (rule create_idempotent [THEN conjunct1])
qed

text \<open>
  C21. When the wait for the new volume fails without handing back a volume (as it does when the
  time is over), \<open>CreateVolume\<close> panics: the error message reads the volume's ID through the nil
  pointer.
\<close>

theorem create_panics_on_failed_wait:
  assumes "EvWaitForVolumeStatus i st (None, Some e) \<in> set (calls_of (CreateVolume (traced_cs cs) req) s)"
  shows "fst (CreateVolume cs req s) = Panic"
  using emits_run [OF CreateVolume_wait_failed erase_CreateVolume, of cs req s] assms by blast

definition slow_cs :: "cloud ControllerServer" where
  "slow_cs = sample_cs\<lparr>cs_client := cloud_client\<lparr>WaitForVolumeStatus_api := (\<lambda>i st t w. ((None, Some wait_timeout), w))\<rparr>\<rparr>"

theorem create_panics_on_failed_wait_witness:
  "fst (CreateVolume slow_cs (sample_create ''pvc2'') sample_state) = Panic"
proof -
  have "EvWaitForVolumeStatus 43 VolumeActive (None, Some wait_timeout)
     \<in> set (calls_of (CreateVolume (traced_cs slow_cs) (sample_create ''pvc2'')) sample_state)"
    by (simp add: slow_cs_def log_run create_run_defs sample_create_def cloud_defs sample_defs Let_def)
  then show ?thesis by (rule create_panics_on_failed_wait)
qed

text \<open>
  With a client that returns what it documents, and a wait that hands the volume back also
  on failure, \<open>CreateVolume\<close> never panics: every request gets an answer.
\<close>

lemma create_answers:
  assumes "returns_values (cs_client cs)" and "wait_keeps_volume (cs_client cs)"
  shows "\<exists>r s'. CreateVolume cs req s = (Done r, s')"
  using yieldsD [OF CreateVolume_yields [OF assms]] by blast

section \<open>DeleteVolume\<close>

text \<open>
  C4. \<open>DeleteVolume\<close> deletes only the volume of the request, and only right after the API showed
  it attached to nothing.
\<close>

theorem delete_only_detached:
  assumes "EvDeleteVolume v r \<in> set (calls_of (DeleteVolume (traced_cs cs) req) s)"
  shows "VolumeIdAsInt ''DeleteVolume'' (DVR_VolumeId req) = Inr v \<and>
    (\<exists>vol. calls_of (DeleteVolume (traced_cs cs) req) s = [EvGetVolume v (Some vol, None), EvDeleteVolume v r] \<and>
       Vol_LinodeID vol = None)"
  using emits_calls_of [OF DeleteVolume_emits, of cs req s] assms by blast

theorem delete_only_detached_witness:
  "calls_of (DeleteVolume (traced_cs sample_cs) \<lparr>DVR_VolumeId = ''42-csipvc1''\<rparr>) sample_state
     = [EvGetVolume 42 (Some sample_volume, None), EvDeleteVolume 42 None]"
proof -
  have run: "EvDeleteVolume 42 None
      \<in> set (calls_of (DeleteVolume (traced_cs sample_cs) \<lparr>DVR_VolumeId = ''42-csipvc1''\<rparr>) sample_state)"
    "hd (calls_of (DeleteVolume (traced_cs sample_cs) \<lparr>DVR_VolumeId = ''42-csipvc1''\<rparr>) sample_state)
      = EvGetVolume 42 (Some sample_volume, None)"
    by (simp_all add: log_run DeleteVolume_def cloud_defs sample_volume_def)
  from delete_only_detached [OF run(1)] run(2) show ?thesis by auto
qed

text \<open>
  Deleting is idempotent: when the API does not know the volume, the call succeeds without
  changing anything.
\<close>

lemma delete_absent:
  assumes "VolumeIdAsInt ''DeleteVolume'' (DVR_VolumeId req) = Inr v"
    and "GetVolume_api (cs_client cs) v (Ext s) = ((p, e), w)" and "IsNotFound (cs_client cs) e"
  shows "fst (DeleteVolume cs req s) = Done (Inr ()) \<and>
    calls_of (DeleteVolume (traced_cs cs) req) s = [EvGetVolume v (p, e)] \<and> Ext (snd (DeleteVolume cs req s)) = w"
  using assms by (auto simp: DeleteVolume_def plain_run) (simp add: DeleteVolume_def log_run)

section \<open>ControllerPublishVolume and ControllerUnpublishVolume\<close>

text \<open>
  C5. A volume is attached only to the requested instance and only when the API showed, in this
  run, the instance, a volume that is attached to nothing (or to this instance, without a
  device path), and fewer disks and volumes on the instance than its memory allows; after the
  attachment nothing else is changed.
\<close>

theorem publish_attaches_safely:
  assumes "EvAttachVolume v ao r \<in> set (calls_of (ControllerPublishVolume (traced_cs cs) req) s)"
  shows "\<exists>l i specs vol disks vols rest.
    validateControllerPublishVolumeRequest req = Inr (l, v) \<and>
    ao = \<lparr>VAO_LinodeID = l, VAO_PersistAcrossBoots = Some False\<rparr> \<and>
    calls_of (ControllerPublishVolume (traced_cs cs) req) s =
      [EvGetInstance l (Some i, None), EvGetVolume v (Some vol, None),
       EvListInstanceDisks (Inst_ID i) (disks, None), EvListInstanceVolumes (Inst_ID i) (vols, None),
       EvAttachVolume v ao r] @ rest \<and>
    (Vol_LinodeID vol = None \<or> Vol_LinodeID vol = Some (Inst_ID i) \<and> Vol_FilesystemPath vol = []) \<and>
    Inst_Specs i = Some specs \<and>
    int (length vols) + int (length disks) < maxVolumeAttachments (push_bit 20 (word_of_int (Spec_Memory specs))) \<and>
    (\<forall>e \<in> set rest. \<not> mutating e)"
  using emits_calls_of [OF ControllerPublishVolume_emits, of cs req s] assms by blast

theorem publish_attaches_safely_witness:
  "\<exists>rest. calls_of (ControllerPublishVolume (traced_cs sample_cs) sample_publish) sample_state =
      [EvGetInstance 9 (Some sample_instance, None), EvGetVolume 42 (Some sample_volume, None),
       EvListInstanceDisks 9 ([\<lparr>Disk_ID = 9\<rparr>], None), EvListInstanceVolumes 9 ([], None),
       EvAttachVolume 42 \<lparr>VAO_LinodeID = 9, VAO_PersistAcrossBoots = Some False\<rparr>
         (Some (sample_volume\<lparr>Vol_LinodeID := Some 9\<rparr>), None)] @ rest \<and> (\<forall>e \<in> set rest. \<not> mutating e)"
proof -
  let ?es = "calls_of (ControllerPublishVolume (traced_cs sample_cs) sample_publish) sample_state"
  let ?att = "EvAttachVolume 42 \<lparr>VAO_LinodeID = 9, VAO_PersistAcrossBoots = Some False\<rparr>
         (Some (sample_volume\<lparr>Vol_LinodeID := Some 9\<rparr>), None)"
  have run: "take 5 ?es = [EvGetInstance 9 (Some sample_instance, None), EvGetVolume 42 (Some sample_volume, None),
       EvListInstanceDisks 9 ([\<lparr>Disk_ID = 9\<rparr>], None), EvListInstanceVolumes 9 ([], None), ?att]"
    by (simp add: log_run publish_run_defs sample_publish_def cloud_defs sample_volume_def sample_instance_def Let_def)
  then have "?att \<in> set (take 5 ?es)" by simp
  then have "?att \<in> set ?es" by (rule in_set_takeD)
  from publish_attaches_safely [OF this] run show ?thesis by auto
qed

text \<open>
  C6. A volume is detached only when the request names it and its instance and the API showed
  it detached already or attached to that very instance: a volume attached elsewhere is never
  taken away. Nothing else is changed after it.
\<close>

theorem unpublish_detaches_own:
  assumes "EvDetachVolume v r \<in> set (calls_of (ControllerUnpublishVolume (traced_cs cs) req) s)"
  shows "\<exists>l vol rest.
    VolumeIdAsInt ''ControllerUnpublishVolume'' (CUR_VolumeId req) = Inr v \<and>
    NodeIdAsInt ''ControllerUnpublishVolume'' (CUR_NodeId req) = Inr l \<and>
    calls_of (ControllerUnpublishVolume (traced_cs cs) req) s =
      [EvGetVolume v (Some vol, None), EvDetachVolume v r] @ rest \<and>
    Vol_LinodeID vol \<in> {None, Some l} \<and> (\<forall>e \<in> set rest. \<not> mutating e)"
  using emits_calls_of [OF ControllerUnpublishVolume_emits, of cs req s] assms by blast

theorem unpublish_detaches_own_witness:
  "\<exists>rest. calls_of (ControllerUnpublishVolume (traced_cs sample_cs) \<lparr>CUR_VolumeId = ''42-csipvc1'', CUR_NodeId = ''9''\<rparr>)
     sample_state = [EvGetVolume 42 (Some sample_volume, None), EvDetachVolume 42 None] @ rest"
proof -
  let ?es = "calls_of (ControllerUnpublishVolume (traced_cs sample_cs) \<lparr>CUR_VolumeId = ''42-csipvc1'', CUR_NodeId = ''9''\<rparr>) sample_state"
  have run: "EvDetachVolume 42 None \<in> set ?es" "hd ?es = EvGetVolume 42 (Some sample_volume, None)"
    by (simp_all add: log_run ControllerUnpublishVolume_def cloud_defs sample_volume_def timeouts)
  from unpublish_detaches_own [OF run(1)] run(2) show ?thesis by auto
qed

section \<open>ControllerExpandVolume\<close>

text \<open>
  A volume is resized only to the size the request's capacity range gives, and never to
  less than the size the API reported just before.
\<close>

lemma expand_never_shrinks:
  assumes "EvResizeVolume v n r \<in> set (calls_of (ControllerExpandVolume (traced_cs cs) req) s)"
  shows "\<exists>vol sz rest.
    VolumeIdAsInt ''ControllerExpandVolume'' (CER_VolumeId req) = Inr v \<and>
    getRequestCapacitySize (CER_CapacityRange req) = Inr sz \<and> n = bytesToGB sz \<and>
    calls_of (ControllerExpandVolume (traced_cs cs) req) s =
      [EvGetVolume v (Some vol, None), EvResizeVolume v n r] @ rest \<and>
    Vol_Size vol \<le> n \<and> (\<forall>e \<in> set rest. \<not> mutating e)"
  using emits_calls_of [OF ControllerExpandVolume_emits, of cs req s] assms by blast

text \<open>
  C19. With a client that returns what it documents, deleting, publishing, unpublishing and
  expanding never panic.
\<close>

theorem controller_answers:
  assumes "returns_values (cs_client cs)" and "attached_after_wait (cs_client cs)"
  shows "\<exists>r1 s1 r2 s2 r3 s3 r4 s4.
    DeleteVolume cs dreq s = (Done r1, s1) \<and> ControllerPublishVolume cs preq s = (Done r2, s2) \<and>
    ControllerUnpublishVolume cs ureq s = (Done r3, s3) \<and> ControllerExpandVolume cs ereq s = (Done r4, s4)"
  using yieldsD [OF DeleteVolume_yields [OF assms(1)], of dreq s]
    yieldsD [OF ControllerPublishVolume_yields [OF assms], of preq s]
    yieldsD [OF ControllerUnpublishVolume_yields [OF assms(1)], of ureq s]
    yieldsD [OF ControllerExpandVolume_yields [OF assms(1)], of ereq s] by blast

theorem controller_answers_witness:
  "\<exists>r s'. ControllerPublishVolume sample_cs sample_publish sample_state = (Done r, s')"
  using controller_answers [of sample_cs "\<lparr>DVR_VolumeId = ''42-csipvc1''\<rparr>" sample_state sample_publish
      "\<lparr>CUR_VolumeId = ''42-csipvc1'', CUR_NodeId = ''9''\<rparr>" "\<lparr>CER_VolumeId = ''42-csipvc1'', CER_CapacityRange = None\<rparr>"]
    cloud_returns_values cloud_attached_after_wait by auto

section \<open>Listing and validating\<close>

text \<open>
  C28. \<open>ListVolumes\<close> makes one call and returns an entry per listed volume, in order. With a
  starting token, the token is the page asked for, and the next token is the following page (in
  64-bit arithmetic); without one, no next token is returned.
\<close>

theorem list_volumes_pages:
  assumes "fst (ListVolumes cs req s) = Done (Inr resp)"
  shows "\<exists>opts volumes. calls_of (ListVolumes (traced_cs cs) req) s = [EvListVolumes opts (volumes, None)] \<and>
    LR_Entries resp = map list_entry volumes \<and>
    (LVR_StartingToken req = [] \<longrightarrow> LR_NextToken resp = []) \<and>
    (LVR_StartingToken req \<noteq> [] \<longrightarrow> Atoi (LVR_StartingToken req) = Inr (Opt_Page opts) \<and>
       Atoi (LR_NextToken resp) = Inr (int64_wrap (Opt_Page opts + 1)))"
  using emits_run [OF ListVolumes_emits erase_ListVolumes, of cs req s] assms by blast

theorem list_volumes_pages_witness:
  "\<exists>resp. fst (ListVolumes sample_cs \<lparr>LVR_MaxEntries = 0, LVR_StartingToken = ''3''\<rparr> sample_state) = Done (Inr resp) \<and>
     length (LR_Entries resp) = 1"
proof -
  let ?req = "\<lparr>LVR_MaxEntries = 0, LVR_StartingToken = ''3''\<rparr>"
  obtain resp where run: "fst (ListVolumes sample_cs ?req sample_state) = Done (Inr resp)"
    by (simp add: ListVolumes_def call_def cloud_defs id_defs)
  have "calls_of (ListVolumes (traced_cs sample_cs) ?req) sample_state =
      [EvListVolumes \<lparr>Opt_Page = 3, Opt_PageSize = 0, Opt_Filter = []\<rparr> ([sample_volume], None)]"
    by (simp add: ListVolumes_def log_run cloud_defs id_defs)
  with list_volumes_pages [OF run] run show ?thesis by auto
qed

text \<open>
  An entry of the list names its volume by a key that parses back to the volume's ID, gives
  its size in bytes, and names the node it is attached to by an ID that parses back to it.
\<close>

lemma list_entry_describes:
  assumes "0 \<le> Vol_ID v" "is_int64 (Vol_ID v)" "0 \<le> Vol_Size v" "Vol_Size v < 2 ^ 33"
    and "\<forall>l. Vol_LinodeID v = Some l \<longrightarrow> is_int64 l"
  shows "VolumeIdAsInt caller (LE_VolumeId (list_entry v)) = Inr (Vol_ID v) \<and>
    LE_CapacityBytes (list_entry v) = Vol_Size v * 2 ^ 30 \<and>
    map (NodeIdAsInt caller) (LE_PublishedNodeIds (list_entry v)) = (case Vol_LinodeID v of None \<Rightarrow> [] | Some l \<Rightarrow> [Inr l])"
  using assms VolumeIdAsInt_key [of "CreateLinodeVolumeKey (Vol_ID v) (Vol_Label v)" caller]
  by (simp add: list_entry_def Let_def valid_key_def CreateLinodeVolumeKey_def gbToBytes_mult NodeIdAsInt_Itoa
      split: option.splits)

text \<open>
  \<open>ValidateVolumeCapabilities\<close> confirms the capabilities of a request exactly when every one
  of them has the access mode \<open>SINGLE_NODE_WRITER\<close>, and confirms them as they were asked.
\<close>

lemma validate_confirms:
  assumes "fst (ValidateVolumeCapabilities cs req s) = Done (Inr confirmed)"
  shows "VVR_VolumeCapabilities req \<noteq> [] \<and>
    confirmed = (if \<forall>cap \<in> set (VVR_VolumeCapabilities req). \<exists>c. cap = Some c \<and> Cap_AccessMode c = Some SINGLE_NODE_WRITER
                 then Some (VVR_VolumeCapabilities req) else None)"
proof -
  have "validVolumeCapabilities (VVR_VolumeCapabilities req) =
      (\<forall>cap \<in> set (VVR_VolumeCapabilities req). \<exists>c. cap = Some c \<and> Cap_AccessMode c = Some SINGLE_NODE_WRITER)"
    by (rule validVolumeCapabilities_iff)
  with assms show ?thesis
    by (auto simp: ValidateVolumeCapabilities_def call_def Let_def split: sum.splits prod.splits option.splits if_splits)
qed

section \<open>Every sequence of requests\<close>

text \<open>
  C1. However the controller's RPCs follow each other, with whatever the world does in between,
  every call that ever changed something on the Linode side came right after the calls that
  justify it: a deletion after seeing the volume detached, a detachment or a resize (never
  to less) after seeing the volume, a creation or a clone after seeing no volume of that label, an
  attachment after seeing the instance the volume goes to, the volume attached to no other instance, and the disks and the volumes of that very
  instance, fewer of them than its memory allows.
\<close>

theorem controller_log_guarded:
  assumes "ctl_reach cs s0 s"
  shows "guarded mutating (api_guard (cs_client cs)) [] (trace_log s)"
  using assms by (rule ctl_reach_guarded)

theorem controller_log_guarded_witness:
  "guarded mutating (api_guard cloud_client) []
     (trace_log (snd (ControllerPublishVolume (traced_cs sample_cs) sample_publish (with_log sample_state))))"
proof -
  have "ctl_reach sample_cs sample_state
     (snd (ControllerPublishVolume (traced_cs sample_cs) sample_publish (with_log sample_state)))"
    by (rule reach_step [OF reach_start]) (rule step_ControllerPublishVolume)
  from controller_log_guarded [OF this] show ?thesis by simp
qed

text \<open>
  Observing the calls changes nothing: each handler on the logging client, with the log
  forgotten, gives the result and the state of the handler on the client itself.
\<close>

lemma controller_log_erasable:
  "erases forget_log (CreateVolume (traced_cs cs) creq) (CreateVolume cs creq) \<and>
   erases forget_log (DeleteVolume (traced_cs cs) dreq) (DeleteVolume cs dreq) \<and>
   erases forget_log (ControllerPublishVolume (traced_cs cs) preq) (ControllerPublishVolume cs preq) \<and>
   erases forget_log (ControllerUnpublishVolume (traced_cs cs) ureq) (ControllerUnpublishVolume cs ureq) \<and>
   erases forget_log (ValidateVolumeCapabilities (traced_cs cs) vreq) (ValidateVolumeCapabilities cs vreq) \<and>
   erases forget_log (ListVolumes (traced_cs cs) lreq) (ListVolumes cs lreq) \<and>
   erases forget_log (ControllerExpandVolume (traced_cs cs) ereq) (ControllerExpandVolume cs ereq)"
  by (intro conjI erase_CreateVolume erase_DeleteVolume erase_ControllerPublishVolume
      erase_ControllerUnpublishVolume erase_ValidateVolumeCapabilities erase_ListVolumes erase_ControllerExpandVolume)

text \<open>
  Serving any list of publish requests to the end counts exactly one outcome per request,
  completed or failed, and touches no other operation's counter.
\<close>

lemma publish_outcomes_counted:
  assumes "serve_all (ControllerPublishVolume cs) reqs s = Some (rs, s')"
  shows "outcome_count ControllerPublishVolumeTotal s' = outcome_count ControllerPublishVolumeTotal s + length reqs \<and>
    (\<forall>t. t \<noteq> ControllerPublishVolumeTotal \<longrightarrow> outcome_count t s' = outcome_count t s)"
  using publish_rpc.outcome_count_run [OF assms] publish_rpc.other_counters_run [OF assms] by blast

section \<open>Sizes\<close>

text \<open>
  C25. A capacity range is refused exactly when nothing is set, a bound is negative, or the limit
  is below the minimum. The size an accepted range gives is at least the minimum and at least
  what is required. A limit is kept exactly when it is not below the required size: a limit
  smaller than the required size is accepted and exceeded.
\<close>

theorem capacity_size:
  "(is_err (getRequestCapacitySize (Some r)) \<longleftrightarrow>
      RequiredBytes r = 0 \<and> LimitBytes r = 0 \<or> RequiredBytes r < 0 \<or> LimitBytes r < 0
        \<or> LimitBytes r \<noteq> 0 \<and> LimitBytes r < MinVolumeSizeBytes) \<and>
   (\<forall>sz. getRequestCapacitySize (Some r) = Inr sz \<longrightarrow>
      MinVolumeSizeBytes \<le> sz \<and> RequiredBytes r \<le> sz \<and>
      (LimitBytes r \<noteq> 0 \<longrightarrow> (sz \<le> LimitBytes r \<longleftrightarrow> RequiredBytes r \<le> LimitBytes r)))"
  using getRequestCapacitySize_err [of "Some r"] getRequestCapacitySize_ge_min [of "Some r"]
    getRequestCapacitySize_ge_required [of r] getRequestCapacitySize_le_limit [of r] by auto

theorem capacity_size_witness:
  "getRequestCapacitySize (Some \<lparr>RequiredBytes = 32212254720, LimitBytes = 21474836480\<rparr>) = Inr 32212254720 \<and>
   \<not> (32212254720 :: int) \<le> 21474836480 \<and> MinVolumeSizeBytes \<le> 32212254720"
proof -
  have run: "getRequestCapacitySize (Some \<lparr>RequiredBytes = 32212254720, LimitBytes = 21474836480\<rparr>) = Inr 32212254720"
    by (simp add: getRequestCapacitySize_def determineOptimalSize_def MinVolumeSizeBytes_eq Let_def)
  from capacity_size [of "\<lparr>RequiredBytes = 32212254720, LimitBytes = 21474836480\<rparr>"] run show ?thesis by simp
qed

text \<open>
  C26. The size of a created volume. When \<open>CreateVolume\<close> succeeds after it created a volume, the API was asked for a whole number of gibibytes, at least 10,
  with no overflow, while the answer reports the bytes that the request gives. The part below a gibibyte was cut off, so the volume is
  smaller than reported, and may be smaller than required, exactly when the size is not a multiple of a gibibyte.
\<close>

theorem created_gigabytes:
  assumes "is_CapacityRange (CVR_CapacityRange req)" and "fst (CreateVolume cs req s) = Done (Inr resp)"
    and "EvCreateVolume opts r \<in> set (calls_of (CreateVolume (traced_cs cs) req) s)"
  shows "getRequestCapacitySize (CVR_CapacityRange req) = Inr (CV_CapacityBytes resp) \<and>
    10 \<le> VCO_Size opts \<and> VCO_Size opts < 2 ^ 33 \<and>
    gbToBytes (VCO_Size opts) = CV_CapacityBytes resp - CV_CapacityBytes resp mod 2 ^ 30 \<and>
    (gbToBytes (VCO_Size opts) < CV_CapacityBytes resp \<longleftrightarrow> \<not> 2 ^ 30 dvd CV_CapacityBytes resp)"
proof -
  obtain xs ys where calls: "calls_of (CreateVolume (traced_cs cs) req) s = xs @ EvCreateVolume opts r # ys"
    using assms(3) by (meson split_list)
  have "guarded mutating (create_guard cs req) [] (xs @ EvCreateVolume opts r # ys)"
    using create_guarded [of cs req s] by (simp add: calls)
  from guarded_call [OF this] obtain sz where sz: "getRequestCapacitySize (CVR_CapacityRange req) = Inr sz" "VCO_Size opts = bytesToGB sz"
    by (auto simp: create_guard_def Let_def)
  moreover have "CV_CapacityBytes resp = sz"
    using emits_run [OF CreateVolume_response erase_CreateVolume, of cs req s] assms(2) sz(1) by fastforce
  moreover note range = getRequestCapacitySize_int64 [OF sz(1) assms(1)]
  moreover have "10 \<le> bytesToGB sz"
    using getRequestCapacitySize_ge_min [OF sz(1)] zdiv_mono1 [of MinVolumeSizeBytes sz "2 ^ 30"]
    by (simp add: bytesToGB_div MinVolumeSizeBytes_eq)
  moreover have "sz - sz mod 2 ^ 30 < sz \<longleftrightarrow> \<not> 2 ^ 30 dvd sz"
    using pos_mod_sign [of "2 ^ 30" sz] by (auto simp: dvd_eq_mod_eq_0)
  ultimately show ?thesis using bytesToGB_range [OF range] gbToBytes_bytesToGB [OF range] by simp
qed

definition odd_create :: CreateVolumeRequest where
  "odd_create = (sample_create ''pvc2'')\<lparr>CVR_CapacityRange := Some \<lparr>RequiredBytes = 11811160065, LimitBytes = 0\<rparr>\<rparr>"

theorem created_gigabytes_witness:
  "\<exists>resp. fst (CreateVolume sample_cs odd_create sample_state) = Done (Inr resp) \<and> CV_CapacityBytes resp = 11811160065 \<and>
     gbToBytes 11 < CV_CapacityBytes resp"
proof -
  note defs = create_run_defs adjustToMinimumSize_def odd_create_def sample_create_def cloud_defs sample_defs Let_def
  obtain resp where run: "fst (CreateVolume sample_cs odd_create sample_state) = Done (Inr resp)"
    by (simp add: plain_run defs)
  obtain opts r where "EvCreateVolume opts r \<in> set (calls_of (CreateVolume (traced_cs sample_cs) odd_create) sample_state)" "VCO_Size opts = 11"
    by (simp add: log_run defs)
  moreover have "is_CapacityRange (CVR_CapacityRange odd_create)" by (simp add: odd_create_def is_CapacityRange_def is_int64_def)
  moreover have "getRequestCapacitySize (CVR_CapacityRange odd_create) = Inr 11811160065"
    by (simp add: odd_create_def getRequestCapacitySize_def adjustToMinimumSize_def MinVolumeSizeBytes_eq Let_def)
  ultimately show ?thesis using created_gigabytes [OF _ run] run by fastforce
qed

section \<open>Volume keys\<close>

text \<open>
  C27. A volume key printed from an ID and a label parses back to the ID and the label cut at 32
  bytes, and every handler reads the ID back from it.
\<close>

theorem volume_key_roundtrip:
  assumes "valid_key k"
  shows "ParseLinodeVolumeKey (GetVolumeKey k) = Inr (normalized_key k) \<and>
    VolumeIdAsInt caller (GetVolumeKey k) = Inr (VolumeID k)"
  using assms by (simp add: volume_key.decode_encode VolumeIdAsInt_key)

theorem volume_key_roundtrip_witness:
  "ParseLinodeVolumeKey (GetVolumeKey \<lparr>VolumeID = 42, Key_Label = ''pvc-1''\<rparr>) = Inr \<lparr>VolumeID = 42, Key_Label = ''pvc-1''\<rparr>"
  using volume_key_roundtrip [of "\<lparr>VolumeID = 42, Key_Label = ''pvc-1''\<rparr>" "[]"]
  by (simp add: valid_key_def is_int64_def normalized_key_def GetNormalizedLabel_take)

text \<open>
  Two volumes have the same key only if they have the same ID (and the same label up to 32 bytes).
\<close>

lemma volume_key_injective:
  assumes "valid_key k" and "valid_key l"
  shows "GetVolumeKey k = GetVolumeKey l \<longleftrightarrow> VolumeID k = VolumeID l \<and> take 32 (Key_Label k) = take 32 (Key_Label l)"
  using volume_key.encode_inj [OF assms]
  by (cases k, cases l) (auto simp: normalized_key_def GetNormalizedLabel_take)

text \<open>
  The IDs handlers compute from a request: an error exactly for the empty string, an
  \<open>InvalidArgument\<close>; otherwise a 64-bit integer, and for a text that is no key a hash below \<open>2^32\<close>.
\<close>

lemma volume_id_total:
  "(is_err (VolumeIdAsInt caller str) \<longleftrightarrow> str = []) \<and>
   (\<forall>e. VolumeIdAsInt caller str = Inl e \<longrightarrow> status_code e = Some InvalidArgument) \<and>
   (\<forall>i. VolumeIdAsInt caller str = Inr i \<longrightarrow> is_int64 i \<and>
      (is_err (ParseLinodeVolumeKey str) \<longrightarrow> 0 \<le> i \<and> i < 2 ^ 32))"
proof (intro conjI allI impI)
  show "is_err (VolumeIdAsInt caller str) \<longleftrightarrow> str = []"
    by (auto simp: VolumeIdAsInt_def Let_def split: sum.splits)
  fix i assume i: "VolumeIdAsInt caller str = Inr i"
  then show "is_int64 i" by (rule VolumeIdAsInt_int64)
  assume "is_err (ParseLinodeVolumeKey str)"
  with i have "i = hashStringToInt str" by (auto simp: VolumeIdAsInt_def Let_def is_err_iff split: if_splits)
  with hashStringToInt_bounds [of str] show "0 \<le> i" "i < 2 ^ 32" by simp_all
qed (use VolumeIdAsInt_err in blast)

end
