(* ===== verification/Node_Properties.thy ===== *)
theory Node_Properties
  imports Sample_Host Controller_Properties
begin

text \<open>
  The properties of the node service, each with a run on the sample host where it has
  hypotheses. \<open>calls_of\<close> is the list of host calls of a run, with their answers.
\<close>

definition no_monitor :: host_monitor where
  "no_monitor = \<lparr>blank = {}, opened_on = Map.empty, mountable = {}\<rparr>"

section \<open>Every sequence of node requests\<close>

text \<open>
  C18. However the node RPCs follow each other, with whatever the host does in between, the
  monitor accepts every call the driver ever made: each LUKS format is on a device initialised
  on a path that \<open>blkid\<close> found blank and that was not formatted since; each mount is on a path
  found not to be a mount point, or just opened or created as a file, with nothing mounted there since.
\<close>

theorem node_log_accepted:
  assumes "node_reach drv md h s0 s"
  shows "accepts host_next no_monitor (trace_log s)"
  using assms by (rule node_reach_accepts)

theorem node_log_accepted_witness:
  "accepts host_next no_monitor (trace_log (snd (NodeStageVolume box_node (traced_fs box_fs) (sample_stage luks_ctx) (with_log box_state))))"
proof -
  have "node_reach sample_driver sample_metadata box_host box_state
     (snd (NodeStageVolume box_node (traced_fs (h_fs box_host)) (sample_stage luks_ctx) (with_log box_state)))"
    by (rule node_next [OF node_start]) (rule step_NodeStageVolume)
  from node_log_accepted [OF this] show ?thesis by simp
qed

lemma luks_ctx_values [simp]:
  "luks_ctx ''partition'' = None" "mget luks_ctx LuksEncryptedAttribute = True_str"
  by (simp_all add: luks_ctx_def attribute_key_defs mget_def)

lemma luks_ctx_luks [simp]:
  "getLuksContext [LuksKeyAttribute \<mapsto> ''secret''] luks_ctx l =
    \<lparr>EncryptionEnabled = True, EncryptionKey = ''secret'', EncryptionCipher = ''aes-xts-plain64'',
     EncryptionKeySize = ''512'', LC_VolumeName = ''pvc1'', LC_VolumeLifecycle = l\<rparr>"
  by (simp add: getLuksContext_def) (simp add: luks_ctx_def mget_def attribute_key_defs)

lemmas find_run = findDevicePath_def VerifyDevicePath_def udevadmChangeToNewDrives_def pathExists_def
  first_existing.simps trigger_first_new.simps GetNormalizedLabel_take

lemmas luks_run = formatLUKSVolume_def luks_defs LuksContext_validate_def as_exit_status_def errors_As.simps
  go_div_def Atoi_def parseUint_def is_digit_def digit_val_def SplitN2_def

lemmas stage_run = log_run NodeStageVolume_def validateNodeStageVolumeRequest_def sample_stage_def find_run
  ensureMountPoint_def mountVolume_def getFSTypeAndMountOptions_def luks_run
  box_defs cap_block_def cap_mount_def ENOENT_def

section \<open>NodeStageVolume\<close>

text \<open>
  Staging mounts at most once, at the staging path, never for a block volume; what it mounts
  is one of the volume's own device paths, and for an encrypted volume only its mapper device:
  the raw device is never mounted.
\<close>

lemma stage_mounts:
  assumes "mounts_of (calls_of (NodeStageVolume (node_of drv md (traced_host h)) (traced_fs f) req) s) \<noteq> []"
  shows "\<not> cap_block (NSR_VolumeCapability req) \<and>
    (\<exists>src. mounts_of (calls_of (NodeStageVolume (node_of drv md (traced_host h)) (traced_fs f) req) s)
         = [(src, NSR_StagingTargetPath req)] \<and>
       (if mget (NSR_VolumeContext req) LuksEncryptedAttribute = True_str
        then src = ''/dev/mapper/'' @ mget (NSR_VolumeContext req) PublishInfoVolumeName
        else src \<in> set (stage_devices req)))"
  using emits_calls_of [OF NodeStageVolume_calls, of no_monitor drv md h f req s] assms
  by (auto simp: mount_source_def)

section \<open>NodePublishVolume\<close>

text \<open>
  Publishing mounts only at the target path, with the bind option and, exactly for a
  read-only request, the option \<open>ro\<close>; the source is the staging path, or the published device for a
  block volume. A failed mount is reported as an internal error, a successful one as success.
\<close>

lemma publish_mounts:
  assumes "EvMount src tgt ft opts r
      \<in> set (calls_of (NodePublishVolume (node_of drv md (traced_host h)) (traced_fs f) req) s)"
  shows "tgt = NPR_TargetPath req \<and> opts = (if NPR_Readonly req then [''bind'', ''ro''] else [''bind'']) \<and>
    src = (if cap_block (NPR_VolumeCapability req) then mget (NPR_PublishContext req) devicePathKey
           else NPR_StagingTargetPath req) \<and>
    (r = None \<longrightarrow> fst (NodePublishVolume (node_of drv md h) f req s) = Done (Inr ())) \<and>
    (r \<noteq> None \<longrightarrow> (\<exists>e. fst (NodePublishVolume (node_of drv md h) f req s) = Done (Inl e) \<and> status_code e = Some Internal))"
  using emits_run [OF NodePublishVolume_mounts erase_NodePublishVolume, of drv md h f req s] assms
  unfolding publish_options_def by blast

definition sample_node_publish :: "AccessType \<Rightarrow> string \<Rightarrow> NodePublishVolumeRequest" where
  "sample_node_publish at dev = \<lparr>NPR_VolumeId = ''42-csipvc1'', NPR_StagingTargetPath = ''/stage'', NPR_TargetPath = ''/pods/t'',
     NPR_VolumeCapability = Some \<lparr>Cap_AccessType = at, Cap_AccessMode = Some SINGLE_NODE_WRITER\<rparr>,
     NPR_Readonly = True, NPR_PublishContext = [devicePathKey \<mapsto> dev]\<rparr>"

lemmas publish_run = NodePublishVolume_def nodePublishVolumeBlock_def ensureMountPoint_def validateNodePublishVolumeRequest_def
  sample_node_publish_def cap_block_def box_defs ENOENT_def

text \<open>
  When the mount of a block volume fails, the file created for it is removed again and
  closed, and nothing else happens after.
\<close>

lemma publish_block_cleans_up:
  assumes "cap_block (NPR_VolumeCapability req)"
    and "EvMount src tgt ft opts (Some e)
      \<in> set (calls_of (NodePublishVolume (node_of drv md (traced_host h)) (traced_fs f) req) s)"
  shows "\<exists>pre re d c. calls_of (NodePublishVolume (node_of drv md (traced_host h)) (traced_fs f) req) s
    = pre @ [EvMount src tgt ft opts (Some e), EvRemove (NPR_TargetPath req) re, EvClose d c]"
  using emits_calls_of [OF NodePublishVolume_block_cleanup [OF assms(1)], of drv md h f s] assms(2) by blast

text \<open>
  A failed publication of a block volume is counted twice, once as failed and once as
  completed; a successful one is counted once.
\<close>

lemma publish_block_counts:
  assumes "validateNodePublishVolumeRequest req = None" and "cap_block (NPR_VolumeCapability req)"
    and "NodePublishVolume ns osfs req s = (Done r, s')"
  shows "Totals s' (NodePublishTotal, Completed) = Totals s (NodePublishTotal, Completed) + 1 \<and>
    Totals s' (NodePublishTotal, Failed) = Totals s (NodePublishTotal, Failed) + (if is_err r then 1 else 0)"
proof -
  let ?opts = "if NPR_Readonly req then [''bind'', ''ro''] else [''bind'']"
  obtain out s1 where b: "nodePublishVolumeBlock ns req ?opts osfs s = (out, s1)" by fastforce
  have "same_metrics s s1" using quiet_nodePublishVolumeBlock b by (rule keepsD)
  then have "Totals s1 = Totals s" by (simp add: same_metrics_def)
  with assms b show ?thesis
    by (cases out) (auto simp: NodePublishVolume_def Let_def record_return_run RecordMetrics_def split: if_splits)
qed

section \<open>NodeUnstageVolume\<close>

text \<open>
  Unstaging deactivates a mapper device only after the staging path was cleaned up without an
  error, and only the device named by the label part of the volume ID.
\<close>

lemma unstage_unmounts_first:
  assumes "EvDeactivate d n r \<in> set (calls_of (NodeUnstageVolume (node_of drv md (traced_host h)) req) s)"
  shows "getMountSource (NUR_VolumeId req) = Inr n \<and>
    (\<exists>rest. calls_of (NodeUnstageVolume (node_of drv md (traced_host h)) req) s =
       EvCleanupMountPoint (NUR_StagingTargetPath req) None # EvInitByName n (Inr d) # EvDeactivate d n r # rest)"
  using emits_calls_of [OF NodeUnstageVolume_order, of drv md h req s] assms by blast

section \<open>LUKS\<close>

text \<open>
  What the node learns about encryption from the context of a created volume is what the
  storage class asked for: enabled exactly when its parameter is \<open>true\<close>, with its cipher and key
  size, the key of the secret, and the name of the request.
\<close>

lemma luks_context_passed_on:
  "getLuksContext secrets (createVolumeContext req vol) lifecycle =
     (if mget (CVR_Parameters req) LuksEncryptedAttribute = True_str then
        \<lparr>EncryptionEnabled = True, EncryptionKey = mget secrets LuksKeyAttribute,
         EncryptionCipher = mget (CVR_Parameters req) LuksCipherAttribute,
         EncryptionKeySize = mget (CVR_Parameters req) LuksKeySizeAttribute,
         LC_VolumeName = CVR_Name req, LC_VolumeLifecycle = lifecycle\<rparr>
      else
        \<lparr>EncryptionEnabled = False, EncryptionKey = [], EncryptionCipher = [], EncryptionKeySize = [],
         LC_VolumeName = [], LC_VolumeLifecycle = lifecycle\<rparr>)"
  by (simp add: getLuksContext_def createVolumeContext_def Let_def True_str_def context_key_neqs [symmetric])

text \<open>
  The mapper device opened at staging is named after the request, the one closed at
  unstaging after the volume's label; the two names agree exactly when the label, with the
  driver's prefix and cut at 32 bytes, is the name of the request.
\<close>

lemma luks_names_agree_iff:
  assumes "mget (CVR_Parameters req) LuksEncryptedAttribute = True_str" and "0 \<le> Vol_ID vol"
    and "Vol_Label vol = GetNormalizedLabelWithPrefix (CreateLinodeVolumeKey 0 (CVR_Name req)) prefix"
  shows "getMountSource (GetVolumeKey (CreateLinodeVolumeKey (Vol_ID vol) (Vol_Label vol)))
      = Inr (LC_VolumeName (getLuksContext secrets (createVolumeContext req vol) lifecycle))
    \<longleftrightarrow> take 32 (prefix @ CVR_Name req) = CVR_Name req"
proof -
  have "LC_VolumeName (getLuksContext secrets (createVolumeContext req vol) lifecycle) = CVR_Name req"
    using assms(1) by (simp add: getLuksContext_def createVolumeContext_def Let_def context_key_neqs [symmetric])
  moreover have "getMountSource (GetVolumeKey (CreateLinodeVolumeKey (Vol_ID vol) (Vol_Label vol))) = Inr (take 32 (Vol_Label vol))"
    using getMountSource_key [of "CreateLinodeVolumeKey (Vol_ID vol) (Vol_Label vol)"] assms(2)
    by (simp add: CreateLinodeVolumeKey_def GetNormalizedLabel_take)
  moreover have "take 32 (Vol_Label vol) = take 32 (prefix @ CVR_Name req)"
    unfolding assms(3) GetNormalizedLabelWithPrefix_take by (simp add: CreateLinodeVolumeKey_def del: take_append)
  ultimately show ?thesis by (simp del: take_append)
qed

text \<open>
  A cipher without a dash (a name without a mode) makes \<open>luksFormat\<close> panic: the mode is read
  as the second part of the split without a check.
\<close>

lemma luks_format_panics:
  assumes "Atoi (EncryptionKeySize ctx) = Inr k" and "CHR ''-'' \<notin> set (EncryptionCipher ctx)"
  shows "luksFormat e ctx source s = (Panic, s)"
  using assms by (simp add: luksFormat_def SplitN2_def)

section \<open>Devices\<close>

text \<open>
  Staging a volume under the key the controller gave it looks for exactly the two by-id
  links of the volume's label.
\<close>

lemma stage_looks_for_label:
  assumes "NSR_VolumeId req = GetVolumeKey (CreateLinodeVolumeKey i label)" and "0 \<le> i" "is_int64 i"
    and "CHR ''/'' \<notin> set label" "length label \<le> 32" and "NSR_VolumeContext req ''partition'' = None"
  shows "stage_devices req = [''/dev/disk/by-id/linode-'' @ label, ''/dev/disk/by-id/scsi-0Linode_Volume_'' @ label]"
proof -
  have "ParseLinodeVolumeKey (NSR_VolumeId req) = Inr (normalized_key (CreateLinodeVolumeKey i label))"
    unfolding assms(1) by (rule Parse_GetVolumeKey) (simp add: valid_key_def CreateLinodeVolumeKey_def assms)
  moreover have "GetNormalizedLabel (normalized_key (CreateLinodeVolumeKey i label)) = label"
    using assms(5) by (simp add: normalized_key_def GetNormalizedLabel_take CreateLinodeVolumeKey_def)
  ultimately show ?thesis
    using assms(4,6) by (simp add: stage_devices_def GetDiskByIdPaths_plain)
qed

section \<open>Volume statistics\<close>

lemma sint_small: "uint (w :: 64 word) < 2 ^ 63 \<Longrightarrow> sint w = uint w"
  using int64_wrap_sint [of "uint w"] int64_wrap_id [of "uint w"] by (simp add: is_int64_def order.trans [of _ 0])

lemma uint_mult_small: "uint (a :: 64 word) * uint b < 2 ^ 63 \<Longrightarrow> uint (a * b) = uint a * uint b"
  by (simp add: uint_word_ariths)

lemma sint_mult_small: "uint (a :: 64 word) * uint b < 2 ^ 63 \<Longrightarrow> sint (a * b) = uint a * uint b"
  using uint_mult_small [of a b] sint_small [of "a * b"] by simp

text \<open>
  For a file system of less than \<open>2^63\<close> bytes whose counters are consistent, the statistics are the products of the counters
  with the block size.
\<close>

lemma usage_exact:
  assumes "uint (Blocks st) * uint (Bsize st) < 2 ^ 63" and "Bfree st \<le> Blocks st" and "Bavail st \<le> Bfree st"
  shows "VU_Total (volume_usage st ! 0) = uint (Blocks st) * uint (Bsize st) \<and>
    VU_Used (volume_usage st ! 0) = (uint (Blocks st) - uint (Bfree st)) * uint (Bsize st) \<and>
    VU_Available (volume_usage st ! 0) = uint (Bavail st) * uint (Bsize st) \<and>
    VU_Available (volume_usage st ! 0) + VU_Used (volume_usage st ! 0) \<le> VU_Total (volume_usage st ! 0)"
proof -
  have free: "uint (Bfree st) \<le> uint (Blocks st)" and avail: "uint (Bavail st) \<le> uint (Bfree st)"
    using assms(2,3) by (simp_all add: word_le_def)
  have used: "uint (Blocks st - Bfree st) = uint (Blocks st) - uint (Bfree st)"
    using free by (simp add: uint_sub_if')
  have small: "x * uint (Bsize st) < 2 ^ 63" if "x \<le> uint (Blocks st)" for x
    using mult_right_mono [OF that, of "uint (Bsize st)"] assms(1) by simp
  have "sint (Blocks st * Bsize st) = uint (Blocks st) * uint (Bsize st)"
    by (rule sint_mult_small) (rule assms(1))
  moreover have "sint ((Blocks st - Bfree st) * Bsize st) = (uint (Blocks st) - uint (Bfree st)) * uint (Bsize st)"
    using sint_mult_small [of "Blocks st - Bfree st" "Bsize st"] small used by simp
  moreover have "sint (Bavail st * Bsize st) = uint (Bavail st) * uint (Bsize st)"
    by (rule sint_mult_small) (use small free avail in auto)
  moreover have "uint (Bavail st) * uint (Bsize st) + (uint (Blocks st) - uint (Bfree st)) * uint (Bsize st)
      \<le> uint (Blocks st) * uint (Bsize st)"
    using mult_right_mono [OF avail, of "uint (Bsize st)"] by (simp add: left_diff_distrib)
  ultimately show ?thesis by (simp add: volume_usage_def)
qed

lemma inodes_exact:
  assumes "uint (Files st) < 2 ^ 63" and "Ffree st \<le> Files st"
  shows "VU_Total (volume_usage st ! 1) = uint (Files st) \<and> VU_Available (volume_usage st ! 1) = uint (Ffree st) \<and>
    VU_Used (volume_usage st ! 1) = uint (Files st) - uint (Ffree st)"
proof -
  have free: "uint (Ffree st) \<le> uint (Files st)" using assms(2) by (simp add: word_le_def)
  then have used: "uint (Files st - Ffree st) = uint (Files st) - uint (Ffree st)" by (simp add: uint_sub_if')
  have "0 \<le> uint (Ffree st)" by simp
  then have "uint (Files st) - uint (Ffree st) < 2 ^ 63" using assms(1) by linarith
  then show ?thesis
    using assms(1) free used sint_small [of "Files st"] sint_small [of "Ffree st"] sint_small [of "Files st - Ffree st"]
    by (simp add: volume_usage_def)
qed

text \<open>
  C33. The statistics of a volume. When the file system answers with consistent counters of less than \<open>2^63\<close> bytes and inodes, the
  volume is reported healthy, the numbers are exact, nothing wraps around, and available and used bytes together do not exceed
  the total. When it answers with an error, the volume is reported abnormal, with no numbers, exactly for an I/O error.
\<close>

theorem stats_report:
  assumes "NGR_VolumeId req \<noteq> []" and "NGR_VolumePath req \<noteq> []" and "unixStatfs (NGR_VolumePath req) (Ext s) = ((st, err), w)"
    and "uint (Blocks st) * uint (Bsize st) < 2 ^ 63" and "Bfree st \<le> Blocks st" and "Bavail st \<le> Bfree st"
    and "uint (Files st) < 2 ^ 63" and "Ffree st \<le> Files st"
  shows "(err = None \<longrightarrow> (\<exists>bytes inodes. fst (NodeGetVolumeStats unixStatfs req s)
        = Done (Inr \<lparr>SR_Usage = [bytes, inodes], SR_Abnormal = False, SR_Message = (''healthy'', [])\<rparr>) \<and>
      VU_Unit bytes = BYTES \<and> VU_Total bytes = uint (Blocks st) * uint (Bsize st) \<and>
      VU_Used bytes = (uint (Blocks st) - uint (Bfree st)) * uint (Bsize st) \<and>
      VU_Available bytes = uint (Bavail st) * uint (Bsize st) \<and> VU_Available bytes + VU_Used bytes \<le> VU_Total bytes \<and>
      VU_Unit inodes = INODES \<and> VU_Total inodes = uint (Files st) \<and> VU_Available inodes = uint (Ffree st) \<and>
      VU_Used inodes = uint (Files st) - uint (Ffree st))) \<and>
    (err \<noteq> None \<longrightarrow> (errors_Is err EIO \<longleftrightarrow>
      (\<exists>resp. fst (NodeGetVolumeStats unixStatfs req s) = Done (Inr resp) \<and> SR_Abnormal resp \<and> SR_Usage resp = [])))"
proof (cases err)
  case None
  have "volume_usage st = [volume_usage st ! 0, volume_usage st ! 1]" "VU_Unit (volume_usage st ! 0) = BYTES"
    "VU_Unit (volume_usage st ! 1) = INODES" by (simp_all add: volume_usage_def)
  moreover have "fst (NodeGetVolumeStats unixStatfs req s)
      = Done (Inr \<lparr>SR_Usage = volume_usage st, SR_Abnormal = False, SR_Message = (''healthy'', [])\<rparr>)"
    using assms(1-3) None by (simp add: NodeGetVolumeStats_def nodeGetVolumeStats_def call_def)
  ultimately show ?thesis using None usage_exact [OF assms(4-6)] inodes_exact [OF assms(7,8)] by metis
next
  case (Some e)
  with assms(1-3) show ?thesis by (simp add: NodeGetVolumeStats_def nodeGetVolumeStats_def call_def)
qed

theorem stats_report_witness:
  "\<exists>bytes inodes. fst (NodeGetVolumeStats
      (\<lambda>p w. ((\<lparr>Bsize = 4096, Blocks = 1000, Bfree = 400, Bavail = 350, Files = 10, Ffree = 5\<rparr>, None), w))
      \<lparr>NGR_VolumeId = ''42-csipvc1'', NGR_VolumePath = ''/pods/t''\<rparr> box_state)
    = Done (Inr \<lparr>SR_Usage = [bytes, inodes], SR_Abnormal = False, SR_Message = (''healthy'', [])\<rparr>) \<and>
    VU_Used bytes = 600 * 4096 \<and> VU_Used inodes = 5"
  using stats_report [of "\<lparr>NGR_VolumeId = ''42-csipvc1'', NGR_VolumePath = ''/pods/t''\<rparr>"
      "\<lambda>p w. ((\<lparr>Bsize = 4096, Blocks = 1000, Bfree = 400, Bavail = 350, Files = 10, Ffree = 5\<rparr>, None), w)" box_state
      "\<lparr>Bsize = 4096, Blocks = 1000, Bfree = 400, Bavail = 350, Files = 10, Ffree = 5\<rparr>" None "Ext box_state"]
  by simp blast

section \<open>NodeExpandVolume and NodeGetInfo\<close>

text \<open>Both only read from the Linode API: expanding lists the volumes with the label, and nothing more.\<close>

lemma NodeExpandVolume_calls:
  "emits (\<lambda>es out. es = [] \<or> (\<exists>key r. ParseLinodeVolumeKey (NER_VolumeId req) = Inr key \<and>
       es = [EvApi (EvListVolumes (NewListOptions (h_client h) 0 (label_filter (Key_Label key))) r)] \<and>
       (snd r = None \<longrightarrow> out = Done (Inr (case NER_CapacityRange req of None \<Rightarrow> 0 | Some c \<Rightarrow> RequiredBytes c)))))
     (NodeExpandVolume (node_of drv md (traced_host h)) req)"
  unfolding NodeExpandVolume_def traced_sel
  by (auto simp: after_calls_def simp del: prog_eqs intro!: emits_steps)

lemma NodeExpandVolume_lists:
  assumes "validateNodeExpandVolumeRequest req = None" and "ParseLinodeVolumeKey (NER_VolumeId req) = Inr key"
  shows "emits (\<lambda>es out. \<exists>vols err. es = [EvApi (EvListVolumes (NewListOptions (h_client h) 0 (label_filter (Key_Label key))) (vols, err))] \<and>
       out = Done (if err = None then Inr (case NER_CapacityRange req of None \<Rightarrow> 0 | Some c \<Rightarrow> RequiredBytes c)
                   else Inl (errVolumeNotFound (VolumeID key))))
     (NodeExpandVolume (node_of drv md (traced_host h)) req)"
  unfolding NodeExpandVolume_def traced_sel
  using assms by (auto simp: after_calls_def simp del: prog_eqs intro!: emits_steps) blast

lemma ControllerExpandVolume_resizes:
  "emits (\<lambda>es out. \<forall>resp. out = Done (Inr resp) \<longrightarrow> \<not> ER_NodeExpansionRequired resp \<and>
     (\<exists>v vol rest. VolumeIdAsInt ''ControllerExpandVolume'' (CER_VolumeId creq) = Inr v \<and>
        getRequestCapacitySize (CER_CapacityRange creq) = Inr (ER_CapacityBytes resp) \<and>
        es = [EvGetVolume v (Some vol, None), EvResizeVolume v (bytesToGB (ER_CapacityBytes resp)) None] @ rest \<and>
        Vol_Size vol \<le> bytesToGB (ER_CapacityBytes resp) \<and> (\<forall>e \<in> set rest. \<not> mutating e)))
   (ControllerExpandVolume (traced_cs cs) creq)"
  unfolding ControllerExpandVolume_def traced_cs_simps traced_simps
  by (auto simp: after_calls_def simp del: prog_eqs intro!: emits_steps)

lemma NodeGetInfo_calls:
  "emits (\<lambda>es out. \<exists>r. es = [EvApi (EvListInstanceDisks (Meta_ID md) r)]) (NodeGetInfo (node_of drv md (traced_host h)))"
  unfolding NodeGetInfo_def traced_sel
  by (auto simp: after_calls_def simp del: prog_eqs intro!: emits_steps)

text \<open>
  C32. Expanding never reaches the file system. The node announces that it can expand volumes, but for a valid request \<open>NodeExpandVolume\<close> makes exactly one
  call: it lists the volumes with the label of the ID, and it succeeds exactly when the list is answered, with any list, reporting the
  required size. The controller, when it succeeds, has resized the volume to the requested size right after it
  saw it no larger, made no other change, and says that no expansion is needed on the node.
\<close>

theorem expand_stops_at_device:
  "NODE_EXPAND_VOLUME \<in> set NodeServiceCapabilities \<and>
   (validateNodeExpandVolumeRequest req = None \<and> ParseLinodeVolumeKey (NER_VolumeId req) = Inr key \<longrightarrow>
      (\<exists>vols err. calls_of (NodeExpandVolume (node_of drv md (traced_host h)) req) s =
          [EvApi (EvListVolumes (NewListOptions (h_client h) 0 (label_filter (Key_Label key))) (vols, err))] \<and>
        fst (NodeExpandVolume (node_of drv md h) req s) =
          Done (if err = None then Inr (case NER_CapacityRange req of None \<Rightarrow> 0 | Some c \<Rightarrow> RequiredBytes c)
                else Inl (errVolumeNotFound (VolumeID key))))) \<and>
   (fst (ControllerExpandVolume cs creq s') = Done (Inr resp) \<longrightarrow> \<not> ER_NodeExpansionRequired resp \<and>
      (\<exists>v vol rest. VolumeIdAsInt ''ControllerExpandVolume'' (CER_VolumeId creq) = Inr v \<and>
        getRequestCapacitySize (CER_CapacityRange creq) = Inr (ER_CapacityBytes resp) \<and>
        calls_of (ControllerExpandVolume (traced_cs cs) creq) s' =
          [EvGetVolume v (Some vol, None), EvResizeVolume v (bytesToGB (ER_CapacityBytes resp)) None] @ rest \<and>
        Vol_Size vol \<le> bytesToGB (ER_CapacityBytes resp) \<and> (\<forall>e \<in> set rest. \<not> mutating e)))"
proof -
  have "\<exists>vols err. calls_of (NodeExpandVolume (node_of drv md (traced_host h)) req) s =
          [EvApi (EvListVolumes (NewListOptions (h_client h) 0 (label_filter (Key_Label key))) (vols, err))] \<and>
        fst (NodeExpandVolume (node_of drv md h) req s) =
          Done (if err = None then Inr (case NER_CapacityRange req of None \<Rightarrow> 0 | Some c \<Rightarrow> RequiredBytes c)
                else Inl (errVolumeNotFound (VolumeID key)))"
    if "validateNodeExpandVolumeRequest req = None" "ParseLinodeVolumeKey (NER_VolumeId req) = Inr key"
    using emits_run [OF NodeExpandVolume_lists [OF that] erase_NodeExpandVolume, where s = s] by blast
  moreover have "NODE_EXPAND_VOLUME \<in> set NodeServiceCapabilities" by (simp add: NodeServiceCapabilities_def)
  ultimately show ?thesis
    using emits_run [OF ControllerExpandVolume_resizes erase_ControllerExpandVolume, of cs creq s'] by blast
qed

theorem expand_stops_at_device_witness:
  "fst (NodeExpandVolume (node_of sample_driver sample_metadata box_host)
      \<lparr>NER_VolumeId = ''42-gone'', NER_VolumePath = ''/pods/t'', NER_CapacityRange = Some \<lparr>RequiredBytes = 21474836480, LimitBytes = 0\<rparr>\<rparr> box_state)
    = Done (Inr 21474836480)"
proof -
  let ?req = "\<lparr>NER_VolumeId = ''42-gone'', NER_VolumePath = ''/pods/t'', NER_CapacityRange = Some \<lparr>RequiredBytes = 21474836480, LimitBytes = 0\<rparr>\<rparr>"
  let ?key = "\<lparr>VolumeID = 42, Key_Label = ''gone''\<rparr>"
  let ?calls = "calls_of (NodeExpandVolume (node_of sample_driver sample_metadata (traced_host box_host)) ?req) box_state"
  have req: "validateNodeExpandVolumeRequest ?req = None" "ParseLinodeVolumeKey (NER_VolumeId ?req) = Inr ?key"
    by (simp_all add: validateNodeExpandVolumeRequest_def id_defs)
  obtain vols err where run: "?calls =
      [EvApi (EvListVolumes (NewListOptions (h_client box_host) 0 (label_filter (Key_Label ?key))) (vols, err))]"
    "fst (NodeExpandVolume (node_of sample_driver sample_metadata box_host) ?req box_state) =
       Done (if err = None then Inr (case NER_CapacityRange ?req of None \<Rightarrow> 0 | Some c \<Rightarrow> RequiredBytes c)
             else Inl (errVolumeNotFound (VolumeID ?key)))"
    using expand_stops_at_device [of ?req ?key sample_driver sample_metadata box_host box_state] req by blast
  have "\<exists>vols. EvApi (EvListVolumes (NewListOptions (h_client box_host) 0 (label_filter (Key_Label ?key))) (vols, None)) \<in> set ?calls"
    by (simp add: NodeExpandVolume_def validateNodeExpandVolumeRequest_def id_defs log_run box_client_def in_box_def cloud_client_def)
  with run show ?thesis by simp
qed

end
