(* ===== verification/Call_Effects.thy ===== *)
theory Call_Effects
  imports Call_Trace
begin

text \<open>
  What a program does to an abstract state, read off the calls it makes.

  A relation \<open>step\<close> gives every call with its answer a meaning: which abstract states it may lead
  to. \<open>honest\<close> says that an operation of the outside world does what the meaning says, where \<open>abs\<close> reads the
  abstract state of a world and \<open>I\<close> is the invariant of the world; \<open>tracks\<close>, a \<open>state_relation\<close>, that the log of a run is a
  path of the abstract state. \<open>effect step Q m\<close> is a triple for programs: \<open>Q\<close> relates the abstract state before,
  the outcome and the abstract state after every run of \<open>m\<close>. The account of volumes on the Linode side and the
  mount table of a node are the two instances.
\<close>

section \<open>The meaning of a log\<close>

fun step_run :: "('e \<Rightarrow> 'a \<Rightarrow> 'a \<Rightarrow> bool) \<Rightarrow> 'e list \<Rightarrow> 'a \<Rightarrow> 'a \<Rightarrow> bool" where
  "step_run step [] st st' = (st' = st)"
| "step_run step (e # es) st st' = (\<exists>mid. step e st mid \<and> step_run step es mid st')"

lemma step_run_append:
  "step_run step (es @ es') st st'' \<longleftrightarrow> (\<exists>st'. step_run step es st st' \<and> step_run step es' st' st'')"
  by (induction es arbitrary: st) auto

lemma step_run_same: "list_all (\<lambda>e. \<forall>st st'. step e st st' \<longrightarrow> st' = st) es \<Longrightarrow> step_run step es st st' \<Longrightarrow> st' = st"
  by (induction es arbitrary: st) auto

definition honest ::
  "('e \<Rightarrow> 'a \<Rightarrow> 'a \<Rightarrow> bool) \<Rightarrow> ('w \<Rightarrow> bool) \<Rightarrow> ('w \<Rightarrow> 'a) \<Rightarrow> ('r \<Rightarrow> 'e) \<Rightarrow> ('w \<Rightarrow> 'r \<times> 'w) \<Rightarrow> bool" where
  "honest step I abst ev f \<longleftrightarrow>
     (\<forall>w r w'. I w \<longrightarrow> f w = (r, w') \<longrightarrow> I w' \<and> step (ev r) (abst w) (abst w'))"

lemma honestI:
  "(\<And>w. I w \<Longrightarrow> I (snd (f w)) \<and> step (ev (fst (f w))) (abst w) (abst (snd (f w)))) \<Longrightarrow> honest step I abst ev f"
  unfolding honest_def by (metis fst_conv snd_conv)

section \<open>The abstract state along a run\<close>

text \<open>The log grew by calls that take the abstract state from the one state to the other.\<close>

definition tracks ::
  "('e \<Rightarrow> 'a \<Rightarrow> 'a \<Rightarrow> bool) \<Rightarrow> ('w \<Rightarrow> bool) \<Rightarrow> ('w \<Rightarrow> 'a) \<Rightarrow> ('e, 'w) logged world \<Rightarrow> ('e, 'w) logged world \<Rightarrow> bool" where
  "tracks step I abst s t \<longleftrightarrow>
     (\<exists>es. trace_log t = trace_log s @ es \<and>
        (I (snd (Ext s)) \<longrightarrow> I (snd (Ext t)) \<and> step_run step es (abst (snd (Ext s))) (abst (snd (Ext t)))))"

interpretation tracked: state_relation "tracks step I abst" for step I abst
proof
  show "tracks step I abst s s" for s by (auto simp: tracks_def)
next
  fix s t u assume st: "tracks step I abst s t" and tu: "tracks step I abst t u"
  obtain es where es: "trace_log t = trace_log s @ es"
    "I (snd (Ext s)) \<Longrightarrow> I (snd (Ext t)) \<and> step_run step es (abst (snd (Ext s))) (abst (snd (Ext t)))"
    using st unfolding tracks_def by blast
  obtain es' where es': "trace_log u = trace_log t @ es'"
    "I (snd (Ext t)) \<Longrightarrow> I (snd (Ext u)) \<and> step_run step es' (abst (snd (Ext t))) (abst (snd (Ext u)))"
    using tu unfolding tracks_def by blast
  show "tracks step I abst s u" unfolding tracks_def
  proof (intro exI conjI impI)
    show "trace_log u = trace_log s @ es @ es'" using es(1) es'(1) by simp
    assume "I (snd (Ext s))"
    with es(2) es'(2) show "I (snd (Ext u))" "step_run step (es @ es') (abst (snd (Ext s))) (abst (snd (Ext u)))"
      unfolding step_run_append by blast+
  qed
qed

lemma tracked_call: "honest step I abst ev f \<Longrightarrow> keeps (tracks step I abst) (call (log_call ev f))"
  by (rule keepsI) (fastforce simp: honest_def tracks_def call_log trace_log_def split: prod.splits)

lemma tracked_record_return: "keeps (tracks step I abst) (record_return t d st r)"
  by (rule keepsI) (simp add: tracks_def record_return_run RecordMetrics_def trace_log_def)

lemma tracked_RecordMetrics: "keeps (tracks step I abst) (RecordMetrics t d st)"
  by (rule keepsI) (simp add: tracks_def RecordMetrics_def trace_log_def)

lemmas tracked_steps = tracked.keeps_intros tracked_record_return tracked_RecordMetrics tracked_call

lemma tracked_run:
  assumes "keeps (tracks step I abst) m" and "erases forget_log m n" and "I (Ext s)"
  shows "I (Ext (snd (n s))) \<and> step_run step (calls_of m s) (abst (Ext s)) (abst (Ext (snd (n s))))"
proof -
  have "n s = (fst (m (with_log s)), forget_log (snd (m (with_log s))))"
    using erasesD [OF assms(2), of "with_log s"] by simp
  moreover have "tracks step I abst (with_log s) (snd (m (with_log s)))"
    using assms(1) by (simp add: keeps_def)
  ultimately show ?thesis using assms(3) by (auto simp: tracks_def calls_of_def forget_log_def)
qed

section \<open>Effects\<close>

definition effect ::
  "('e \<Rightarrow> 's \<Rightarrow> 's \<Rightarrow> bool) \<Rightarrow> ('s \<Rightarrow> 'a outcome \<Rightarrow> 's \<Rightarrow> bool) \<Rightarrow> (('e, 'w) logged world, 'a) prog \<Rightarrow> bool" where
  "effect step Q = emits (\<lambda>es out. \<forall>st st'. step_run step es st st' \<longrightarrow> Q st out st')"

lemma effect_andThen:
  assumes m: "effect step P m" and k: "\<And>a. effect step (R a) (k a)"
    and returned: "\<And>st mid st' a out. P st (Done a) mid \<Longrightarrow> R a mid out st' \<Longrightarrow> Q st out st'"
    and panicked: "\<And>st st'. P st Panic st' \<Longrightarrow> Q st Panic st'"
  shows "effect step Q (andThen m k)"
  unfolding effect_def
proof (rule emits_andThen, rule emits_conseq [OF m [unfolded effect_def]])
  fix es out
  assume P: "\<forall>st st'. step_run step es st st' \<longrightarrow> P st out st'"
  show "after_calls (\<lambda>es out. \<forall>st st'. step_run step es st st' \<longrightarrow> Q st out st') k es out"
  proof (cases out)
    case (Done a)
    have "emits (\<lambda>es' out. \<forall>st st'. step_run step (es @ es') st st' \<longrightarrow> Q st out st') (k a)"
      by (rule emits_conseq [OF k [unfolded effect_def]]) (use P Done returned in \<open>metis step_run_append\<close>)
    with Done show ?thesis by (simp add: after_calls_def)
  next
    case Panic
    with P panicked show ?thesis by (simp add: after_calls_def)
  qed
qed

lemma effect_andThen_same:
  assumes "effect step (\<lambda>st out st'. st' = st \<and> (\<forall>a. out = Done (Inr a) \<longrightarrow> A a)) m"
    and "\<And>e. effect step Q (k (Inl e))" and "\<And>a. A a \<Longrightarrow> effect step Q (k (Inr a))"
    and "\<And>a. emits (\<lambda>es out. True) (k (Inr a))" and "\<And>st. Q st Panic st"
  shows "effect step Q (andThen m k)"
proof (rule effect_andThen [OF assms(1), where R = "\<lambda>r st out st'. (\<forall>a. r = Inr a \<longrightarrow> A a) \<longrightarrow> Q st out st'"])
  show "effect step (\<lambda>st out st'. (\<forall>a. r = Inr a \<longrightarrow> A a) \<longrightarrow> Q st out st') (k r)" for r
  proof (cases r)
    case (Inl e)
    with assms(2) [of e] show ?thesis by simp
  next
    case (Inr a)
    with assms(3,4) [of a] show ?thesis by (cases "A a") (simp_all add: effect_def)
  qed
qed (use assms(5) in auto)

lemma effect_ret: "(\<And>st. Q st (Done a) st) \<Longrightarrow> effect step Q (ret a)"
  by (auto simp: effect_def intro: emits_ret)

lemma effect_call: "(\<And>r st st'. step (ev r) st st' \<Longrightarrow> Q st (Done r) st') \<Longrightarrow> effect step Q (call (log_call ev f))"
  by (auto simp: effect_def intro: emits_call)

lemma effect_conseq: "effect step P m \<Longrightarrow> (\<And>st out st'. P st out st' \<Longrightarrow> Q st out st') \<Longrightarrow> effect step Q m"
  unfolding effect_def by (erule emits_conseq) blast

lemma effect_panic: "(\<And>st. Q st Panic st) \<Longrightarrow> effect step Q panic"
  by (auto simp: effect_def intro: emits_panic)

lemma effect_record_return: "(\<And>st. Q st (Done a) st) \<Longrightarrow> effect step Q (record_return t d s a)"
  by (auto simp: effect_def intro: emits_record_return)

lemma effect_deref: "(\<And>st. p = None \<Longrightarrow> Q st Panic st) \<Longrightarrow> (\<And>a. p = Some a \<Longrightarrow> effect step Q (k a)) \<Longrightarrow> effect step Q (deref p k)"
  by (auto simp: effect_def intro: emits_deref)

lemma effect_if: "(b \<Longrightarrow> effect step Q m) \<Longrightarrow> (\<not> b \<Longrightarrow> effect step Q n) \<Longrightarrow> effect step Q (if b then m else n)"
  by simp

lemma effect_case_sum:
  "(\<And>e. x = Inl e \<Longrightarrow> effect step Q (f e)) \<Longrightarrow> (\<And>v. x = Inr v \<Longrightarrow> effect step Q (g v))
    \<Longrightarrow> effect step Q (case x of Inl e \<Rightarrow> f e | Inr v \<Rightarrow> g v)"
  by (cases x) simp_all

lemma effect_case_option:
  "(x = None \<Longrightarrow> effect step Q m) \<Longrightarrow> (\<And>v. x = Some v \<Longrightarrow> effect step Q (g v))
    \<Longrightarrow> effect step Q (case x of None \<Rightarrow> m | Some v \<Rightarrow> g v)"
  by (cases x) simp_all

lemmas effect_intros = effect_ret effect_panic effect_record_return effect_deref effect_if effect_case_sum effect_case_option

lemma effect_wrap_error:
  assumes "effect step Q m" and "\<And>st st' e. Q st (Done (Inl e)) st' \<Longrightarrow> Q st (Done (Inl (f e))) st'"
  shows "effect step Q (andThen m (\<lambda>r. case r of Inl err \<Rightarrow> ret (Inl (f err)) | Inr v \<Rightarrow> ret (Inr v)))"
  by (rule effect_andThen [OF assms(1), where R = "\<lambda>r st out st'. st' = st \<and> out = Done (map_sum f id r)"])
    (auto intro!: effect_case_sum effect_ret split: sum.splits simp: assms(2) map_sum_def)

lemma emits_True_andThen:
  "emits (\<lambda>es out. True) m \<Longrightarrow> (\<And>a. emits (\<lambda>es out. True) (k a)) \<Longrightarrow> emits (\<lambda>es out. True) (andThen m k)"
  by (rule emits_andThen, erule emits_conseq) (simp add: after_calls_def split: outcome.splits)

lemma effect_run:
  assumes "effect step Q m" and "keeps (tracks step I abst) m" and "erases forget_log m n" and "I (Ext s)"
  shows "I (Ext (snd (n s))) \<and> Q (abst (Ext s)) (fst (n s)) (abst (Ext (snd (n s))))"
  using tracked_run [OF assms(2-4)] emits_run [OF assms(1) [unfolded effect_def] assms(3), of s] by blast

text \<open>The same where the postcondition also looks at the calls of the run.\<close>

definition call_effect ::
  "('e \<Rightarrow> 's \<Rightarrow> 's \<Rightarrow> bool) \<Rightarrow> ('e list \<Rightarrow> 's \<Rightarrow> 'a outcome \<Rightarrow> 's \<Rightarrow> bool) \<Rightarrow> (('e, 'w) logged world, 'a) prog \<Rightarrow> bool" where
  "call_effect step Q = emits (\<lambda>es out. \<forall>st st'. step_run step es st st' \<longrightarrow> Q es st out st')"

lemma call_effect_run:
  assumes "call_effect step Q m" and "keeps (tracks step I abst) m" and "erases forget_log m n" and "I (Ext s)"
  shows "I (Ext (snd (n s))) \<and> Q (calls_of m s) (abst (Ext s)) (fst (n s)) (abst (Ext (snd (n s))))"
  using tracked_run [OF assms(2-4)] emits_run [OF assms(1) [unfolded call_effect_def] assms(3), of s] by blast

end
