(* ===== verification/Mount_Table.thy ===== *)
theory Mount_Table
  imports Node_Safety Call_Effects
begin

text \<open>
  What the node service promises, above the calls it makes: its effect on the mounts and the mapper devices
  of the host.

  A \<open>mount_table\<close> holds, for every path, the sources mounted there (the newest first), and the names
  of the active mapper devices. \<open>table_step\<close> gives the documented meaning of the calls of mount-utils and
  go-cryptsetup on it, with the answer of the call; any call may fail. \<open>table_host I tab h\<close> says that the host \<open>h\<close>
  behaves so. A path reported as a mount point is one; the converse is not assumed, since \<open>IsLikelyNotMountPoint\<close>
  is documented to miss bind mounts.

  The specifications relate the table before an RPC, its outcome, and the table after it; the \<open>_effect\<close> lemmas
  prove them for the handlers.
\<close>

section \<open>Mount tables\<close>

record mount_table =
  mounts :: "string \<Rightarrow> string list"
  mapped :: "string set"

definition push_mount :: "string \<Rightarrow> string \<Rightarrow> mount_table \<Rightarrow> mount_table" where
  "push_mount src tgt t = t\<lparr>mounts := (mounts t)(tgt := src # mounts t tgt)\<rparr>"

text \<open>
  A clean-up that succeeds leaves nothing mounted at the path; one that fails may have unmounted something
  there. A bind mount is made in two steps, the second of which sets its options, so one that fails may be left in place. Activating and
  deactivating a mapper device may take effect and fail. Nothing is assumed of a look-up by name: it may fail for an active device too.
\<close>

definition cleaned :: "string \<Rightarrow> bool \<Rightarrow> mount_table \<Rightarrow> mount_table \<Rightarrow> bool" where
  "cleaned p ok t t' \<longleftrightarrow>
     (\<exists>n. t' = t\<lparr>mounts := (mounts t)(p := drop n (mounts t p))\<rparr>) \<and> (ok \<longrightarrow> mounts t' p = [])"

fun table_step :: "host_event \<Rightarrow> mount_table \<Rightarrow> mount_table \<Rightarrow> bool" where
  "table_step (EvIsLikelyNotMountPoint p (notMnt, e)) t t' = (t' = t \<and> (\<not> notMnt \<longrightarrow> mounts t p \<noteq> []))"
| "table_step (EvMount src tgt ft opts e) t t' =
     (if e = None then t' = push_mount src tgt t else t' = t \<or> ''bind'' \<in> set opts \<and> t' = push_mount src tgt t)"
| "table_step (EvFormatAndMount src tgt ft opts e) t t' = (t' = (if e = None then push_mount src tgt t else t))"
| "table_step (EvCleanupMountPoint p e) t t' = cleaned p (e = None) t t'"
| "table_step (EvActivate d n e) t t' =
     (case e of
        None \<Rightarrow> t' = t\<lparr>mapped := insert n (mapped t)\<rparr>
      | Some x \<Rightarrow> (t' = t \<or> t' = t\<lparr>mapped := insert n (mapped t)\<rparr>) \<and> (as_crypt_code x = Some (- 17) \<longrightarrow> n \<in> mapped t))"
| "table_step (EvDeactivate d n e) t t' = (t' = t\<lparr>mapped := mapped t - {n}\<rparr> \<or> e \<noteq> None \<and> t' = t)"
| "table_step e t t' = (t' = t)"

lemma table_step_probing: "probing e \<Longrightarrow> table_step e t t' \<longleftrightarrow> t' = t"
  by (cases e) simp_all

lemma table_run_probing:
  assumes "list_all probing es"
  shows "step_run table_step (es @ es') t t' \<longleftrightarrow> step_run table_step es' t t'"
    and "step_run table_step es t t' \<longleftrightarrow> t' = t"
  using assms by (induction es arbitrary: t) (auto simp: table_step_probing)

section \<open>Hosts\<close>

definition table_host :: "('w \<Rightarrow> bool) \<Rightarrow> ('w \<Rightarrow> mount_table) \<Rightarrow> 'w Host \<Rightarrow> bool" where
  "table_host I tab h \<longleftrightarrow>
     (\<forall>p m. honest table_step I tab (EvMkdirAll p) (MkdirAll_fs (h_fs h) p m)) \<and>
     (\<forall>p. honest table_step I tab (EvStat p) (Stat_fs (h_fs h) p)) \<and>
     (\<forall>p. honest table_step I tab (EvRemove p) (Remove_fs (h_fs h) p)) \<and>
     (\<forall>p fl m. honest table_step I tab (EvOpenFile p) (OpenFile_fs (h_fs h) p fl m)) \<and>
     (\<forall>f. honest table_step I tab (EvClose f) (Close_fs (h_fs h) f)) \<and>
     (\<forall>p. honest table_step I tab (EvGlob p) (Glob_fs (h_fs h) p)) \<and>
     (\<forall>p. honest table_step I tab (EvEvalSymlinks p) (EvalSymlinks_fs (h_fs h) p)) \<and>
     (\<forall>p. honest table_step I tab (EvIsLikelyNotMountPoint p) (IsLikelyNotMountPoint_m (h_mounter h) p)) \<and>
     (\<forall>s p ft opts. honest table_step I tab (EvMount s p ft opts) (Mount_m (h_mounter h) s p ft opts)) \<and>
     (\<forall>s p ft opts. honest table_step I tab (EvFormatAndMount s p ft opts) (FormatAndMount_m (h_mounter h) s p ft opts)) \<and>
     (\<forall>p b. honest table_step I tab (EvCleanupMountPoint p) (CleanupMountPoint_m (h_mounter h) p b)) \<and>
     (\<forall>c. honest table_step I tab (EvLookPath c) (LookPath_x (h_exec h) c)) \<and>
     (\<forall>c as. honest table_step I tab (EvRun c as) (Run_x (h_exec h) c as)) \<and>
     (\<forall>c as. honest table_step I tab (EvCombinedOutput c as) (CombinedOutput_x (h_exec h) c as)) \<and>
     (\<forall>p. honest table_step I tab (EvInit p) (Init_lib (h_crypt h) p)) \<and>
     (\<forall>n. honest table_step I tab (EvInitByName n) (InitByName_lib (h_crypt h) n)) \<and>
     (\<forall>d sz ps. honest table_step I tab (EvFormat d ps) (Format_dev (h_crypt h) d sz ps)) \<and>
     (\<forall>d i a b. honest table_step I tab (EvKeyslotAdd d) (KeyslotAddByVolumeKey_dev (h_crypt h) d i a b)) \<and>
     (\<forall>d n i k fl. honest table_step I tab (EvActivate d n) (ActivateByPassphrase_dev (h_crypt h) d n i k fl)) \<and>
     (\<forall>d sz. honest table_step I tab (EvLoad d) (Load_dev (h_crypt h) d sz)) \<and>
     (\<forall>d. honest table_step I tab (EvFree d) (Free_dev (h_crypt h) d)) \<and>
     (\<forall>d n. honest table_step I tab (EvDeactivate d n) (Deactivate_dev (h_crypt h) d n))"

lemma table_host_calls:
  assumes "table_host I tab h"
  shows "honest table_step I tab (EvMkdirAll p) (MkdirAll_fs (h_fs h) p mo)"
    "honest table_step I tab (EvStat p) (Stat_fs (h_fs h) p)"
    "honest table_step I tab (EvRemove p) (Remove_fs (h_fs h) p)"
    "honest table_step I tab (EvOpenFile p) (OpenFile_fs (h_fs h) p fl mo)"
    "honest table_step I tab (EvClose f) (Close_fs (h_fs h) f)"
    "honest table_step I tab (EvGlob p) (Glob_fs (h_fs h) p)"
    "honest table_step I tab (EvEvalSymlinks p) (EvalSymlinks_fs (h_fs h) p)"
    "honest table_step I tab (EvIsLikelyNotMountPoint p) (IsLikelyNotMountPoint_m (h_mounter h) p)"
    "honest table_step I tab (EvMount s p ft opts) (Mount_m (h_mounter h) s p ft opts)"
    "honest table_step I tab (EvFormatAndMount s p ft opts) (FormatAndMount_m (h_mounter h) s p ft opts)"
    "honest table_step I tab (EvCleanupMountPoint p) (CleanupMountPoint_m (h_mounter h) p b)"
    "honest table_step I tab (EvLookPath c) (LookPath_x (h_exec h) c)"
    "honest table_step I tab (EvRun c as) (Run_x (h_exec h) c as)"
    "honest table_step I tab (EvCombinedOutput c as) (CombinedOutput_x (h_exec h) c as)"
    "honest table_step I tab (EvInit p) (Init_lib (h_crypt h) p)"
    "honest table_step I tab (EvInitByName n) (InitByName_lib (h_crypt h) n)"
    "honest table_step I tab (EvFormat d ps) (Format_dev (h_crypt h) d sz ps)"
    "honest table_step I tab (EvKeyslotAdd d) (KeyslotAddByVolumeKey_dev (h_crypt h) d i ka kb)"
    "honest table_step I tab (EvActivate d n) (ActivateByPassphrase_dev (h_crypt h) d n i k fls)"
    "honest table_step I tab (EvLoad d) (Load_dev (h_crypt h) d sz)"
    "honest table_step I tab (EvFree d) (Free_dev (h_crypt h) d)"
    "honest table_step I tab (EvDeactivate d n) (Deactivate_dev (h_crypt h) d n)"
  using assms by (simp_all add: table_host_def)

section \<open>The table along a run\<close>

lemma tracked_first_existing:
  assumes "table_host I tab h"
  shows "keeps (tracks table_step I tab) (first_existing ps (traced_fs (h_fs h)))"
  by (induction ps)
    (unfold first_existing_eqs pathExists_def traced_sel, intro tracked_steps table_host_calls [OF assms],
     intro tracked_steps table_host_calls [OF assms])

lemma tracked_trigger:
  assumes "table_host I tab h"
  shows "keeps (tracks table_step I tab) (trigger_first_new ds bs (traced_fs (h_fs h)) (traced_exec (h_exec h)))"
  by (induction ds)
    (unfold trigger_first_new_eqs udevadmChangeToDrive_def traced_sel, intro tracked_steps table_host_calls [OF assms],
     intro tracked_steps table_host_calls [OF assms])

lemma tracked_NodeStageVolume:
  assumes "table_host I tab h"
  shows "keeps (tracks table_step I tab) (NodeStageVolume (node_of drv md (traced_host h)) (traced_fs (h_fs h)) req)"
  unfolding NodeStageVolume_def findDevicePath_def ensureMountPoint_def VerifyDevicePath_def udevadmChangeToNewDrives_def
    mountVolume_def formatLUKSVolume_def luks_defs Let_def split_beta traced_sel
  by (intro tracked_steps table_host_calls [OF assms] tracked_first_existing [OF assms] tracked_trigger [OF assms])

lemma tracked_NodePublishVolume:
  assumes "table_host I tab h"
  shows "keeps (tracks table_step I tab) (NodePublishVolume (node_of drv md (traced_host h)) (traced_fs (h_fs h)) req)"
  unfolding NodePublishVolume_def nodePublishVolumeBlock_def ensureMountPoint_def Let_def traced_sel
  by (intro tracked_steps table_host_calls [OF assms])

lemma tracked_NodeUnpublishVolume:
  assumes "table_host I tab h"
  shows "keeps (tracks table_step I tab) (NodeUnpublishVolume (node_of drv md (traced_host h)) req)"
  unfolding NodeUnpublishVolume_def Let_def traced_sel
  by (intro tracked_steps table_host_calls [OF assms])

lemma tracked_NodeUnstageVolume:
  assumes "table_host I tab h"
  shows "keeps (tracks table_step I tab) (NodeUnstageVolume (node_of drv md (traced_host h)) req)"
  unfolding NodeUnstageVolume_def closeLuksMountSource_def luks_defs Let_def traced_sel
  by (intro tracked_steps table_host_calls [OF assms])

section \<open>What each RPC does to the table\<close>

text \<open>
  Publishing: on success the target has one more mount, of the staging path or, for a block volume, of the
  published device; or it was a mount point before, for a volume that is not a block volume. On an error the
  table is unchanged, or the bind mount was left in place.
\<close>

definition publish_source :: "NodePublishVolumeRequest \<Rightarrow> string" where
  "publish_source req =
     (if cap_block (NPR_VolumeCapability req) then mget (NPR_PublishContext req) devicePathKey
      else NPR_StagingTargetPath req)"

definition node_publish_spec :: "NodePublishVolumeRequest \<Rightarrow> mount_table \<Rightarrow> (error + unit) \<Rightarrow> mount_table \<Rightarrow> bool" where
  "node_publish_spec req t r t' \<longleftrightarrow>
     (case r of
        Inr _ \<Rightarrow> t' = push_mount (publish_source req) (NPR_TargetPath req) t \<or>
                 \<not> cap_block (NPR_VolumeCapability req) \<and> mounts t (NPR_TargetPath req) \<noteq> [] \<and> t' = t
      | Inl _ \<Rightarrow> t' = t \<or> t' = push_mount (publish_source req) (NPR_TargetPath req) t)"

text \<open>Unpublishing: on success nothing is mounted at the target any more. Nothing else changes.\<close>

definition node_unpublish_spec :: "NodeUnpublishVolumeRequest \<Rightarrow> mount_table \<Rightarrow> (error + unit) \<Rightarrow> mount_table \<Rightarrow> bool" where
  "node_unpublish_spec req t r t' \<longleftrightarrow> cleaned (NUP_TargetPath req) (\<not> is_err r) t t'"

text \<open>
  Unstaging: on success nothing is mounted at the staging path any more, and the mapper device named by the volume ID
  is closed if it was \<open>found\<close> by its name; if the look-up failed, the mapper devices are as before. On an error the staging path may have
  been cleaned up and the mapper device closed.
\<close>

definition mapper_found :: "host_event list \<Rightarrow> bool" where
  "mapper_found es = list_all (\<lambda>e. case e of EvInitByName n r \<Rightarrow> \<not> is_err r | _ \<Rightarrow> True) es"

definition unmapped :: "string \<Rightarrow> mount_table \<Rightarrow> mount_table" where
  "unmapped volumeID t = (case getMountSource volumeID of Inl _ \<Rightarrow> t | Inr n \<Rightarrow> t\<lparr>mapped := mapped t - {n}\<rparr>)"

definition node_unstage_spec :: "bool \<Rightarrow> NodeUnstageVolumeRequest \<Rightarrow> mount_table \<Rightarrow> (error + unit) \<Rightarrow> mount_table \<Rightarrow> bool" where
  "node_unstage_spec found req t r t' \<longleftrightarrow>
     (\<exists>mid. cleaned (NUR_StagingTargetPath req) (\<not> is_err r) t mid \<and>
        (case r of Inr _ \<Rightarrow> t' = (if found then unmapped (NUR_VolumeId req) mid else mid) | Inl _ \<Rightarrow> t' = mid \<or> t' = unmapped (NUR_VolumeId req) mid))"

text \<open>
  Staging: on success the staging path has one more mount, of one of the volume's devices or, for an
  encrypted volume, of its mapper device, which is active; or it was a mount point before; or the volume is a
  block volume, which is not mounted. On an error, and when the driver panics, the mounts are unchanged. In every case the only mapper
  device that may have become active is that of the encrypted volume.
\<close>

abbreviation stage_encrypted :: "NodeStageVolumeRequest \<Rightarrow> bool" where
  "stage_encrypted req \<equiv> mget (NSR_VolumeContext req) LuksEncryptedAttribute = True_str"

abbreviation stage_name :: "NodeStageVolumeRequest \<Rightarrow> string" where
  "stage_name req \<equiv> mget (NSR_VolumeContext req) PublishInfoVolumeName"

definition mapping_added :: "NodeStageVolumeRequest \<Rightarrow> mount_table \<Rightarrow> mount_table \<Rightarrow> bool" where
  "mapping_added req t t' \<longleftrightarrow> mapped t' = mapped t \<or> stage_encrypted req \<and> mapped t' = insert (stage_name req) (mapped t)"

definition node_stage_spec :: "NodeStageVolumeRequest \<Rightarrow> mount_table \<Rightarrow> (error + unit) outcome \<Rightarrow> mount_table \<Rightarrow> bool" where
  "node_stage_spec req t out t' \<longleftrightarrow>
     mapping_added req t t' \<and>
     (if out = Done (Inr ()) then
        t' = t \<and> (cap_block (NSR_VolumeCapability req) \<or> mounts t (NSR_StagingTargetPath req) \<noteq> []) \<or>
        \<not> cap_block (NSR_VolumeCapability req) \<and> (stage_encrypted req \<longrightarrow> stage_name req \<in> mapped t') \<and>
        (\<exists>dev \<in> set (stage_devices req). mounts t' = mounts (push_mount (mount_source req dev) (NSR_StagingTargetPath req) t))
      else mounts t' = mounts t)"

lemma NodePublishVolume_effect:
  "effect table_step (\<lambda>t out t'. \<exists>r. out = Done r \<and> node_publish_spec req t r t')
     (NodePublishVolume (node_of drv md (traced_host h)) (traced_fs f) req)"
  unfolding effect_def NodePublishVolume_def nodePublishVolumeBlock_def ensureMountPoint_def Let_def traced_sel
  by (auto simp: after_calls_def node_publish_spec_def publish_source_def simp del: prog_eqs intro!: emits_steps)

lemma cleaned_False: "cleaned p b t t' \<Longrightarrow> cleaned p False t t'" "cleaned p False t t"
  unfolding cleaned_def by (auto intro: exI [of _ 0])

lemma NodeUnpublishVolume_effect:
  "effect table_step (\<lambda>t out t'. \<exists>r. out = Done r \<and> node_unpublish_spec req t r t')
     (NodeUnpublishVolume (node_of drv md (traced_host h)) req)"
  unfolding effect_def NodeUnpublishVolume_def Let_def traced_sel
  by (auto simp: after_calls_def node_unpublish_spec_def cleaned_False simp del: prog_eqs intro!: emits_steps)

lemma cleaned_mounts: "cleaned p True t t' \<Longrightarrow> mounts t' = (mounts t)(p := [])"
  by (auto simp: cleaned_def)

lemma mounts_unmapped [simp]: "mounts (unmapped v t) = mounts t"
  by (simp add: unmapped_def split: sum.splits)

lemma node_unstage_okI:
  "cleaned (NUR_StagingTargetPath req) True t mid \<Longrightarrow> t' = (if found then unmapped (NUR_VolumeId req) mid else mid)
    \<Longrightarrow> node_unstage_spec found req t (Inr ()) t'"
  by (auto simp: node_unstage_spec_def)

lemma node_unstage_errI:
  "cleaned (NUR_StagingTargetPath req) b t mid \<Longrightarrow> t' = mid \<or> t' = unmapped (NUR_VolumeId req) mid
    \<Longrightarrow> node_unstage_spec found req t (Inl e) t'"
  by (auto simp: node_unstage_spec_def intro: cleaned_False)

lemma NodeUnstageVolume_effect:
  "call_effect table_step (\<lambda>es t out t'. \<exists>r. out = Done r \<and> node_unstage_spec (mapper_found es) req t r t')
     (NodeUnstageVolume (node_of drv md (traced_host h)) req)"
  unfolding call_effect_def NodeUnstageVolume_def closeLuksMountSource_def luks_defs Let_def traced_sel
  by (auto simp: after_calls_def simp del: prog_eqs intro!: emits_steps)
    ((erule node_unstage_okI node_unstage_errI | rule node_unstage_errI [OF cleaned_False(2)]),
     simp add: unmapped_def mapper_found_def)+

text \<open>The steps of staging.\<close>

definition opens :: "string \<Rightarrow> mount_table \<Rightarrow> (error + string) outcome \<Rightarrow> mount_table \<Rightarrow> bool" where
  "opens n t out t' \<longleftrightarrow> (t' = t \<or> t' = t\<lparr>mapped := insert n (mapped t)\<rparr>) \<and>
     (\<forall>p. out = Done (Inr p) \<longrightarrow> p = ''/dev/mapper/'' @ n \<and> n \<in> mapped t')"

lemma luks_effect:
  "effect table_step (opens (LC_VolumeName ctx))
     (luksFormat (NewLuksEncryption (traced_exec x) (traced_fs f) (traced_crypt c)) ctx src)"
  "effect table_step (opens (LC_VolumeName ctx))
     (luksOpen (NewLuksEncryption (traced_exec x) (traced_fs f) (traced_crypt c)) ctx src)"
  "effect table_step (\<lambda>t out t'. t' = t \<and> out \<noteq> Panic)
     (blkidValid (NewLuksEncryption (traced_exec x) (traced_fs f) (traced_crypt c)) src)"
  unfolding effect_def luks_defs Let_def traced_sel
  by (auto simp: after_calls_def opens_def simp del: prog_eqs intro!: emits_steps emits_panic)

lemma formatLUKSVolume_effect:
  "effect table_step (opens (LC_VolumeName ctx)) (formatLUKSVolume (node_of drv md (traced_host h)) p0 ctx)"
  unfolding formatLUKSVolume_def traced_sel
  by (rule effect_andThen [OF luks_effect(3), where R = "\<lambda>_. opens (LC_VolumeName ctx)"])
    (auto intro!: effect_case_sum effect_case_option effect_if effect_ret effect_wrap_error luks_effect
      simp: opens_def simp del: prog_eqs)

definition mounted_from :: "NodeStageVolumeRequest \<Rightarrow> string \<Rightarrow> mount_table \<Rightarrow> error option outcome \<Rightarrow> mount_table \<Rightarrow> bool" where
  "mounted_from req dev t out t' \<longleftrightarrow>
     mapping_added req t t' \<and>
     (if out = Done None then
        (stage_encrypted req \<longrightarrow> stage_name req \<in> mapped t') \<and>
        mounts t' = mounts (push_mount (mount_source req dev) (NSR_StagingTargetPath req) t)
      else mounts t' = mounts t)"

lemma mountVolume_effect:
  "effect table_step (mounted_from req dev) (mountVolume (node_of drv md (traced_host h)) dev req)"
proof -
  let ?ctx = "getLuksContext (NSR_Secrets req) (NSR_VolumeContext req) VolumeLifecycleNodeStageVolume"
  let ?src = "\<lambda>t out t'. mapping_added req t t' \<and> mounts t' = mounts t \<and>
     (\<forall>p. out = Done (Inr p) \<longrightarrow> p = mount_source req dev \<and> (stage_encrypted req \<longrightarrow> stage_name req \<in> mapped t'))"
  have source: "effect table_step ?src
     (if EncryptionEnabled ?ctx then formatLUKSVolume (node_of drv md (traced_host h)) dev ?ctx else ret (Inr dev))"
    by (intro effect_if effect_conseq [OF formatLUKSVolume_effect] effect_ret)
      (auto simp: opens_def mapping_added_def mount_source_def getLuksContext_def split: if_splits)
  let ?mount = "\<lambda>r t out t'. case r of
      Inl e \<Rightarrow> t' = t \<and> out = Done (Some e)
    | Inr src \<Rightarrow> if out = Done None then t' = push_mount src (NSR_StagingTargetPath req) t else t' = t"
  show ?thesis
    unfolding mountVolume_def Let_def split_beta
    apply (rule effect_andThen [OF source, where R = ?mount])
    subgoal for r unfolding traced_sel by (cases r) (auto simp: effect_def after_calls_def simp del: prog_eqs intro!: emits_steps)
    by (auto simp: mounted_from_def mapping_added_def push_mount_def split: sum.splits if_splits)
qed

lemma findDevicePath_effect:
  "effect table_step (\<lambda>t out t'. t' = t \<and> (\<exists>r. out = Done r) \<and>
       (\<forall>p. out = Done (Inr p) \<longrightarrow> p \<in> set (GetDiskByIdPaths (GetNormalizedLabel key) part)))
     (findDevicePath (node_of drv md (traced_host h)) key part)"
  unfolding effect_def findDevicePath_def Let_def traced_sel
  by (auto simp: after_calls_def table_run_probing simp del: prog_eqs intro!: emits_steps emits_VerifyDevicePath)

lemma ensureMountPoint_effect:
  "effect table_step (\<lambda>t out t'. t' = t \<and> (\<exists>r. out = Done r) \<and> (out = Done (Inr False) \<longrightarrow> mounts t p \<noteq> []))
     (ensureMountPoint (node_of drv md (traced_host h)) p (traced_fs f))"
  unfolding effect_def ensureMountPoint_def traced_sel
  by (auto simp: after_calls_def simp del: prog_eqs intro!: emits_steps)

definition staged_from :: "NodeStageVolumeRequest \<Rightarrow> string \<Rightarrow> mount_table \<Rightarrow> (error + unit) outcome \<Rightarrow> mount_table \<Rightarrow> bool" where
  "staged_from req dev t out t' \<longleftrightarrow>
     mapping_added req t t' \<and>
     (if out = Done (Inr ()) then
        t' = t \<and> (cap_block (NSR_VolumeCapability req) \<or> mounts t (NSR_StagingTargetPath req) \<noteq> []) \<or>
        \<not> cap_block (NSR_VolumeCapability req) \<and> (stage_encrypted req \<longrightarrow> stage_name req \<in> mapped t') \<and>
        mounts t' = mounts (push_mount (mount_source req dev) (NSR_StagingTargetPath req) t)
      else mounts t' = mounts t)"

lemma node_stage_specI:
  "staged_from req dev t out t' \<Longrightarrow> dev \<in> set (stage_devices req) \<Longrightarrow> node_stage_spec req t out t'"
  by (auto simp: node_stage_spec_def staged_from_def split: if_splits)

lemma stage_at_effect:
  "effect table_step (staged_from req dev)
    (andThen (ensureMountPoint (node_of drv md (traced_host h)) (NSR_StagingTargetPath req) (traced_fs f)) (\<lambda>r.
     case r of
       Inl err \<Rightarrow> record_return tot dur st (Inl err)
     | Inr notMnt \<Rightarrow>
         if \<not> notMnt then record_return tot dur st (Inr ())
         else if cap_block (NSR_VolumeCapability req) then record_return tot dur st (Inr ())
         else
           andThen (mountVolume (node_of drv md (traced_host h)) dev req) (\<lambda>err.
           case err of
             Some e \<Rightarrow> record_return tot dur st (Inl e)
           | None \<Rightarrow> record_return tot dur st' (Inr ()))))"
proof (rule effect_andThen [OF ensureMountPoint_effect, where R = "\<lambda>r t out t'.
      (r = Inr False \<longrightarrow> mounts t (NSR_StagingTargetPath req) \<noteq> []) \<longrightarrow> staged_from req dev t out t'"])
  have mounted: "effect table_step (staged_from req dev)
     (andThen (mountVolume (node_of drv md (traced_host h)) dev req) (\<lambda>err.
        case err of Some e \<Rightarrow> record_return tot dur st (Inl e) | None \<Rightarrow> record_return tot dur st' (Inr ())))"
    if "\<not> cap_block (NSR_VolumeCapability req)"
    using that
    by (intro effect_andThen [OF mountVolume_effect,
          where R = "\<lambda>err t out t'. t' = t \<and> out = Done (case err of Some e \<Rightarrow> Inl e | None \<Rightarrow> Inr ())"]
        effect_case_option effect_record_return)
      (auto simp: mounted_from_def staged_from_def split: option.splits if_splits)
  fix r
  show "effect table_step (\<lambda>t out t'. (r = Inr False \<longrightarrow> mounts t (NSR_StagingTargetPath req) \<noteq> []) \<longrightarrow> staged_from req dev t out t')
     (case r of
       Inl err \<Rightarrow> record_return tot dur st (Inl err)
     | Inr notMnt \<Rightarrow>
         if \<not> notMnt then record_return tot dur st (Inr ())
         else if cap_block (NSR_VolumeCapability req) then record_return tot dur st (Inr ())
         else
           andThen (mountVolume (node_of drv md (traced_host h)) dev req) (\<lambda>err.
           case err of
             Some e \<Rightarrow> record_return tot dur st (Inl e)
           | None \<Rightarrow> record_return tot dur st' (Inr ())))"
    by (rule effect_case_sum, rule effect_record_return, simp add: staged_from_def mapping_added_def,
        (rule effect_if, rule effect_record_return, simp add: staged_from_def mapping_added_def)+,
        rule effect_conseq [OF mounted]) simp_all
qed auto

lemma NodeStageVolume_effect:
  "effect table_step (node_stage_spec req) (NodeStageVolume (node_of drv md (traced_host h)) (traced_fs f) req)"
proof -
  have unchanged: "node_stage_spec req t (Done (Inl e)) t" for t e
    by (simp add: node_stage_spec_def mapping_added_def)
  show ?thesis
  proof (cases "validateNodeStageVolumeRequest req = None \<and> (\<exists>key. ParseLinodeVolumeKey (NSR_VolumeId req) = Inr key)")
    case True
    then obtain key where key: "ParseLinodeVolumeKey (NSR_VolumeId req) = Inr key" "validateNodeStageVolumeRequest req = None"
      by blast
    let ?R = "\<lambda>r t out t'. case r of Inl e \<Rightarrow> t' = t \<and> out = Done (Inl e) | Inr dev \<Rightarrow> staged_from req dev t out t'"
    have "effect table_step (?R r) (case r of
           Inl err \<Rightarrow> record_return NodeStageVolumeTotal NodeStageVolumeDuration Failed (Inl err)
         | Inr devicePath \<Rightarrow>
             andThen (ensureMountPoint (node_of drv md (traced_host h)) (NSR_StagingTargetPath req) (traced_fs f)) (\<lambda>r.
             case r of
               Inl err \<Rightarrow> record_return NodeStageVolumeTotal NodeStageVolumeDuration Failed (Inl err)
             | Inr notMnt \<Rightarrow>
                 if \<not> notMnt then record_return NodeStageVolumeTotal NodeStageVolumeDuration Failed (Inr ())
                 else if cap_block (NSR_VolumeCapability req)
                 then record_return NodeStageVolumeTotal NodeStageVolumeDuration Failed (Inr ())
                 else
                   andThen (mountVolume (node_of drv md (traced_host h)) devicePath req) (\<lambda>err.
                   case err of
                     Some e \<Rightarrow> record_return NodeStageVolumeTotal NodeStageVolumeDuration Failed (Inl e)
                   | None \<Rightarrow> record_return NodeStageVolumeTotal NodeStageVolumeDuration Completed (Inr ()))))" for r
      by (cases r; hypsubst; unfold sum.case) (rule effect_record_return, simp, rule stage_at_effect)
    then show ?thesis
      unfolding NodeStageVolume_def key Let_def option.case sum.case
      by (rule effect_andThen [OF findDevicePath_effect])
        (auto simp: unchanged stage_devices_def key intro: node_stage_specI split: sum.splits)
  next
    case False
    then show ?thesis
      by (cases "validateNodeStageVolumeRequest req"; cases "ParseLinodeVolumeKey (NSR_VolumeId req)")
        (simp_all add: NodeStageVolume_def effect_record_return unchanged)
  qed
qed

end
