(* ===== verification/Mount_Properties.thy ===== *)
theory Mount_Properties
  imports Node_Properties Mount_Table
begin

text \<open>
  The node service as a refinement of operations on the mount table, each with a run on the sample host. The host
  may fail at any call; \<open>table_host\<close> only says what its calls mean.
\<close>

section \<open>The mount table of the sample host\<close>

definition box_table :: "box \<Rightarrow> mount_table" where
  "box_table w = \<lparr>mounts = (\<lambda>p. map snd (filter (\<lambda>(tgt, src). tgt = p) (mounted w))), mapped = set (mappings w)\<rparr>"

lemma box_table_sel [simp]:
  "mounts (box_table w) p = map snd (filter (\<lambda>(tgt, src). tgt = p) (mounted w))" "mapped (box_table w) = set (mappings w)"
  by (simp_all add: box_table_def)

lemma box_table_mount: "box_table (w\<lparr>mounted := (tgt, src) # mounted w\<rparr>) = push_mount src tgt (box_table w)"
  by (auto simp: box_table_def push_mount_def)

lemma box_table_cleanup:
  "cleaned p True (box_table w) (box_table (w\<lparr>mounted := filter (\<lambda>(tgt, src). tgt \<noteq> p) (mounted w)\<rparr>))"
  unfolding cleaned_def
  by (auto simp: box_table_def filter_empty_conv fun_eq_iff split_beta intro!: exI [of _ "length (mounts (box_table w) p)"] 
   arg_cong [where f = "map snd"] filter_cong)

lemma box_table_mappings:
  "box_table (w\<lparr>mappings := n # mappings w\<rparr>) = box_table w\<lparr>mapped := insert n (set (mappings w))\<rparr>"
  "box_table (w\<lparr>mappings := filter (\<lambda>q. q \<noteq> n) (mappings w)\<rparr>) = box_table w\<lparr>mapped := set (mappings w) - {n}\<rparr>"
  by (auto simp: box_table_def)

lemma box_table_host: "table_host (\<lambda>w. True) box_table box_host"
  unfolding table_host_def
  by (auto simp: box_defs box_table_mount box_table_cleanup box_table_mappings filter_empty_conv intro!: honestI) force

lemmas stage_table = effect_run [OF NodeStageVolume_effect tracked_NodeStageVolume erase_NodeStageVolume]
lemmas publish_table = effect_run [OF NodePublishVolume_effect tracked_NodePublishVolume erase_NodePublishVolume]
lemmas unpublish_table = effect_run [OF NodeUnpublishVolume_effect tracked_NodeUnpublishVolume erase_NodeUnpublishVolume]
lemmas unstage_table = call_effect_run [OF NodeUnstageVolume_effect tracked_NodeUnstageVolume erase_NodeUnstageVolume]

section \<open>Refinement\<close>

text \<open>
  C11. Staging a volume, on a host whose mounter and crypt library do what they document: on success the staging
  path is a mount point, and if it was not one before, exactly one mount was added there, of a device of the volume or,
  for an encrypted volume, of its mapper device, which is active (a block volume is not mounted). On an error, and
  even when the driver panics, no mount has changed.
\<close>

theorem node_stage_refines:
  assumes "table_host I tab h" and "I (Ext s)" and "NodeStageVolume (node_of drv md h) (h_fs h) req s = (out, s')"
  shows "I (Ext s') \<and> node_stage_spec req (tab (Ext s)) out (tab (Ext s'))"
  using stage_table [OF assms(1,2), of drv md req] assms(3) by simp

lemma box_stage_runs:
  "fst (NodeStageVolume (node_of sample_driver sample_metadata box_host) (h_fs box_host) (sample_stage luks_ctx) box_state) = Done (Inr ())"
  by (simp add: stage_run plain_run Let_def)

lemma luks_ctx_name [simp]: "mget luks_ctx PublishInfoVolumeName = ''pvc1''"
  by (simp add: luks_ctx_def mget_def attribute_key_defs)

theorem node_stage_refines_witness:
  "\<exists>s'. NodeStageVolume (node_of sample_driver sample_metadata box_host) (h_fs box_host) (sample_stage luks_ctx) box_state = (Done (Inr ()), s') \<and>
     mounts (box_table (Ext s')) ''/stage'' = [''/dev/mapper/pvc1''] \<and> ''pvc1'' \<in> mapped (box_table (Ext s'))"
proof -
  let ?run = "NodeStageVolume (node_of sample_driver sample_metadata box_host) (h_fs box_host) (sample_stage luks_ctx) box_state"
  obtain s' where run: "?run = (Done (Inr ()), s')" using box_stage_runs by (metis prod.collapse)
  from node_stage_refines [OF box_table_host _ run] 
  have "node_stage_spec (sample_stage luks_ctx) (box_table (Ext box_state)) (Done (Inr ())) (box_table (Ext s'))" by simp
  then show ?thesis using run
    by (auto simp: node_stage_spec_def sample_stage_def cap_block_def mount_source_def push_mount_def fun_eq_iff simp del: box_table_sel)
      (auto simp: box_table_def)
qed

text \<open>
  C12. Publishing and unpublishing, on such a host: publishing adds at most one mount, at the target, of the staging
  path or of the published device; exactly one when it succeeds and the target was no mount point or the volume is a block volume. A request that
  fails changes nothing or leaves this bind mount in place. After unpublishing nothing is mounted at the
  target. No other path is affected.
\<close>

theorem node_publish_refines:
  assumes "table_host I tab h" and "I (Ext s)"
  shows "(\<exists>r s'. NodePublishVolume (node_of drv md h) (h_fs h) preq s = (Done r, s') \<and> I (Ext s') \<and>
      node_publish_spec preq (tab (Ext s)) r (tab (Ext s'))) \<and>
    (\<exists>r s'. NodeUnpublishVolume (node_of drv md h) ureq s = (Done r, s') \<and> I (Ext s') \<and>
      node_unpublish_spec ureq (tab (Ext s)) r (tab (Ext s')))"
  using publish_table [OF assms, of drv md preq] unpublish_table [OF assms, of drv md ureq]
  by (metis prod.collapse)

theorem node_publish_refines_witness:
  "\<exists>r s'. NodePublishVolume (node_of sample_driver sample_metadata box_host) (h_fs box_host) (sample_node_publish AT_None ''d'') box_state = (Done r, s') \<and>
     node_publish_spec (sample_node_publish AT_None ''d'') (box_table (Ext box_state)) r (box_table (Ext s'))"
  using node_publish_refines [OF box_table_host, where s = box_state] by blast


definition sample_unstage :: NodeUnstageVolumeRequest where
  "sample_unstage = \<lparr>NUR_VolumeId = ''42-csipvc1'', NUR_StagingTargetPath = ''/stage''\<rparr>"

lemma sample_mount_source [simp]: "getMountSource ''42-csipvc1'' = Inr ''csipvc1''"
  by (simp add: getMountSource_def SplitN2_def)

lemmas unstage_run = NodeUnstageVolume_def validateNodeUnstageVolumeRequest_def sample_unstage_def closeLuksMountSource_def
  luks_defs box_defs plain_run

lemma box_unstage_runs: "fst (NodeUnstageVolume (node_of sample_driver sample_metadata box_host) sample_unstage s) = Done (Inr ())"
  by (simp add: unstage_run Let_def)

lemma box_unstage_finds:
  "''csipvc1'' \<in> set (mappings (Ext s)) \<Longrightarrow>
    mapper_found (calls_of (NodeUnstageVolume (node_of sample_driver sample_metadata (traced_host box_host)) sample_unstage) s)"
  by (simp add: NodeUnstageVolume_def validateNodeUnstageVolumeRequest_def sample_unstage_def closeLuksMountSource_def
      luks_defs box_defs log_run mapper_found_def Let_def)


section \<open>Staging and unstaging\<close>

text \<open>
  C14. Unstaging undoes staging: when a volume was staged on a path that was no mount point and then unstaged from it, both
  with success, the mounts of the host are as before. Without encryption no mapper device is open that was not open before. The mapper device of an
  encrypted volume is closed exactly when it has the name that the volume ID gives and it was found by this name; otherwise it
  stays open, although unstaging succeeds.
\<close>

theorem stage_unstage_roundtrip:
  assumes "table_host I tab h" and "I (Ext s)" and "mounts (tab (Ext s)) (NSR_StagingTargetPath req) = []"
    and "NodeStageVolume (node_of drv md h) (h_fs h) req s = (Done (Inr ()), s1)"
    and "NodeUnstageVolume (node_of drv md h) ureq s1 = (Done (Inr ()), s2)"
    and "NUR_StagingTargetPath ureq = NSR_StagingTargetPath req"
  shows "mounts (tab (Ext s2)) = mounts (tab (Ext s)) \<and>
    (\<not> stage_encrypted req \<longrightarrow> mapped (tab (Ext s2)) \<subseteq> mapped (tab (Ext s))) \<and>
    (\<not> cap_block (NSR_VolumeCapability req) \<and> stage_encrypted req \<longrightarrow>
       (if getMountSource (NUR_VolumeId ureq) = Inr (stage_name req) \<and>
           mapper_found (calls_of (NodeUnstageVolume (node_of drv md (traced_host h)) ureq) s1)
        then mapped (tab (Ext s2)) = mapped (tab (Ext s)) - {stage_name req}
        else stage_name req \<in> mapped (tab (Ext s2))))"
proof -
  let ?found = "mapper_found (calls_of (NodeUnstageVolume (node_of drv md (traced_host h)) ureq) s1)"
  have staged: "I (Ext s1)" "node_stage_spec req (tab (Ext s)) (Done (Inr ())) (tab (Ext s1))"
    using stage_table [OF assms(1,2), of drv md req] assms(4) by simp_all
  have unstaged: "node_unstage_spec ?found ureq (tab (Ext s1)) (Inr ()) (tab (Ext s2))"
    using unstage_table [OF assms(1) staged(1), of drv md ureq] assms(5) by simp
  then obtain mid where mid: "cleaned (NSR_StagingTargetPath req) True (tab (Ext s1)) mid" 
    "tab (Ext s2) = (if ?found then unmapped (NUR_VolumeId ureq) mid else mid)"
    by (auto simp: node_unstage_spec_def assms(6))
  have "mounts (tab (Ext s2)) = (mounts (tab (Ext s1)))(NSR_StagingTargetPath req := [])" 
    "mapped (tab (Ext s2)) = mapped (if ?found then unmapped (NUR_VolumeId ureq) (tab (Ext s1)) else tab (Ext s1))"
    using mid by (auto simp: cleaned_def unmapped_def split: sum.splits)
  moreover have "(mounts (tab (Ext s1)))(NSR_StagingTargetPath req := []) = mounts (tab (Ext s))"
    using staged(2) assms(3) by (auto simp: node_stage_spec_def push_mount_def fun_eq_iff)
  ultimately show ?thesis
    using staged(2) assms(3) by (auto simp: node_stage_spec_def mapping_added_def unmapped_def split: sum.splits if_splits)
qed

theorem stage_unstage_roundtrip_witness:
  "\<exists>s1 s2. NodeStageVolume (node_of sample_driver sample_metadata box_host) (h_fs box_host) (sample_stage luks_ctx) box_state = (Done (Inr ()), s1) \<and>
     NodeUnstageVolume (node_of sample_driver sample_metadata box_host) sample_unstage s1 = (Done (Inr ()), s2) \<and>
     mounts (box_table (Ext s2)) = mounts (box_table (Ext box_state)) \<and> ''pvc1'' \<in> mapped (box_table (Ext s2))"
proof -
  let ?ns = "node_of sample_driver sample_metadata box_host"
  obtain s1 where stage: "NodeStageVolume ?ns (h_fs box_host) (sample_stage luks_ctx) box_state = (Done (Inr ()), s1)"
    using box_stage_runs by (metis prod.collapse)
  obtain s2 where unstage: "NodeUnstageVolume ?ns sample_unstage s1 = (Done (Inr ()), s2)"
    using box_unstage_runs [of s1] by (metis prod.collapse)
  have "mounts (box_table (Ext box_state)) (NSR_StagingTargetPath (sample_stage luks_ctx)) = []"
    by simp
  from stage_unstage_roundtrip [OF box_table_host _ this stage unstage] show ?thesis
    using stage unstage by (simp add: sample_stage_def sample_unstage_def cap_block_def del: box_table_sel)
qed

section \<open>The name of the mapper device\<close>


lemma sample_itoa: "Itoa 42 = ''42''" "Itoa 9 = ''9''"
  by (simp_all add: Itoa_def show_nat.simps [of 42] show_nat.simps [of 4] show_nat.simps [of 9] digit_char_def char_of_def bit_0)

definition luks_create :: CreateVolumeRequest where
  "luks_create = (sample_create ''pvc1'')\<lparr>CVR_Parameters := [LuksEncryptedAttribute \<mapsto> True_str,
     LuksCipherAttribute \<mapsto> ''aes-xts-plain64'', LuksKeySizeAttribute \<mapsto> ''512'']\<rparr>"

lemma luks_create_context [simp]:
  "getLuksContext [LuksKeyAttribute \<mapsto> ''secret''] (createVolumeContext luks_create vol) l =
    \<lparr>EncryptionEnabled = True, EncryptionKey = ''secret'', EncryptionCipher = ''aes-xts-plain64'',
     EncryptionKeySize = ''512'', LC_VolumeName = ''pvc1'', LC_VolumeLifecycle = l\<rparr>"
  "createVolumeContext req vol ''partition'' = None"
  by (simp_all add: luks_context_passed_on luks_create_def sample_create_def)
    (simp_all add: createVolumeContext_def mget_def attribute_key_defs Let_def)


section \<open>Publishing a block volume twice\<close>

text \<open>
  C31. Publishing is not idempotent for a block volume: nothing checks whether the target is a mount point, so every
  successful repetition of the request mounts the device at the target once more.
\<close>

theorem publish_block_stacks:
  assumes "table_host I tab h" and "I (Ext s)" and "cap_block (NPR_VolumeCapability req)"
    and "NodePublishVolume (node_of drv md h) (h_fs h) req s = (Done (Inr ()), s1)"
    and "NodePublishVolume (node_of drv md h) (h_fs h) req s1 = (Done (Inr ()), s2)"
  shows "mounts (tab (Ext s2)) (NPR_TargetPath req) =
    mget (NPR_PublishContext req) devicePathKey # mget (NPR_PublishContext req) devicePathKey # mounts (tab (Ext s)) (NPR_TargetPath req)"
proof -
  have first: "I (Ext s1)" "tab (Ext s1) = push_mount (publish_source req) (NPR_TargetPath req) (tab (Ext s))"
    using publish_table [OF assms(1,2), of drv md req] assms(3,4) by (auto simp: node_publish_spec_def)
  have "tab (Ext s2) = push_mount (publish_source req) (NPR_TargetPath req) (tab (Ext s1))"
    using publish_table [OF assms(1) first(1), of drv md req] assms(3,5) by (auto simp: node_publish_spec_def)
  with first(2) assms(3) show ?thesis by (simp add: push_mount_def publish_source_def)
qed

theorem publish_block_stacks_witness:
  "\<exists>s1 s2. NodePublishVolume (node_of sample_driver sample_metadata box_host) (h_fs box_host) (sample_node_publish AT_Block ''/dev/sdb'') box_state = (Done (Inr ()), s1) \<and>
     NodePublishVolume (node_of sample_driver sample_metadata box_host) (h_fs box_host) (sample_node_publish AT_Block ''/dev/sdb'') s1 = (Done (Inr ()), s2) \<and>
     mounts (box_table (Ext s2)) ''/pods/t'' = [''/dev/sdb'', ''/dev/sdb'']"
proof -
  let ?publish = "NodePublishVolume (node_of sample_driver sample_metadata box_host) (h_fs box_host) (sample_node_publish AT_Block ''/dev/sdb'')"
  have runs: "fst (?publish s) = Done (Inr ())" for s
    by (simp add: publish_run plain_run Let_def)
  then obtain s1 s2 where twice: "?publish box_state = (Done (Inr ()), s1)" "?publish s1 = (Done (Inr ()), s2)"
    by (metis prod.collapse)
  from publish_block_stacks [OF box_table_host _ _ twice] show ?thesis
    using twice by (simp add: sample_node_publish_def cap_block_def del: box_table_sel) (simp add: box_table_def)
qed

end
