(* ===== verification/Volume_Account.thy ===== *)
theory Volume_Account
  imports Controller_Safety Call_Effects
begin

text \<open>
  What the controller promises, above the calls it makes: its effect on the volumes of the account.

  An \<open>account\<close> is the map from volume IDs to volumes. \<open>account_step\<close> gives the documented meaning of every call of
  the Linode API on it, with the answer of the call: a failed call changes nothing, a listing by
  label is exact, a created volume is new. Calls may fail at any time. \<open>account_client hw I acc c\<close> says that the
  client \<open>c\<close> behaves so on worlds that satisfy \<open>I\<close>, where \<open>acc\<close> reads the account of a world; the status of a volume
  is not part of the account (\<open>settle\<close>).

  The specifications \<open>create_spec\<close>, \<open>delete_spec\<close>, \<open>publish_spec\<close>, \<open>unpublish_spec\<close>, \<open>expand_spec\<close> relate the account before
  an RPC, its result, and the account after it; the \<open>_effect\<close> lemmas prove them for the handlers, and the
  \<open>_inv\<close> lemmas that every RPC keeps labels unique and instances within their limit. The link between a
  run and the account is \<open>tracks\<close>, a \<open>state_relation\<close>: the log of a run is a path of the account.
\<close>

section \<open>Accounts\<close>

type_synonym account = "int \<rightharpoonup> Volume"

text \<open>The account does not record the status of a volume.\<close>

definition settle :: "Volume \<Rightarrow> Volume" where
  "settle vol = vol\<lparr>Vol_Status := VolumeActive\<rparr>"

definition change_volume :: "int \<Rightarrow> (Volume \<Rightarrow> Volume) \<Rightarrow> account \<Rightarrow> account" where
  "change_volume v f st = st(v := map_option f (st v))"

definition attached_to :: "account \<Rightarrow> int \<Rightarrow> int set" where
  "attached_to st l = {v. \<exists>vol. st v = Some vol \<and> Vol_LinodeID vol = Some l}"

text \<open>A list that holds exactly the volumes that satisfy \<open>P\<close>, each once.\<close>

definition listed :: "account \<Rightarrow> (Volume \<Rightarrow> bool) \<Rightarrow> Volume list \<Rightarrow> bool" where
  "listed st P vs \<longleftrightarrow> distinct (map Vol_ID vs) \<and>
     (\<forall>v vol. st v = Some vol \<and> P vol \<longleftrightarrow> (\<exists>x \<in> set vs. settle x = vol \<and> Vol_ID x = v))"

text \<open>A new volume, under an ID not used before, attached to nothing.\<close>

definition added :: "Volume option \<Rightarrow> string \<Rightarrow> int \<Rightarrow> account \<Rightarrow> account \<Rightarrow> bool" where
  "added p label sz st st' \<longleftrightarrow>
     (\<exists>vol. p = Some vol \<and> st (Vol_ID vol) = None \<and> st' = st(Vol_ID vol \<mapsto> settle vol) \<and>
        Vol_Label vol = label \<and> Vol_Size vol = sz \<and> Vol_LinodeID vol = None)"

text \<open>What decides how many volumes an instance can have: its memory, in mebibytes, and the number of its disks.\<close>

record hardware =
  hw_memory :: "int \<Rightarrow> int"
  hw_disks :: "int \<Rightarrow> nat"

definition instance_limit :: "hardware \<Rightarrow> int \<Rightarrow> int" where
  "instance_limit hw l = maxVolumeAttachments (push_bit 20 (word_of_int (hw_memory hw l))) - int (hw_disks hw l)"

text \<open>
  The meaning of a call with its answer. A call that fails may still have taken effect: its answer can be lost on the way. A
  detachment takes effect at once or while the driver waits for it. A listing with a filter is described for labels of plain
  characters, the only ones Linode allows.
\<close>

fun account_step :: "hardware \<Rightarrow> 'w LinodeClient \<Rightarrow> api_event \<Rightarrow> account \<Rightarrow> account \<Rightarrow> bool" where
  "account_step hw c (EvListVolumes opts (vs, e)) st st' =
     (st' = st \<and> (e = None \<longrightarrow> (\<forall>label. list_all json_plain label \<and> opts = NewListOptions c 0 (label_filter label)
        \<longrightarrow> listed st (\<lambda>vol. Vol_Label vol = label) vs)))"
| "account_step hw c (EvListInstanceVolumes i (vs, e)) st st' =
     (st' = st \<and> (e = None \<longrightarrow> listed st (\<lambda>vol. Vol_LinodeID vol = Some i) vs))"
| "account_step hw c (EvListInstanceDisks i (disks, e)) st st' = (st' = st \<and> (e = None \<longrightarrow> length disks = hw_disks hw i))"
| "account_step hw c (EvGetRegion r (p, e)) st st' = (st' = st \<and> (e = None \<longrightarrow> p \<noteq> None))"
| "account_step hw c (EvGetInstance i (p, e)) st st' =
     (st' = st \<and> (e = None \<longrightarrow> (\<exists>inst. p = Some inst \<and> Inst_ID inst = i \<and>
        (\<forall>specs. Inst_Specs inst = Some specs \<longrightarrow> Spec_Memory specs = hw_memory hw i))))"
| "account_step hw c (EvGetVolume v (p, e)) st st' =
     (st' = st \<and> (IsNotFound c e \<longrightarrow> st v = None) \<and> (e = None \<longrightarrow> (\<exists>vol. p = Some vol \<and> Vol_ID vol = v \<and> st v = Some (settle vol))))"
| "account_step hw c (EvCreateVolume opts (p, e)) st st' =
     (if e = None then added p (VCO_Label opts) (VCO_Size opts) st st'
      else st' = st \<or> (\<exists>q. added q (VCO_Label opts) (VCO_Size opts) st st'))"
| "account_step hw c (EvCloneVolume v label (p, e)) st st' =
     (if e = None then (\<exists>src. st v = Some src \<and> added p label (Vol_Size src) st st')
      else st' = st \<or> (\<exists>q src. st v = Some src \<and> added q label (Vol_Size src) st st'))"
| "account_step hw c (EvAttachVolume v opts (p, e)) st st' =
     (v \<in> dom st \<and> st' = change_volume v (Vol_LinodeID_update (\<lambda>_. Some (VAO_LinodeID opts))) st \<or> e \<noteq> None \<and> st' = st)"
| "account_step hw c (EvDetachVolume v e) st st' =
     ((st' = st \<or> st' = change_volume v (Vol_LinodeID_update (\<lambda>_. None)) st) \<and>
      (e = None \<longrightarrow> v \<in> dom st) \<and> (IsNotFound c e \<longrightarrow> st v = None))"
| "account_step hw c (EvWaitForVolumeLinodeID v l (p, e)) st st' =
     ((st' = st \<or> l = None \<and> st' = change_volume v (Vol_LinodeID_update (\<lambda>_. None)) st) \<and>
      (e = None \<longrightarrow> (\<exists>vol. p = Some vol \<and> st' v = Some (settle vol) \<and> Vol_LinodeID vol = l)))"
| "account_step hw c (EvWaitForVolumeStatus v status (p, e)) st st' =
     (st' = st \<and> (e = None \<longrightarrow> (\<exists>vol. p = Some vol \<and> Vol_ID vol = v \<and> st v = Some (settle vol))))"
| "account_step hw c (EvDeleteVolume v e) st st' = (st' = st(v := None) \<or> e \<noteq> None \<and> st' = st)"
| "account_step hw c (EvResizeVolume v n e) st st' =
     (v \<in> dom st \<and> st' = change_volume v (Vol_Size_update (\<lambda>_. n)) st \<or> e \<noteq> None \<and> st' = st)"

section \<open>Clients\<close>

definition account_client :: "hardware \<Rightarrow> ('w \<Rightarrow> bool) \<Rightarrow> ('w \<Rightarrow> account) \<Rightarrow> 'w LinodeClient \<Rightarrow> bool" where
  "account_client hw I acc c \<longleftrightarrow> \<not> IsNotFound c None \<and>
     (\<forall>opts. honest (account_step hw c) I acc (EvListVolumes opts) (ListVolumes_api c opts)) \<and>
     (\<forall>i opts. honest (account_step hw c) I acc (EvListInstanceVolumes i) (ListInstanceVolumes_api c i opts)) \<and>
     (\<forall>i opts. honest (account_step hw c) I acc (EvListInstanceDisks i) (ListInstanceDisks_api c i opts)) \<and>
     (\<forall>r. honest (account_step hw c) I acc (EvGetRegion r) (GetRegion_api c r)) \<and>
     (\<forall>i. honest (account_step hw c) I acc (EvGetInstance i) (GetInstance_api c i)) \<and>
     (\<forall>v. honest (account_step hw c) I acc (EvGetVolume v) (GetVolume_api c v)) \<and>
     (\<forall>opts. honest (account_step hw c) I acc (EvCreateVolume opts) (CreateVolume_api c opts)) \<and>
     (\<forall>v l. honest (account_step hw c) I acc (EvCloneVolume v l) (CloneVolume_api c v l)) \<and>
     (\<forall>v opts. honest (account_step hw c) I acc (EvAttachVolume v opts) (AttachVolume_api c v opts)) \<and>
     (\<forall>v. honest (account_step hw c) I acc (EvDetachVolume v) (DetachVolume_api c v)) \<and>
     (\<forall>v l t. honest (account_step hw c) I acc (EvWaitForVolumeLinodeID v l) (WaitForVolumeLinodeID_api c v l t)) \<and>
     (\<forall>v status t. honest (account_step hw c) I acc (EvWaitForVolumeStatus v status) (WaitForVolumeStatus_api c v status t)) \<and>
     (\<forall>v. honest (account_step hw c) I acc (EvDeleteVolume v) (DeleteVolume_api c v)) \<and>
     (\<forall>v n. honest (account_step hw c) I acc (EvResizeVolume v n) (ResizeVolume_api c v n))"

section \<open>The account along a run\<close>

lemma account_client_calls:
  assumes "account_client hw I acc c"
  shows "\<not> IsNotFound c None"
    "honest (account_step hw c) I acc (EvListVolumes opts) (ListVolumes_api c opts)"
    "honest (account_step hw c) I acc (EvListInstanceVolumes i) (ListInstanceVolumes_api c i opts')"
    "honest (account_step hw c) I acc (EvListInstanceDisks i) (ListInstanceDisks_api c i opts')"
    "honest (account_step hw c) I acc (EvGetRegion r) (GetRegion_api c r)"
    "honest (account_step hw c) I acc (EvGetInstance i) (GetInstance_api c i)"
    "honest (account_step hw c) I acc (EvGetVolume v) (GetVolume_api c v)"
    "honest (account_step hw c) I acc (EvCreateVolume co) (CreateVolume_api c co)"
    "honest (account_step hw c) I acc (EvCloneVolume v l) (CloneVolume_api c v l)"
    "honest (account_step hw c) I acc (EvAttachVolume v ao) (AttachVolume_api c v ao)"
    "honest (account_step hw c) I acc (EvDetachVolume v) (DetachVolume_api c v)"
    "honest (account_step hw c) I acc (EvWaitForVolumeLinodeID v li) (WaitForVolumeLinodeID_api c v li t)"
    "honest (account_step hw c) I acc (EvWaitForVolumeStatus v status) (WaitForVolumeStatus_api c v status t)"
    "honest (account_step hw c) I acc (EvDeleteVolume v) (DeleteVolume_api c v)"
    "honest (account_step hw c) I acc (EvResizeVolume v n) (ResizeVolume_api c v n)"
  using assms by (simp_all add: account_client_def)

lemma tracked_DeleteVolume:
  assumes "account_client hw I acc (cs_client cs)"
  shows "keeps (tracks (account_step hw (cs_client cs)) I acc) (DeleteVolume (traced_cs cs) req)"
  unfolding DeleteVolume_def traced_cs_simps traced_simps
  by (intro tracked_steps account_client_calls [OF assms])

lemma tracked_ControllerUnpublishVolume:
  assumes "account_client hw I acc (cs_client cs)"
  shows "keeps (tracks (account_step hw (cs_client cs)) I acc) (ControllerUnpublishVolume (traced_cs cs) req)"
  unfolding ControllerUnpublishVolume_def traced_cs_simps traced_simps
  by (intro tracked_steps account_client_calls [OF assms])

lemma tracked_ControllerExpandVolume:
  assumes "account_client hw I acc (cs_client cs)"
  shows "keeps (tracks (account_step hw (cs_client cs)) I acc) (ControllerExpandVolume (traced_cs cs) req)"
  unfolding ControllerExpandVolume_def traced_cs_simps traced_simps
  by (intro tracked_steps account_client_calls [OF assms])

lemma tracked_ControllerPublishVolume:
  assumes "account_client hw I acc (cs_client cs)"
  shows "keeps (tracks (account_step hw (cs_client cs)) I acc) (ControllerPublishVolume (traced_cs cs) req)"
  unfolding publish_path_defs Let_def traced_cs_simps traced_simps
  by (intro tracked_steps account_client_calls [OF assms])

lemma tracked_CreateVolume:
  assumes "account_client hw I acc (cs_client cs)"
  shows "keeps (tracks (account_step hw (cs_client cs)) I acc) (CreateVolume (traced_cs cs) req)"
  unfolding create_path_defs Let_def traced_cs_simps traced_simps
  by (intro tracked_steps account_client_calls [OF assms]) (auto split: VolumeContentSource.splits option.splits intro!: tracked_steps account_client_calls [OF assms])

section \<open>What each RPC does to the account\<close>

text \<open>
  Deleting: on success the volume is gone, and was attached to nothing; on an error either nothing changed, or the same happened
  and only the answer was lost.
\<close>

definition delete_spec :: "int \<Rightarrow> account \<Rightarrow> (error + unit) \<Rightarrow> account \<Rightarrow> bool" where
  "delete_spec v st r st' \<longleftrightarrow>
     (let deleted = (\<forall>vol. st v = Some vol \<longrightarrow> Vol_LinodeID vol = None) \<and> st' = st(v := None)
      in case r of Inr _ \<Rightarrow> deleted | Inl _ \<Rightarrow> st' = st \<or> deleted)"

lemma DeleteVolume_effect:
  assumes "VolumeIdAsInt ''DeleteVolume'' (DVR_VolumeId req) = Inr v" "\<not> IsNotFound (cs_client cs) None"
  shows "effect (account_step hw (cs_client cs)) (\<lambda>st out st'. \<exists>r. out = Done r \<and> delete_spec v st r st')
    (DeleteVolume (traced_cs cs) req)"
  unfolding effect_def DeleteVolume_def traced_cs_simps traced_simps
  using assms by (auto simp: after_calls_def delete_spec_def settle_def fun_upd_idem simp del: prog_eqs split: if_splits intro!: emits_steps)

lemma change_volume_id: "(\<And>vol. st v = Some vol \<Longrightarrow> f vol = vol) \<Longrightarrow> change_volume v f st = st"
  by (cases "st v") (auto simp: change_volume_def fun_upd_idem)

lemma change_volume_absent: "st v = None \<Longrightarrow> change_volume v f st = st"
  by (rule change_volume_id) simp

lemma same_linode: "map_option Vol_LinodeID (st v) = Some a \<Longrightarrow> change_volume v (Vol_LinodeID_update (\<lambda>_. a)) st = st"
  by (rule change_volume_id) (auto intro: Volume.equality)

lemma change_linode_twice [simp]:
  "change_volume v (Vol_LinodeID_update (\<lambda>_. a)) (change_volume v (Vol_LinodeID_update (\<lambda>_. b)) st) = change_volume v (Vol_LinodeID_update (\<lambda>_. a)) st"
  by (simp add: change_volume_def option.map_comp comp_def)

lemma change_volume_apply: "change_volume v f st i = (if i = v then map_option f (st v) else st i)"
  by (simp add: change_volume_def)

definition attach_volume :: "int \<Rightarrow> int \<Rightarrow> account \<Rightarrow> account" where
  "attach_volume v l = change_volume v (Vol_LinodeID_update (\<lambda>_. Some l))"

definition detach_volume :: "int \<Rightarrow> account \<Rightarrow> account" where
  "detach_volume v = change_volume v (Vol_LinodeID_update (\<lambda>_. None))"

definition resize_volume :: "int \<Rightarrow> int \<Rightarrow> account \<Rightarrow> account" where
  "resize_volume v n = change_volume v (Vol_Size_update (\<lambda>_. n))"

text \<open>
  Unpublishing: on success the volume is detached if it was attached to the named instance, and otherwise left
  alone; on an error it may have been detached without the wait seeing it.
\<close>

definition unpublish_spec :: "int \<Rightarrow> int \<Rightarrow> account \<Rightarrow> (error + unit) \<Rightarrow> account \<Rightarrow> bool" where
  "unpublish_spec v l st r st' \<longleftrightarrow>
     (let detached = (if v \<in> dom st \<and> Vol_LinodeID (the (st v)) = Some l then detach_volume v st else st)
      in case r of Inr _ \<Rightarrow> st' = detached | Inl _ \<Rightarrow> st' = st \<or> st' = detached)"

text \<open>Expanding: on success the volume has the new size, not below the old one.\<close>

definition expand_spec :: "int \<Rightarrow> int \<Rightarrow> account \<Rightarrow> (error + ControllerExpandVolumeResponse) \<Rightarrow> account \<Rightarrow> bool" where
  "expand_spec v n st r st' \<longleftrightarrow>
     (let resized = (\<exists>vol. st v = Some vol \<and> Vol_Size vol \<le> n) \<and> st' = resize_volume v n st
      in case r of Inr _ \<Rightarrow> resized | Inl _ \<Rightarrow> st' = st \<or> resized)"

lemma same_status: "x\<lparr>Vol_Status := a\<rparr> = y\<lparr>Vol_Status := a\<rparr> \<Longrightarrow> Vol_LinodeID x = Vol_LinodeID y"
  by (cases x, cases y) simp

lemma ControllerUnpublishVolume_effect:
  assumes "VolumeIdAsInt ''ControllerUnpublishVolume'' (CUR_VolumeId req) = Inr v"
    "NodeIdAsInt ''ControllerUnpublishVolume'' (CUR_NodeId req) = Inr l" "\<not> IsNotFound (cs_client cs) None"
  shows "effect (account_step hw (cs_client cs)) (\<lambda>st out st'. \<exists>r. out = Done r \<and> unpublish_spec v l st r st')
    (ControllerUnpublishVolume (traced_cs cs) req)"
  unfolding effect_def ControllerUnpublishVolume_def traced_cs_simps traced_simps
  using assms by (auto simp: after_calls_def unpublish_spec_def detach_volume_def settle_def same_linode change_volume_absent Let_def simp del: prog_eqs
     split: if_splits option.splits intro!: emits_steps) (drule same_status, simp)

lemma ControllerExpandVolume_effect:
  assumes "VolumeIdAsInt ''ControllerExpandVolume'' (CER_VolumeId req) = Inr v"
    "getRequestCapacitySize (CER_CapacityRange req) = Inr sz"
  shows "effect (account_step hw (cs_client cs)) (\<lambda>st out st'. \<exists>r. out = Done r \<and> expand_spec v (bytesToGB sz) st r st')
    (ControllerExpandVolume (traced_cs cs) req)"
  unfolding effect_def ControllerExpandVolume_def traced_cs_simps traced_simps
  using assms by (auto simp: after_calls_def expand_spec_def resize_volume_def settle_def Let_def simp del: prog_eqs
     split: if_splits option.splits intro!: emits_steps)

text \<open>
  Publishing: on success the volume is attached to the instance, it was detached or attached to this very
  instance before, and the answer is its device path; a volume is attached only if the instance has
  fewer volumes than its memory and its disks allow.
\<close>

definition publish_spec :: "hardware \<Rightarrow> int \<Rightarrow> int \<Rightarrow> account \<Rightarrow> (error + (string \<rightharpoonup> string)) \<Rightarrow> account \<Rightarrow> bool" where
  "publish_spec hw v l st r st' \<longleftrightarrow>
     (st' \<noteq> st \<longrightarrow> int (card (attached_to st l)) < instance_limit hw l) \<and>
     (let attached = (\<exists>vol. st v = Some vol \<and> Vol_LinodeID vol \<in> {None, Some l}) \<and> st' = attach_volume v l st
      in case r of
           Inr ctx \<Rightarrow> attached \<and> (\<exists>vol. st v = Some vol \<and> ctx = [devicePathKey \<mapsto> Vol_FilesystemPath vol])
         | Inl _ \<Rightarrow> st' = st \<or> attached)"

lemma listed_card:
  assumes "listed st (\<lambda>vol. Vol_LinodeID vol = Some l) vs"
  shows "card (attached_to st l) = length vs"
proof -
  have "attached_to st l = Vol_ID ` set vs"
    using assms unfolding listed_def attached_to_def by (auto simp: image_iff)
  then show ?thesis using assms by (simp add: listed_def card_image distinct_map distinct_card)
qed

lemma attached_path:
  "x\<lparr>Vol_Status := a, Vol_LinodeID := b\<rparr> = y\<lparr>Vol_Status := a\<rparr> \<Longrightarrow> Vol_FilesystemPath y = Vol_FilesystemPath x"
  by (cases x, cases y) simp

lemma ControllerPublishVolume_effect:
  assumes "validateControllerPublishVolumeRequest req = Inr (l, v)" "\<not> IsNotFound (cs_client cs) None"
  shows "effect (account_step hw (cs_client cs)) (\<lambda>st out st'. \<exists>r. out = Done r \<and> publish_spec hw v l st r st')
    (ControllerPublishVolume (traced_cs cs) req)"
  unfolding effect_def publish_path_defs Let_def traced_cs_simps traced_simps
  using assms by (auto simp: after_calls_def publish_spec_def attach_volume_def settle_def same_linode listed_card instance_limit_def change_volume_apply Let_def simp del: prog_eqs
     split: if_splits intro!: emits_steps) (drule attached_path, simp)+

definition created_label :: "'w ControllerServer \<Rightarrow> CreateVolumeRequest \<Rightarrow> string" where
  "created_label cs req =
     GetNormalizedLabelWithPrefix (CreateLinodeVolumeKey 0 (CVR_Name req)) (Drv_volumeLabelPrefix (cs_driver cs))"

text \<open>A volume came into being under a label no other volume has.\<close>

definition creates :: "string \<Rightarrow> account \<Rightarrow> Volume \<Rightarrow> account \<Rightarrow> bool" where
  "creates label st vol st' \<longleftrightarrow>
     Vol_Label vol = label \<and> Vol_LinodeID vol = None \<and> st (Vol_ID vol) = None \<and>
     (\<forall>i x. st i = Some x \<longrightarrow> Vol_Label x \<noteq> label) \<and> st' = st(Vol_ID vol \<mapsto> settle vol)"

text \<open>
  Creating, whatever the outcome: nothing changed, or one volume came into being under the label of the request. On
  success there is a volume of that label and the answer names it; without a content source it has the size
  of the request.
\<close>

definition create_spec :: "string \<Rightarrow> CreateVolumeRequest \<Rightarrow> account \<Rightarrow> (error + CSIVolume) outcome \<Rightarrow> account \<Rightarrow> bool" where
  "create_spec label req st out st' \<longleftrightarrow>
     (st' = st \<or> (\<exists>vol. creates label st vol st')) \<and>
     (\<forall>resp. out = Done (Inr resp) \<longrightarrow>
        (\<exists>i vol. st' i = Some vol \<and> Vol_Label vol = label \<and>
           CV_VolumeId resp = GetVolumeKey (CreateLinodeVolumeKey i label) \<and>
           (CVR_VolumeContentSource req = None \<longrightarrow>
              (\<exists>sz. getRequestCapacitySize (CVR_CapacityRange req) = Inr sz \<and> Vol_Size vol = bytesToGB sz))))"

lemma listed_Nil: "listed st P [] \<Longrightarrow> st i = Some x \<Longrightarrow> \<not> P x"
  by (auto simp: listed_def)

lemma listed_single: "listed st P [y] \<Longrightarrow> st (Vol_ID y) = Some (settle y) \<and> P (settle y)"
  by (auto simp: listed_def)

lemma settle_sels [simp]:
  "Vol_ID (settle x) = Vol_ID x" "Vol_Label (settle x) = Vol_Label x" "Vol_Size (settle x) = Vol_Size x"
  "Vol_LinodeID (settle x) = Vol_LinodeID x" "Vol_FilesystemPath (settle x) = Vol_FilesystemPath x" "Vol_Region (settle x) = Vol_Region x"
  by (simp_all add: settle_def)

lemma settle_eq:
  assumes "settle x = settle y"
  shows "Vol_ID x = Vol_ID y" "Vol_Label x = Vol_Label y" "Vol_Size x = Vol_Size y"
  using assms by (metis settle_sels)+

definition creates_at_most :: "string \<Rightarrow> account \<Rightarrow> account \<Rightarrow> bool" where
  "creates_at_most label st st' \<longleftrightarrow> st' = st \<or> (\<exists>vol. creates label st vol st')"

definition provides :: "string \<Rightarrow> (Volume \<Rightarrow> bool) \<Rightarrow> account \<Rightarrow> (error + Volume) outcome \<Rightarrow> account \<Rightarrow> bool" where
  "provides label P st out st' \<longleftrightarrow> creates_at_most label st st' \<and>
     (\<forall>vol. out = Done (Inr vol) \<longrightarrow> st' (Vol_ID vol) = Some (settle vol) \<and> Vol_Label vol = label \<and> P vol)"

definition provides_ptr :: "string \<Rightarrow> account \<Rightarrow> (error + Volume option) outcome \<Rightarrow> account \<Rightarrow> bool" where
  "provides_ptr label st out st' \<longleftrightarrow> creates_at_most label st st' \<and>
     (\<forall>p. out = Done (Inr p) \<longrightarrow> (\<exists>vol. p = Some vol \<and> st' (Vol_ID vol) = Some (settle vol) \<and> Vol_Label vol = label))"

lemma added_provides:
  assumes "added p label sz st st'" and "listed st (\<lambda>vol. Vol_Label vol = label) []"
  shows "provides_ptr label st (Done (Inr p)) st'"
  using assms listed_Nil [OF assms(2)] unfolding added_def provides_ptr_def creates_at_most_def creates_def by auto

lemma added_unanswered:
  assumes "added p label sz st st'" and "listed st (\<lambda>vol. Vol_Label vol = label) []"
  shows "provides_ptr label st (Done (Inl e)) st'"
  using added_provides [OF assms] by (simp add: provides_ptr_def)

lemma unchanged_provides: "provides_ptr label st (Done (Inl e)) st" "provides label P st (Done (Inl e)) st"
  by (simp_all add: provides_ptr_def provides_def creates_at_most_def)

lemma create_new_effect:
  "effect (account_step hw (cs_client cs)) (\<lambda>st out st'. listed st (\<lambda>vol. Vol_Label vol = label) [] \<longrightarrow> provides_ptr label st out st')
    (createLinodeVolume (traced_cs cs) label tags enc n region)"
  "effect (account_step hw (cs_client cs)) (\<lambda>st out st'. listed st (\<lambda>vol. Vol_Label vol = label) [] \<longrightarrow> provides_ptr label st out st')
    (cloneLinodeVolume (traced_cs cs) label i)"
  unfolding effect_def createLinodeVolume_def cloneLinodeVolume_def Let_def traced_cs_simps traced_simps
  by (auto simp: after_calls_def unchanged_provides simp del: prog_eqs split: if_splits intro!: emits_steps) (blast intro: added_provides added_unanswered)+

lemma listed_provides:
  assumes "listed st (\<lambda>vol. Vol_Label vol = label) vs" and "length vs = 1"
  shows "provides_ptr label st (Done (Inr (Some (vs ! 0)))) st"
proof -
  obtain v where "vs = [v]" using assms(2) by (auto simp: length_Suc_conv)
  with listed_single [of st "\<lambda>vol. Vol_Label vol = label" v] assms(1) show ?thesis
    by (simp add: provides_ptr_def creates_at_most_def)
qed

lemma attemptCreate_effect:
  assumes "list_all json_plain label"
  shows "effect (account_step hw (cs_client cs)) (provides_ptr label) (attemptCreateLinodeVolume (traced_cs cs) label tags enc n src region)"
  unfolding attemptCreateLinodeVolume_def Let_def traced_cs_simps traced_simps
proof (rule effect_andThen [where R = "\<lambda>r st out st'. (snd r = None \<longrightarrow> listed st (\<lambda>vol. Vol_Label vol = label) (fst r)) \<longrightarrow> provides_ptr label st out st'"],
    rule effect_call)
  fix r st st'
  assume "account_step hw (cs_client cs) (EvListVolumes (NewListOptions (cs_client cs) 0 (label_filter label)) r) st st'"
  with assms show "\<exists>vs e. Done r = Done (vs, e) \<and> st' = st \<and> (e = None \<longrightarrow> listed st (\<lambda>vol. Vol_Label vol = label) vs)"
    by (cases r) auto
qed (auto intro!: effect_intros effect_conseq [OF create_new_effect(1)] effect_conseq [OF create_new_effect(2)]
    simp: unchanged_provides listed_provides dest: not_one_not_many simp del: prog_eqs)

lemma createAndWait_effect:
  assumes "list_all json_plain label"
  shows "effect (account_step hw (cs_client cs)) (provides label (\<lambda>vol. src = None \<longrightarrow> Vol_Size vol = n))
    (createAndWaitForVolume (traced_cs cs) label params enc n src region)"
  unfolding createAndWaitForVolume_def traced_cs_simps traced_simps
proof (rule effect_andThen [OF attemptCreate_effect [OF assms],
    where R = "\<lambda>r st out st'. st' = st \<and> (\<forall>vol. out = Done (Inr vol) \<longrightarrow>
       (\<exists>created. r = Inr (Some created) \<and> st (Vol_ID created) = Some (settle vol) \<and> Vol_ID vol = Vol_ID created \<and> (src = None \<longrightarrow> Vol_Size created = n)))"])
  fix r
  show "effect (account_step hw (cs_client cs)) (\<lambda>st out st'. st' = st \<and> (\<forall>vol. out = Done (Inr vol) \<longrightarrow>
       (\<exists>created. r = Inr (Some created) \<and> st (Vol_ID created) = Some (settle vol) \<and> Vol_ID vol = Vol_ID created \<and> (src = None \<longrightarrow> Vol_Size created = n))))
    (case r of
       Inl err \<Rightarrow> ret (Inl err)
     | Inr created \<Rightarrow> deref created (\<lambda>vol.
         if Vol_Size vol \<noteq> n \<and> src = None
         then ret (Inl (errAlreadyExists ''volume %d already exists with size %d'' [ArgInt (Vol_ID vol), ArgInt (Vol_Size vol)]))
         else
           let statusPollTimeout = (if src \<noteq> None then cloneTimeout else waitTimeout)
           in andThen (call (log_call (EvWaitForVolumeStatus (Vol_ID vol) VolumeActive) (WaitForVolumeStatus_api (cs_client cs) (Vol_ID vol) VolumeActive statusPollTimeout))) (\<lambda>(waited, err).
              case err of
                Some e \<Rightarrow> deref waited (\<lambda>v.
                  ret (Inl (errInternal ''Timed out waiting for volume %d to be active: %v'' [ArgInt (Vol_ID v), ArgErr e])))
              | None \<Rightarrow> deref waited (\<lambda>v. ret (Inr v)))))"
    unfolding effect_def Let_def
    by (auto simp: after_calls_def simp del: prog_eqs intro!: emits_steps)
next
  fix st mid st' :: account and r and out :: "(error + Volume) outcome"
  assume A: "provides_ptr label st (Done r) mid"
    and B: "st' = mid \<and> (\<forall>vol. out = Done (Inr vol) \<longrightarrow>
       (\<exists>created. r = Inr (Some created) \<and> mid (Vol_ID created) = Some (settle vol) \<and> Vol_ID vol = Vol_ID created \<and> (src = None \<longrightarrow> Vol_Size created = n)))"
  have "st' (Vol_ID vol) = Some (settle vol) \<and> Vol_Label vol = label \<and> (src = None \<longrightarrow> Vol_Size vol = n)"
    if ok: "out = Done (Inr vol)" for vol
  proof -
    obtain created where cr: "r = Inr (Some created)" "mid (Vol_ID created) = Some (settle vol)" "Vol_ID vol = Vol_ID created"
      "src = None \<longrightarrow> Vol_Size created = n" using B ok by blast
    with A have "settle vol = settle created" "Vol_Label created = label" unfolding provides_ptr_def by auto
    with cr B settle_eq show ?thesis by metis
  qed
  with A B show "provides label (\<lambda>vol. src = None \<longrightarrow> Vol_Size vol = n) st out st'"
    unfolding provides_def provides_ptr_def by simp
qed (simp add: provides_def provides_ptr_def)

lemma prepareVolumeParams_effect:
  "effect (account_step hw (cs_client cs)) (\<lambda>st out st'. st' = st \<and> (\<forall>ps. out = Done (Inr ps) \<longrightarrow>
      VP_VolumeName ps = created_label cs req \<and> getRequestCapacitySize (CVR_CapacityRange req) = Inr (VP_Size ps) \<and>
      VP_TargetSizeGB ps = bytesToGB (VP_Size ps)))
    (prepareVolumeParams (traced_cs cs) req)"
  unfolding effect_def prepareVolumeParams_def isEncryptionSupported_def Let_def traced_cs_simps traced_simps
  by (auto simp: after_calls_def created_label_def simp del: prog_eqs intro!: emits_steps)

lemma getContentSourceVolume_effect:
  "effect (account_step hw (cs_client cs)) (\<lambda>st out st'. st' = st \<and> (\<forall>src. out = Done (Inr src) \<longrightarrow> (src = None \<longleftrightarrow> contentSource = None)))
    (getContentSourceVolume (traced_cs cs) contentSource reqs)"
  unfolding effect_def getContentSourceVolume_def Let_def traced_cs_simps traced_simps
  by (auto simp: after_calls_def simp del: prog_eqs intro!: emits_steps)

lemma create_response_effect:
  assumes "list_all json_plain label" and "getRequestCapacitySize (CVR_CapacityRange req) = Inr sz"
    and "src = None \<longleftrightarrow> CVR_VolumeContentSource req = None"
  shows "effect (account_step hw (cs_client cs)) (create_spec label req)
      (andThen (createAndWaitForVolume (traced_cs cs) label params enc (bytesToGB sz) src region) (\<lambda>r.
         case r of
           Inl err \<Rightarrow> record_return t d Failed (Inl err)
         | Inr vol \<Rightarrow> record_return t d Completed
             (Inr (prepareCreateVolumeResponse vol sz (createVolumeContext req vol) src contentSource))))"
  by (rule effect_andThen [OF createAndWait_effect [OF assms(1)],
        where R = "\<lambda>r st out st'. st' = st \<and> (\<forall>resp. out = Done (Inr resp) \<longrightarrow>
          (\<exists>vol. r = Inr vol \<and> CV_VolumeId resp = GetVolumeKey (CreateLinodeVolumeKey (Vol_ID vol) (Vol_Label vol))))"])
    (use assms in \<open>auto simp: create_spec_def provides_def creates_at_most_def prepareCreateVolumeResponse_def Let_def
       simp del: prog_eqs intro!: effect_intros\<close>; metis settle_sels)+

lemma create_extends:
  "emits (\<lambda>es out. True) (createAndWaitForVolume (traced_cs cs) label params enc n src region)"
  unfolding createAndWaitForVolume_def attemptCreateLinodeVolume_def cloneLinodeVolume_def createLinodeVolume_def
    Let_def traced_cs_simps traced_simps
  by (auto simp: after_calls_def simp del: prog_eqs intro!: emits_steps)

lemma source_extends: "emits (\<lambda>es out. True) (getContentSourceVolume (traced_cs cs) src reqs)"
  using getContentSourceVolume_effect unfolding effect_def by (rule emits_conseq) simp

lemma CreateVolume_effect:
  assumes "list_all json_plain (created_label cs req)"
  shows "effect (account_step hw (cs_client cs)) (create_spec (created_label cs req) req) (CreateVolume (traced_cs cs) req)"
proof -
  have "create_spec l req st (Done (Inl e)) st" "create_spec l req st Panic st" for l st e
    by (simp_all add: create_spec_def)
  then show ?thesis
    unfolding CreateVolume_def Let_def
    by (auto intro!: effect_intros effect_andThen_same [OF prepareVolumeParams_effect]
       effect_andThen_same [OF getContentSourceVolume_effect] create_response_effect assms
       emits_True_andThen create_extends source_extends emits_case_sum emits_record_return simp del: prog_eqs)
qed

section \<open>Invariant\<close>

text \<open>No two volumes share a label, and no instance has more volumes than the limit.\<close>

definition label_of :: "account \<Rightarrow> int \<Rightarrow> string option" where
  "label_of st v = map_option Vol_Label (st v)"

definition labels_unique :: "account \<Rightarrow> bool" where
  "labels_unique st \<longleftrightarrow> inj_on (label_of st) (dom st)"

definition within_limits :: "account \<Rightarrow> bool" where
  "within_limits st \<longleftrightarrow> (\<forall>l. int (card (attached_to st l)) \<le> maxAttachments)"

definition account_inv :: "account \<Rightarrow> bool" where
  "account_inv st \<longleftrightarrow> finite (dom st) \<and> labels_unique st \<and> within_limits st"

lemma labels_uniqueD:
  assumes "labels_unique st" and "st i = Some x" and "st j = Some y" and "Vol_Label x = Vol_Label y"
  shows "i = j"
  using assms inj_onD [of "label_of st" "dom st" i j] by (simp add: labels_unique_def label_of_def domI)

lemma finite_attached: "finite (dom st) \<Longrightarrow> finite (attached_to st l)"
  by (rule finite_subset [of _ "dom st"]) (auto simp: attached_to_def)

lemma within_limits_mono:
  assumes "within_limits st" and "finite (dom st)" and "\<And>l. attached_to st' l \<subseteq> attached_to st l"
  shows "within_limits st'"
  unfolding within_limits_def
proof
  fix l
  have "card (attached_to st' l) \<le> card (attached_to st l)" using assms(2,3) by (simp add: card_mono finite_attached)
  then have "int (card (attached_to st' l)) \<le> int (card (attached_to st l))" by simp
  also have "\<dots> \<le> maxAttachments" using assms(1) by (simp add: within_limits_def)
  finally show "int (card (attached_to st' l)) \<le> maxAttachments" .
qed

lemma dom_change_volume [simp]: "dom (change_volume v f st) = dom st"
  by (auto simp: change_volume_def dom_def)

lemma label_change_volume: "(\<And>x. Vol_Label (f x) = Vol_Label x) \<Longrightarrow> label_of (change_volume v f st) = label_of st"
  by (rule ext) (simp add: label_of_def change_volume_def option.map_comp comp_def)

lemma inv_delete:
  assumes "account_inv st" shows "account_inv (st(v := None))"
proof -
  have "labels_unique (st(v := None))"
    using assms by (auto simp: account_inv_def labels_unique_def label_of_def inj_on_def)
  moreover have "within_limits (st(v := None))"
    using assms by (auto simp: account_inv_def attached_to_def split: if_splits intro!: within_limits_mono [of st])
  ultimately show ?thesis using assms by (simp add: account_inv_def)
qed

lemma inv_change:
  assumes "account_inv st" and "\<And>x. Vol_Label (f x) = Vol_Label x"
    and "\<And>x l. Vol_LinodeID (f x) = Some l \<Longrightarrow> Vol_LinodeID x = Some l"
  shows "account_inv (change_volume v f st)"
proof -
  have "attached_to (change_volume v f st) l \<subseteq> attached_to st l" for l
    by (auto simp: attached_to_def change_volume_def split: if_splits dest: assms(3))
  with assms(1) have "within_limits (change_volume v f st)"
    unfolding account_inv_def by (blast intro: within_limits_mono)
  with assms(1,2) show ?thesis by (simp add: account_inv_def labels_unique_def label_change_volume)
qed

lemma inv_attach:
  assumes "account_inv st" and "int (card (attached_to st l)) < maxAttachments"
  shows "account_inv (attach_volume v l st)"
proof -
  have fin: "finite (attached_to st l')" for l' using assms(1) by (simp add: account_inv_def finite_attached)
  have "int (card (attached_to (attach_volume v l st) l')) \<le> maxAttachments" for l'
  proof (cases "l' = l")
    case True
    have "attached_to (attach_volume v l st) l \<subseteq> insert v (attached_to st l)"
      by (auto simp: attached_to_def attach_volume_def change_volume_def split: if_splits)
    then have "card (attached_to (attach_volume v l st) l) \<le> card (insert v (attached_to st l))"
      using fin by (intro card_mono) auto
    also have "\<dots> \<le> Suc (card (attached_to st l))" using fin by (simp add: card_insert_if)
    finally show ?thesis using assms(2) True by simp
  next
    case False
    then have "attached_to (attach_volume v l st) l' \<subseteq> attached_to st l'"
      by (auto simp: attached_to_def attach_volume_def change_volume_def split: if_splits)
    then have "card (attached_to (attach_volume v l st) l') \<le> card (attached_to st l')" using fin by (intro card_mono)
    moreover have "int (card (attached_to st l')) \<le> maxAttachments"
      using assms(1) by (simp add: account_inv_def within_limits_def)
    ultimately show ?thesis by simp
  qed
  with assms(1) show ?thesis
    by (simp add: account_inv_def within_limits_def labels_unique_def attach_volume_def label_change_volume)
qed

lemma inv_creates:
  assumes "account_inv st" and "creates label st vol st'"
  shows "account_inv st'"
proof -
  have "attached_to st' l \<subseteq> attached_to st l" for l
    using assms(2) by (auto simp: attached_to_def creates_def split: if_splits)
  then have "within_limits st'" using assms(1) unfolding account_inv_def by (blast intro: within_limits_mono)
  moreover have "labels_unique st'"
    using assms unfolding account_inv_def labels_unique_def label_of_def creates_def inj_on_def by (auto; force)
  ultimately show ?thesis using assms by (auto simp: account_inv_def creates_def)
qed

definition keeps_inv :: "account \<Rightarrow> 'a outcome \<Rightarrow> account \<Rightarrow> bool" where
  "keeps_inv st out st' \<longleftrightarrow> (account_inv st \<longrightarrow> account_inv st')"

lemma keeps_inv_refl: "keeps_inv st out st"
  by (simp add: keeps_inv_def)

lemma delete_spec_inv: "delete_spec v st r st' \<Longrightarrow> keeps_inv st out st'"
  by (auto simp: delete_spec_def keeps_inv_def inv_delete Let_def split: sum.splits)

lemma unpublish_spec_inv: "unpublish_spec v l st r st' \<Longrightarrow> keeps_inv st out st'"
  by (auto simp: unpublish_spec_def detach_volume_def keeps_inv_def Let_def split: sum.splits if_splits intro!: inv_change)

lemma expand_spec_inv: "expand_spec v n st r st' \<Longrightarrow> keeps_inv st out st'"
  by (auto simp: expand_spec_def resize_volume_def keeps_inv_def Let_def split: sum.splits intro!: inv_change)

lemma publish_spec_inv: "publish_spec hw v l st r st' \<Longrightarrow> keeps_inv st out st'"
  by (cases "st' = st") (auto simp: publish_spec_def instance_limit_def keeps_inv_def Let_def split: sum.splits intro!: inv_attach dest: attachments_lt)

lemma create_spec_inv: "create_spec label req st out st' \<Longrightarrow> keeps_inv st out st'"
  by (auto simp: create_spec_def keeps_inv_def intro: inv_creates)

section \<open>Sequences of RPCs\<close>

lemma DeleteVolume_inv:
  assumes "\<not> IsNotFound (cs_client cs) None"
  shows "effect (account_step hw (cs_client cs)) keeps_inv (DeleteVolume (traced_cs cs) req)"
proof (cases "VolumeIdAsInt ''DeleteVolume'' (DVR_VolumeId req)")
  case (Inl e)
  then show ?thesis by (simp add: DeleteVolume_def effect_record_return keeps_inv_refl)
next
  case (Inr v)
  show ?thesis by (rule effect_conseq [OF DeleteVolume_effect [OF Inr assms]]) (auto dest: delete_spec_inv)
qed

lemma ControllerUnpublishVolume_inv:
  assumes "\<not> IsNotFound (cs_client cs) None"
  shows "effect (account_step hw (cs_client cs)) keeps_inv (ControllerUnpublishVolume (traced_cs cs) req)"
proof (cases "\<exists>v l. VolumeIdAsInt ''ControllerUnpublishVolume'' (CUR_VolumeId req) = Inr v \<and>
    NodeIdAsInt ''ControllerUnpublishVolume'' (CUR_NodeId req) = Inr l")
  case True
  then obtain v l where ids: "VolumeIdAsInt ''ControllerUnpublishVolume'' (CUR_VolumeId req) = Inr v"
    "NodeIdAsInt ''ControllerUnpublishVolume'' (CUR_NodeId req) = Inr l" by blast
  show ?thesis by (rule effect_conseq [OF ControllerUnpublishVolume_effect [OF ids assms]]) (auto dest: unpublish_spec_inv)
next
  case False
  then show ?thesis
    by (auto simp: ControllerUnpublishVolume_def effect_record_return keeps_inv_refl split: sum.splits)
qed

lemma ControllerExpandVolume_inv: "effect (account_step hw (cs_client cs)) keeps_inv (ControllerExpandVolume (traced_cs cs) req)"
proof (cases "\<exists>v sz. VolumeIdAsInt ''ControllerExpandVolume'' (CER_VolumeId req) = Inr v \<and>
    getRequestCapacitySize (CER_CapacityRange req) = Inr sz")
  case True
  then obtain v sz where ids: "VolumeIdAsInt ''ControllerExpandVolume'' (CER_VolumeId req) = Inr v"
    "getRequestCapacitySize (CER_CapacityRange req) = Inr sz" by blast
  show ?thesis by (rule effect_conseq [OF ControllerExpandVolume_effect [OF ids]]) (auto dest: expand_spec_inv)
next
  case False
  then show ?thesis
    by (auto simp: ControllerExpandVolume_def effect_ret keeps_inv_refl split: sum.splits)
qed

lemma ControllerPublishVolume_inv:
  assumes "\<not> IsNotFound (cs_client cs) None"
  shows "effect (account_step hw (cs_client cs)) keeps_inv (ControllerPublishVolume (traced_cs cs) req)"
proof (cases "validateControllerPublishVolumeRequest req")
  case (Inl e)
  then show ?thesis by (simp add: ControllerPublishVolume_def effect_record_return keeps_inv_refl)
next
  case (Inr r)
  then obtain l v where "validateControllerPublishVolumeRequest req = Inr (l, v)" by (cases r) simp
  from ControllerPublishVolume_effect [OF this assms] show ?thesis
    by (rule effect_conseq) (auto dest: publish_spec_inv)
qed

lemma CreateVolume_inv:
  "list_all json_plain (created_label cs req) \<Longrightarrow> effect (account_step hw (cs_client cs)) keeps_inv (CreateVolume (traced_cs cs) req)"
  by (rule effect_conseq [OF CreateVolume_effect]) (auto intro: create_spec_inv)

lemma reading_inv:
  "effect (account_step hw (cs_client cs)) keeps_inv (ListVolumes (traced_cs cs) lreq)"
  "effect (account_step hw (cs_client cs)) keeps_inv (ValidateVolumeCapabilities (traced_cs cs) vreq)"
  unfolding effect_def ListVolumes_def ValidateVolumeCapabilities_def Let_def traced_cs_simps traced_simps
  by (auto simp: after_calls_def keeps_inv_refl simp del: prog_eqs intro!: emits_steps)

lemma tracked_reading:
  assumes "account_client hw I acc (cs_client cs)"
  shows "keeps (tracks (account_step hw (cs_client cs)) I acc) (ListVolumes (traced_cs cs) lreq)"
    "keeps (tracks (account_step hw (cs_client cs)) I acc) (ValidateVolumeCapabilities (traced_cs cs) vreq)"
  unfolding ListVolumes_def ValidateVolumeCapabilities_def Let_def traced_cs_simps traced_simps
  by (intro tracked_steps account_client_calls [OF assms])+

lemmas tracked_rpcs = tracked_CreateVolume tracked_DeleteVolume tracked_ControllerPublishVolume
  tracked_ControllerUnpublishVolume tracked_ControllerExpandVolume tracked_reading

text \<open>RPCs served one after the other on the account, by this controller alone.\<close>

inductive rpc_step :: "'w ControllerServer \<Rightarrow> 'w world \<Rightarrow> 'w world \<Rightarrow> bool" for cs where
  rpc_CreateVolume: "list_all json_plain (created_label cs req) \<Longrightarrow> rpc_step cs s (snd (CreateVolume cs req s))"
| rpc_DeleteVolume: "rpc_step cs s (snd (DeleteVolume cs req s))"
| rpc_ControllerPublishVolume: "rpc_step cs s (snd (ControllerPublishVolume cs req s))"
| rpc_ControllerUnpublishVolume: "rpc_step cs s (snd (ControllerUnpublishVolume cs req s))"
| rpc_ControllerExpandVolume: "rpc_step cs s (snd (ControllerExpandVolume cs req s))"
| rpc_ListVolumes: "rpc_step cs s (snd (ListVolumes cs req s))"
| rpc_ValidateVolumeCapabilities: "rpc_step cs s (snd (ValidateVolumeCapabilities cs req s))"

inductive rpc_reach :: "'w ControllerServer \<Rightarrow> 'w world \<Rightarrow> 'w world \<Rightarrow> bool" for cs s0 where
  rpc_start: "rpc_reach cs s0 s0"
| rpc_next: "rpc_reach cs s0 s \<Longrightarrow> rpc_step cs s s' \<Longrightarrow> rpc_reach cs s0 s'"

lemma inv_run:
  assumes "effect (account_step hw c) keeps_inv m" and "keeps (tracks (account_step hw c) I acc) m" and "erases forget_log m n" and "I (Ext s)"
  shows "I (Ext (snd (n s))) \<and> (account_inv (acc (Ext s)) \<longrightarrow> account_inv (acc (Ext (snd (n s)))))"
  using effect_run [OF assms] by (simp add: keeps_inv_def)

lemma rpc_step_inv:
  assumes "rpc_step cs s s'" and client: "account_client hw I acc (cs_client cs)" and "I (Ext s)"
  shows "I (Ext s') \<and> (account_inv (acc (Ext s)) \<longrightarrow> account_inv (acc (Ext s')))"
  using assms(1,3) account_client_calls(1) [OF client]
proof (induction rule: rpc_step.induct)
  case rpc_CreateVolume
  then show ?case by (intro inv_run [OF CreateVolume_inv tracked_CreateVolume [OF client] erase_CreateVolume])
next
  case rpc_DeleteVolume
  then show ?case by (intro inv_run [OF DeleteVolume_inv tracked_DeleteVolume [OF client] erase_DeleteVolume])
next
  case rpc_ControllerPublishVolume
  then show ?case
    by (intro inv_run [OF ControllerPublishVolume_inv tracked_ControllerPublishVolume [OF client] erase_ControllerPublishVolume])
next
  case rpc_ControllerUnpublishVolume
  then show ?case
    by (intro inv_run [OF ControllerUnpublishVolume_inv tracked_ControllerUnpublishVolume [OF client] erase_ControllerUnpublishVolume])
next
  case rpc_ControllerExpandVolume
  then show ?case
    by (intro inv_run [OF ControllerExpandVolume_inv tracked_ControllerExpandVolume [OF client] erase_ControllerExpandVolume])
next
  case rpc_ListVolumes
  then show ?case by (intro inv_run [OF reading_inv(1) tracked_reading(1) [OF client] erase_ListVolumes])
next
  case rpc_ValidateVolumeCapabilities
  then show ?case
    by (intro inv_run [OF reading_inv(2) tracked_reading(2) [OF client] erase_ValidateVolumeCapabilities])
qed

lemma rpc_reach_inv:
  assumes "rpc_reach cs s0 s" and "account_client hw I acc (cs_client cs)" and "I (Ext s0)" and "account_inv (acc (Ext s0))"
  shows "I (Ext s) \<and> account_inv (acc (Ext s))"
  using assms by (induction rule: rpc_reach.induct) (auto dest: rpc_step_inv)

end
