(* ===== verification/Sample_Account.thy ===== *)
theory Sample_Account
  imports Sample_Cloud Volume_Account
begin

text \<open>
  The account of the sample cloud, and that its client is an account client: the hypotheses of the
  refinement theorems can hold.
\<close>

definition cloud_account :: "cloud \<Rightarrow> account" where
  "cloud_account w = map_of (map (\<lambda>v. (Vol_ID v, settle v)) (cl_volumes w))"

text \<open>All instances of the sample cloud have 8 GiB of memory and one disk.\<close>

definition cloud_hw :: hardware where
  "cloud_hw = \<lparr>hw_memory = (\<lambda>i. 8192), hw_disks = (\<lambda>i. 1)\<rparr>"

definition cloud_ok :: "cloud \<Rightarrow> bool" where
  "cloud_ok w \<longleftrightarrow> distinct (map Vol_ID (cl_volumes w)) \<and> (\<forall>v \<in> set (cl_volumes w). Vol_ID v < cl_next w) \<and>
     (\<forall>i \<in> set (cl_instances w). \<forall>specs. Inst_Specs i = Some specs \<longrightarrow> Spec_Memory specs = 8192)"

lemma cloud_account_iff:
  "cloud_ok w \<Longrightarrow> cloud_account w i = Some x \<longleftrightarrow> (\<exists>v \<in> set (cl_volumes w). Vol_ID v = i \<and> x = settle v)"
  unfolding cloud_account_def cloud_ok_def by (subst map_of_eq_Some_iff) (auto simp: comp_def)

lemma cloud_account_None: "cloud_account w i = None \<longleftrightarrow> (\<forall>v \<in> set (cl_volumes w). Vol_ID v \<noteq> i)"
  by (auto simp: cloud_account_def map_of_eq_None_iff image_image)

lemma find_volume:
  "cloud_ok w \<Longrightarrow> find (\<lambda>v. Vol_ID v = i) (cl_volumes w) = Some v \<Longrightarrow> cloud_account w i = Some (settle v) \<and> Vol_ID v = i"
  by (auto simp: cloud_account_iff find_Some_iff)

lemma find_no_volume: "find (\<lambda>v. Vol_ID v = i) (cl_volumes w) = None \<longleftrightarrow> cloud_account w i = None"
  by (auto simp: cloud_account_None find_None_iff)

lemma set_volume_ok:
  assumes "cloud_ok w" and "\<And>v. Vol_ID (f v) = Vol_ID v"
  shows "cloud_ok (set_volume i f w)"
proof -
  have "Vol_ID \<circ> (\<lambda>v. if Vol_ID v = i then f v else v) = Vol_ID" by (rule ext) (simp add: assms(2))
  with assms show ?thesis by (auto simp: cloud_ok_def set_volume_def)
qed

lemma map_of_set_volume:
  assumes "\<And>v. Vol_ID (f v) = Vol_ID v" and "\<And>v. settle (f v) = f (settle v)"
  shows "map_of (map (\<lambda>v. (Vol_ID v, settle v)) (map (\<lambda>v. if Vol_ID v = i then f v else v) vs)) j =
    (if j = i then map_option f (map_of (map (\<lambda>v. (Vol_ID v, settle v)) vs) i) else map_of (map (\<lambda>v. (Vol_ID v, settle v)) vs) j)"
  by (induction vs) (auto simp: assms)

lemma set_volume_account:
  assumes "\<And>v. Vol_ID (f v) = Vol_ID v" and "\<And>v. settle (f v) = f (settle v)"
  shows "cloud_account (set_volume i f w) = change_volume i f (cloud_account w)"
  using map_of_set_volume [of f, OF assms]
  by (intro ext) (simp add: cloud_account_def set_volume_def change_volume_def)

lemma listed_cloud:
  assumes "cloud_ok w" and "\<And>v. P (settle v) = P v"
  shows "listed (cloud_account w) P (filter P (cl_volumes w))"
  using assms unfolding listed_def
  by (auto simp: cloud_account_iff cloud_ok_def distinct_map inj_on_def)

lemma added_cloud:
  assumes "cloud_ok w" and "add_volume label sz region w = ((p, e), w')"
  shows "e = None \<and> cloud_ok w' \<and> added p label sz (cloud_account w) (cloud_account w')"
proof -
  have new: "\<forall>v \<in> set (cl_volumes w). Vol_ID v \<noteq> cl_next w" using assms(1) by (auto simp: cloud_ok_def)
  then have none: "cloud_account w (cl_next w) = None" by (simp add: cloud_account_None)
  obtain v where v: "p = Some v" "e = None" "w' = w\<lparr>cl_volumes := cl_volumes w @ [v], cl_next := cl_next w + 1\<rparr>"
    "Vol_ID v = cl_next w" "Vol_Label v = label" "Vol_Size v = sz" "Vol_LinodeID v = None"
    using assms(2) by (auto simp: add_volume_def Let_def)
  have "cloud_account w' = (cloud_account w)(cl_next w \<mapsto> settle v)"
    using none v(3,4) by (auto simp: cloud_account_def map_add_def split: option.splits)
  moreover have "cloud_ok w'" using assms(1) new v by (fastforce simp: cloud_ok_def)
  ultimately show ?thesis using v none by (auto simp: added_def)
qed

lemma delete_cloud:
  "cloud_account (w\<lparr>cl_volumes := filter (\<lambda>v. Vol_ID v \<noteq> i) (cl_volumes w)\<rparr>) = (cloud_account w)(i := None)"
proof -
  have "map_of (map (\<lambda>v. (Vol_ID v, settle v)) (filter (\<lambda>v. Vol_ID v \<noteq> i) vs)) = (map_of (map (\<lambda>v. (Vol_ID v, settle v)) vs))(i := None)" for vs
    by (induction vs) (auto simp: fun_eq_iff)
  then show ?thesis by (simp add: cloud_account_def)
qed

lemma settle_updates:
  "settle (v\<lparr>Vol_LinodeID := l\<rparr>) = (settle v)\<lparr>Vol_LinodeID := l\<rparr>" "settle (v\<lparr>Vol_Size := n\<rparr>) = (settle v)\<lparr>Vol_Size := n\<rparr>"
  by (simp_all add: settle_def)

lemma get_volume_cases:
  assumes "cloud_ok w"
  obtains v where "get_volume i w = (Some v, None)" "cloud_account w i = Some (settle v)" "Vol_ID v = i"
  | "get_volume i w = (None, Some not_found)" "cloud_account w i = None"
proof (cases "find (\<lambda>v. Vol_ID v = i) (cl_volumes w)")
  case None
  with that(2) show ?thesis using find_no_volume [of i w] by (simp add: get_volume_def)
next
  case (Some v)
  with that(1) [of v] show ?thesis using find_volume [OF assms Some] by (simp add: get_volume_def)
qed

lemma honest_lists:
  "honest (account_step cloud_hw cloud_client) cloud_ok cloud_account (EvListVolumes opts) (ListVolumes_api cloud_client opts)"
  "honest (account_step cloud_hw cloud_client) cloud_ok cloud_account (EvListInstanceVolumes i) (ListInstanceVolumes_api cloud_client i o')"
proof -
  have nonempty: "label_filter l \<noteq> []" for l by (simp add: label_filter_def)
  show "honest (account_step cloud_hw cloud_client) cloud_ok cloud_account (EvListVolumes opts) (ListVolumes_api cloud_client opts)"
    by (rule honestI) (auto simp: cloud_client_def nonempty label_filter_inj listed_cloud)
  show "honest (account_step cloud_hw cloud_client) cloud_ok cloud_account (EvListInstanceVolumes i) (ListInstanceVolumes_api cloud_client i o')"
    by (rule honestI) (simp add: cloud_client_def listed_cloud)
qed

lemma honest_reads:
  "honest (account_step cloud_hw cloud_client) cloud_ok cloud_account (EvListInstanceDisks i) (ListInstanceDisks_api cloud_client i o')"
  "honest (account_step cloud_hw cloud_client) cloud_ok cloud_account (EvGetRegion r) (GetRegion_api cloud_client r)"
  "honest (account_step cloud_hw cloud_client) cloud_ok cloud_account (EvGetInstance i) (GetInstance_api cloud_client i)"
  "honest (account_step cloud_hw cloud_client) cloud_ok cloud_account (EvGetVolume v) (GetVolume_api cloud_client v)"
  "honest (account_step cloud_hw cloud_client) cloud_ok cloud_account (EvWaitForVolumeLinodeID v l) (WaitForVolumeLinodeID_api cloud_client v l t)"
  "honest (account_step cloud_hw cloud_client) cloud_ok cloud_account (EvWaitForVolumeStatus v st) (WaitForVolumeStatus_api cloud_client v st t)"
proof -
  show "honest (account_step cloud_hw cloud_client) cloud_ok cloud_account (EvListInstanceDisks i) (ListInstanceDisks_api cloud_client i o')"
    by (rule honestI) (simp add: cloud_client_def cloud_hw_def)
  show "honest (account_step cloud_hw cloud_client) cloud_ok cloud_account (EvGetRegion r) (GetRegion_api cloud_client r)"
    by (rule honestI) (simp add: cloud_client_def)
  show "honest (account_step cloud_hw cloud_client) cloud_ok cloud_account (EvGetInstance i) (GetInstance_api cloud_client i)"
    by (rule honestI) (auto simp: cloud_client_def cloud_hw_def cloud_ok_def find_Some_iff split: option.splits)
  show "honest (account_step cloud_hw cloud_client) cloud_ok cloud_account (EvGetVolume v) (GetVolume_api cloud_client v)"
    by (rule honestI, rule get_volume_cases [where i = v]) (auto simp: cloud_client_def)
  show "honest (account_step cloud_hw cloud_client) cloud_ok cloud_account (EvWaitForVolumeLinodeID v l) (WaitForVolumeLinodeID_api cloud_client v l t)"
    by (rule honestI, rule get_volume_cases [where i = v]) (auto simp: cloud_client_def)
  show "honest (account_step cloud_hw cloud_client) cloud_ok cloud_account (EvWaitForVolumeStatus v st) (WaitForVolumeStatus_api cloud_client v st t)"
    by (rule honestI, rule get_volume_cases [where i = v]) (auto simp: cloud_client_def)
qed

lemma honest_created:
  "honest (account_step cloud_hw cloud_client) cloud_ok cloud_account (EvCreateVolume co) (CreateVolume_api cloud_client co)"
  "honest (account_step cloud_hw cloud_client) cloud_ok cloud_account (EvCloneVolume v l) (CloneVolume_api cloud_client v l)"
proof -
  have "CreateVolume_api cloud_client co = add_volume (VCO_Label co) (VCO_Size co) (VCO_Region co)"
    by (simp add: cloud_client_def)
  then show "honest (account_step cloud_hw cloud_client) cloud_ok cloud_account (EvCreateVolume co) (CreateVolume_api cloud_client co)"
    unfolding honest_def by (auto dest: added_cloud)
  show "honest (account_step cloud_hw cloud_client) cloud_ok cloud_account (EvCloneVolume v l) (CloneVolume_api cloud_client v l)"
    unfolding honest_def
  proof (intro allI impI)
    fix w r w'
    assume ok: "cloud_ok w" and clone: "CloneVolume_api cloud_client v l w = (r, w')"
    from ok show "cloud_ok w' \<and> account_step cloud_hw cloud_client (EvCloneVolume v l r) (cloud_account w) (cloud_account w')"
    proof (cases rule: get_volume_cases [where i = v])
      case (1 x)
      with clone have "add_volume l (Vol_Size x) (Vol_Region x) w = (r, w')" by (simp add: cloud_client_def)
      then show ?thesis using 1 added_cloud [OF ok] by (cases r) fastforce
    next
      case 2
      with clone have "r = (None, Some not_found)" "w' = w" by (simp_all add: cloud_client_def)
      with ok show ?thesis by simp
    qed
  qed
qed

lemma honest_changes:
  "honest (account_step cloud_hw cloud_client) cloud_ok cloud_account (EvAttachVolume v ao) (AttachVolume_api cloud_client v ao)"
  "honest (account_step cloud_hw cloud_client) cloud_ok cloud_account (EvDetachVolume v) (DetachVolume_api cloud_client v)"
  "honest (account_step cloud_hw cloud_client) cloud_ok cloud_account (EvDeleteVolume v) (DeleteVolume_api cloud_client v)"
  "honest (account_step cloud_hw cloud_client) cloud_ok cloud_account (EvResizeVolume v n) (ResizeVolume_api cloud_client v n)"
proof -
  let ?attach = "Vol_LinodeID_update (\<lambda>_. Some (VAO_LinodeID ao))"
  have attach: "cloud_ok (set_volume v ?attach w)" "cloud_account (set_volume v ?attach w) = change_volume v ?attach (cloud_account w)"
    if "cloud_ok w" for w
    using that by (simp_all add: set_volume_ok set_volume_account settle_updates)
  show "honest (account_step cloud_hw cloud_client) cloud_ok cloud_account (EvAttachVolume v ao) (AttachVolume_api cloud_client v ao)"
  proof (rule honestI)
    fix w assume ok: "cloud_ok w"
    have "cloud_account (set_volume v ?attach w) v = map_option ?attach (cloud_account w v)"
      using attach(2) [OF ok] by (simp add: change_volume_def)
    then show "cloud_ok (snd (AttachVolume_api cloud_client v ao w)) \<and>
      account_step cloud_hw cloud_client (EvAttachVolume v ao (fst (AttachVolume_api cloud_client v ao w))) (cloud_account w) (cloud_account (snd (AttachVolume_api cloud_client v ao w)))"
      using attach [OF ok] by (cases rule: get_volume_cases [OF attach(1) [OF ok], where i = v])
        (auto simp: cloud_client_def change_volume_absent)
  qed
  show "honest (account_step cloud_hw cloud_client) cloud_ok cloud_account (EvDetachVolume v) (DetachVolume_api cloud_client v)"
    by (rule honestI, rule get_volume_cases [where i = v])
      (auto simp: cloud_client_def set_volume_ok set_volume_account settle_updates change_volume_absent)
  show "honest (account_step cloud_hw cloud_client) cloud_ok cloud_account (EvDeleteVolume v) (DeleteVolume_api cloud_client v)"
    by (rule honestI, rule get_volume_cases [where i = v])
      (auto simp: cloud_client_def delete_cloud fun_upd_idem cloud_ok_def distinct_map_filter)
  show "honest (account_step cloud_hw cloud_client) cloud_ok cloud_account (EvResizeVolume v n) (ResizeVolume_api cloud_client v n)"
    by (rule honestI, rule get_volume_cases [where i = v])
      (auto simp: cloud_client_def set_volume_ok set_volume_account settle_updates change_volume_absent)
qed

lemma cloud_account_client: "account_client cloud_hw cloud_ok cloud_account cloud_client"
  unfolding account_client_def
  by (simp add: honest_lists honest_reads honest_created honest_changes) (simp add: cloud_client_def)

end
