(* ===== verification/Account_Properties.thy ===== *)
theory Account_Properties
  imports Sample_Account Controller_Properties
begin

text \<open>
  The controller as a refinement of operations on the account, each with a run on the sample cloud. The client may
  fail at any call, before or after the call took effect; \<open>account_client\<close> only says what its calls mean.
\<close>

section \<open>The invariant of the account\<close>

text \<open>
  C2. Whatever RPCs the controller serves, in whatever order and however the API fails in between, two volumes of the
  account never share a label and no instance ever has more than 64 volumes attached, if this held at the
  start.
\<close>

theorem account_invariant:
  assumes "account_client hw I acc (cs_client cs)" and "I (Ext s0)" and "account_inv (acc (Ext s0))" and "rpc_reach cs s0 s"
  shows "(\<forall>i j x y. acc (Ext s) i = Some x \<and> acc (Ext s) j = Some y \<and> Vol_Label x = Vol_Label y \<longrightarrow> i = j) \<and>
    (\<forall>l. int (card (attached_to (acc (Ext s)) l)) \<le> maxAttachments)"
proof -
  have "account_inv (acc (Ext s))" using rpc_reach_inv [OF assms(4,1,2,3)] by simp
  then show ?thesis by (auto simp: account_inv_def within_limits_def dest: labels_uniqueD)
qed

lemma sample_cloud_ok [simp]: "cloud_ok (Ext sample_state)"
  by (simp add: cloud_ok_def sample_volume_def sample_instance_def)

lemma sample_account_inv: "account_inv (cloud_account (Ext sample_state))"
proof -
  have "attached_to (cloud_account (Ext sample_state)) l = {}" for l
    by (auto simp: attached_to_def cloud_account_def sample_volume_def settle_def split: if_splits)
  then show ?thesis
    by (simp add: account_inv_def labels_unique_def within_limits_def cloud_account_def maxAttachments_def)
qed

theorem account_invariant_witness:
  "int (card (attached_to (cloud_account (Ext (snd (ControllerPublishVolume sample_cs sample_publish sample_state)))) 9)) \<le> maxAttachments"
proof -
  have reach: "rpc_reach sample_cs sample_state (snd (ControllerPublishVolume sample_cs sample_publish sample_state))"
    by (rule rpc_next [OF rpc_start rpc_ControllerPublishVolume])
  have client: "account_client cloud_hw cloud_ok cloud_account (cs_client sample_cs)" by (simp add: cloud_account_client)
  show ?thesis using account_invariant [OF client sample_cloud_ok sample_account_inv reach] by blast
qed

section \<open>Refinement\<close>

text \<open>
  C7. \<open>CreateVolume\<close> refines the creation of a volume in the account: whatever happens, either nothing changes or
  exactly one volume is added, under the label of the request, which no volume had; and on success a volume of that label
  exists, the answer names it, and it has the requested size unless it was cloned.
\<close>

theorem create_refines:
  assumes "account_client hw I acc (cs_client cs)" and "I (Ext s)" and "list_all json_plain (created_label cs req)"
    and "CreateVolume cs req s = (out, s')"
  shows "I (Ext s') \<and> create_spec (created_label cs req) req (acc (Ext s)) out (acc (Ext s'))"
  using effect_run [OF CreateVolume_effect [OF assms(3)] tracked_CreateVolume [OF assms(1)] erase_CreateVolume assms(2)] assms(4)
  by simp

theorem create_refines_witness:
  "create_spec ''csipvc2'' (sample_create ''pvc2'') (cloud_account (Ext sample_state))
     (fst (CreateVolume sample_cs (sample_create ''pvc2'') sample_state))
     (cloud_account (Ext (snd (CreateVolume sample_cs (sample_create ''pvc2'') sample_state))))"
proof -
  have label: "created_label sample_cs (sample_create ''pvc2'') = ''csipvc2''"
    by (simp add: created_label_def sample_create_def sample_cs_def sample_driver_def GetNormalizedLabelWithPrefix_take CreateLinodeVolumeKey_def)
  have plain: "list_all json_plain (created_label sample_cs (sample_create ''pvc2''))" unfolding label by (simp add: json_plain_def)
  have client: "account_client cloud_hw cloud_ok cloud_account (cs_client sample_cs)" by (simp add: cloud_account_client)
  show ?thesis using create_refines [OF client sample_cloud_ok plain prod.collapse [symmetric]] unfolding label by blast
qed

text \<open>
  C8. \<open>DeleteVolume\<close> refines the deletion of a volume from the account: it returns; on success the volume is gone, was
  attached to nothing, and nothing else changed; on an error either nothing changed, or exactly this happened and only the answer of the
  API was lost.
\<close>

theorem delete_refines:
  assumes "account_client hw I acc (cs_client cs)" and "I (Ext s)" and "VolumeIdAsInt ''DeleteVolume'' (DVR_VolumeId req) = Inr v"
    and "DeleteVolume cs req s = (out, s')"
  shows "I (Ext s') \<and> (\<exists>r. out = Done r \<and> delete_spec v (acc (Ext s)) r (acc (Ext s')))"
  using effect_run [OF DeleteVolume_effect [OF assms(3) account_client_calls(1) [OF assms(1)]] tracked_DeleteVolume [OF assms(1)]
      erase_DeleteVolume assms(2)] assms(4)
  by simp

theorem delete_refines_witness:
  "\<exists>r. delete_spec 42 (cloud_account (Ext sample_state)) r
     (cloud_account (Ext (snd (DeleteVolume sample_cs \<lparr>DVR_VolumeId = ''42-csipvc1''\<rparr> sample_state))))"
proof -
  have client: "account_client cloud_hw cloud_ok cloud_account (cs_client sample_cs)" by (simp add: cloud_account_client)
  have id: "VolumeIdAsInt ''DeleteVolume'' (DVR_VolumeId \<lparr>DVR_VolumeId = ''42-csipvc1''\<rparr>) = Inr 42" by simp
  show ?thesis using delete_refines [OF client sample_cloud_ok id prod.collapse [symmetric]] by blast
qed

text \<open>
  C9. \<open>ControllerPublishVolume\<close> refines attaching a volume in the account, and \<open>ControllerUnpublishVolume\<close> detaching it from the named
  instance only. A volume is attached only to an instance that has fewer volumes than its memory and its disks allow. Both return; on
  success the account is exactly the one with the volume attached (detached), also when the detachment takes effect only some
  time after the call that asked for it; on an error it is that one or the one before.
\<close>

theorem publish_unpublish_refine:
  assumes "account_client hw I acc (cs_client cs)" and "I (Ext s)"
    and "validateControllerPublishVolumeRequest preq = Inr (l, v)"
    and "VolumeIdAsInt ''ControllerUnpublishVolume'' (CUR_VolumeId ureq) = Inr v'"
    and "NodeIdAsInt ''ControllerUnpublishVolume'' (CUR_NodeId ureq) = Inr l'"
    and "ControllerPublishVolume cs preq s = (out1, s1)" and "ControllerUnpublishVolume cs ureq s = (out2, s2)"
  shows "(\<exists>r. out1 = Done r \<and> publish_spec hw v l (acc (Ext s)) r (acc (Ext s1))) \<and>
    (\<exists>r. out2 = Done r \<and> unpublish_spec v' l' (acc (Ext s)) r (acc (Ext s2)))"
proof
  note nf = account_client_calls(1) [OF assms(1)]
  show "\<exists>r. out1 = Done r \<and> publish_spec hw v l (acc (Ext s)) r (acc (Ext s1))"
    using effect_run [OF ControllerPublishVolume_effect [OF assms(3) nf] tracked_ControllerPublishVolume [OF assms(1)]
        erase_ControllerPublishVolume assms(2)] assms(6) by simp
  show "\<exists>r. out2 = Done r \<and> unpublish_spec v' l' (acc (Ext s)) r (acc (Ext s2))"
    using effect_run [OF ControllerUnpublishVolume_effect [OF assms(4,5) nf] tracked_ControllerUnpublishVolume [OF assms(1)]
        erase_ControllerUnpublishVolume assms(2)] assms(7) by simp
qed

theorem publish_unpublish_refine_witness:
  "\<exists>r. publish_spec cloud_hw 42 9 (cloud_account (Ext sample_state)) r
     (cloud_account (Ext (snd (ControllerPublishVolume sample_cs sample_publish sample_state))))"
proof -
  have client: "account_client cloud_hw cloud_ok cloud_account (cs_client sample_cs)" by (simp add: cloud_account_client)
  have pub: "validateControllerPublishVolumeRequest sample_publish = Inr (9, 42)"
    by (simp add: validateControllerPublishVolumeRequest_def sample_publish_def sample_cap_def)
  have vol: "VolumeIdAsInt ''ControllerUnpublishVolume'' (CUR_VolumeId \<lparr>CUR_VolumeId = ''42-csipvc1'', CUR_NodeId = ''9''\<rparr>) = Inr 42"
    and node: "NodeIdAsInt ''ControllerUnpublishVolume'' (CUR_NodeId \<lparr>CUR_VolumeId = ''42-csipvc1'', CUR_NodeId = ''9''\<rparr>) = Inr 9"
    by simp_all
  show ?thesis
    using publish_unpublish_refine [OF client sample_cloud_ok pub vol node prod.collapse [symmetric] prod.collapse [symmetric]] by blast
qed

text \<open>
  C10. \<open>ControllerExpandVolume\<close> refines resizing a volume in the account to the whole gibibytes of the requested size: it
  returns; on success exactly that volume has exactly that size, which is not below the old one; on an error the
  volume was resized so or nothing changed.
\<close>

theorem expand_refines:
  assumes "account_client hw I acc (cs_client cs)" and "I (Ext s)" and "VolumeIdAsInt ''ControllerExpandVolume'' (CER_VolumeId req) = Inr v"
    and "getRequestCapacitySize (CER_CapacityRange req) = Inr sz" and "ControllerExpandVolume cs req s = (out, s')"
  shows "I (Ext s') \<and> (\<exists>r. out = Done r \<and> expand_spec v (bytesToGB sz) (acc (Ext s)) r (acc (Ext s')))"
  using effect_run [OF ControllerExpandVolume_effect [OF assms(3,4)] tracked_ControllerExpandVolume [OF assms(1)]
      erase_ControllerExpandVolume assms(2)] assms(5)
  by simp

theorem expand_refines_witness:
  "\<exists>r. expand_spec 42 10 (cloud_account (Ext sample_state)) r
     (cloud_account (Ext (snd (ControllerExpandVolume sample_cs \<lparr>CER_VolumeId = ''42-csipvc1'', CER_CapacityRange = None\<rparr> sample_state))))"
proof -
  let ?req = "\<lparr>CER_VolumeId = ''42-csipvc1'', CER_CapacityRange = None\<rparr>"
  have client: "account_client cloud_hw cloud_ok cloud_account (cs_client sample_cs)" by (simp add: cloud_account_client)
  have id: "VolumeIdAsInt ''ControllerExpandVolume'' (CER_VolumeId ?req) = Inr 42" by simp
  have sz: "getRequestCapacitySize (CER_CapacityRange ?req) = Inr MinVolumeSizeBytes" by (simp add: getRequestCapacitySize_def)
  have "bytesToGB MinVolumeSizeBytes = 10" by (simp add: bytesToGB_div MinVolumeSizeBytes_eq)
  with expand_refines [OF client sample_cloud_ok id sz prod.collapse [symmetric]] show ?thesis by auto
qed

end
