(* ===== verification/Tracing.thy ===== *)
theory Tracing
  imports Observability
begin

text \<open>
  \<open>pkg/observability/tracker.go\<close>: the tracer the process starts, the spans it writes to, and the tracing interceptor.

  OpenTelemetry is not part of the repository. A span is what the driver writes to it:
  attributes, recorded errors, a status and whether it was ended. \<open>json.Marshal\<close> of a request
  or a response is the argument \<open>marshal\<close>. Text built with a format keeps the format and its
  arguments.
\<close>

section \<open>The tracer\<close>

record TracerSettings =
  ts_endpoint :: "string \<times> arg list"
  ts_service :: string
  ts_version :: string

text \<open>The package's variables; \<open>Tracer\<close> is the name the tracer was made for.\<close>

record Otel =
  Tracer :: "string option"
  TracerProvider :: "TracerSettings option"
  SkipObservability :: bool

definition otel_init :: Otel where
  "otel_init = \<lparr>Tracer = None, TracerProvider = None, SkipObservability = True\<rparr>"

text \<open>Errors of the exporter and of the resource are logged only.\<close>

definition InitOtelTracing :: "string \<Rightarrow> string \<Rightarrow> string \<Rightarrow> Otel \<Rightarrow> Otel" where
  "InitOtelTracing serviceName serviceVersion tracingPort g =
     (let oltpEndpoint = (''otel-collector:%s'', [ArgStr tracingPort])
      in g\<lparr>TracerProvider := Some \<lparr>ts_endpoint = oltpEndpoint, ts_service = serviceName, ts_version = serviceVersion\<rparr>\<rparr>)"

definition InitTracer :: "string \<Rightarrow> string \<Rightarrow> string \<Rightarrow> Otel \<Rightarrow> Otel" where
  "InitTracer serviceName serviceVersion tracingPort g =
     (let g = InitOtelTracing serviceName serviceVersion tracingPort g
      in g\<lparr>Tracer := Some serviceName\<rparr>)"

section \<open>Spans\<close>

datatype span_status = Span_Ok string | Span_Error error

record Span =
  sp_name :: string
  sp_attributes :: "string \<rightharpoonup> (string \<times> arg list)"
  sp_errors :: "error list"
  sp_status :: "span_status option"
  sp_ended :: bool

definition SetAttribute :: "string \<Rightarrow> string \<times> arg list \<Rightarrow> Span \<Rightarrow> Span" where
  "SetAttribute key val sp = sp\<lparr>sp_attributes := (sp_attributes sp)(key \<mapsto> val)\<rparr>"

definition RecordError :: "error \<Rightarrow> Span \<Rightarrow> Span" where
  "RecordError e sp = sp\<lparr>sp_errors := sp_errors sp @ [e]\<rparr>"

definition SetStatus :: "span_status \<Rightarrow> Span \<Rightarrow> Span" where
  "SetStatus st sp = sp\<lparr>sp_status := Some st\<rparr>"

text \<open>The attributes of a map of parameters are set in the order of the map's iteration, which Go
  leaves open; each key is set once, so the order does not matter.\<close>

definition TraceFunctionData :: "(string \<rightharpoonup> string) \<Rightarrow> error option \<Rightarrow> Span \<Rightarrow> Span" where
  "TraceFunctionData params err sp =
     (let sp = sp\<lparr>sp_attributes := sp_attributes sp ++ (\<lambda>k. map_option (\<lambda>v. (v, [])) (params k))\<rparr>
      in case err of
           Some e \<Rightarrow> (RecordError e (SetStatus (Span_Error e) sp))\<lparr>sp_ended := True\<rparr>
         | None \<Rightarrow> (SetStatus (Span_Ok ''Sub-function call successful'') sp)\<lparr>sp_ended := True\<rparr>)"

definition SerializeObject :: "('a \<Rightarrow> error + string) \<Rightarrow> 'a \<Rightarrow> string \<times> arg list" where
  "SerializeObject marshal obj =
     (case marshal obj of
        Inl err \<Rightarrow> (''serialization error: %v'', [ArgErr err])
      | Inr objBody \<Rightarrow> (objBody, []))"

text \<open>The part of a function's name after the last dot: \<open>LastIndex\<close> counts from the end.\<close>

definition after_last_dot :: "string \<Rightarrow> string" where
  "after_last_dot functionName = rev (takeWhile (\<lambda>c. c \<noteq> CHR ''.'') (rev functionName))"

text \<open>\<open>caller\<close> is the name \<open>runtime.Caller(1)\<close> gives, if it gives one. Without a tracer, the call through
  the nil interface panics.\<close>

definition StartFunctionSpan :: "string option \<Rightarrow> (Otel, Span) prog" where
  "StartFunctionSpan caller g =
     (let functionName = (case caller of None \<Rightarrow> ''unknown_function'' | Some name \<Rightarrow> after_last_dot name)
      in case Tracer g of
           None \<Rightarrow> (Panic, g)
         | Some t \<Rightarrow> (Done \<lparr>sp_name = functionName, sp_attributes = Map.empty, sp_errors = [],
                           sp_status = None, sp_ended = False\<rparr>, g))"

text \<open>The guard every instrumented function has.\<close>

definition start_span_if_enabled :: "string option \<Rightarrow> (Otel, Span option) prog" where
  "start_span_if_enabled caller g =
     (if \<not> SkipObservability g then andThen (StartFunctionSpan caller) (\<lambda>sp. ret (Some sp)) g else ret None g)"

section \<open>The interceptor\<close>

text \<open>A \<open>logr.Logger\<close> is what the driver gave it: a verbosity level and values. A line has the logger it was written with,
  the message and further keys with their values; \<open>None\<close> is a request or a response.\<close>

record logr =
  lr_level :: nat
  lr_values :: "(string \<times> string) list"

datatype log_line =
    Log_Info logr string "(string \<times> string option) list"
  | Log_Error logr error string

text \<open>The state of a call: what the handler works on, the span of the context (nil or not), the log.\<close>

record 's rpc_state =
  rpc_inner :: 's
  rpc_span :: "Span option"
  rpc_log :: "log_line list"

type_synonym 'r answer = "'r option \<times> error option"

definition on_inner :: "('s, 'a) prog \<Rightarrow> ('s rpc_state, 'a) prog" where
  "on_inner m c = (case m (rpc_inner c) of (out, s') \<Rightarrow> (out, c\<lparr>rpc_inner := s'\<rparr>))"

definition on_span :: "(Span \<Rightarrow> Span) \<Rightarrow> ('s rpc_state, unit) prog" where
  "on_span f c = (Done (), c\<lparr>rpc_span := map_option f (rpc_span c)\<rparr>)"

definition log_out :: "log_line \<Rightarrow> ('s rpc_state, unit) prog" where
  "log_out l c = (Done (), c\<lparr>rpc_log := rpc_log c @ [l]\<rparr>)"

definition UnaryServerInterceptorWithParams ::
  "('q \<Rightarrow> error + string) \<Rightarrow> ('r \<Rightarrow> error + string) \<Rightarrow> 'q
     \<Rightarrow> ('q \<Rightarrow> ('s rpc_state, 'r answer) prog) \<Rightarrow> ('s rpc_state, 'r answer) prog" where
  "UnaryServerInterceptorWithParams marshal_req marshal_resp req handler c =
     (if rpc_span c = None then handler req c
      else
        andThen (case marshal_req req of
                   Inr reqData \<Rightarrow> on_span (SetAttribute ''grpc.request'' (reqData, []))
                 | Inl err \<Rightarrow> on_span (SetAttribute ''grpc.request.error'' (''%v'', [ArgErr err]))) (\<lambda>_.
        andThen (handler req) (\<lambda>(resp, err).
        andThen (case resp of
                   None \<Rightarrow> ret ()
                 | Some r \<Rightarrow>
                     (case marshal_resp r of
                        Inr respData \<Rightarrow> on_span (SetAttribute ''grpc.response'' (respData, []))
                      | Inl er \<Rightarrow> on_span (SetAttribute ''grpc.response.error'' (''%v'', [ArgErr er])))) (\<lambda>_.
        andThen (case err of
                   Some e \<Rightarrow> on_span (\<lambda>sp. SetStatus (Span_Error e) (RecordError e sp))
                 | None \<Rightarrow> on_span (SetStatus (Span_Ok ''Success''))) (\<lambda>_.
        ret (resp, err))))) c)"

section \<open>Facts\<close>

lemma after_last_dot_no_dot: "CHR ''.'' \<notin> set (after_last_dot n)"
  by (auto simp: after_last_dot_def dest: set_takeWhileD)

lemma InitTracer_fields [simp]:
  "Tracer (InitTracer n v p g) = Some n" "SkipObservability (InitTracer n v p g) = SkipObservability g"
  by (simp_all add: InitTracer_def InitOtelTracing_def Let_def)

lemma start_span_safe:
  "SkipObservability g \<or> Tracer g \<noteq> None \<Longrightarrow> \<exists>sp. start_span_if_enabled caller g = (Done sp, g)"
  by (auto simp: start_span_if_enabled_def StartFunctionSpan_def Let_def)

lemma erases_rpc_steps:
  "erases rpc_inner (on_span f) (ret ())"
  "erases rpc_inner (log_out l) (ret ())"
  "erases rpc_inner (on_inner m) m"
  by (simp_all add: erases_def on_span_def log_out_def on_inner_def split: prod.splits)

end
