(* ===== verification/GRPC_Server.thy ===== *)
theory GRPC_Server
  imports Linode_Client Tracing
begin

text \<open>
  \<open>internal/driver/server.go\<close>: the non-blocking gRPC server, its optional metrics server, and the
  wait group its caller waits on.

  \<open>serve\<close> is first a program: parsing the endpoint, removing a stale socket, listening; every
  \<open>klog.Fatal\<close> is an \<open>Inl\<close> and ends the process. The server as a whole is a state machine: the
  record \<open>nonBlockingGRPCServer\<close> has the fields of the struct (a nil pointer is \<open>None\<close>),
  \<open>server_process\<close> adds where the two goroutines of \<open>Start\<close> and the calls of \<open>Stop\<close> and \<open>ForceStop\<close> are, what was told to
  stop, and whether the process died. Its steps are what each of them does next; they interleave freely. \<open>wg\<close> is the counter of the wait group: \<open>Wait\<close> returns when it is zero.
\<close>

section \<open>Configuration\<close>

text \<open>\<open>strconv.ParseBool\<close>.\<close>

definition ParseBool :: "string \<Rightarrow> bool option" where
  "ParseBool s =
     (if s \<in> set [''1'', ''t'', ''T'', ''true'', ''TRUE'', ''True''] then Some True
      else if s \<in> set [''0'', ''f'', ''F'', ''false'', ''FALSE'', ''False''] then Some False
      else None)"

section \<open>Listening\<close>

text \<open>
  \<open>serve\<close> up to the listener. \<open>parse\<close> is \<open>url.Parse\<close>, \<open>remove\<close> is \<open>os.Remove\<close>, \<open>isNotExist\<close> is
  \<open>os.IsNotExist\<close> and \<open>listen\<close> is \<open>net.Listen\<close> (the listener itself is not looked at). The
  result is the fatal message, or the network and the address listened on.
\<close>

definition serve_listen ::
  "(string \<Rightarrow> error + URL) \<Rightarrow> (string \<Rightarrow> 'w \<Rightarrow> error option \<times> 'w) \<Rightarrow> (error \<Rightarrow> bool)
     \<Rightarrow> (string \<Rightarrow> string \<Rightarrow> 'w \<Rightarrow> error option \<times> 'w) \<Rightarrow> string
     \<Rightarrow> ('w world, (string \<times> arg list) + (string \<times> string)) prog" where
  "serve_listen parse remove isNotExist listen endpoint =
     (case parse endpoint of
        Inl err \<Rightarrow> ret (Inl (''%v'', [ArgErr err]))
      | Inr urlObj \<Rightarrow>
          andThen
            (if Scheme urlObj = ''unix'' then
               (let addr = Path urlObj
                in andThen (call (remove addr)) (\<lambda>err.
                   case err of
                     Some e \<Rightarrow>
                       if \<not> isNotExist e then ret (Inl (''Failed to remove %s, error: %s'', [ArgStr addr, ArgErr e]))
                       else ret (Inr addr)
                   | None \<Rightarrow> ret (Inr addr)))
             else if Scheme urlObj = ''tcp'' then ret (Inr (Host urlObj))
             else ret (Inl (''%v endpoint scheme not supported'', [ArgStr (Scheme urlObj)]))) (\<lambda>r.
          case r of
            Inl fatal \<Rightarrow> ret (Inl fatal)
          | Inr addr \<Rightarrow>
              andThen (call (listen (Scheme urlObj) addr)) (\<lambda>err.
              case err of
                Some e \<Rightarrow> ret (Inl (''Failed to listen: %v'', [ArgErr e]))
              | None \<Rightarrow> ret (Inr (Scheme urlObj, addr)))))"

section \<open>State and goroutines\<close>

datatype csi_service = Identity_service | Controller_service | Node_service

record nonBlockingGRPCServer =
  wg :: int
  server :: "csi_service list option"
  metricsServer :: "string option"
  enableMetrics :: string
  metricsPort :: string

definition NewNonBlockingGRPCServer :: nonBlockingGRPCServer where
  "NewNonBlockingGRPCServer =
     \<lparr>wg = 0, server = None, metricsServer = None, enableMetrics = [], metricsPort = []\<rparr>"

definition SetMetricsConfig :: "string \<Rightarrow> string \<Rightarrow> nonBlockingGRPCServer \<Rightarrow> nonBlockingGRPCServer" where
  "SetMetricsConfig em mp s = s\<lparr>enableMetrics := em, metricsPort := mp\<rparr>"

text \<open>
  Where a goroutine is, with what it was started on: the services to register, the address. \<open>Created\<close>: the field of the struct is set, but
  the server does not serve yet.
\<close>

datatype 'a goroutine = Not_started | Spawned 'a | Created | Serving | Returned

text \<open>Where a call of \<open>Stop\<close> or of \<open>ForceStop\<close> is: inside which of the calls it makes.\<close>

datatype stop_call = Not_called | In_GracefulStop | In_Shutdown | In_TracerShutdown | In_Stop | In_Close | Stop_returned

text \<open>\<open>grpc_stopped\<close> and \<open>metrics_stopped\<close>: the two servers were told to stop. \<open>grpc_drained\<close>: the call that told the gRPC server
  has returned. \<open>stop_calls k\<close> is the \<open>k\<close>-th call of \<open>Stop\<close> or \<open>ForceStop\<close>.\<close>

record server_process = nonBlockingGRPCServer +
  serve_goroutine :: "csi_service list goroutine"
  metrics_goroutine :: "string goroutine"
  stop_calls :: "nat \<Rightarrow> stop_call"
  grpc_stopped :: bool
  grpc_drained :: bool
  metrics_stopped :: bool
  fatal :: bool

text \<open>The services whose server is not nil, in the order \<open>serve\<close> registers them.\<close>

definition registered :: "bool \<Rightarrow> bool \<Rightarrow> bool \<Rightarrow> csi_service list" where
  "registered ids cs ns =
     (if ids then [Identity_service] else []) @ (if cs then [Controller_service] else []) @
     (if ns then [Node_service] else [])"

definition Start :: "bool \<Rightarrow> bool \<Rightarrow> bool \<Rightarrow> nonBlockingGRPCServer \<Rightarrow> server_process" where
  "Start ids cs ns s =
     (let p = nonBlockingGRPCServer.extend (s\<lparr>wg := wg s + 1\<rparr>)
                \<lparr>serve_goroutine = Spawned (registered ids cs ns), metrics_goroutine = Not_started, stop_calls = (\<lambda>k. Not_called),
                 grpc_stopped = False, grpc_drained = False, metrics_stopped = False, fatal = False\<rparr>
      in case ParseBool (enableMetrics s) of
           None \<Rightarrow> p
         | Some enable \<Rightarrow>
             if enable then p\<lparr>metrics_goroutine := Spawned (CHR '':'' # metricsPort s)\<rparr> else p)"

text \<open>\<open>Wait\<close> returns in this state.\<close>

definition wait_returns :: "server_process \<Rightarrow> bool" where
  "wait_returns p \<longleftrightarrow> wg p = 0"

text \<open>
  The calls \<open>Stop\<close> and \<open>ForceStop\<close> make, which panic through a nil pointer. What shutting down the metrics server and the tracer provider
  returns is only logged.
\<close>

definition stop_grpc :: "(server_process, unit) prog" where
  "stop_grpc p = (if server p = None then (Panic, p) else (Done (), p\<lparr>grpc_stopped := True\<rparr>))"

definition grpc_returns :: "(server_process, unit) prog" where
  "grpc_returns p = (Done (), p\<lparr>grpc_drained := True\<rparr>)"

definition stop_metrics :: "(server_process, unit) prog" where
  "stop_metrics p = (if metricsServer p = None then (Panic, p) else (Done (), p\<lparr>metrics_stopped := True\<rparr>))"

definition Stop :: "(server_process, unit) prog" where
  "Stop = andThen stop_grpc (\<lambda>_. andThen grpc_returns (\<lambda>_. stop_metrics))"

definition ForceStop :: "(server_process, unit) prog" where
  "ForceStop = andThen stop_grpc (\<lambda>_. andThen grpc_returns (\<lambda>_. stop_metrics))"

definition at_stop :: "nat \<Rightarrow> stop_call \<Rightarrow> server_process \<Rightarrow> server_process" where
  "at_stop k c p = p\<lparr>stop_calls := (stop_calls p)(k := c)\<rparr>"

text \<open>
  The steps of the goroutine of \<open>serve\<close>. It sets \<open>server\<close> and registers the services once it listens, and then serves. \<open>Serve\<close> returns
  without an error only if the server was stopped while it served; it fails if the server was stopped before. A failure is fatal, and nothing runs
  after that.
\<close>

inductive serve_step :: "server_process \<Rightarrow> server_process \<Rightarrow> bool" where
  serve_listens: "\<not> fatal p \<Longrightarrow> serve_goroutine p = Spawned svcs
    \<Longrightarrow> serve_step p (p\<lparr>server := Some svcs, serve_goroutine := Created\<rparr>)"
| listen_fatal: "\<not> fatal p \<Longrightarrow> serve_goroutine p = Spawned svcs \<Longrightarrow> serve_step p (p\<lparr>fatal := True\<rparr>)"
| serve_serves: "\<not> fatal p \<Longrightarrow> serve_goroutine p = Created \<Longrightarrow> \<not> grpc_stopped p
    \<Longrightarrow> serve_step p (p\<lparr>serve_goroutine := Serving\<rparr>)"
| serve_too_late: "\<not> fatal p \<Longrightarrow> serve_goroutine p = Created \<Longrightarrow> grpc_stopped p \<Longrightarrow> serve_step p (p\<lparr>fatal := True\<rparr>)"
| serve_fatal: "\<not> fatal p \<Longrightarrow> serve_goroutine p = Serving \<Longrightarrow> \<not> grpc_stopped p \<Longrightarrow> serve_step p (p\<lparr>fatal := True\<rparr>)"
| serve_returns: "\<not> fatal p \<Longrightarrow> serve_goroutine p = Serving \<Longrightarrow> grpc_stopped p
    \<Longrightarrow> serve_step p (p\<lparr>serve_goroutine := Returned\<rparr>)"

text \<open>
  The steps of the goroutine of \<open>startMetricsServer\<close>. \<open>ListenAndServe\<close> returns \<open>ErrServerClosed\<close> as soon as the server was told to shut down, also when
  that happened before it was called; then the deferred \<open>Done\<close> counts the wait group down. Any other return is fatal.
\<close>

inductive metrics_step :: "server_process \<Rightarrow> server_process \<Rightarrow> bool" where
  metrics_creates: "\<not> fatal p \<Longrightarrow> metrics_goroutine p = Spawned addr
    \<Longrightarrow> metrics_step p (p\<lparr>metricsServer := Some addr, metrics_goroutine := Created\<rparr>)"
| metrics_serves: "\<not> fatal p \<Longrightarrow> metrics_goroutine p = Created \<Longrightarrow> \<not> metrics_stopped p
    \<Longrightarrow> metrics_step p (p\<lparr>metrics_goroutine := Serving\<rparr>)"
| metrics_fatal: "\<not> fatal p \<Longrightarrow> metrics_goroutine p = Created \<or> metrics_goroutine p = Serving \<Longrightarrow> \<not> metrics_stopped p
    \<Longrightarrow> metrics_step p (p\<lparr>fatal := True\<rparr>)"
| metrics_returns: "\<not> fatal p \<Longrightarrow> metrics_goroutine p = Created \<or> metrics_goroutine p = Serving \<Longrightarrow> metrics_stopped p
    \<Longrightarrow> metrics_step p (p\<lparr>metrics_goroutine := Returned, wg := wg p - 1\<rparr>)"

text \<open>The steps of the \<open>k\<close>-th call of \<open>Stop\<close> or \<open>ForceStop\<close>; a panic ends the process.\<close>

inductive stop_step :: "nat \<Rightarrow> server_process \<Rightarrow> server_process \<Rightarrow> bool" for k where
  stop_called: "\<not> fatal p \<Longrightarrow> stop_calls p k = Not_called \<Longrightarrow> stop_grpc p = (Done (), p')
    \<Longrightarrow> stop_step k p (at_stop k In_GracefulStop p')"
| stop_panics: "\<not> fatal p \<Longrightarrow> stop_calls p k = Not_called \<Longrightarrow> stop_grpc p = (Panic, p') \<Longrightarrow> stop_step k p (p'\<lparr>fatal := True\<rparr>)"
| stop_shuts_down: "\<not> fatal p \<Longrightarrow> stop_calls p k = In_GracefulStop \<Longrightarrow> andThen grpc_returns (\<lambda>_. stop_metrics) p = (Done (), p')
    \<Longrightarrow> stop_step k p (at_stop k In_Shutdown p')"
| shutdown_panics: "\<not> fatal p \<Longrightarrow> stop_calls p k = In_GracefulStop \<or> stop_calls p k = In_Stop
    \<Longrightarrow> andThen grpc_returns (\<lambda>_. stop_metrics) p = (Panic, p') \<Longrightarrow> stop_step k p (p'\<lparr>fatal := True\<rparr>)"
| stop_traces: "\<not> fatal p \<Longrightarrow> stop_calls p k = In_Shutdown \<Longrightarrow> stop_step k p (at_stop k In_TracerShutdown p)"
| stop_returns: "\<not> fatal p \<Longrightarrow> stop_calls p k = In_TracerShutdown \<or> stop_calls p k = In_Close
    \<Longrightarrow> stop_step k p (at_stop k Stop_returned p)"
| force_called: "\<not> fatal p \<Longrightarrow> stop_calls p k = Not_called \<Longrightarrow> stop_grpc p = (Done (), p') \<Longrightarrow> stop_step k p (at_stop k In_Stop p')"
| force_closes: "\<not> fatal p \<Longrightarrow> stop_calls p k = In_Stop \<Longrightarrow> andThen grpc_returns (\<lambda>_. stop_metrics) p = (Done (), p')
    \<Longrightarrow> stop_step k p (at_stop k In_Close p')"

definition server_step :: "server_process \<Rightarrow> server_process \<Rightarrow> bool" where
  "server_step p p' \<longleftrightarrow> serve_step p p' \<or> metrics_step p p' \<or> (\<exists>k. stop_step k p p')"

inductive_simps metrics_step_iff: "metrics_step p p'"

inductive server_reach :: "server_process \<Rightarrow> server_process \<Rightarrow> bool" for p0 where
  server_start: "server_reach p0 p0"
| server_next: "server_reach p0 p \<Longrightarrow> server_step p p' \<Longrightarrow> server_reach p0 p'"

section \<open>Facts\<close>

definition started :: "bool \<Rightarrow> bool \<Rightarrow> bool \<Rightarrow> string \<Rightarrow> string \<Rightarrow> server_process" where
  "started ids cs ns em mp = Start ids cs ns (SetMetricsConfig em mp NewNonBlockingGRPCServer)"

text \<open>
  The metrics server exists once its goroutine created it, which happens only when metrics are enabled; it is told to stop only after the gRPC server
  was stopped and the call that did so has returned; the wait group counts one until its goroutine returned, which it does only
  when told to stop.
\<close>

fun created :: "'a goroutine \<Rightarrow> bool" where
  "created Not_started = False"
| "created (Spawned _) = False"
| "created _ = True"

definition server_inv :: "bool \<Rightarrow> server_process \<Rightarrow> bool" where
  "server_inv metrics p \<longleftrightarrow>
     (metrics_goroutine p = Not_started \<longleftrightarrow> \<not> metrics) \<and>
     (metricsServer p = None \<longleftrightarrow> \<not> created (metrics_goroutine p)) \<and>
     (\<forall>k. stop_calls p k \<noteq> Not_called \<longrightarrow> grpc_stopped p) \<and>
     (grpc_drained p \<longrightarrow> grpc_stopped p) \<and> (metrics_stopped p \<longrightarrow> grpc_drained p) \<and>
     (metrics_stopped p \<longrightarrow> created (metrics_goroutine p)) \<and>
     (metrics_goroutine p = Returned \<longrightarrow> metrics_stopped p) \<and>
     wg p = (if metrics_goroutine p = Returned then 0 else 1)"

lemmas stop_part_defs = stop_grpc_def grpc_returns_def stop_metrics_def at_stop_def

lemma ForceStop_Stop: "ForceStop = Stop"
  by (simp add: ForceStop_def Stop_def)

lemma Stop_Panic: "server p = None \<or> metricsServer p = None \<Longrightarrow> fst (Stop p) = Panic"
  by (auto simp: Stop_def stop_part_defs)

lemma server_inv_started: "server_inv (ParseBool em = Some True) (started ids cs ns em mp)"
  by (auto simp: server_inv_def started_def Start_def SetMetricsConfig_def NewNonBlockingGRPCServer_def
      nonBlockingGRPCServer.defs Let_def split: option.splits)

lemma serve_step_inv:
  assumes "serve_step p p'" and "server_inv m p"
  shows "server_inv m p'"
  using assms(1)
proof cases
  case (serve_listens svcs)
  show ?thesis using assms(2) unfolding serve_listens(1) server_inv_def by simp
next
  case (listen_fatal svcs)
  show ?thesis using assms(2) unfolding listen_fatal(1) server_inv_def by simp
next
  case serve_serves
  show ?thesis using assms(2) unfolding serve_serves(1) server_inv_def by simp
next
  case serve_too_late
  show ?thesis using assms(2) unfolding serve_too_late(1) server_inv_def by simp
next
  case serve_fatal
  show ?thesis using assms(2) unfolding serve_fatal(1) server_inv_def by simp
next
  case serve_returns
  show ?thesis using assms(2) unfolding serve_returns(1) server_inv_def by simp
qed

lemma metrics_step_inv:
  assumes "metrics_step p p'" and "server_inv m p"
  shows "server_inv m p'"
  using assms(1)
proof cases
  case (metrics_creates addr)
  have "\<not> metrics_stopped p" using assms(2) metrics_creates(3) by (auto simp: server_inv_def)
  then show ?thesis using assms(2) metrics_creates by (simp add: server_inv_def)
next
  case metrics_serves
  then show ?thesis using assms(2) by (simp add: server_inv_def)
next
  case metrics_fatal
  then show ?thesis using assms(2) by (simp add: server_inv_def)
next
  case metrics_returns
  then show ?thesis using assms(2) by (elim disjE) (simp_all add: server_inv_def)
qed

lemma stop_grpc_inv:
  assumes "stop_grpc p = (r, p')" and "server_inv m p"
  shows "server_inv m p'"
proof (cases "server p")
  case None
  then show ?thesis using assms by (simp add: stop_grpc_def)
next
  case (Some svcs)
  then have "p' = p\<lparr>grpc_stopped := True\<rparr>" using assms(1) by (simp add: stop_grpc_def)
  then show ?thesis using assms(2) by (simp add: server_inv_def)
qed

lemma stop_grpc_stopped: "stop_grpc p = (Done (), p') \<Longrightarrow> grpc_stopped p'"
  by (auto simp: stop_grpc_def split: if_splits)

lemma shutdown_inv:
  assumes "andThen grpc_returns (\<lambda>_. stop_metrics) p = (r, p')" and "grpc_stopped p" and "server_inv m p"
  shows "server_inv m p' \<and> grpc_stopped p'"
proof (cases "metricsServer p")
  case None
  then have "p' = p\<lparr>grpc_drained := True\<rparr>" using assms(1) by (simp add: grpc_returns_def stop_metrics_def)
  then show ?thesis using assms(2,3) by (simp add: server_inv_def)
next
  case (Some a)
  then have "p' = p\<lparr>grpc_drained := True, metrics_stopped := True\<rparr>"
    using assms(1) by (simp add: grpc_returns_def stop_metrics_def)
  moreover have "created (metrics_goroutine p)" using assms(3) Some by (simp add: server_inv_def)
  ultimately show ?thesis using assms(2,3) by (simp add: server_inv_def)
qed

lemma at_stop_inv: "grpc_stopped p \<Longrightarrow> server_inv m p \<Longrightarrow> server_inv m (at_stop k c p)"
  by (simp add: at_stop_def server_inv_def)

lemma fatal_inv: "server_inv m p \<Longrightarrow> server_inv m (p\<lparr>fatal := True\<rparr>)"
  by (simp add: server_inv_def)

lemma in_stop_stopped: "server_inv m p \<Longrightarrow> stop_calls p k \<noteq> Not_called \<Longrightarrow> grpc_stopped p"
  unfolding server_inv_def by blast

lemma stop_step_inv:
  assumes "stop_step k p p'" and inv: "server_inv m p"
  shows "server_inv m p'"
  using assms(1)
proof cases
  case (stop_called q)
  then show ?thesis using inv at_stop_inv stop_grpc_inv stop_grpc_stopped by blast
next
  case (stop_panics q)
  then show ?thesis using inv fatal_inv stop_grpc_inv by blast
next
  case (stop_shuts_down q)
  then show ?thesis using inv shutdown_inv [OF stop_shuts_down(4)] at_stop_inv in_stop_stopped [OF inv, of k] by simp
next
  case (shutdown_panics q)
  then show ?thesis using inv shutdown_inv [OF shutdown_panics(4)] fatal_inv in_stop_stopped [OF inv, of k] by auto
next
  case stop_traces
  then show ?thesis using inv at_stop_inv in_stop_stopped [OF inv, of k] by simp
next
  case stop_returns
  then show ?thesis using inv at_stop_inv in_stop_stopped [OF inv, of k] by auto
next
  case (force_called q)
  then show ?thesis using inv at_stop_inv stop_grpc_inv stop_grpc_stopped by blast
next
  case (force_closes q)
  then show ?thesis using inv shutdown_inv [OF force_closes(4)] at_stop_inv in_stop_stopped [OF inv, of k] by simp
qed

lemma server_inv_step: "server_step p p' \<Longrightarrow> server_inv m p \<Longrightarrow> server_inv m p'"
  using serve_step_inv metrics_step_inv stop_step_inv unfolding server_step_def by blast

lemma server_inv_reach: "server_reach p0 p \<Longrightarrow> server_inv m p0 \<Longrightarrow> server_inv m p"
  by (induction rule: server_reach.induct) (auto intro: server_inv_step)

lemmas server_reach_inv = server_inv_reach [OF _ server_inv_started]

lemma serve_listen_result:
  assumes "fst (serve_listen parse remove isNotExist listen endpoint s) = Done (Inr (network, addr))"
  shows "\<exists>u. parse endpoint = Inr u \<and> network = Scheme u \<and>
    (network = ''unix'' \<and> addr = Path u \<or> network = ''tcp'' \<and> addr = Host u)"
  using assms
  by (auto simp: serve_listen_def call_def Let_def split: sum.splits if_splits option.splits prod.splits)

end
