(* ===== verification/Driver_Setup.thy ===== *)
theory Driver_Setup
  imports Controller_Server Node_Server Node_Metadata GRPC_Server
begin

text \<open>
  \<open>internal/driver/driver.go\<close>, \<open>identityserver.go\<close> and \<open>main.go\<close>: building the driver from its
  configuration, the identity service, and the start of the process.

  A \<open>LinodeDriver\<close> under construction is the record of its own fields together with the servers
  built so far. The servers hold the driver as it is when they are built: the fields they read
  (name, label prefix, capabilities) do not change afterwards; \<open>ready\<close>, which does, is read
  by the identity service from the driver itself. \<open>ds_otel\<close> are the package variables of
  \<open>observability\<close>, which setting up the driver changes when tracing is enabled.
\<close>

section \<open>GetLinodeDriver\<close>

record 'w DriverState =
  ds_driver :: LinodeDriver
  ds_ns :: "'w NodeServer option"
  ds_ids :: bool
  ds_cs :: "'w ControllerServer option"
  ds_otel :: Otel

definition GetLinodeDriver :: "'w DriverState" where
  "GetLinodeDriver =
    \<lparr>ds_driver =
       \<lparr>Drv_name = [], Drv_vendorVersion = [], Drv_volumeLabelPrefix = [],
        Drv_vcap = VolumeCapabilityAccessModes, Drv_cscap = ControllerServiceCapabilities,
        Drv_nscap = NodeServiceCapabilities, Drv_ready = False, Drv_enableMetrics = [],
        Drv_metricsPort = [], Drv_enableTracing = [], Drv_tracingPort = []\<rparr>,
     ds_ns = None, ds_ids = False, ds_cs = None, ds_otel = otel_init\<rparr>"

section \<open>SetupLinodeDriver\<close>

text \<open>The regular expression \<open>^[0-9A-Za-z_-]{0,12}$\<close>.\<close>

definition is_label_char :: "char \<Rightarrow> bool" where
  "is_label_char c \<longleftrightarrow>
     (let b = (of_char c :: nat) in
      48 \<le> b \<and> b \<le> 57 \<or> 65 \<le> b \<and> b \<le> 90 \<or> 97 \<le> b \<and> b \<le> 122 \<or> b = 95 \<or> b = 45)"

definition prefix_matched :: "string \<Rightarrow> bool" where
  "prefix_matched p \<longleftrightarrow> length p \<le> MaxVolumeLabelPrefixLength \<and> list_all is_label_char p"

definition NewIdentityServer :: "LinodeDriver option \<Rightarrow> error + LinodeDriver" where
  "NewIdentityServer linodeDriver =
     (case linodeDriver of
        None \<Rightarrow> Inl (GoError ''linodeDriver cannot be nil'' [])
      | Some d \<Rightarrow> Inr d)"

definition SetupLinodeDriver ::
  "'w DriverState \<Rightarrow> 'w LinodeClient option \<Rightarrow> 'w Mounter option \<Rightarrow> 'w DeviceUtils option \<Rightarrow> Metadata
     \<Rightarrow> string \<Rightarrow> string \<Rightarrow> string \<Rightarrow> 'w Encryption \<Rightarrow> string \<Rightarrow> string \<Rightarrow> string \<Rightarrow> string
     \<Rightarrow> error option \<times> 'w DriverState" where
  "SetupLinodeDriver st linodeClient mounter deviceUtils metadata name vendorVersion volumeLabelPrefix
     encrypt enableMetrics' metricsPort' enableTracing tracingPort =
     (if name = [] then (Some (GoError ''driver name missing'' []), st)
      else
        let st = st\<lparr>ds_driver := (ds_driver st)\<lparr>Drv_name := name, Drv_vendorVersion := vendorVersion\<rparr>\<rparr>
        in if MaxVolumeLabelPrefixLength < rune_count volumeLabelPrefix
           then (Some (GoError ''volume label prefix is too long: length=%d max=%d''
                   [ArgInt (int (rune_count volumeLabelPrefix)), ArgInt (int MaxVolumeLabelPrefixLength)]), st)
           else if \<not> prefix_matched volumeLabelPrefix
           then (Some (GoError ''volume label prefix may only contain: [A-Za-z0-9_-]'' []), st)
           else
             let st = st\<lparr>ds_driver := (ds_driver st)\<lparr>Drv_volumeLabelPrefix := volumeLabelPrefix\<rparr>\<rparr>
             in case NewNodeServer (Some (ds_driver st)) mounter deviceUtils linodeClient metadata encrypt of
                  Inl err \<Rightarrow> (Some (GoError ''new node server: %w'' [ArgWrap err]), st)
                | Inr ns \<Rightarrow>
                    let st = st\<lparr>ds_ns := Some ns\<rparr>
                    in case NewIdentityServer (Some (ds_driver st)) of
                         Inl err \<Rightarrow> (Some (GoError ''new identity server: %w'' [ArgWrap err]), st)
                       | Inr ids \<Rightarrow>
                           let st = st\<lparr>ds_ids := True\<rparr>
                           in case NewControllerServer (Some (ds_driver st)) linodeClient metadata of
                                Inl err \<Rightarrow> (Some (GoError ''new controller server: %w'' [ArgWrap err]), st)
                              | Inr cs \<Rightarrow>
                                  let st = st\<lparr>ds_cs := Some cs,
                                              ds_driver := (ds_driver st)\<lparr>Drv_enableMetrics := enableMetrics',
                                                Drv_metricsPort := metricsPort', Drv_enableTracing := enableTracing,
                                                Drv_tracingPort := tracingPort\<rparr>\<rparr>
                                  in (None,
                                      if enableTracing = True_str
                                      then st\<lparr>ds_otel := (InitTracer ''linode-csi-driver'' vendorVersion tracingPort (ds_otel st))
                                                 \<lparr>SkipObservability := False\<rparr>\<rparr>
                                      else st))"

section \<open>ValidateControllerServiceRequest\<close>

fun announces :: "ControllerRPC list \<Rightarrow> ControllerRPC \<Rightarrow> bool" where
  "announces [] rpcType = False"
| "announces (cap # caps) rpcType = (if rpcType = cap then True else announces caps rpcType)"

definition ValidateControllerServiceRequest :: "LinodeDriver \<Rightarrow> ControllerRPC \<Rightarrow> error option" where
  "ValidateControllerServiceRequest linodeDriver rpcType =
     (if rpcType = CRPC_UNKNOWN then None
      else if announces (Drv_cscap linodeDriver) rpcType then None
      else Some (Status InvalidArgument ''Invalid controller service request'' []))"

section \<open>Identity service\<close>

datatype PluginCapability =
    CONTROLLER_SERVICE
  | VOLUME_ACCESSIBILITY_CONSTRAINTS
  | VOLUME_EXPANSION_ONLINE
  | VOLUME_EXPANSION_OFFLINE

definition GetPluginInfo :: "LinodeDriver \<Rightarrow> error + (string \<times> string)" where
  "GetPluginInfo drv =
     (if Drv_name drv = [] then Inl (Status Unavailable ''Driver name not configured'' [])
      else Inr (Drv_name drv, Drv_vendorVersion drv))"

definition GetPluginCapabilities :: "PluginCapability list" where
  "GetPluginCapabilities = [CONTROLLER_SERVICE, VOLUME_ACCESSIBILITY_CONSTRAINTS, VOLUME_EXPANSION_ONLINE]"

definition Probe :: "LinodeDriver \<Rightarrow> bool" where
  "Probe drv = Drv_ready drv"

section \<open>Run\<close>

text \<open>The servers are passed as interface values that hold pointers: they are not nil, even when the
  pointer is.\<close>

definition Run :: "'w DriverState \<Rightarrow> 'w DriverState \<times> server_process" where
  "Run st =
     (let drv = (ds_driver st)\<lparr>Drv_ready := True\<rparr>
      in (st\<lparr>ds_driver := drv\<rparr>,
          Start True True True (SetMetricsConfig (Drv_enableMetrics drv) (Drv_metricsPort drv) NewNonBlockingGRPCServer)))"

section \<open>main.go\<close>

record configuration =
  csiEndpoint :: string
  linodeToken :: string
  linodeURL :: string
  volumeLabelPrefix :: string
  nodeName :: string
  cfg_enableMetrics :: string
  cfg_metricsPort :: string
  cfg_enableTracing :: string
  cfg_tracingPort :: string

text \<open>\<open>envflag\<close> reads a variable of the environment, with a default; \<open>apiHost\<close> is
  \<open>linodego.APIHost\<close>.\<close>

definition loadConfig :: "(string \<rightharpoonup> string) \<Rightarrow> string \<Rightarrow> configuration" where
  "loadConfig env apiHost =
     (let flag = (\<lambda>name dflt. case env name of None \<Rightarrow> dflt | Some v \<Rightarrow> v)
      in \<lparr>csiEndpoint = flag ''CSI_ENDPOINT'' ''unix:/tmp/csi.sock'',
          linodeToken = flag ''LINODE_TOKEN'' [],
          linodeURL = flag ''LINODE_URL'' apiHost,
          volumeLabelPrefix = flag ''LINODE_VOLUME_LABEL_PREFIX'' [],
          nodeName = flag ''NODE_NAME'' [],
          cfg_enableMetrics = flag ''ENABLE_METRICS'' [],
          cfg_metricsPort = flag ''METRICS_PORT'' ''8081'',
          cfg_enableTracing = flag ''OTEL_TRACING'' [],
          cfg_tracingPort = flag ''OTEL_TRACING_PORT'' ''4318''\<rparr>)"

text \<open>\<open>handle\<close>, up to the start of the server. \<open>None\<close> is a read of the ID file that never ends.\<close>

definition handle ::
  "string \<Rightarrow> configuration \<Rightarrow> (ClientSettings \<Rightarrow> 'w LinodeClient) \<Rightarrow> (string \<Rightarrow> error + URL)
     \<Rightarrow> ('w Executor \<Rightarrow> 'w Mounter) \<Rightarrow> 'w Executor \<Rightarrow> 'w OS \<Rightarrow> 'w CryptLib
     \<Rightarrow> ('w \<Rightarrow> ('w MetadataClient option \<times> error option) \<times> 'w) \<Rightarrow> (nat \<Rightarrow> nat)
     \<Rightarrow> ('w world, (error + ('w DriverState \<times> server_process)) option) prog" where
  "handle vendorVersion cfg mk parse mountNew execNew os cryptSetup NewMetadataClient room =
     (if vendorVersion = [] then ret (Some (Inl (GoError ''vendorVersion must be set at compile time'' [])))
      else if linodeToken cfg = [] then ret (Some (Inl (GoError ''linode token required'' [])))
      else
        case NewLinodeClient mk parse (linodeToken cfg) (''LinodeCSI/'' @ vendorVersion) (linodeURL cfg) of
          Inl err \<Rightarrow> ret (Some (Inl (GoError ''failed to set up linode client: %w'' [ArgWrap err])))
        | Inr cloudProvider \<Rightarrow>
            let mounter = NewSafeMounter mountNew execNew;
                fileSystem = NewFileSystem os;
                deviceUtils = NewDeviceUtils fileSystem (sfm_Exec mounter);
                encrypt = NewLuksEncryption (sfm_Exec mounter) fileSystem cryptSetup
            in andThen (GetNodeMetadata NewMetadataClient room (Some cloudProvider) fileSystem) (\<lambda>r.
               case r of
                 None \<Rightarrow> ret None
               | Some (Inl err) \<Rightarrow> ret (Some (Inl (GoError ''failed to get node metadata: %w'' [ArgWrap err])))
               | Some (Inr nodeMetadata) \<Rightarrow>
                   (case SetupLinodeDriver GetLinodeDriver (Some cloudProvider) (Some (sfm_Mounter mounter)) (Some deviceUtils)
                           nodeMetadata Name vendorVersion (volumeLabelPrefix cfg) encrypt
                           (cfg_enableMetrics cfg) (cfg_metricsPort cfg) (cfg_enableTracing cfg) (cfg_tracingPort cfg) of
                      (Some err, st) \<Rightarrow> ret (Some (Inl (GoError ''setup driver: %w'' [ArgWrap err])))
                    | (None, st) \<Rightarrow> ret (Some (Inr (Run st))))))"

text \<open>
  \<open>maxProcs\<close> and \<open>main\<close>. \<open>maxprocs.Set\<close> gives the function that undoes it. \<open>flag.Parse\<close> ends the process when the arguments are
  wrong or ask for help, with the code it gives. A process that serves ends with the code zero when \<open>Wait\<close> returns.
\<close>

definition maxProcs :: "('w \<Rightarrow> (('w \<Rightarrow> unit \<times> 'w) \<times> error option) \<times> 'w) \<Rightarrow> ('w world, unit) prog" where
  "maxProcs Set_maxprocs =
     andThen (call Set_maxprocs) (\<lambda>(undoMaxprocs, maxprocsError). with_defer (ret ()) (call undoMaxprocs))"

datatype 'w main_end = Exit nat | Serves "'w DriverState" server_process

definition main ::
  "('w \<Rightarrow> error option \<times> 'w) \<Rightarrow> ('w \<Rightarrow> nat option \<times> 'w) \<Rightarrow> ('w \<Rightarrow> (('w \<Rightarrow> unit \<times> 'w) \<times> error option) \<times> 'w)
     \<Rightarrow> ('w world, (error + ('w DriverState \<times> server_process)) option) prog \<Rightarrow> ('w world, 'w main_end option) prog" where
  "main setLogtostderr parseFlags Set_maxprocs handle' =
     andThen (call setLogtostderr) (\<lambda>err.
     case err of
       Some e \<Rightarrow> ret (Some (Exit 0))
     | None \<Rightarrow>
         andThen (call parseFlags) (\<lambda>code.
         case code of
           Some n \<Rightarrow> ret (Some (Exit n))
         | None \<Rightarrow>
             andThen (maxProcs Set_maxprocs) (\<lambda>_.
             andThen handle' (\<lambda>r.
             case r of
               None \<Rightarrow> ret None
             | Some (Inl e) \<Rightarrow> ret (Some (Exit 1))
             | Some (Inr (st, p)) \<Rightarrow> ret (Some (Serves st p))))))"

section \<open>Facts\<close>

lemma announces_iff: "announces caps t \<longleftrightarrow> t \<in> set caps"
  by (induction caps) auto

lemma label_char_ascii: "is_label_char c \<Longrightarrow> (of_char c :: nat) < 128"
  by (auto simp: is_label_char_def Let_def)

lemma prefix_matched_runes: "prefix_matched p \<Longrightarrow> rune_count p = length p"
  by (rule rune_count_ascii) (auto simp: prefix_matched_def list_all_iff label_char_ascii)

lemma label_char_plain: "is_label_char c \<Longrightarrow> json_plain c"
  by (auto simp: is_label_char_def json_plain_def Let_def)

text \<open>When setting up succeeds, and what it leaves behind.\<close>

lemma SetupLinodeDriver_ok:
  "fst (SetupLinodeDriver st cli mo du md nm ver p enc em mp et tp) = None \<longleftrightarrow>
     nm \<noteq> [] \<and> prefix_matched p \<and> mo \<noteq> None \<and> du \<noteq> None \<and> cli \<noteq> None"
  by (auto simp: SetupLinodeDriver_def NewNodeServer_def NewIdentityServer_def NewControllerServer_def Let_def
      prefix_matched_runes prefix_matched_def split: option.splits)

text \<open>Setting up never enables spans without a tracer.\<close>

lemma SetupLinodeDriver_tracer:
  assumes "SetupLinodeDriver GetLinodeDriver cli mo du md nm ver p enc em mp et tp = (r, st)"
  shows "SkipObservability (ds_otel st) \<or> Tracer (ds_otel st) \<noteq> None"
  using assms
  by (auto simp: SetupLinodeDriver_def GetLinodeDriver_def otel_init_def Let_def split: option.splits sum.splits if_splits)

lemma Run_started:
  "snd (Run st) = started True True True (Drv_enableMetrics (ds_driver st)) (Drv_metricsPort (ds_driver st))"
  by (simp add: Run_def started_def Let_def)

text \<open>What a driver that was set up and run consists of.\<close>

definition runs_with ::
  "'w LinodeClient \<Rightarrow> 'w Mounter \<Rightarrow> 'w DeviceUtils \<Rightarrow> 'w Encryption \<Rightarrow> string \<Rightarrow> 'w DriverState \<times> server_process \<Rightarrow> bool" where
  "runs_with cli mo du enc pre sp \<longleftrightarrow>
     (\<exists>cs ns. ds_cs (fst sp) = Some cs \<and> ds_ns (fst sp) = Some ns \<and> Probe (ds_driver (fst sp)) \<and>
        cs_client cs = cli \<and> ns_client ns = cli \<and> ns_mounter ns = mo \<and> ns_deviceutils ns = du \<and> ns_encrypt ns = enc \<and>
        cs_metadata cs = ns_metadata ns \<and> Meta_ID (ns_metadata ns) \<noteq> 0 \<and>
        Drv_volumeLabelPrefix (cs_driver cs) = pre \<and> prefix_matched pre \<and>
        snd sp = started True True True (Drv_enableMetrics (ds_driver (fst sp))) (Drv_metricsPort (ds_driver (fst sp))))"

lemma SetupLinodeDriver_runs:
  assumes "SetupLinodeDriver GetLinodeDriver (Some cli) (Some mo) (Some du) md nm ver p enc em mp et tp = (None, st)"
    and "Meta_ID md \<noteq> 0"
  shows "runs_with cli mo du enc p (Run st)"
proof -
  have "prefix_matched p" using SetupLinodeDriver_ok [of GetLinodeDriver "Some cli"] assms(1) by (metis fst_conv)
  moreover have "\<exists>cs ns. ds_cs st = Some cs \<and> ds_ns st = Some ns \<and>
        cs_client cs = cli \<and> ns_client ns = cli \<and> ns_mounter ns = mo \<and> ns_deviceutils ns = du \<and> ns_encrypt ns = enc \<and>
        cs_metadata cs = md \<and> ns_metadata ns = md \<and> Drv_volumeLabelPrefix (cs_driver cs) = p"
    using assms(1) by (auto simp: SetupLinodeDriver_def NewNodeServer_def NewIdentityServer_def NewControllerServer_def
        Let_def split: if_splits)
  ultimately show ?thesis
    using assms(2) by (auto simp: runs_with_def Run_started) (simp_all add: Run_def Probe_def Let_def)
qed

lemma handle_yields:
  assumes fs: "progressing (NewFileSystem os)" "reads_at_most (NewFileSystem os)" "\<And>k. 0 < room k"
    and inst: "\<And>set i. returns_value (GetInstance_api (mk set) i)"
    and service: "\<And>c e w w'. newc w = ((Some c, e), w') \<Longrightarrow> returns_value c"
  shows "yields (\<lambda>r. \<exists>a. r = Some a \<and> (\<forall>sp. a = Inr sp \<longrightarrow> ver \<noteq> [] \<and> linodeToken cfg \<noteq> [] \<and>
      (\<exists>cli. NewLinodeClient mk parse (linodeToken cfg) (''LinodeCSI/'' @ ver) (linodeURL cfg) = Inr cli \<and>
         runs_with cli (mo ex) (NewDeviceUtils (NewFileSystem os) ex) (NewLuksEncryption ex (NewFileSystem os) cr) (volumeLabelPrefix cfg) sp)))
    (handle ver cfg mk parse mo ex os cr newc room)" (is "yields ?Q _")
proof (cases "ver = [] \<or> linodeToken cfg = []")
  case True
  then show ?thesis unfolding handle_def NewSafeMounter_def by (auto intro!: yields_if yields_ret)
next
  case False
  show ?thesis
  proof (cases "NewLinodeClient mk parse (linodeToken cfg) (''LinodeCSI/'' @ ver) (linodeURL cfg)")
    case (Inl e)
    with False show ?thesis unfolding handle_def NewSafeMounter_def by (simp add: yields_ret del: prog_eqs)
  next
    case (Inr cli)
    then obtain set where cli: "cli = mk set"
      by (auto simp: NewLinodeClient_def Let_def split: if_splits sum.splits)
    have metadata: "yields (\<lambda>r. \<exists>a. r = Some a \<and> (\<forall>md. a = Inr md \<longrightarrow> Meta_ID md \<noteq> 0)) (GetNodeMetadata newc room (Some cli) (NewFileSystem os))"
      by (rule GetNodeMetadata_yields [OF fs _ service]) (auto simp: cli inst)
    let ?set_up = "\<lambda>md. SetupLinodeDriver GetLinodeDriver (Some cli) (Some (mo ex)) (Some (NewDeviceUtils (NewFileSystem os) ex)) md Name ver
       (volumeLabelPrefix cfg) (NewLuksEncryption ex (NewFileSystem os) cr) (cfg_enableMetrics cfg) (cfg_metricsPort cfg)
       (cfg_enableTracing cfg) (cfg_tracingPort cfg)"
    have run: "yields ?Q (case ?set_up md of
          (Some err, st) \<Rightarrow> ret (Some (Inl (GoError ''setup driver: %w'' [ArgWrap err])))
        | (None, st) \<Rightarrow> ret (Some (Inr (Run st))))" if md: "Meta_ID md \<noteq> 0" for md
    proof -
      obtain r st where built: "?set_up md = (r, st)" by fastforce
      show ?thesis
      proof (cases r)
        case None
        have "runs_with cli (mo ex) (NewDeviceUtils (NewFileSystem os) ex) (NewLuksEncryption ex (NewFileSystem os) cr) (volumeLabelPrefix cfg) (Run st)"
          using SetupLinodeDriver_runs [OF built [unfolded None] md] .
        with False Inr show ?thesis unfolding built None prod.case option.case by (intro yields_ret) fastforce
      next
        case (Some e)
        show ?thesis unfolding built Some prod.case option.case by (rule yields_ret) simp
      qed
    qed
    define Q where "Q = ?Q"
    have fails: "Q (Some (Inl e))" for e by (simp add: Q_def)
    have "yields Q (handle ver cfg mk parse mo ex os cr newc room)"
      unfolding handle_def NewSafeMounter_def SafeFormatAndMount.simps Inr Let_def sum.case
      using False run [folded Q_def] fails
      by (auto intro!: yields_andThen yields_conseq [OF metadata] yields_ret split: sum.splits simp del: prog_eqs)
    then show ?thesis by (simp only: Q_def)
  qed
qed

text \<open>
  \<open>undoMaxprocs\<close> resets the number of processors, as documented; it runs at the end of \<open>maxProcs\<close>, so the setting is gone
  before \<open>handle\<close> starts.
\<close>

lemma maxProcs_undone:
  assumes "\<And>w. procs (snd (fst (fst (setProcs w)) (snd (setProcs w)))) = procs w"
  shows "\<exists>s'. maxProcs setProcs s = (Done (), s') \<and> procs (Ext s') = procs (Ext s)"
  using assms [of "Ext s"] by (simp add: maxProcs_def call_def with_defer_def split_beta)

lemma yields_maxProcs: "yields (\<lambda>_. True) (maxProcs setProcs)"
  by (simp add: yields_def maxProcs_def call_def with_defer_def split_beta)

lemma main_exits:
  "fst (setLog (Ext s)) \<noteq> None \<Longrightarrow> main setLog parseFlags setProcs h s = (Done (Some r), s') \<Longrightarrow> r = Exit 0"
  by (auto simp: main_def call_def split_beta)

lemma main_yields:
  assumes "yields (\<lambda>r. \<exists>a. r = Some a \<and> (\<forall>sp. a = Inr sp \<longrightarrow> P sp)) h"
  shows "yields (\<lambda>r. \<exists>a. r = Some a \<and> (\<forall>st p. a = Serves st p \<longrightarrow> P (st, p))) (main setLog parseFlags setProcs h)"
  unfolding main_def
  by (auto intro!: yields_andThen yields_call yields_ret yields_conseq [OF yields_maxProcs] yields_conseq [OF assms]
      split: option.splits sum.splits simp del: prog_eqs)

end
