(* ===== verification/Lifecycle.thy ===== *)
theory Lifecycle
  imports Mount_Properties Account_Properties Driver_Setup
begin

text \<open>
  The life of a volume through both services: create, attach, stage and publish, and everything taken back in the opposite
  order. The controller and the node run on worlds of their own, an account and a host; what one leaves to the other goes through the
  orchestrator, which passes on the ID and the context of the created volume and the context of its publication.
\<close>

section \<open>On the controller\<close>

lemmas create_table = effect_run [OF CreateVolume_effect tracked_CreateVolume erase_CreateVolume]

lemma CreateVolume_context:
  assumes "CreateVolume cs req s = (Done (Inr resp), s')"
  shows "\<exists>vol. CV_VolumeContext resp = createVolumeContext req vol"
  using emits_run [OF CreateVolume_response erase_CreateVolume, of cs req s] assms by fastforce

text \<open>A volume created under a new label: the account has it in addition, attached to nothing.\<close>

lemma created_new:
  assumes "create_spec label req st (Done (Inr resp)) st'" and "\<forall>i vol. st i = Some vol \<longrightarrow> Vol_Label vol \<noteq> label"
  obtains v vol where "st v = None" and "st' = st(v \<mapsto> vol)" and "Vol_Label vol = label" and "Vol_LinodeID vol = None"
    and "CV_VolumeId resp = GetVolumeKey (CreateLinodeVolumeKey v label)"
proof -
  from assms(1) obtain i x where x: "st' i = Some x" "Vol_Label x = label" "CV_VolumeId resp = GetVolumeKey (CreateLinodeVolumeKey i label)"
    by (auto simp: create_spec_def)
  with assms(2) have "st' \<noteq> st" by auto
  with assms(1) obtain vol where "creates label st vol st'" by (auto simp: create_spec_def)
  then have vol: "st (Vol_ID vol) = None" "st' = st(Vol_ID vol \<mapsto> settle vol)" "Vol_Label vol = label" "Vol_LinodeID vol = None"
    by (simp_all add: creates_def)
  moreover from x vol(2) assms(2) have "i = Vol_ID vol" by (auto split: if_splits)
  ultimately show ?thesis using x(3) that [of "Vol_ID vol" "settle vol"] by simp
qed

lemma attach_detach:
  assumes "st v = Some vol" and "Vol_LinodeID vol = None"
  shows "detach_volume v (attach_volume v l st) = st"
  using assms by (auto simp: detach_volume_def attach_volume_def change_volume_def fun_eq_iff intro: Volume.equality)

lemma publish_validated:
  assumes "ControllerPublishVolume cs req s = (Done (Inr ctx), s')" and "NodeIdAsInt ''ControllerPublishVolume'' (CPR_NodeId req) = Inr l"
    and "VolumeIdAsInt ''ControllerPublishVolume'' (CPR_VolumeId req) = Inr v"
  shows "validateControllerPublishVolumeRequest req = Inr (l, v)"
proof (cases "validateControllerPublishVolumeRequest req")
  case (Inl e)
  with assms(1) show ?thesis by (simp add: ControllerPublishVolume_def record_return_run)
next
  case (Inr x)
  with assms(2,3) show ?thesis by (auto simp: validateControllerPublishVolumeRequest_def split: option.splits if_splits)
qed

text \<open>Attaching a new volume, detaching it and deleting it leaves the account as it was.\<close>

lemma controller_life:
  assumes pub: "publish_spec hw v l st1 (Inr pctx) st2" and unpub: "unpublish_spec v l st2 (Inr ()) st3" and del: "delete_spec v st3 (Inr ()) st4"
    and new: "st0 v = None" "st1 = st0(v \<mapsto> vol)" "Vol_LinodeID vol = None"
  shows "st2 = attach_volume v l st1" and "pctx = [devicePathKey \<mapsto> Vol_FilesystemPath vol]" and "st3 = st1" and "st4 = st0"
proof -
  show st2: "st2 = attach_volume v l st1" and "pctx = [devicePathKey \<mapsto> Vol_FilesystemPath vol]"
    using pub new(2) by (auto simp: publish_spec_def Let_def)
  have "st3 = detach_volume v st2"
    using unpub new(2) by (auto simp: unpublish_spec_def Let_def st2 attach_volume_def change_volume_def)
  then show st3: "st3 = st1" using attach_detach [of st1 v vol l] new(2,3) st2 by simp
  show "st4 = st0" using del st3 new(1,2) by (auto simp: delete_spec_def Let_def)
qed

section \<open>On the node\<close>

lemma node_life:
  assumes stage: "node_stage_spec sreq t0 (Done (Inr ())) t1" and pub: "node_publish_spec preq t1 (Inr ()) t2"
    and unpub: "node_unpublish_spec upreq t2 (Inr ()) t3" and unstage: "node_unstage_spec found ureq t3 (Inr ()) t4"
    and free: "mounts t0 (NSR_StagingTargetPath sreq) = []" "mounts t0 (NPR_TargetPath preq) = []"
    and paths: "NPR_StagingTargetPath preq = NSR_StagingTargetPath sreq" "NUP_TargetPath upreq = NPR_TargetPath preq"
      "NUR_StagingTargetPath ureq = NSR_StagingTargetPath sreq" "NPR_TargetPath preq \<noteq> NSR_StagingTargetPath sreq"
    and caps: "\<not> cap_block (NSR_VolumeCapability sreq)" "\<not> cap_block (NPR_VolumeCapability preq)"
  shows "(\<exists>dev \<in> set (stage_devices sreq). mounts t1 (NSR_StagingTargetPath sreq) = [mount_source sreq dev])"
    and "mounts t2 (NPR_TargetPath preq) = [NSR_StagingTargetPath sreq]"
    and "mounts t4 = mounts t0"
proof -
  from stage free(1) caps(1) obtain dev where dev: "dev \<in> set (stage_devices sreq)"
    "mounts t1 = (mounts t0)(NSR_StagingTargetPath sreq := [mount_source sreq dev])"
    by (auto simp: node_stage_spec_def push_mount_def)
  then show "\<exists>dev \<in> set (stage_devices sreq). mounts t1 (NSR_StagingTargetPath sreq) = [mount_source sreq dev]" by auto
  have t2: "mounts t2 = (mounts t1)(NPR_TargetPath preq := [NSR_StagingTargetPath sreq])"
    using pub dev(2) free(2) paths caps(2) by (auto simp: node_publish_spec_def push_mount_def publish_source_def)
  then show "mounts t2 (NPR_TargetPath preq) = [NSR_StagingTargetPath sreq]" by simp
  have "mounts t3 = (mounts t2)(NPR_TargetPath preq := [])"
    using unpub paths by (auto simp: node_unpublish_spec_def dest: cleaned_mounts)
  moreover have "mounts t4 = (mounts t3)(NSR_StagingTargetPath sreq := [])"
    using unstage paths by (auto simp: node_unstage_spec_def dest: cleaned_mounts split: if_splits)
  ultimately show "mounts t4 = mounts t0"
    using dev(2) t2 free paths(4) by (auto simp: fun_eq_iff)
qed

section \<open>The runs\<close>

lemma controller_runs:
  assumes client: "account_client hw I acc (cs_client cs)" "I (Ext s0)"
    and ids: "\<forall>i. acc (Ext s1) i \<noteq> None \<longrightarrow> 0 \<le> i \<and> is_int64 i" and l: "is_int64 l"
    and label: "list_all json_plain (created_label cs creq)" "\<forall>i vol. acc (Ext s0) i = Some vol \<longrightarrow> Vol_Label vol \<noteq> created_label cs creq"
    and create: "CreateVolume cs creq s0 = (Done (Inr resp), s1)"
    and publish: "ControllerPublishVolume cs \<lparr>CPR_VolumeId = CV_VolumeId resp, CPR_NodeId = Itoa l, CPR_VolumeCapability = cap\<rparr> s1
       = (Done (Inr pctx), s2)"
    and unpublish: "ControllerUnpublishVolume cs \<lparr>CUR_VolumeId = CV_VolumeId resp, CUR_NodeId = Itoa l\<rparr> s2 = (Done (Inr ()), s3)"
    and delete: "DeleteVolume cs \<lparr>DVR_VolumeId = CV_VolumeId resp\<rparr> s3 = (Done (Inr ()), s4)"
  obtains v vol where "acc (Ext s1) = (acc (Ext s0))(v \<mapsto> vol)" and "Vol_Label vol = created_label cs creq"
    and "CV_VolumeId resp = GetVolumeKey (CreateLinodeVolumeKey v (created_label cs creq))" and "0 \<le> v" and "is_int64 v"
    and "acc (Ext s2) = attach_volume v l (acc (Ext s1))" and "pctx = [devicePathKey \<mapsto> Vol_FilesystemPath vol]"
    and "acc (Ext s3) = acc (Ext s1)" and "acc (Ext s4) = acc (Ext s0)"
proof -
  let ?label = "created_label cs creq"
  note nf = account_client_calls(1) [OF client(1)]
  have s1: "I (Ext s1)" "create_spec ?label creq (acc (Ext s0)) (Done (Inr resp)) (acc (Ext s1))"
    using create_table [OF label(1) client] create by simp_all
  from created_new [OF s1(2) label(2)] obtain v vol where v: "acc (Ext s0) v = None" "acc (Ext s1) = (acc (Ext s0))(v \<mapsto> vol)"
      "Vol_Label vol = ?label" "Vol_LinodeID vol = None" "CV_VolumeId resp = GetVolumeKey (CreateLinodeVolumeKey v ?label)" .
  have id: "0 \<le> v" "is_int64 v" using ids v(2) by fastforce+
  then have key: "VolumeIdAsInt c (CV_VolumeId resp) = Inr v" for c
    using VolumeIdAsInt_key [of "CreateLinodeVolumeKey v ?label" c] by (simp add: v(5) valid_key_def CreateLinodeVolumeKey_def)
  have node: "NodeIdAsInt c (Itoa l) = Inr l" for c using l by (rule NodeIdAsInt_Itoa)
  have "validateControllerPublishVolumeRequest \<lparr>CPR_VolumeId = CV_VolumeId resp, CPR_NodeId = Itoa l, CPR_VolumeCapability = cap\<rparr> = Inr (l, v)"
    by (rule publish_validated [OF publish]) (simp_all add: key node)
  from effect_run [OF ControllerPublishVolume_effect [OF this nf] tracked_ControllerPublishVolume [OF client(1)]
        erase_ControllerPublishVolume s1(1)]
  have s2: "I (Ext s2)" "publish_spec hw v l (acc (Ext s1)) (Inr pctx) (acc (Ext s2))" using publish by simp_all
  from effect_run [OF ControllerUnpublishVolume_effect [OF _ _ nf] tracked_ControllerUnpublishVolume [OF client(1)]
        erase_ControllerUnpublishVolume s2(1), of "\<lparr>CUR_VolumeId = CV_VolumeId resp, CUR_NodeId = Itoa l\<rparr>" v l]
  have s3: "I (Ext s3)" "unpublish_spec v l (acc (Ext s2)) (Inr ()) (acc (Ext s3))" using unpublish by (simp_all add: key node)
  from effect_run [OF DeleteVolume_effect [OF _ nf] tracked_DeleteVolume [OF client(1)] erase_DeleteVolume s3(1),
        of "\<lparr>DVR_VolumeId = CV_VolumeId resp\<rparr>" v]
  have s4: "delete_spec v (acc (Ext s3)) (Inr ()) (acc (Ext s4))" using delete by (simp add: key)
  show ?thesis using controller_life [OF s2(2) s3(2) s4 v(1,2,4)] v id by (rule_tac that) simp_all
qed

lemma node_runs:
  assumes host: "table_host J tab h" "J (Ext t0)"
    and paths: "mounts (tab (Ext t0)) (NSR_StagingTargetPath sreq) = []" "mounts (tab (Ext t0)) (NPR_TargetPath preq) = []"
      "NPR_StagingTargetPath preq = NSR_StagingTargetPath sreq" "NUP_TargetPath upreq = NPR_TargetPath preq"
      "NUR_StagingTargetPath ureq = NSR_StagingTargetPath sreq" "NPR_TargetPath preq \<noteq> NSR_StagingTargetPath sreq"
    and caps: "\<not> cap_block (NSR_VolumeCapability sreq)" "\<not> cap_block (NPR_VolumeCapability preq)"
    and stage: "NodeStageVolume (node_of drv md h) (h_fs h) sreq t0 = (Done (Inr ()), t1)"
    and publish: "NodePublishVolume (node_of drv md h) (h_fs h) preq t1 = (Done (Inr ()), t2)"
    and unpublish: "NodeUnpublishVolume (node_of drv md h) upreq t2 = (Done (Inr ()), t3)"
    and unstage: "NodeUnstageVolume (node_of drv md h) ureq t3 = (Done (Inr ()), t4)"
  shows "\<exists>dev \<in> set (stage_devices sreq). mounts (tab (Ext t1)) (NSR_StagingTargetPath sreq) = [mount_source sreq dev]"
    and "mounts (tab (Ext t2)) (NPR_TargetPath preq) = [NSR_StagingTargetPath sreq]"
    and "mounts (tab (Ext t4)) = mounts (tab (Ext t0))"
proof -
  have t1: "J (Ext t1)" "node_stage_spec sreq (tab (Ext t0)) (Done (Inr ())) (tab (Ext t1))"
    using stage_table [OF host, of drv md sreq] stage by simp_all
  have t2: "J (Ext t2)" "node_publish_spec preq (tab (Ext t1)) (Inr ()) (tab (Ext t2))"
    using publish_table [OF host(1) t1(1), of drv md preq] publish by simp_all
  have t3: "J (Ext t3)" "node_unpublish_spec upreq (tab (Ext t2)) (Inr ()) (tab (Ext t3))"
    using unpublish_table [OF host(1) t2(1), of drv md upreq] unpublish by simp_all
  have t4: "node_unstage_spec (mapper_found (calls_of (NodeUnstageVolume (node_of drv md (traced_host h)) ureq) t3)) ureq
      (tab (Ext t3)) (Inr ()) (tab (Ext t4))"
    using unstage_table [OF host(1) t3(1), of drv md ureq] unstage by simp
  note node_life [OF t1(2) t2(2) t3(2) t4 paths caps]
  then show "\<exists>dev \<in> set (stage_devices sreq). mounts (tab (Ext t1)) (NSR_StagingTargetPath sreq) = [mount_source sreq dev]"
    "mounts (tab (Ext t2)) (NPR_TargetPath preq) = [NSR_StagingTargetPath sreq]"
    "mounts (tab (Ext t4)) = mounts (tab (Ext t0))" by blast+
qed

section \<open>A life on the sample cloud and host\<close>

text \<open>A controller that starts with an empty account, and a node with the device of the volume it will create.\<close>

definition new_cloud :: "Volume list \<Rightarrow> int \<Rightarrow> cloud" where
  "new_cloud vols n = \<lparr>cl_volumes = vols, cl_instances = [sample_instance], cl_next = n\<rparr>"

definition mount_cap :: VolumeCapability where
  "mount_cap = \<lparr>Cap_AccessType = AT_Mount \<lparr>FsType = [], MountFlags = []\<rparr>, Cap_AccessMode = Some SINGLE_NODE_WRITER\<rparr>"

definition life_create :: CreateVolumeRequest where
  "life_create = (sample_create ''pvc1'')\<lparr>CVR_VolumeCapabilities := [Some mount_cap]\<rparr>"

definition life_volume :: CSIVolume where
  "life_volume = \<lparr>CV_VolumeId = ''42-csipvc1'', CV_CapacityBytes = MinVolumeSizeBytes,
     CV_AccessibleTopology = [[VolumeTopologyRegion \<mapsto> ''us-east'']],
     CV_VolumeContext = [VolumeTopologyRegion \<mapsto> ''us-east''], CV_ContentSource = None\<rparr>"

lemmas life_defs = plain_run new_cloud_def mount_cap_def life_create_def life_volume_def cloud_defs
  sample_cs_def sample_driver_def sample_volume_def sample_instance_def

lemma runs: "fst m = r \<Longrightarrow> \<exists>s'. m = (r, s')"
  by (metis prod.collapse)

lemma runs_to: "fst m = r \<Longrightarrow> Ext (snd m) = w \<Longrightarrow> \<exists>s'. m = (r, s') \<and> Ext s' = w"
  by (metis prod.collapse)

lemma life_creates:
  assumes "Ext s = new_cloud [] 42"
  shows "\<exists>s'. CreateVolume sample_cs life_create s = (Done (Inr life_volume), s') \<and> Ext s' = new_cloud [sample_volume] 43"
  using assms by (intro runs_to) (simp_all add: life_defs create_run_defs sample_create_def prepareCreateVolumeResponse_def
      createVolumeContext_def GetVolumeKey_def GetNormalizedLabel_take sample_itoa Let_def)

abbreviation life_attached :: Volume where
  "life_attached \<equiv> sample_volume\<lparr>Vol_LinodeID := Some 9\<rparr>"

lemma life_publishes:
  assumes "Ext s = new_cloud [sample_volume] 43"
  shows "\<exists>s'. ControllerPublishVolume sample_cs
      \<lparr>CPR_VolumeId = ''42-csipvc1'', CPR_NodeId = ''9'', CPR_VolumeCapability = Some mount_cap\<rparr> s
    = (Done (Inr [devicePathKey \<mapsto> Vol_FilesystemPath sample_volume]), s') \<and> Ext s' = new_cloud [life_attached] 43"
  using assms by (intro runs_to) (simp_all add: life_defs publish_run_defs Let_def)

lemma life_unpublishes:
  assumes "Ext s = new_cloud [life_attached] 43"
  shows "\<exists>s'. ControllerUnpublishVolume sample_cs \<lparr>CUR_VolumeId = ''42-csipvc1'', CUR_NodeId = ''9''\<rparr> s = (Done (Inr ()), s') \<and>
    Ext s' = new_cloud [sample_volume] 43"
  using assms by (intro runs_to) (simp_all add: life_defs ControllerUnpublishVolume_def timeouts Let_def)

lemma life_deletes:
  assumes "Ext s = new_cloud [sample_volume] 43"
  shows "\<exists>s'. DeleteVolume sample_cs \<lparr>DVR_VolumeId = ''42-csipvc1''\<rparr> s = (Done (Inr ()), s')"
  using assms by (intro runs) (simp add: life_defs DeleteVolume_def)

definition life_box :: "(string \<times> string) list \<Rightarrow> box" where
  "life_box ms = (Ext box_state)\<lparr>mounted := ms\<rparr>"

abbreviation life_device :: string where
  "life_device \<equiv> ''/dev/disk/by-id/scsi-0Linode_Volume_csipvc1''"

abbreviation life_node :: "box NodeServer" where
  "life_node \<equiv> node_of sample_driver sample_metadata box_host"

lemma life_context [simp]:
  "CV_VolumeContext life_volume ''partition'' = None" "mget (CV_VolumeContext life_volume) key = (if key = VolumeTopologyRegion then ''us-east'' else [])"
  by (simp_all add: life_volume_def attribute_key_defs VolumeTopologyRegion_def mget_def)

lemma life_luks: "EncryptionEnabled (getLuksContext secrets (CV_VolumeContext life_volume) l) = False"
  by (simp add: getLuksContext_def True_str_def)

lemma life_stages:
  assumes "Ext s = life_box []"
  shows "\<exists>s'. NodeStageVolume life_node (h_fs box_host) \<lparr>NSR_VolumeId = ''42-csipvc1'', NSR_StagingTargetPath = ''/stage'',
      NSR_VolumeCapability = Some mount_cap, NSR_Secrets = Map.empty, NSR_VolumeContext = CV_VolumeContext life_volume\<rparr> s = (Done (Inr ()), s')
    \<and> Ext s' = life_box [(''/stage'', life_device)]"
  using assms by (intro runs_to) (simp_all add: stage_run plain_run mount_cap_def life_luks life_box_def Let_def)

lemma life_node_publishes:
  assumes "Ext s = life_box [(''/stage'', life_device)]"
  shows "\<exists>s'. NodePublishVolume life_node (h_fs box_host) \<lparr>NPR_VolumeId = ''42-csipvc1'', NPR_StagingTargetPath = ''/stage'',
      NPR_TargetPath = ''/pods/t'', NPR_VolumeCapability = Some mount_cap, NPR_Readonly = False, NPR_PublishContext = pctx\<rparr> s = (Done (Inr ()), s')
    \<and> Ext s' = life_box [(''/pods/t'', ''/stage''), (''/stage'', life_device)]"
  using assms by (intro runs_to) (simp_all add: publish_run plain_run mount_cap_def life_box_def Let_def)

lemma life_node_unpublishes:
  "\<exists>s'. NodeUnpublishVolume life_node \<lparr>NUP_VolumeId = ''42-csipvc1'', NUP_TargetPath = ''/pods/t''\<rparr> s = (Done (Inr ()), s')"
  by (intro runs) (simp add: NodeUnpublishVolume_def validateNodeUnpublishVolumeRequest_def plain_run box_defs Let_def)

lemma life_unstages:
  "\<exists>s'. NodeUnstageVolume life_node \<lparr>NUR_VolumeId = ''42-csipvc1'', NUR_StagingTargetPath = ''/stage''\<rparr> s = (Done (Inr ()), s')"
  by (intro runs) (simp add: unstage_run plain_run Let_def)

lemma life_id: "CV_VolumeId life_volume = ''42-csipvc1''"
  by (simp add: life_volume_def)

lemma life_label: "list_all is_label_char (created_label sample_cs life_create)"
  by (simp add: created_label_def life_create_def sample_create_def sample_cs_def sample_driver_def
      GetNormalizedLabelWithPrefix_take CreateLinodeVolumeKey_def is_label_char_def)

section \<open>The two together\<close>

lemma created_label_short: "length (created_label cs req) \<le> 32"
  by (simp add: created_label_def GetNormalizedLabelWithPrefix_take)

lemma context_partition: "createVolumeContext req vol ''partition'' = None"
  by (simp add: createVolumeContext_def Let_def attribute_key_defs)

text \<open>
  C3. The life of a volume through both services. Take a Linode API and a host that do what they document, a label that no
  volume of the account has, a volume to be mounted, and two paths where nothing is mounted. If the eight RPCs of a full life succeed, with the
  ID and the context of the created volume and the context of its publication passed on, then: creating adds one volume with
  the label to the account; publishing attaches this volume to the node and nothing else; staging mounts, at the staging path, a device
  link with the label of this volume or, if it is encrypted, the mapper device with the name of the request; publishing on the node
  mounts the staging path at the target. Afterwards the mounts of the host and the account are as they were before.
\<close>

theorem volume_lifecycle:
  assumes client: "account_client hw I acc (cs_client cs)" "I (Ext s0)"
    and host: "table_host J tab h" "J (Ext t0)"
    and ids: "\<forall>i. acc (Ext s1) i \<noteq> None \<longrightarrow> 0 \<le> i \<and> is_int64 i" and l: "is_int64 l"
    and label: "list_all is_label_char (created_label cs creq)"
      "\<forall>i vol. acc (Ext s0) i = Some vol \<longrightarrow> Vol_Label vol \<noteq> created_label cs creq"
    and paths: "mounts (tab (Ext t0)) staging = []" "mounts (tab (Ext t0)) target = []" "target \<noteq> staging" and cap: "\<not> GetBlock cap"
    and create: "CreateVolume cs creq s0 = (Done (Inr resp), s1)"
    and publish: "ControllerPublishVolume cs \<lparr>CPR_VolumeId = CV_VolumeId resp, CPR_NodeId = Itoa l, CPR_VolumeCapability = Some cap\<rparr> s1
       = (Done (Inr pctx), s2)"
    and stage: "NodeStageVolume (node_of drv md h) (h_fs h) \<lparr>NSR_VolumeId = CV_VolumeId resp, NSR_StagingTargetPath = staging,
       NSR_VolumeCapability = Some cap, NSR_Secrets = secrets, NSR_VolumeContext = CV_VolumeContext resp\<rparr> t0 = (Done (Inr ()), t1)"
    and node_publish: "NodePublishVolume (node_of drv md h) (h_fs h) \<lparr>NPR_VolumeId = CV_VolumeId resp, NPR_StagingTargetPath = staging,
       NPR_TargetPath = target, NPR_VolumeCapability = Some cap, NPR_Readonly = ro, NPR_PublishContext = pctx\<rparr> t1 = (Done (Inr ()), t2)"
    and node_unpublish: "NodeUnpublishVolume (node_of drv md h) \<lparr>NUP_VolumeId = CV_VolumeId resp, NUP_TargetPath = target\<rparr> t2 = (Done (Inr ()), t3)"
    and unstage: "NodeUnstageVolume (node_of drv md h) \<lparr>NUR_VolumeId = CV_VolumeId resp, NUR_StagingTargetPath = staging\<rparr> t3 = (Done (Inr ()), t4)"
    and unpublish: "ControllerUnpublishVolume cs \<lparr>CUR_VolumeId = CV_VolumeId resp, CUR_NodeId = Itoa l\<rparr> s2 = (Done (Inr ()), s3)"
    and delete: "DeleteVolume cs \<lparr>DVR_VolumeId = CV_VolumeId resp\<rparr> s3 = (Done (Inr ()), s4)"
  shows "\<exists>v vol. acc (Ext s1) = (acc (Ext s0))(v \<mapsto> vol) \<and> Vol_Label vol = created_label cs creq \<and>
    acc (Ext s2) = attach_volume v l (acc (Ext s1)) \<and> pctx = [devicePathKey \<mapsto> Vol_FilesystemPath vol] \<and>
    mounts (tab (Ext t1)) staging \<in>
      (if mget (CVR_Parameters creq) LuksEncryptedAttribute = True_str then {[''/dev/mapper/'' @ CVR_Name creq]}
       else {[''/dev/disk/by-id/linode-'' @ created_label cs creq], [''/dev/disk/by-id/scsi-0Linode_Volume_'' @ created_label cs creq]}) \<and>
    mounts (tab (Ext t2)) target = [staging] \<and>
    mounts (tab (Ext t4)) = mounts (tab (Ext t0)) \<and> acc (Ext s3) = acc (Ext s1) \<and> acc (Ext s4) = acc (Ext s0)"
proof -
  let ?label = "created_label cs creq"
  have plain: "list_all json_plain ?label" using label(1) by (auto simp: list_all_iff label_char_plain)
  from controller_runs [OF client ids l plain label(2) create publish unpublish delete] obtain v vol
    where v: "acc (Ext s1) = (acc (Ext s0))(v \<mapsto> vol)" "Vol_Label vol = ?label"
      "CV_VolumeId resp = GetVolumeKey (CreateLinodeVolumeKey v ?label)" "0 \<le> v" "is_int64 v"
      "acc (Ext s2) = attach_volume v l (acc (Ext s1))" "pctx = [devicePathKey \<mapsto> Vol_FilesystemPath vol]"
      "acc (Ext s3) = acc (Ext s1)" "acc (Ext s4) = acc (Ext s0)" .
  let ?sreq = "\<lparr>NSR_VolumeId = CV_VolumeId resp, NSR_StagingTargetPath = staging,
       NSR_VolumeCapability = Some cap, NSR_Secrets = secrets, NSR_VolumeContext = CV_VolumeContext resp\<rparr>"
  have mounted: "\<exists>dev \<in> set (stage_devices ?sreq). mounts (tab (Ext t1)) staging = [mount_source ?sreq dev]"
    "mounts (tab (Ext t2)) target = [staging]" "mounts (tab (Ext t4)) = mounts (tab (Ext t0))"
    using node_runs [OF host _ _ _ _ _ _ _ _ stage node_publish node_unpublish unstage] paths cap by (simp_all add: cap_block_def)
  obtain x where ctx: "CV_VolumeContext resp = createVolumeContext creq x" using CreateVolume_context [OF create] by blast
  have no_slash: "CHR ''/'' \<notin> set ?label"
    using label(1) by (auto simp: list_all_iff is_label_char_def Let_def)
  have devices: "stage_devices ?sreq = [''/dev/disk/by-id/linode-'' @ ?label, ''/dev/disk/by-id/scsi-0Linode_Volume_'' @ ?label]"
    by (rule stage_looks_for_label [OF _ v(4,5) no_slash created_label_short]) (simp_all add: v(3) ctx context_partition)
  have source: "mount_source ?sreq dev = (if mget (CVR_Parameters creq) LuksEncryptedAttribute = True_str
      then ''/dev/mapper/'' @ CVR_Name creq else dev)" for dev
    by (simp add: mount_source_def ctx createVolumeContext_def Let_def True_str_def context_key_neqs [symmetric])
  have "mounts (tab (Ext t1)) staging \<in>
      (if mget (CVR_Parameters creq) LuksEncryptedAttribute = True_str then {[''/dev/mapper/'' @ CVR_Name creq]}
       else {[''/dev/disk/by-id/linode-'' @ ?label], [''/dev/disk/by-id/scsi-0Linode_Volume_'' @ ?label]})"
    using mounted(1) unfolding devices source by auto
  with v(1,2,6-9) mounted(2,3) show ?thesis by blast
qed

theorem volume_lifecycle_witness:
  "\<exists>s1 s2 s3 s4 t1 t2 t3 t4 resp pctx.
     CreateVolume sample_cs life_create (fresh (new_cloud [] 42)) = (Done (Inr resp), s1) \<and>
     ControllerPublishVolume sample_cs \<lparr>CPR_VolumeId = CV_VolumeId resp, CPR_NodeId = Itoa 9, CPR_VolumeCapability = Some mount_cap\<rparr> s1
       = (Done (Inr pctx), s2) \<and>
     NodeStageVolume life_node (h_fs box_host) \<lparr>NSR_VolumeId = CV_VolumeId resp, NSR_StagingTargetPath = ''/stage'',
       NSR_VolumeCapability = Some mount_cap, NSR_Secrets = Map.empty, NSR_VolumeContext = CV_VolumeContext resp\<rparr> box_state = (Done (Inr ()), t1) \<and>
     NodePublishVolume life_node (h_fs box_host) \<lparr>NPR_VolumeId = CV_VolumeId resp, NPR_StagingTargetPath = ''/stage'',
       NPR_TargetPath = ''/pods/t'', NPR_VolumeCapability = Some mount_cap, NPR_Readonly = False, NPR_PublishContext = pctx\<rparr> t1 = (Done (Inr ()), t2) \<and>
     NodeUnpublishVolume life_node \<lparr>NUP_VolumeId = CV_VolumeId resp, NUP_TargetPath = ''/pods/t''\<rparr> t2 = (Done (Inr ()), t3) \<and>
     NodeUnstageVolume life_node \<lparr>NUR_VolumeId = CV_VolumeId resp, NUR_StagingTargetPath = ''/stage''\<rparr> t3 = (Done (Inr ()), t4) \<and>
     ControllerUnpublishVolume sample_cs \<lparr>CUR_VolumeId = CV_VolumeId resp, CUR_NodeId = Itoa 9\<rparr> s2 = (Done (Inr ()), s3) \<and>
     DeleteVolume sample_cs \<lparr>DVR_VolumeId = CV_VolumeId resp\<rparr> s3 = (Done (Inr ()), s4) \<and>
     mounts (box_table (Ext t2)) ''/pods/t'' = [''/stage''] \<and> mounts (box_table (Ext t4)) = mounts (box_table (Ext box_state)) \<and>
     cloud_account (Ext s1) \<noteq> Map.empty \<and> cloud_account (Ext s4) = Map.empty"
proof -
  let ?s0 = "fresh (new_cloud [] 42)"
  have start: "Ext ?s0 = new_cloud [] 42" "cloud_ok (Ext ?s0)" "cloud_account (Ext ?s0) = Map.empty" "Ext box_state = life_box []"
    by (simp_all add: fresh_def new_cloud_def cloud_ok_def cloud_account_def life_box_def) (simp add: sample_instance_def)
  obtain s1 where s1: "CreateVolume sample_cs life_create ?s0 = (Done (Inr life_volume), s1)" "Ext s1 = new_cloud [sample_volume] 43"
    using life_creates [OF start(1)] by blast
  obtain s2 where s2: "ControllerPublishVolume sample_cs \<lparr>CPR_VolumeId = CV_VolumeId life_volume, CPR_NodeId = Itoa 9, CPR_VolumeCapability = Some mount_cap\<rparr> s1
      = (Done (Inr [devicePathKey \<mapsto> Vol_FilesystemPath sample_volume]), s2)" "Ext s2 = new_cloud [life_attached] 43"
    using life_publishes [OF s1(2)] by (auto simp: sample_itoa life_volume_def)
  obtain s3 where s3: "ControllerUnpublishVolume sample_cs \<lparr>CUR_VolumeId = CV_VolumeId life_volume, CUR_NodeId = Itoa 9\<rparr> s2 = (Done (Inr ()), s3)"
      "Ext s3 = new_cloud [sample_volume] 43"
    using life_unpublishes [OF s2(2)] by (auto simp: sample_itoa life_volume_def)
  obtain s4 where s4: "DeleteVolume sample_cs \<lparr>DVR_VolumeId = CV_VolumeId life_volume\<rparr> s3 = (Done (Inr ()), s4)"
    using life_deletes [OF s3(2)] by (auto simp: life_volume_def)
  note node = life_stages [OF start(4)] life_node_publishes life_node_unpublishes life_unstages
  obtain t1 where t1: "NodeStageVolume life_node (h_fs box_host) \<lparr>NSR_VolumeId = CV_VolumeId life_volume, NSR_StagingTargetPath = ''/stage'',
      NSR_VolumeCapability = Some mount_cap, NSR_Secrets = Map.empty, NSR_VolumeContext = CV_VolumeContext life_volume\<rparr> box_state = (Done (Inr ()), t1)"
      "Ext t1 = life_box [(''/stage'', life_device)]"
    using node(1) by (auto simp: life_id)
  obtain t2 where t2: "NodePublishVolume life_node (h_fs box_host) \<lparr>NPR_VolumeId = CV_VolumeId life_volume, NPR_StagingTargetPath = ''/stage'',
      NPR_TargetPath = ''/pods/t'', NPR_VolumeCapability = Some mount_cap, NPR_Readonly = False,
      NPR_PublishContext = [devicePathKey \<mapsto> Vol_FilesystemPath sample_volume]\<rparr> t1 = (Done (Inr ()), t2)"
    using node(2) [OF t1(2)] by (metis life_id)
  obtain t3 where t3: "NodeUnpublishVolume life_node \<lparr>NUP_VolumeId = CV_VolumeId life_volume, NUP_TargetPath = ''/pods/t''\<rparr> t2 = (Done (Inr ()), t3)"
    using node(3) by (auto simp: life_id)
  obtain t4 where t4: "NodeUnstageVolume life_node \<lparr>NUR_VolumeId = CV_VolumeId life_volume, NUR_StagingTargetPath = ''/stage''\<rparr> t3 = (Done (Inr ()), t4)"
    using node(4) by (auto simp: life_id)
  have ids: "\<forall>i. cloud_account (Ext s1) i \<noteq> None \<longrightarrow> 0 \<le> i \<and> is_int64 i" "is_int64 9"
    by (auto simp: s1(2) new_cloud_def cloud_account_def sample_volume_def is_int64_def split: if_splits)
  have free: "mounts (box_table (Ext box_state)) ''/stage'' = []" "mounts (box_table (Ext box_state)) ''/pods/t'' = []" "''/pods/t'' \<noteq> ''/stage''"
    by simp_all
  have "account_client cloud_hw cloud_ok cloud_account (cs_client sample_cs)" using cloud_account_client by simp
  from volume_lifecycle [OF this start(2) box_table_host _ ids life_label _ free _ s1(1) s2(1) t1(1) t2 t3 t4 s3(1) s4]
  have "mounts (box_table (Ext t2)) ''/pods/t'' = [''/stage'']" "mounts (box_table (Ext t4)) = mounts (box_table (Ext box_state))"
    "cloud_account (Ext s1) \<noteq> Map.empty" "cloud_account (Ext s4) = Map.empty"
    unfolding start(3) by (auto simp: mount_cap_def map_upd_nonempty [symmetric] simp del: box_table_sel)
  with s1(1) s2(1) t1(1) t2 t3 t4 s3(1) s4 show ?thesis by blast
qed

end
