(* ===== verification/RPC_Errors.thy ===== *)
theory RPC_Errors
  imports Controller_Safety Node_Server
begin

text \<open>
  The errors of the RPCs. A handler should answer with a gRPC status, so that the orchestrator learns what kind of
  failure it was. For every handler, the code of an error is determined: on the node by the request, on the controller by the request and
  the calls the handler made with their answers, most often by the last one. The tables \<open>*_code\<close> say which code belongs to
  what the handler saw; they are \<open>None\<close> where nothing it saw justifies an error, and for the errors that carry no status.
\<close>

section \<open>gRPC codes\<close>

text \<open>The code gRPC sends for an error: that of the first status in its chain. Without one it is \<open>Unknown\<close>.\<close>

definition grpc_code :: "error \<Rightarrow> code option" where
  "grpc_code = errors_As status_code"

lemma grpc_code_Status [simp]: "grpc_code (Status c f args) = Some c"
  by (simp add: grpc_code_def)

lemma grpc_code_ids:
  "VolumeIdAsInt c s = Inl e \<Longrightarrow> grpc_code e = Some InvalidArgument" "NodeIdAsInt c s = Inl e \<Longrightarrow> grpc_code e = Some InvalidArgument"
  by (auto simp: VolumeIdAsInt_def NodeIdAsInt_def Let_def split: if_splits sum.splits)

lemma grpc_code_driver_errors [simp]:
  "grpc_code errNoVolumeName = Some InvalidArgument" "grpc_code errNoVolumeCapabilities = Some InvalidArgument"
  "grpc_code errVolumeInUse = Some FailedPrecondition" "grpc_code errNoVolumeCapability = Some InvalidArgument"
  "grpc_code errNoVolumeID = Some InvalidArgument" "grpc_code errNoVolumePath = Some InvalidArgument"
  "grpc_code errNoStagingTargetPath = Some InvalidArgument" "grpc_code errNoTargetPath = Some InvalidArgument"
  "grpc_code (errInternal f args) = Some Internal" "grpc_code (errNotFound f args) = Some NotFound"
  "grpc_code (errAlreadyExists f args) = Some AlreadyExists" "grpc_code errNilInstance = Some Internal"
  "grpc_code errMaxAttachments = Some ResourceExhausted" "grpc_code errResizeDown = Some Internal"
  "grpc_code errUnsupportedVolumeContentSource = Some InvalidArgument" "grpc_code errNoSourceVolume = Some InvalidArgument"
  "grpc_code (errRegionMismatch r r') = Some InvalidArgument" "grpc_code (errMaxVolumeAttachments n) = Some ResourceExhausted"
  "grpc_code (errInstanceNotFound i) = Some NotFound" "grpc_code (errVolumeAttached i l) = Some AlreadyExists"
  "grpc_code (errVolumeNotFound i) = Some NotFound" "grpc_code (errInvalidVolumeCapability caps) = Some InvalidArgument"
  by (simp_all add: driver_error_defs)

lemma plain_errors:
  "getRequestCapacitySize r = Inl e \<Longrightarrow> grpc_code e = None" "ParseLinodeVolumeKey key = Inl e \<Longrightarrow> grpc_code e = None"
  by (auto simp: getRequestCapacitySize_def ParseLinodeVolumeKey_def grpc_code_def errors_As.simps [of _ "GoError f args" for f args]
      Let_def split: option.splits if_splits sum.splits)

lemma grpc_code_wrap: "grpc_code (GoError f [ArgStr s, ArgWrap e]) = grpc_code e"
  by (simp add: grpc_code_def errors_As.simps [of _ "GoError f args" for args] split: option.splits)

section \<open>The controller\<close>

text \<open>The error an answer carries.\<close>

fun api_error :: "api_event \<Rightarrow> error option" where
  "api_error (EvListVolumes opts r) = snd r"
| "api_error (EvListInstanceVolumes i r) = snd r"
| "api_error (EvListInstanceDisks i r) = snd r"
| "api_error (EvGetRegion n r) = snd r"
| "api_error (EvGetInstance i r) = snd r"
| "api_error (EvGetVolume v r) = snd r"
| "api_error (EvCreateVolume opts r) = snd r"
| "api_error (EvCloneVolume i l r) = snd r"
| "api_error (EvAttachVolume v opts r) = snd r"
| "api_error (EvDetachVolume v r) = r"
| "api_error (EvWaitForVolumeLinodeID v l r) = snd r"
| "api_error (EvWaitForVolumeStatus v st r) = snd r"
| "api_error (EvDeleteVolume v r) = r"
| "api_error (EvResizeVolume v n r) = r"

text \<open>A call that failed is an internal error.\<close>

definition failed_code :: "api_event \<Rightarrow> code option" where
  "failed_code e = (if api_error e \<noteq> None then Some Internal else None)"

text \<open>Deleting: a bad ID before any call; a volume seen attached is in use. A volume that is not found is no error.\<close>

definition delete_code :: "(error option \<Rightarrow> bool) \<Rightarrow> api_event list \<Rightarrow> code option" where
  "delete_code nf es =
     (if es = [] then Some InvalidArgument
      else case last es of
        EvGetVolume v (vol, err) \<Rightarrow>
          if nf err then None
          else if err \<noteq> None then Some Internal
          else if vol \<noteq> None \<and> Vol_LinodeID (the vol) \<noteq> None then Some FailedPrecondition else None
      | e \<Rightarrow> failed_code e)"

definition unpublish_code :: "(error option \<Rightarrow> bool) \<Rightarrow> api_event list \<Rightarrow> code option" where
  "unpublish_code nf es =
     (if es = [] then Some InvalidArgument
      else case last es of
        EvGetVolume v (vol, err) \<Rightarrow> if nf err then None else failed_code (last es)
      | EvDetachVolume v err \<Rightarrow> if nf err then None else failed_code (last es)
      | e \<Rightarrow> failed_code e)"

definition validate_code :: "(error option \<Rightarrow> bool) \<Rightarrow> api_event list \<Rightarrow> code option" where
  "validate_code nf es =
     (if es = [] then Some InvalidArgument else if nf (api_error (last es)) then Some NotFound else failed_code (last es))"

definition list_code :: "api_event list \<Rightarrow> code option" where
  "list_code es = (if es = [] then Some Aborted else failed_code (last es))"

text \<open>Expanding: a bad ID is an invalid argument, but a bad capacity and a smaller size are internal errors.\<close>

definition expand_code :: "ControllerExpandVolumeRequest \<Rightarrow> api_event list \<Rightarrow> code option" where
  "expand_code req es =
     (if es = [] then
        (if is_err (VolumeIdAsInt ''ControllerExpandVolume'' (CER_VolumeId req)) then Some InvalidArgument
         else if is_err (getRequestCapacitySize (CER_CapacityRange req)) then Some Internal else None)
      else case last es of
        EvGetVolume v (vol, None) \<Rightarrow>
          (case getRequestCapacitySize (CER_CapacityRange req) of
             Inr sz \<Rightarrow> if vol \<noteq> None \<and> bytesToGB sz < Vol_Size (the vol) then Some Internal else None
           | Inl err \<Rightarrow> None)
      | e \<Rightarrow> failed_code e)"

text \<open>
  Publishing: \<open>NotFound\<close> for an instance or a volume that does not exist, \<open>AlreadyExists\<close> for a volume seen attached to another instance,
  \<open>ResourceExhausted\<close> when the disks and volumes listed for the instance fill it, \<open>Unavailable\<close> when the API says the volume is
  attached already. An instance without specifications is an internal error.
\<close>

definition instance_full :: "api_event list \<Rightarrow> bool" where
  "instance_full es \<longleftrightarrow> (\<exists>l i specs disks vols. EvGetInstance l (Some i, None) \<in> set es \<and> Inst_Specs i = Some specs \<and>
     EvListInstanceDisks (Inst_ID i) (disks, None) \<in> set es \<and> EvListInstanceVolumes (Inst_ID i) (vols, None) \<in> set es \<and>
     maxVolumeAttachments (push_bit 20 (word_of_int (Spec_Memory specs))) \<le> int (length vols) + int (length disks))"

definition seen_instance :: "api_event list \<Rightarrow> (Instance \<Rightarrow> bool) \<Rightarrow> bool" where
  "seen_instance es P \<longleftrightarrow> (\<exists>l i. hd es = EvGetInstance l (Some i, None) \<and> P i)"

definition already_attached :: "error \<Rightarrow> bool" where
  "already_attached err \<longleftrightarrow> (\<exists>msg. as_linode_message err = Some msg \<and> Contains msg ''is already attached'')"

definition publish_code :: "(error option \<Rightarrow> bool) \<Rightarrow> api_event list \<Rightarrow> code option" where
  "publish_code nf es =
     (if es = [] then Some InvalidArgument
      else case last es of
        EvGetInstance l (i, err) \<Rightarrow> if nf err then Some NotFound else failed_code (last es)
      | EvGetVolume v (vol, err) \<Rightarrow>
          if nf err then Some NotFound
          else if err \<noteq> None then Some Internal
          else if seen_instance es (\<lambda>i. vol \<noteq> None \<and> Vol_LinodeID (the vol) \<notin> {None, Some (Inst_ID i)}) then Some AlreadyExists
          else if seen_instance es (\<lambda>i. Inst_Specs i = None) then Some Internal else None
      | EvListInstanceDisks l (disks, err) \<Rightarrow> if instance_full (butlast es) then Some ResourceExhausted else failed_code (last es)
      | EvAttachVolume v opts (vol, Some err) \<Rightarrow> Some (if already_attached err then Unavailable else Internal)
      | EvWaitForVolumeLinodeID v l (vol, Some err) \<Rightarrow> grpc_code err
      | e \<Rightarrow> failed_code e)"

text \<open>
  Creating: \<open>AlreadyExists\<close> when the label has more than one volume or one of another size; \<open>InvalidArgument\<close> for the request,
  an unsupported content source or one in another region. The error about the capacity has no status.
\<close>

definition source_code :: "VolumeContentSource option \<Rightarrow> code option" where
  "source_code src =
     (case src of
        None \<Rightarrow> None
      | Some (CS_Volume (Some key)) \<Rightarrow> if is_err (ParseLinodeVolumeKey key) then Some Internal else None
      | _ \<Rightarrow> Some InvalidArgument)"

definition create_code :: "CreateVolumeRequest \<Rightarrow> api_event list \<Rightarrow> code option" where
  "create_code req es =
     (if validateCreateVolumeRequest req \<noteq> None then Some InvalidArgument
      else case getRequestCapacitySize (CVR_CapacityRange req) of
        Inl err \<Rightarrow> None
      | Inr sz \<Rightarrow>
          if es = [] then source_code (CVR_VolumeContentSource req)
          else case last es of
            EvGetRegion n (reg, err) \<Rightarrow>
              if err \<noteq> None \<or> reg \<noteq> None \<and> ''Block Storage Encryption'' \<notin> set (Region_Capabilities (the reg)) then Some Internal
              else source_code (CVR_VolumeContentSource req)
          | EvGetVolume v (vol, err) \<Rightarrow> Some (if err = None \<and> vol \<noteq> None then InvalidArgument else Internal)
          | EvListVolumes opts (vols, None) \<Rightarrow>
              if 1 < length vols \<or> length vols = 1 \<and> Vol_Size (vols ! 0) \<noteq> bytesToGB sz \<and> CVR_VolumeContentSource req = None
              then Some AlreadyExists else None
          | EvCreateVolume opts (vol, None) \<Rightarrow> if vol \<noteq> None \<and> Vol_Size (the vol) \<noteq> bytesToGB sz then Some AlreadyExists else None
          | e \<Rightarrow> failed_code e)"

lemmas code_tables = delete_code_def unpublish_code_def validate_code_def list_code_def expand_code_def failed_code_def

lemma DeleteVolume_code:
  "emits (\<lambda>es out. \<forall>e. out = Done (Inl e) \<longrightarrow> grpc_code e = delete_code (IsNotFound (cs_client cs)) es) (DeleteVolume (traced_cs cs) req)"
  unfolding DeleteVolume_def traced_cs_simps traced_simps
  by (auto simp: after_calls_def code_tables grpc_code_ids simp del: prog_eqs intro!: emits_steps)

lemma ControllerUnpublishVolume_code:
  "emits (\<lambda>es out. \<forall>e. out = Done (Inl e) \<longrightarrow> grpc_code e = unpublish_code (IsNotFound (cs_client cs)) es)
    (ControllerUnpublishVolume (traced_cs cs) req)"
  unfolding ControllerUnpublishVolume_def traced_cs_simps traced_simps
  by (auto simp: after_calls_def code_tables grpc_code_ids simp del: prog_eqs intro!: emits_steps)

lemma ValidateVolumeCapabilities_code:
  "emits (\<lambda>es out. \<forall>e. out = Done (Inl e) \<longrightarrow> grpc_code e = validate_code (IsNotFound (cs_client cs)) es)
    (ValidateVolumeCapabilities (traced_cs cs) req)"
  unfolding ValidateVolumeCapabilities_def Let_def traced_cs_simps traced_simps
  by (auto simp: after_calls_def code_tables grpc_code_ids simp del: prog_eqs intro!: emits_steps)

lemma ListVolumes_code:
  "emits (\<lambda>es out. \<forall>e. out = Done (Inl e) \<longrightarrow> grpc_code e = list_code es) (ListVolumes (traced_cs cs) req)"
  unfolding ListVolumes_def Let_def traced_cs_simps traced_simps
  by (auto simp: after_calls_def code_tables simp del: prog_eqs intro!: emits_steps)

lemma ControllerExpandVolume_code:
  "emits (\<lambda>es out. \<forall>e. out = Done (Inl e) \<longrightarrow> grpc_code e = expand_code req es) (ControllerExpandVolume (traced_cs cs) req)"
  unfolding ControllerExpandVolume_def traced_cs_simps traced_simps
  by (auto simp: after_calls_def code_tables grpc_code_ids simp del: prog_eqs intro!: emits_steps)

lemma publish_request_code: "validateControllerPublishVolumeRequest req = Inl e \<Longrightarrow> grpc_code e = Some InvalidArgument"
  by (auto simp: validateControllerPublishVolumeRequest_def grpc_code_ids split: sum.splits option.splits if_splits)

lemma disks_error_not_nil [simp]: "\<not> errors_Is (Some (errInternal ''list instance disks: %v'' args)) errNilInstance"
  by (simp add: driver_error_defs)

lemma ControllerPublishVolume_code:
  "emits (\<lambda>es out. \<forall>e. out = Done (Inl e) \<longrightarrow> grpc_code e = publish_code (IsNotFound (cs_client cs)) es \<and>
      (\<forall>v l vol err. es \<noteq> [] \<and> last es = EvWaitForVolumeLinodeID v l (vol, Some err) \<longrightarrow> e = err))
    (ControllerPublishVolume (traced_cs cs) req)"
  unfolding publish_path_defs traced_cs_simps traced_simps
  by (auto simp: after_calls_def publish_code_def failed_code_def instance_full_def seen_instance_def already_attached_def publish_request_code
      split: option.splits simp del: prog_eqs intro!: emits_steps)

lemma create_request_code: "validateCreateVolumeRequest req = Some e \<Longrightarrow> grpc_code e = Some InvalidArgument"
  by (auto simp: validateCreateVolumeRequest_def Let_def split: if_splits)

lemma CreateVolume_code:
  "emits (\<lambda>es out. \<forall>e. out = Done (Inl e) \<longrightarrow> grpc_code e = create_code req es) (CreateVolume (traced_cs cs) req)"
  unfolding create_path_defs traced_cs_simps traced_simps
  by (auto simp: after_calls_def Let_def create_code_def source_code_def failed_code_def create_request_code plain_errors
      has_capability_iff simp del: prog_eqs intro!: emits_steps)

section \<open>The node\<close>

definition fails_with :: "(error \<Rightarrow> bool) \<Rightarrow> error + 'a \<Rightarrow> bool" where
  "fails_with P r = (case r of Inl e \<Rightarrow> P e | Inr v \<Rightarrow> True)"

lemma fails_with_simps [simp]: "fails_with P (Inl e) \<longleftrightarrow> P e" "fails_with P (Inr v)"
  by (simp_all add: fails_with_def)

lemma fails_withD: "ensures (fails_with P) m \<Longrightarrow> m s = (Done (Inl e), s') \<Longrightarrow> P e"
  using ensuresD by fastforce

definition optionally :: "(error \<Rightarrow> bool) \<Rightarrow> error option \<Rightarrow> bool" where
  "optionally P err = (case err of None \<Rightarrow> True | Some e \<Rightarrow> P e)"

lemma optionally_simps [simp]: "optionally P None" "optionally P (Some e) \<longleftrightarrow> P e"
  by (simp_all add: optionally_def)

text \<open>An error of code \<open>c\<close>.\<close>

definition has_code :: "code \<Rightarrow> error \<Rightarrow> bool" where
  "has_code c e \<longleftrightarrow> grpc_code e = Some c"

lemma has_code_internal [simp]: "has_code Internal (errInternal f args)"
  by (simp add: has_code_def)

text \<open>The code of an error for a request that was refused (\<open>Some\<close>), or that failed with code \<open>c\<close>.\<close>

definition refusal_code :: "error option \<Rightarrow> code \<Rightarrow> code" where
  "refusal_code refused c = (if refused \<noteq> None then InvalidArgument else c)"

lemma node_request_codes:
  "validateNodeStageVolumeRequest sreq = Some e \<Longrightarrow> grpc_code e = Some InvalidArgument"
  "validateNodeUnstageVolumeRequest ureq = Some e \<Longrightarrow> grpc_code e = Some InvalidArgument"
  "validateNodePublishVolumeRequest preq = Some e \<Longrightarrow> grpc_code e = Some InvalidArgument"
  "validateNodeUnpublishVolumeRequest upreq = Some e \<Longrightarrow> grpc_code e = Some InvalidArgument"
  "validateNodeExpandVolumeRequest ereq = Some e \<Longrightarrow> grpc_code e = Some InvalidArgument"
  by (auto simp: validateNodeStageVolumeRequest_def validateNodeUnstageVolumeRequest_def validateNodePublishVolumeRequest_def
      validateNodeUnpublishVolumeRequest_def validateNodeExpandVolumeRequest_def split: if_splits)

text \<open>Calls whose errors are always wrapped.\<close>

lemmas ensures_wrapped = ensures_any [where m = "VerifyDevicePath_du u ps" for u ps]
  ensures_any [where m = "blkidValid enc p" for enc p] ensures_any [where m = "luksFormat enc ctx p" for enc ctx p]
  ensures_any [where m = "luksOpen enc ctx p" for enc ctx p] ensures_any [where m = "luksClose enc n" for enc n]

lemma ensureMountPoint_codes: "ensures (fails_with (has_code Internal)) (ensureMountPoint ns p fs)"
  unfolding ensureMountPoint_def by (auto intro!: ensures_intros simp del: prog_eqs)

lemma findDevicePath_codes: "ensures (fails_with (has_code Internal)) (findDevicePath ns key part)"
  unfolding findDevicePath_def Let_def by (auto intro!: ensures_intros ensures_wrapped simp del: prog_eqs)

lemma mountVolume_codes: "ensures (optionally (has_code Internal)) (mountVolume ns p req)"
  unfolding mountVolume_def formatLUKSVolume_def Let_def split_beta
  by (auto intro!: ensures_intros ensures_wrapped simp del: prog_eqs)

lemma closeLuksMountSource_codes: "ensures (optionally (has_code Internal)) (closeLuksMountSource ns v)"
  unfolding closeLuksMountSource_def by (auto intro!: ensures_intros ensures_wrapped simp del: prog_eqs)

lemma NodeStageVolume_code:
  "ensures (fails_with (\<lambda>e. grpc_code e = (if validateNodeStageVolumeRequest req = None \<and> is_err (ParseLinodeVolumeKey (NSR_VolumeId req))
      then None else Some (refusal_code (validateNodeStageVolumeRequest req) Internal))))
     (NodeStageVolume ns fs req)"
  unfolding NodeStageVolume_def Let_def
  by (auto intro!: ensures_intros ensures_conseq [OF findDevicePath_codes] ensures_conseq [OF ensureMountPoint_codes]
      ensures_conseq [OF mountVolume_codes] simp: refusal_code_def has_code_def node_request_codes plain_errors simp del: prog_eqs)

lemma NodePublishVolume_code:
  "ensures (fails_with (\<lambda>e. grpc_code e = Some (refusal_code (validateNodePublishVolumeRequest req) Internal))) (NodePublishVolume ns fs req)"
  unfolding NodePublishVolume_def nodePublishVolumeBlock_def Let_def
  by (auto intro!: ensures_intros ensures_conseq [OF ensureMountPoint_codes]
      simp: refusal_code_def has_code_def node_request_codes simp del: prog_eqs)

lemma NodeUnpublishVolume_code:
  "ensures (fails_with (\<lambda>e. grpc_code e = Some (refusal_code (validateNodeUnpublishVolumeRequest req) Internal))) (NodeUnpublishVolume ns req)"
  unfolding NodeUnpublishVolume_def Let_def
  by (auto intro!: ensures_intros simp: refusal_code_def node_request_codes simp del: prog_eqs)

lemma NodeUnstageVolume_code:
  "ensures (fails_with (\<lambda>e. grpc_code e = Some (refusal_code (validateNodeUnstageVolumeRequest req) Internal))) (NodeUnstageVolume ns req)"
  unfolding NodeUnstageVolume_def Let_def
  by (auto intro!: ensures_intros ensures_conseq [OF closeLuksMountSource_codes]
      simp: refusal_code_def has_code_def grpc_code_wrap node_request_codes simp del: prog_eqs)

lemma NodeExpandVolume_code:
  "ensures (fails_with (\<lambda>e. grpc_code e = Some (refusal_code (validateNodeExpandVolumeRequest req) NotFound))) (NodeExpandVolume ns req)"
  unfolding NodeExpandVolume_def Let_def
  by (auto intro!: ensures_intros simp: refusal_code_def node_request_codes simp del: prog_eqs)

text \<open>The statistics: the code follows from the error \<open>statfs\<close> gave, an I/O error being no error of the RPC.\<close>

lemma NodeGetVolumeStats_code:
  assumes "NodeGetVolumeStats statfs req s = (Done (Inl e), s')"
  shows "grpc_code e = Some (if NGR_VolumeId req = [] \<or> NGR_VolumePath req = [] then InvalidArgument
      else if errors_Is (snd (fst (statfs (NGR_VolumePath req) (Ext s)))) ENOENT then NotFound else Internal) \<and>
    (NGR_VolumeId req \<noteq> [] \<and> NGR_VolumePath req \<noteq> [] \<longrightarrow> snd (fst (statfs (NGR_VolumePath req) (Ext s))) \<noteq> None \<and>
       \<not> errors_Is (snd (fst (statfs (NGR_VolumePath req) (Ext s)))) EIO)"
  using assms by (auto simp: NodeGetVolumeStats_def nodeGetVolumeStats_def call_def split: prod.splits option.splits if_splits)

lemma NodeGetInfo_code:
  assumes "NodeGetInfo ns s = (Done (Inl e), s')"
  shows "grpc_code e = Some Internal \<and> snd (fst (ListInstanceDisks_api (ns_client ns) (Meta_ID (ns_metadata ns)) None (Ext s))) \<noteq> None"
  using assms by (auto simp: NodeGetInfo_def call_def split: prod.splits option.splits)

end
