(* ===== verification/Error_Properties.thy ===== *)
theory Error_Properties
  imports RPC_Errors Sample_Host Controller_Properties
begin

text \<open>
  The codes of the errors the RPCs answer with, for every client and every host, from the tables of \<open>RPC_Errors\<close>; and the
  errors that reach the orchestrator without a status.
\<close>

section \<open>Codes\<close>


definition in_use_state :: "cloud world" where
  "in_use_state = fresh \<lparr>cl_volumes = [sample_volume\<lparr>Vol_LinodeID := Some 9\<rparr>], cl_instances = [sample_instance], cl_next = 43\<rparr>"




section \<open>Errors without a status\<close>

text \<open>
  C24. A valid CreateVolume request with an impossible capacity, and a valid NodeStageVolume request whose ID is no volume
  key, are refused with an error that has no status, so gRPC reports it as unknown instead of as an invalid argument.
\<close>

theorem errors_without_status:
  "(validateCreateVolumeRequest creq = None \<and> getRequestCapacitySize (CVR_CapacityRange creq) = Inl e \<longrightarrow>
      fst (CreateVolume cs creq s) = Done (Inl e) \<and> grpc_code e = None) \<and>
   (validateNodeStageVolumeRequest sreq = None \<and> ParseLinodeVolumeKey (NSR_VolumeId sreq) = Inl e' \<longrightarrow>
      fst (NodeStageVolume ns fs sreq t) = Done (Inl e') \<and> grpc_code e' = None)"
  using plain_errors(1) [of "CVR_CapacityRange creq" e] plain_errors(2) [of "NSR_VolumeId sreq" e']
  by (simp add: CreateVolume_def prepareVolumeParams_def NodeStageVolume_def record_return_run)

theorem errors_without_status_witness:
  "\<exists>e e'. fst (CreateVolume sample_cs ((sample_create ''pvc1'')\<lparr>CVR_CapacityRange := Some \<lparr>RequiredBytes = - 1, LimitBytes = 0\<rparr>\<rparr>) sample_state)
      = Done (Inl e) \<and> grpc_code e = None \<and>
    fst (NodeStageVolume (node_of sample_driver sample_metadata box_host) box_fs ((sample_stage Map.empty)\<lparr>NSR_VolumeId := ''42''\<rparr>) box_state)
      = Done (Inl e') \<and> grpc_code e' = None"
proof -
  let ?creq = "(sample_create ''pvc1'')\<lparr>CVR_CapacityRange := Some \<lparr>RequiredBytes = - 1, LimitBytes = 0\<rparr>\<rparr>"
  let ?sreq = "(sample_stage Map.empty)\<lparr>NSR_VolumeId := ''42''\<rparr>"
  have "validateCreateVolumeRequest ?creq = None" "validateNodeStageVolumeRequest ?sreq = None"
    by (simp_all add: create_run_defs sample_create_def sample_stage_def validateNodeStageVolumeRequest_def)
  moreover obtain e e' where "getRequestCapacitySize (CVR_CapacityRange ?creq) = Inl e" "ParseLinodeVolumeKey (NSR_VolumeId ?sreq) = Inl e'"
    by (simp add: getRequestCapacitySize_def ParseLinodeVolumeKey_def SplitN2_def)
  ultimately show ?thesis
    using errors_without_status [of ?creq e sample_cs sample_state ?sreq e' "node_of sample_driver sample_metadata box_host" box_fs box_state]
    by blast
qed

end
