(* ===== verification/Logging.thy ===== *)
theory Logging
  imports Tracing
begin

text \<open>
  \<open>pkg/logger/logger.go\<close>: the loggers, the lines around every method, and the logging interceptor.

  klog is not part of the repository. What it prints depends on its flags; the model keeps every line handed to it. The
  random identifier of \<open>uuid.New\<close> is the argument \<open>traceID\<close>. Of a context only the logger stored in it matters.
\<close>

section \<open>Loggers\<close>

record Logger =
  Klogr :: logr

definition NewKlogr :: logr where
  "NewKlogr = \<lparr>lr_level = 0, lr_values = []\<rparr>"

definition WithValues :: "(string \<times> string) list \<Rightarrow> logr \<Rightarrow> logr" where
  "WithValues kvs l = l\<lparr>lr_values := lr_values l @ kvs\<rparr>"

text \<open>The value of a context for \<open>LoggerKey\<close>.\<close>

record log_context =
  ctx_logger :: "Logger option"

definition Background :: log_context where
  "Background = \<lparr>ctx_logger = None\<rparr>"

definition NewLogger :: "log_context \<Rightarrow> Logger" where
  "NewLogger ctx = \<lparr>Klogr = NewKlogr\<rparr>"

definition GetLogger :: "log_context \<Rightarrow> Logger" where
  "GetLogger ctx = (case ctx_logger ctx of Some logger \<Rightarrow> logger | None \<Rightarrow> NewLogger ctx)"

text \<open>\<open>logr\<close> adds verbosity levels up.\<close>

definition Logger_V :: "Logger \<Rightarrow> nat \<Rightarrow> logr" where
  "Logger_V l level = (Klogr l)\<lparr>lr_level := lr_level (Klogr l) + level\<rparr>"

definition Info :: "logr \<Rightarrow> string \<Rightarrow> (string \<times> string option) list \<Rightarrow> ('s rpc_state, unit) prog" where
  "Info l msg kvs = log_out (Log_Info l msg kvs)"

definition Logger_Error :: "Logger \<Rightarrow> error \<Rightarrow> string \<Rightarrow> ('s rpc_state, unit) prog" where
  "Logger_Error l err msg = log_out (Log_Error (Klogr l) err msg)"

section \<open>Methods\<close>

text \<open>The new logger, a context that holds it, and the function that writes the line of completion.\<close>

definition WithMethod ::
  "string \<Rightarrow> Logger \<Rightarrow> string \<Rightarrow> ('s rpc_state, Logger \<times> log_context \<times> ('s rpc_state, unit) prog) prog" where
  "WithMethod traceID l method =
     (let newLogger = \<lparr>Klogr = WithValues [(''method'', method), (''traceID'', traceID)] NewKlogr\<rparr>;
          ctx = \<lparr>ctx_logger = Some newLogger\<rparr>
      in andThen (Info (Logger_V newLogger 4) ''Starting method'' []) (\<lambda>_.
         ret (newLogger, ctx, Info (Logger_V newLogger 4) ''Method completed'' [])))"

text \<open>The first lines of every handler, around the rest of it, which writes lines of its own with the new logger.\<close>

definition in_method :: "string \<Rightarrow> log_context \<Rightarrow> string \<Rightarrow> (Logger \<Rightarrow> ('s rpc_state, 'a) prog) \<Rightarrow> ('s rpc_state, 'a) prog" where
  "in_method traceID ctx method body =
     andThen (WithMethod traceID (GetLogger ctx) method) (\<lambda>(log, _, done'). with_defer (body log) done')"

section \<open>The interceptors\<close>

definition LogGRPC ::
  "log_context \<Rightarrow> string \<Rightarrow> 'q \<Rightarrow> ('q \<Rightarrow> ('s rpc_state, 'r answer) prog) \<Rightarrow> ('s rpc_state, 'r answer) prog" where
  "LogGRPC ctx fullMethod req handler =
     (let logger = GetLogger ctx
      in andThen (Info (Logger_V logger 3) ''GRPC call'' [(''method'', Some fullMethod)]) (\<lambda>_.
         andThen (Info (Logger_V logger 5) ''GRPC request'' [(''request'', None)]) (\<lambda>_.
         andThen (handler req) (\<lambda>(resp, err).
         andThen (case err of
                    Some e \<Rightarrow> Logger_Error logger e ''GRPC error''
                  | None \<Rightarrow> Info (Logger_V logger 5) ''GRPC response'' [(''response'', None)]) (\<lambda>_.
         ret (resp, err))))))"

text \<open>\<open>grpc.ChainUnaryInterceptor(LogGRPC, UnaryServerInterceptorWithParams())\<close>: the first
  interceptor is the outermost.\<close>

definition intercepted ::
  "log_context \<Rightarrow> ('q \<Rightarrow> error + string) \<Rightarrow> ('r \<Rightarrow> error + string) \<Rightarrow> string
     \<Rightarrow> ('q \<Rightarrow> ('s rpc_state, 'r answer) prog) \<Rightarrow> 'q \<Rightarrow> ('s rpc_state, 'r answer) prog" where
  "intercepted ctx marshal_req marshal_resp fullMethod handler req =
     LogGRPC ctx fullMethod req (\<lambda>q. UnaryServerInterceptorWithParams marshal_req marshal_resp q handler)"

section \<open>Facts\<close>

lemmas log_defs = Info_def Logger_Error_def log_out_def

text \<open>The logger of a method: it knows the method and the identifier of the call.\<close>

definition method_logger :: "string \<Rightarrow> string \<Rightarrow> Logger" where
  "method_logger tid meth = \<lparr>Klogr = \<lparr>lr_level = 0, lr_values = [(''method'', meth), (''traceID'', tid)]\<rparr>\<rparr>"

text \<open>A method runs its body between two lines; the second one is written however the body ends.\<close>

lemma in_method_run:
  "in_method tid ctx meth body c =
     (case body (method_logger tid meth) (c\<lparr>rpc_log := rpc_log c @ [Log_Info (Logger_V (method_logger tid meth) 4) ''Starting method'' []]\<rparr>) of
        (out, c') \<Rightarrow>
          (out, c'\<lparr>rpc_log := rpc_log c' @ [Log_Info (Logger_V (method_logger tid meth) 4) ''Method completed'' []]\<rparr>))"
  by (simp add: in_method_def WithMethod_def with_defer_def log_defs Logger_V_def WithValues_def NewKlogr_def
      method_logger_def Let_def split_beta)

text \<open>
  An RPC behind the tracing interceptor: it runs on a state in which only the attributes of the span differ. A panic passes through; otherwise
  the span gets the status of the answer and the error.
\<close>

lemma interceptor_run:
  assumes "UnaryServerInterceptorWithParams mq mr req h c = (out, c')"
  obtains c1 c2 where "h req c1 = (out, c2)" and "rpc_inner c1 = rpc_inner c" and "rpc_log c1 = rpc_log c"
    and "rpc_span c1 = None \<longleftrightarrow> rpc_span c = None" and "rpc_inner c' = rpc_inner c2" and "rpc_log c' = rpc_log c2"
    and "\<And>resp err sp. out = Done (resp, err) \<Longrightarrow> rpc_span c \<noteq> None \<Longrightarrow> rpc_span c2 = Some sp \<Longrightarrow>
      \<exists>sp'. rpc_span c' = Some sp' \<and> sp_status sp' = Some (case err of Some e \<Rightarrow> Span_Error e | None \<Rightarrow> Span_Ok ''Success'') \<and>
        sp_errors sp' = sp_errors sp @ (case err of Some e \<Rightarrow> [e] | None \<Rightarrow> [])"
proof (cases "rpc_span c")
  case None
  with assms have "h req c = (out, c')" by (simp add: UnaryServerInterceptorWithParams_def)
  with None show ?thesis by (intro that [of c c']) simp_all
next
  case (Some sp0)
  define f where "f = (case mq req of Inr reqData \<Rightarrow> SetAttribute ''grpc.request'' (reqData, [])
      | Inl err \<Rightarrow> SetAttribute ''grpc.request.error'' (''%v'', [ArgErr err]))"
  let ?c1 = "c\<lparr>rpc_span := map_option f (rpc_span c)\<rparr>"
  obtain o2 c2 where h: "h req ?c1 = (o2, c2)" by fastforce
  have run: "UnaryServerInterceptorWithParams mq mr req h c = (case o2 of Panic \<Rightarrow> (Panic, c2)
      | Done (resp, err) \<Rightarrow> (Done (resp, err), c2\<lparr>rpc_span := map_option
          (case err of Some e \<Rightarrow> (\<lambda>sp. SetStatus (Span_Error e) (RecordError e sp)) | None \<Rightarrow> SetStatus (Span_Ok ''Success''))
          (map_option (case resp of None \<Rightarrow> id | Some r \<Rightarrow> (case mr r of Inr d \<Rightarrow> SetAttribute ''grpc.response'' (d, [])
            | Inl er \<Rightarrow> SetAttribute ''grpc.response.error'' (''%v'', [ArgErr er]))) (rpc_span c2))\<rparr>))"
    using h Some by (auto simp: UnaryServerInterceptorWithParams_def f_def on_span_def option.map_id0
        split: outcome.splits sum.splits option.splits)
  show ?thesis
  proof (rule that [of ?c1 c2])
    show "h req ?c1 = (out, c2)" "rpc_inner c' = rpc_inner c2" "rpc_log c' = rpc_log c2"
      using assms run h by (auto split: outcome.splits)
    show "\<exists>sp'. rpc_span c' = Some sp' \<and> sp_status sp' = Some (case err of Some e \<Rightarrow> Span_Error e | None \<Rightarrow> Span_Ok ''Success'') \<and>
        sp_errors sp' = sp_errors sp @ (case err of Some e \<Rightarrow> [e] | None \<Rightarrow> [])"
      if "out = Done (resp, err)" "rpc_span c2 = Some sp" for resp err sp
      using assms run that
      by (auto simp: SetStatus_def RecordError_def SetAttribute_def split: outcome.splits option.splits sum.splits)
  qed simp_all
qed

lemma LogGRPC_run:
  assumes "LogGRPC ctx full req h c = (out, c')"
  obtains c2 where "h req (c\<lparr>rpc_log := rpc_log c @ [Log_Info (Logger_V (GetLogger ctx) 3) ''GRPC call'' [(''method'', Some full)],
        Log_Info (Logger_V (GetLogger ctx) 5) ''GRPC request'' [(''request'', None)]]\<rparr>) = (out, c2)"
    and "c' = c2\<lparr>rpc_log := rpc_log c2 @ (case out of Panic \<Rightarrow> []
        | Done (resp, None) \<Rightarrow> [Log_Info (Logger_V (GetLogger ctx) 5) ''GRPC response'' [(''response'', None)]]
        | Done (resp, Some e) \<Rightarrow> [Log_Error (Klogr (GetLogger ctx)) e ''GRPC error''])\<rparr>"
  using assms by (auto simp: LogGRPC_def log_defs Let_def split: prod.splits outcome.splits option.splits)

end
