(* ===== verification/Concurrency.thy ===== *)
theory Concurrency
  imports Call_Effects
begin

text \<open>
  RPCs that run at the same time. gRPC serves every request in a goroutine of its own, so the calls of different requests
  interleave.

  A schedule is the list of what all goroutines do, in the order it happens: take a lock, release it, or
  make a call to the outside world, which has its answer. What one goroutine does is the schedule restricted to it. \<open>mutex_ok\<close> is
  \<open>sync.Mutex\<close>: it is taken only when nobody holds it, and released by its holder. The handler of a request knows only the answers of its own
  calls, so the calls of a goroutine are those of a run of its handler, with answers that may show what the others did.

  The locale \<open>locked_service\<close> is the contract of a service whose requests either hold the lock around all of their calls, with a
  known effect on an abstract state, or change nothing of this state. Its lemmas say that such a
  service works as if the locked requests ran one after the other, in the order in which they got the lock.
\<close>

section \<open>Schedules\<close>

datatype 'e action = Lock | Unlock | Call 'e

type_synonym 'e schedule = "(nat \<times> 'e action) list"

definition of_thread :: "nat \<Rightarrow> 'e schedule \<Rightarrow> 'e action list" where
  "of_thread i xs = map snd (filter (\<lambda>x. fst x = i) xs)"

fun calls_in :: "'e schedule \<Rightarrow> 'e list" where
  "calls_in [] = []"
| "calls_in ((i, Call e) # xs) = e # calls_in xs"
| "calls_in ((i, a) # xs) = calls_in xs"

text \<open>The goroutines in the order in which they get the lock.\<close>

fun lock_order :: "'e schedule \<Rightarrow> nat list" where
  "lock_order [] = []"
| "lock_order ((i, Lock) # xs) = i # lock_order xs"
| "lock_order ((i, a) # xs) = lock_order xs"

text \<open>\<open>holder\<close> is the goroutine that holds the lock at the start.\<close>

fun mutex_ok :: "nat option \<Rightarrow> 'e schedule \<Rightarrow> bool" where
  "mutex_ok holder [] = True"
| "mutex_ok holder ((i, Lock) # xs) = (holder = None \<and> mutex_ok (Some i) xs)"
| "mutex_ok holder ((i, Unlock) # xs) = (holder = Some i \<and> mutex_ok None xs)"
| "mutex_ok holder ((i, Call e) # xs) = mutex_ok holder xs"

text \<open>A whole request: with the lock around it (\<open>Lock\<close> and the deferred \<open>Unlock\<close>), or without a lock.\<close>

definition request_actions :: "bool \<Rightarrow> 'e list \<Rightarrow> 'e action list" where
  "request_actions locks es = (if locks then Lock # map Call es @ [Unlock] else map Call es)"

lemma of_thread_simps [simp]:
  "of_thread i [] = []" "of_thread i ((j, a) # xs) = (if j = i then a # of_thread i xs else of_thread i xs)"
  by (simp_all add: of_thread_def)

lemma of_thread_filter: "of_thread i (filter (\<lambda>x. L (fst x)) xs) = (if L i then of_thread i xs else [])"
  by (induction xs) auto

lemma calls_in_append [simp]: "calls_in (xs @ ys) = calls_in xs @ calls_in ys"
  by (induction xs rule: calls_in.induct) auto

lemma of_thread_append [simp]: "of_thread i (xs @ ys) = of_thread i xs @ of_thread i ys"
  by (simp add: of_thread_def)

lemma in_of_thread: "(i, a) \<in> set xs \<Longrightarrow> a \<in> set (of_thread i xs)"
  by (force simp: of_thread_def)

text \<open>The calls of one goroutine in a row.\<close>

definition call_block :: "nat \<Rightarrow> 'e list \<Rightarrow> 'e schedule" where
  "call_block i es = map (\<lambda>e. (i, Call e)) es"

lemma call_block_simps [simp]:
  "of_thread i (call_block j es) = (if i = j then map Call es else [])" "calls_in (call_block j es) = es"
  "mutex_ok h (call_block j es @ xs) = mutex_ok h xs" "lock_order (call_block j es @ xs) = lock_order xs"
  "mutex_ok h (call_block j es)" "lock_order (call_block j es) = []" "fst ` set (call_block j es) = (if es = [] then {} else {j})"
  unfolding call_block_def by (induction es) (auto simp: of_thread_def)

section \<open>Mutual exclusion\<close>

lemma mutex_ok_filter:
  assumes "mutex_ok h xs" and "\<And>i a. (i, a) \<in> set xs \<Longrightarrow> \<not> L i \<Longrightarrow> a \<noteq> Lock \<and> a \<noteq> Unlock"
  shows "mutex_ok h (filter (\<lambda>x. L (fst x)) xs)" and "lock_order (filter (\<lambda>x. L (fst x)) xs) = lock_order xs"
  using assms by (induction h xs rule: mutex_ok.induct) auto

text \<open>
  While goroutine \<open>h\<close> holds the lock, with the calls \<open>cs\<close> still to make, no other one that needs the lock does anything:
  the calls of all of them are those of one after the other.
\<close>

lemma serial_calls:
  assumes "mutex_ok h xs"
    and "\<And>i. h = Some i \<Longrightarrow> of_thread i xs = map Call cs @ [Unlock]"
    and "\<And>i. h \<noteq> Some i \<Longrightarrow> of_thread i xs = [] \<or> of_thread i xs = request_actions True (es i)"
  shows "calls_in xs = (if h = None then [] else cs) @ concat (map es (lock_order xs)) \<and> distinct (lock_order xs) \<and>
    set (lock_order xs) = {i. h \<noteq> Some i \<and> of_thread i xs \<noteq> []}"
  using assms
proof (induction h xs arbitrary: cs rule: mutex_ok.induct)
  case (1 h)
  then show ?case by (cases h) auto
next
  case (2 h i xs)
  have others: "of_thread j xs = [] \<or> of_thread j xs = request_actions True (es j)" if "j \<noteq> i" for j
    using 2(2) 2(4) [of j] that by (simp split: if_splits)
  have own: "of_thread i xs = map Call (es i) @ [Unlock]" using 2(2) 2(4) [of i] by (simp add: request_actions_def)
  have "calls_in xs = es i @ concat (map es (lock_order xs)) \<and> distinct (lock_order xs) \<and>
      set (lock_order xs) = {j. Some i \<noteq> Some j \<and> of_thread j xs \<noteq> []}"
    using 2(1) [of "es i"] 2(2) own others by simp
  then show ?case using 2(2) by auto
next
  case (3 h i xs)
  have h: "h = Some i" and none: "mutex_ok None xs" using 3(2) by simp_all
  have "cs = [] \<and> of_thread i xs = []" using 3(3) [OF h] by (cases cs) auto
  moreover have "of_thread j xs = [] \<or> of_thread j xs = request_actions True (es j)" for j
    using 3(4) [of j] h calculation by (cases "j = i") auto
  ultimately show ?case using 3(1) [OF none, of cs] h by auto
next
  case (4 h i e xs)
  have h: "h = Some i"
    using 4(4) [of i] by (cases "h = Some i") (auto simp: request_actions_def)
  then obtain cs' where cs: "cs = e # cs'" "of_thread i xs = map Call cs' @ [Unlock]" using 4(3) [OF h] by (cases cs) auto
  have "of_thread j xs = [] \<or> of_thread j xs = request_actions True (es j)" if "j \<noteq> i" for j
    using 4(4) [of j] that h by simp
  then show ?case using 4(1) [of cs'] 4(2) h cs by auto
qed

section \<open>Services with a lock\<close>

text \<open>
  Requests \<open>qs\<close> are served at the same time, each to its end, with the outcomes \<open>outs\<close>. \<open>runs q es out\<close> says that the
  handler of \<open>q\<close> may make the calls \<open>es\<close> and end with \<open>out\<close>.
\<close>

definition serves :: "('q \<Rightarrow> bool) \<Rightarrow> ('q \<Rightarrow> 'e list \<Rightarrow> 'o \<Rightarrow> bool) \<Rightarrow> 'q list \<Rightarrow> 'o list \<Rightarrow> 'e schedule \<Rightarrow> bool" where
  "serves locks runs qs outs xs \<longleftrightarrow> mutex_ok None xs \<and> fst ` set xs \<subseteq> {..<length qs} \<and>
     (\<forall>i < length qs. \<exists>es. runs (qs ! i) es (outs ! i) \<and> of_thread i xs = request_actions (locks (qs ! i)) es)"

text \<open>The same requests one after the other, each with its effect on the abstract state.\<close>

definition one_by_one :: "('q \<Rightarrow> 's \<Rightarrow> 'o \<Rightarrow> 's \<Rightarrow> bool) \<Rightarrow> ('q \<times> 'o) list \<Rightarrow> 's \<Rightarrow> 's \<Rightarrow> bool" where
  "one_by_one spec = step_run (\<lambda>(q, out) st. spec q st out)"

lemma step_run_drop:
  assumes "step_run step (calls_in xs) st st'"
    and "\<And>i e st st'. (i, Call e) \<in> set xs \<Longrightarrow> \<not> L i \<Longrightarrow> step e st st' \<Longrightarrow> st' = st"
  shows "step_run step (calls_in (filter (\<lambda>x. L (fst x)) xs)) st st'"
  using assms by (induction xs arbitrary: st rule: calls_in.induct) (auto, blast+)

locale locked_service =
  fixes step :: "'e \<Rightarrow> 's \<Rightarrow> 's \<Rightarrow> bool"
    and runs :: "'q \<Rightarrow> 'e list \<Rightarrow> 'o \<Rightarrow> bool"
    and locks :: "'q \<Rightarrow> bool"
    and spec :: "'q \<Rightarrow> 's \<Rightarrow> 'o \<Rightarrow> 's \<Rightarrow> bool"
  assumes locked: "locks q \<Longrightarrow> runs q es out \<Longrightarrow> step_run step es st st' \<Longrightarrow> spec q st out st'"
    and unlocked: "\<not> locks q \<Longrightarrow> runs q es out \<Longrightarrow> e \<in> set es \<Longrightarrow> step e st st' \<Longrightarrow> st' = st"
begin

lemma in_order:
  assumes "step_run step (concat (map es order)) st st'"
    and "\<And>i. i \<in> set order \<Longrightarrow> locks (qs ! i) \<and> runs (qs ! i) (es i) (outs ! i)"
  shows "one_by_one spec (map (\<lambda>i. (qs ! i, outs ! i)) order) st st'"
  using assms
proof (induction order arbitrary: st)
  case (Cons i order)
  then obtain mid where "step_run step (es i) st mid" "step_run step (concat (map es order)) mid st'"
    by (auto simp: step_run_append)
  with Cons show ?case by (auto simp: one_by_one_def intro: locked)
qed (simp add: one_by_one_def)

theorem serialised:
  assumes "serves locks runs qs outs xs" and "step_run step (calls_in xs) st st'"
  shows "distinct (lock_order xs) \<and> set (lock_order xs) = {i. i < length qs \<and> locks (qs ! i)} \<and>
    one_by_one spec (map (\<lambda>i. (qs ! i, outs ! i)) (lock_order xs)) st st'"
proof -
  define L where "L i \<longleftrightarrow> i < length qs \<and> locks (qs ! i)" for i
  define ys where "ys = filter (\<lambda>x. L (fst x)) xs"
  obtain es where es: "runs (qs ! i) (es i) (outs ! i)" "of_thread i xs = request_actions (locks (qs ! i)) (es i)"
    if "i < length qs" for i using assms(1) unfolding serves_def by metis
  have thread: "i < length qs" "a \<in> set (of_thread i xs)" if "(i, a) \<in> set xs" for i a
    using assms(1) that in_of_thread [OF that] by (force simp: serves_def)+
  have free: "\<exists>e. a = Call e \<and> e \<in> set (es i)" if "(i, a) \<in> set xs" "\<not> L i" for i a
    using thread [OF that(1)] es(2) [of i] that(2) by (auto simp: L_def request_actions_def)
  have ys: "mutex_ok None ys" "lock_order ys = lock_order xs"
    unfolding ys_def using assms(1) free by (intro mutex_ok_filter; force simp: serves_def)+
  have threads: "of_thread i ys = (if L i then request_actions True (es i) else [])" for i
    unfolding ys_def of_thread_filter using es(2) [of i] by (auto simp: L_def)
  have serial: "calls_in ys = concat (map es (lock_order xs)) \<and> distinct (lock_order xs) \<and> set (lock_order xs) = {i. L i}"
    using serial_calls [OF ys(1), where es = es] threads by (auto simp: ys(2) request_actions_def)
  have "step_run step (calls_in ys) st st'"
    unfolding ys_def
  proof (rule step_run_drop [OF assms(2)])
    fix i e t t' assume "(i, Call e) \<in> set xs" "\<not> L i" and e: "step e t t'"
    then have "i < length qs" "\<not> locks (qs ! i)" "e \<in> set (es i)" using free thread(1) by (auto simp: L_def)
    then show "t' = t" using unlocked es(1) e by blast
  qed
  then have "step_run step (concat (map es (lock_order xs))) st st'" using serial by simp
  moreover have "locks (qs ! i) \<and> runs (qs ! i) (es i) (outs ! i)" if "i \<in> set (lock_order xs)" for i
    using that serial es(1) by (simp add: L_def)
  ultimately have "one_by_one spec (map (\<lambda>i. (qs ! i, outs ! i)) (lock_order xs)) st st'" by (rule in_order)
  then show ?thesis using serial by (simp add: L_def)
qed

end

end
