(* ===== verification/Node_Concurrency.thy ===== *)
theory Node_Concurrency
  imports Mount_Properties Concurrency
begin

text \<open>
  Requests to the node service that run at the same time. Staging, unstaging, publishing and unpublishing hold the mutex of the node
  server; expanding and asking for the node's info run without it. (So do
  asking for the capabilities, which calls nothing, and for the statistics of a volume, whose only call is \<open>statfs\<close>; they are left out here.)
  \<open>node_run\<close> gives the calls of a
  request and its outcome on a host that gives any answers. The node service is a \<open>locked_service\<close>: whatever
  goroutines interleave, the mount table changes as if the requests with the mutex ran one after the other.
\<close>

section \<open>The requests\<close>

datatype node_rpc =
    RPC_Stage NodeStageVolumeRequest
  | RPC_Unstage NodeUnstageVolumeRequest
  | RPC_Publish NodePublishVolumeRequest
  | RPC_Unpublish NodeUnpublishVolumeRequest
  | RPC_Expand NodeExpandVolumeRequest
  | RPC_GetInfo

text \<open>The handlers that call \<open>ns.mux.Lock()\<close> and defer \<open>ns.mux.Unlock()\<close>.\<close>

fun holds_mutex :: "node_rpc \<Rightarrow> bool" where
  "holds_mutex (RPC_Stage req) = True"
| "holds_mutex (RPC_Unstage req) = True"
| "holds_mutex (RPC_Publish req) = True"
| "holds_mutex (RPC_Unpublish req) = True"
| "holds_mutex (RPC_Expand req) = False"
| "holds_mutex RPC_GetInfo = False"

definition without_response :: "(error + 'a) outcome \<Rightarrow> (error + unit) outcome" where
  "without_response out = (case out of Panic \<Rightarrow> Panic | Done r \<Rightarrow> Done (map_sum id (\<lambda>_. ()) r))"

text \<open>The calls of a request and its answer: the outcome, and whether the look-ups of mapper devices by name worked.\<close>

type_synonym node_answer = "bool \<times> (error + unit) outcome"

definition answered :: "host_event list \<Rightarrow> (error + unit) outcome \<Rightarrow> host_event list \<times> node_answer" where
  "answered es out = (es, mapper_found es, out)"

fun node_run ::
  "LinodeDriver \<Rightarrow> Metadata \<Rightarrow> 'w Host \<Rightarrow> 'w world \<Rightarrow> node_rpc \<Rightarrow> host_event list \<times> node_answer" where
  "node_run drv md h s (RPC_Stage req) =
     answered (calls_of (NodeStageVolume (node_of drv md (traced_host h)) (traced_fs (h_fs h)) req) s)
       (fst (NodeStageVolume (node_of drv md h) (h_fs h) req s))"
| "node_run drv md h s (RPC_Unstage req) =
     answered (calls_of (NodeUnstageVolume (node_of drv md (traced_host h)) req) s) (fst (NodeUnstageVolume (node_of drv md h) req s))"
| "node_run drv md h s (RPC_Publish req) =
     answered (calls_of (NodePublishVolume (node_of drv md (traced_host h)) (traced_fs (h_fs h)) req) s)
       (fst (NodePublishVolume (node_of drv md h) (h_fs h) req s))"
| "node_run drv md h s (RPC_Unpublish req) =
     answered (calls_of (NodeUnpublishVolume (node_of drv md (traced_host h)) req) s) (fst (NodeUnpublishVolume (node_of drv md h) req s))"
| "node_run drv md h s (RPC_Expand req) =
     answered (calls_of (NodeExpandVolume (node_of drv md (traced_host h)) req) s)
       (without_response (fst (NodeExpandVolume (node_of drv md h) req s)))"
| "node_run drv md h s RPC_GetInfo =
     answered (calls_of (NodeGetInfo (node_of drv md (traced_host h))) s) (without_response (fst (NodeGetInfo (node_of drv md h) s)))"

text \<open>What each request promises; only staging may panic.\<close>

fun node_spec :: "node_rpc \<Rightarrow> mount_table \<Rightarrow> node_answer \<Rightarrow> mount_table \<Rightarrow> bool" where
  "node_spec (RPC_Stage req) t (found, out) t' = node_stage_spec req t out t'"
| "node_spec (RPC_Unstage req) t (found, out) t' = (\<exists>r. out = Done r \<and> node_unstage_spec found req t r t')"
| "node_spec (RPC_Publish req) t (found, out) t' = (\<exists>r. out = Done r \<and> node_publish_spec req t r t')"
| "node_spec (RPC_Unpublish req) t (found, out) t' = (\<exists>r. out = Done r \<and> node_unpublish_spec req t r t')"
| "node_spec q t a t' = (t' = t)"

section \<open>The node service as a service with a lock\<close>

lemma effect_calls:
  "effect step Q m \<Longrightarrow> erases forget_log m n \<Longrightarrow> step_run step (calls_of m s) t t' \<Longrightarrow> Q t (fst (n s)) t'"
  "call_effect step P m \<Longrightarrow> erases forget_log m n \<Longrightarrow> step_run step (calls_of m s) t t' \<Longrightarrow> P (calls_of m s) t (fst (n s)) t'"
  using emits_run [of _ m n s] unfolding effect_def call_effect_def by blast+

lemmas node_effects =
  effect_calls(1) [OF NodeStageVolume_effect erase_NodeStageVolume] effect_calls(2) [OF NodeUnstageVolume_effect erase_NodeUnstageVolume]
  effect_calls(1) [OF NodePublishVolume_effect erase_NodePublishVolume] effect_calls(1) [OF NodeUnpublishVolume_effect erase_NodeUnpublishVolume]

lemma reading_calls:
  assumes "node_run drv md h s q = (es, out)" and "\<not> holds_mutex q" and "e \<in> set es"
  shows "\<exists>a. e = EvApi a"
proof (cases q)
  case (RPC_Expand req)
  with emits_calls_of [OF NodeExpandVolume_calls [where h = h and drv = drv and md = md and req = req], where s = s] assms
  show ?thesis by (auto simp: answered_def)
next
  case RPC_GetInfo
  with emits_calls_of [OF NodeGetInfo_calls [where h = h and drv = drv and md = md], where s = s] assms show ?thesis by (auto simp: answered_def)
qed (use assms(2) in simp_all)

interpretation node_service: locked_service table_step "\<lambda>q es out. \<exists>(h :: 'w Host) s. node_run drv md h s q = (es, out)"
  holds_mutex node_spec for drv md
proof
  fix q es out t t'
  assume "holds_mutex q" and "\<exists>(h :: 'w Host) s. node_run drv md h s q = (es, out)" and "step_run table_step es t t'"
  then show "node_spec q t out t'" by (cases q) (auto simp: answered_def dest: node_effects)
next
  fix q es out e t t'
  assume "\<not> holds_mutex q" and "\<exists>(h :: 'w Host) s. node_run drv md h s q = (es, out)" and "e \<in> set es" and "table_step e t t'"
  then show "t' = t" by (auto dest: reading_calls)
qed

section \<open>Properties\<close>

text \<open>
  C15. The node service is linearizable. Take any number of requests served at the same time, in any interleaving that the mutex allows, on
  a host whose calls have their documented meaning: the mount table ends as if the requests that change it had been
  served one after the other, each exactly once, in the order in which they got the mutex, and each has the outcome it reported.
\<close>

theorem node_linearizable:
  assumes "serves holds_mutex (\<lambda>q es out. \<exists>(h :: 'w Host) s. node_run drv md h s q = (es, out)) qs outs xs"
    and "step_run table_step (calls_in xs) t t'"
  shows "distinct (lock_order xs) \<and> set (lock_order xs) = {i. i < length qs \<and> holds_mutex (qs ! i)} \<and>
    one_by_one node_spec (map (\<lambda>i. (qs ! i, outs ! i)) (lock_order xs)) t t'"
  using assms by (rule node_service.serialised)

theorem node_linearizable_witness:
  "\<exists>xs outs t'. serves holds_mutex (\<lambda>q es out. \<exists>(h :: box Host) s. node_run sample_driver sample_metadata h s q = (es, out))
      [RPC_Publish (sample_node_publish AT_None ''d''), RPC_GetInfo, RPC_Unpublish \<lparr>NUP_VolumeId = ''42-csipvc1'', NUP_TargetPath = ''/pods/t''\<rparr>]
      outs xs \<and> lock_order xs = [0, 2] \<and>
    one_by_one node_spec [(RPC_Publish (sample_node_publish AT_None ''d''), outs ! 0),
      (RPC_Unpublish \<lparr>NUP_VolumeId = ''42-csipvc1'', NUP_TargetPath = ''/pods/t''\<rparr>, outs ! 2)] (box_table (Ext box_state)) t'"
proof -
  let ?preq = "sample_node_publish AT_None ''d''"
  let ?ureq = "\<lparr>NUP_VolumeId = ''42-csipvc1'', NUP_TargetPath = ''/pods/t''\<rparr>"
  let ?qs = "[RPC_Publish ?preq, RPC_GetInfo, RPC_Unpublish ?ureq]"
  let ?ns = "node_of sample_driver sample_metadata box_host"
  define s1 where "s1 = snd (NodePublishVolume ?ns (h_fs box_host) ?preq box_state)"
  define s2 where "s2 = snd (NodeUnpublishVolume ?ns ?ureq s1)"
  obtain es0 out0 where r0: "node_run sample_driver sample_metadata box_host box_state (RPC_Publish ?preq) = (es0, out0)" by (metis surj_pair)
  obtain es1 out1 where r1: "node_run sample_driver sample_metadata box_host box_state RPC_GetInfo = (es1, out1)" by (metis surj_pair)
  obtain es2 out2 where r2: "node_run sample_driver sample_metadata box_host s1 (RPC_Unpublish ?ureq) = (es2, out2)" by (metis surj_pair)
  let ?outs = "[out0, out1, out2]"
  let ?xs = "(0, Lock) # call_block 1 es1 @ call_block 0 es0 @ [(0, Unlock), (2, Lock)] @ call_block 2 es2 @ [(2, Unlock)]"
  let ?runs = "\<lambda>q es out. \<exists>(h :: box Host) s. node_run sample_driver sample_metadata h s q = (es, out)"
  have "\<exists>es. ?runs (?qs ! i) es (?outs ! i) \<and> of_thread i ?xs = request_actions (holds_mutex (?qs ! i)) es" if "i < 3" for i
  proof -
    from that consider "i = 0" | "i = 1" | "i = 2" by linarith
    then show ?thesis
    proof cases
      case 1
      with r0 show ?thesis by (intro exI [of _ es0]) (auto simp: request_actions_def simp del: node_run.simps)
    next
      case 2
      with r1 show ?thesis by (intro exI [of _ es1]) (auto simp: request_actions_def simp del: node_run.simps)
    next
      case 3
      with r2 show ?thesis by (intro exI [of _ es2]) (auto simp: request_actions_def simp del: node_run.simps)
    qed
  qed
  then have serves: "serves holds_mutex ?runs ?qs ?outs ?xs"
    by (auto simp: serves_def less_Suc_eq_le numeral_eq_Suc image_Un)
  have api: "step_run table_step es1 t t" for t
    using emits_calls_of [OF NodeGetInfo_calls [where h = box_host and drv = sample_driver and md = sample_metadata], where s = box_state] r1
    by (auto simp: answered_def)
  have "step_run table_step (calls_of (NodePublishVolume (node_of sample_driver sample_metadata (traced_host box_host)) (traced_fs (h_fs box_host)) ?preq) box_state)
      (box_table (Ext box_state)) (box_table (Ext s1))"
    unfolding s1_def by (rule tracked_run [THEN conjunct2, OF tracked_NodePublishVolume [OF box_table_host] erase_NodePublishVolume]) simp
  moreover have "step_run table_step (calls_of (NodeUnpublishVolume (node_of sample_driver sample_metadata (traced_host box_host)) ?ureq) s1)
      (box_table (Ext s1)) (box_table (Ext s2))"
    unfolding s2_def by (rule tracked_run [THEN conjunct2, OF tracked_NodeUnpublishVolume [OF box_table_host] erase_NodeUnpublishVolume]) simp
  ultimately have "step_run table_step es0 (box_table (Ext box_state)) (box_table (Ext s1))"
    "step_run table_step es2 (box_table (Ext s1)) (box_table (Ext s2))"
    using r0 r2 by (simp_all add: answered_def)
  then have "step_run table_step (calls_in ?xs) (box_table (Ext box_state)) (box_table (Ext s2))"
    using api by (auto simp: step_run_append)
  from node_linearizable [OF serves this] serves show ?thesis by (intro exI [of _ ?xs] exI [of _ ?outs]) auto
qed

end
