(* ===== verification/Spec2Isabelle.thy ===== *)
theory Spec2Isabelle
  imports Lifecycle Error_Properties Logging Node_Concurrency Controller_Concurrency
begin

text \<open>
  Verification of the Linode Block Storage CSI driver.

  \<^bold>\<open>The program.\<close> The driver lets a container orchestrator use Linode block storage volumes. One binary holds
  three gRPC services. The controller service creates, deletes, attaches, detaches, resizes and
  lists volumes through the Linode API. The node service, on every machine, finds the device of an
  attached volume, decrypts, formats and mounts it, and undoes all of this. The identity service says what the
  driver is and whether it is ready. The orchestrator carries data between the controller and the node: volume
  IDs (\<open><id>-<label>\<close>), the volume context and the publish context.

  \<^bold>\<open>How the program is modelled.\<close> A function that only computes is a HOL function. A function
  with effects is a program \<open>('s, 'a) prog = 's \<Rightarrow> 'a result \<times> 's\<close>, where a result is \<open>Done a\<close> or \<open>Panic\<close>; a nil
  pointer that is read and a slice index out of range are \<open>Panic\<close>. Go's \<open>(T, error)\<close> is \<open>error + 't\<close> where the
  value is dropped on an error, and a pair where the code uses both. Machine integers are words or
  integers with the wrap-around written out. The state \<open>'w world\<close> holds the metrics and the outside
  world \<open>Ext\<close>, of an arbitrary type. Everything outside the repository (linodego, mount-utils, exec,
  the file system, go-cryptsetup, the metadata service) is a record of functions on \<open>'w\<close>, passed
  to the definitions as the Go code passes its interfaces. A theorem without hypotheses on these
  functions holds for every behaviour of them: failures, stale answers, and changes made by
  others, since a call may change \<open>'w\<close> in any way.

  \<^bold>\<open>The theories\<close>, with the files they model (all paths under \<open>src/\<close>):
  \<^item> \<open>Go_Prelude\<close>: results, programs and their laws; the logic of programs (\<open>yields\<close>, \<open>respects\<close>, \<open>erases\<close>, \<open>ensures\<close>)
    with the locale \<open>state_relation\<close>; integers at their width.
  \<^item> \<open>Go_Strings\<close>, \<open>Go_Path\<close>: what the driver uses of \<open>strconv\<close>, \<open>strings\<close>, \<open>encoding/json\<close>, \<open>path\<close>, \<open>path/filepath\<close>.
  \<^item> \<open>CSI_Types\<close>: the messages of the Container Storage Interface. \<open>Driver_Errors\<close>: \<open>internal/driver/errors.go\<close>.
  \<^item> \<open>Observability\<close>, \<open>Tracing\<close>: \<open>pkg/observability/metrics.go\<close>, \<open>tracker.go\<close>. \<open>Logging\<close>: \<open>pkg/logger/logger.go\<close>.
    The locale \<open>metered_rpc\<close> is the contract of an instrumented handler.
  \<^item> \<open>Linode_Volumes\<close>: \<open>pkg/linode-volumes/utils.go\<close>, with the locale \<open>key_codec\<close>.
  \<^item> \<open>Linode_Client\<close>: \<open>pkg/linode-client/linode_client.go\<close>. \<open>Limits_Capabilities\<close>: \<open>internal/driver/limits.go\<close>,
    \<open>capabilities.go\<close>, \<open>lifecycle.go\<close>. \<open>Driver_Types\<close>: the types of the driver.
  \<^item> \<open>Controller_Helper\<close>, \<open>Controller_Server\<close>: \<open>internal/driver/controllerserver_helper.go\<close>, \<open>controllerserver.go\<close>.
  \<^item> \<open>Host_Interfaces\<close>: \<open>pkg/filesystem\<close>, \<open>pkg/mount-manager\<close> and \<open>pkg/cryptsetup-client\<close>: the interfaces and how
    they are made from \<open>os\<close>, mount-utils, exec and go-cryptsetup.
    \<open>Device_Manager\<close>: \<open>pkg/device-manager/device.go\<close>, with the locale \<open>device_utils\<close>. \<open>Luks\<close>: \<open>internal/driver/luks.go\<close>.
  \<^item> \<open>Node_Helpers\<close>, \<open>Node_Server\<close>: \<open>internal/driver/nodeserver_helpers.go\<close>, \<open>nodeserver.go\<close>, \<open>nodeserver_all.go\<close>,
    \<open>nodeserver_windows.go\<close>. \<open>Node_Metadata\<close>: \<open>internal/driver/metadata.go\<close>.
  \<^item> \<open>GRPC_Server\<close>: \<open>internal/driver/server.go\<close>. \<open>Driver_Setup\<close>: \<open>driver.go\<close>, \<open>identityserver.go\<close>, \<open>main.go\<close>.

  \<^bold>\<open>What is proved.\<close>
  \<^item> Call traces (\<open>Call_Trace\<close>, \<open>API_Trace\<close>, \<open>Node_Trace\<close>). A logging client records every call with
    its answer, and forgetting the log gives the handler back. \<open>Controller_Safety\<close> and \<open>Node_Safety\<close> show that in every
    sequence of RPCs, each dangerous call comes right after the answer that justifies it: a volume is
    deleted only when it was just seen detached, attached only within the limit of the instance,
    created only when no volume has its label, never shrunk, and a device is formatted with LUKS only
    after \<open>blkid\<close> found it blank. Between two calls others may change anything: these theorems are about what the
    driver saw, which is all it can act on.
  \<^item> Refinement (\<open>Volume_Account\<close>, \<open>Account_Properties\<close>). An \<open>account\<close> is a map from IDs to volumes. For
    a client that does what the Linode API documents (\<open>account_client\<close>; any call may fail, and one that failed may still have
    taken effect; a volume may stay attached until the wait for its detachment returns; memory and disks of an instance are its \<open>hardware\<close>),
    each controller RPC implements an operation on the account (\<open>create_spec\<close>, \<open>delete_spec\<close>, \<open>publish_spec\<close>,
    \<open>unpublish_spec\<close>, \<open>expand_spec\<close>), and every sequence of RPCs keeps labels unique and instances within their limit.
    Here the controller is the only one that changes the account.
  \<^item> The same for the node (\<open>Mount_Table\<close>, \<open>Mount_Properties\<close>). A \<open>mount_table\<close> holds what is mounted at each path and the
    active mapper devices. For a host that does what mount-utils and go-cryptsetup document (\<open>table_host\<close>; any call may fail, a failed
    bind mount may stay in place, a failed activation or deactivation may have happened, and a look-up of a mapper device may fail for any reason), staging, unstaging, publishing and unpublishing implement \<open>node_stage_spec\<close>, \<open>node_unstage_spec\<close>, \<open>node_publish_spec\<close>,
    \<open>node_unpublish_spec\<close>; unstaging undoes staging, provided the look-up of the mapper device succeeds, because the code takes
    every failure of it for a device that is not there. Both refinements use the logic of \<open>Call_Effects\<close>, where each call has a
    meaning on an abstract state.
  \<^item> The life of a volume (\<open>Lifecycle\<close>): the two refinements put together. A volume that is created, attached, staged and
    published, and then everything undone, was mounted from its own device, and both the account and the mounts end as they were.
  \<^item> Requests at the same time (\<open>Concurrency\<close>, \<open>Node_Concurrency\<close>, \<open>Controller_Concurrency\<close>). Every request has a goroutine of its own,
    and their calls interleave. The locale \<open>locked_service\<close> is the contract of a service with a mutex; the node service is an
    interpretation of it, so it works as if the requests that change mounts ran one after the other. The controller has no lock: for
    any instance with room for exactly one more volume, two publications whose calls interleave both attach theirs and exceed its limit, while in
    turn the second one is refused.
  \<^item> Errors (\<open>RPC_Errors\<close>, \<open>Error_Properties\<close>): the gRPC code of every error, as a function of the request and of what the
    handler saw in its calls (the tables \<open>create_code\<close>, \<open>delete_code\<close>, \<open>publish_code\<close> and so on); the errors
    that reach the orchestrator without a code are named.
  \<^item> Behaviour of the operations (\<open>Controller_Properties\<close>, \<open>Node_Properties\<close>): retries of CreateVolume, sizes, pages of
    ListVolumes, what staging and publishing mount, what the statistics of a volume report, that expanding on the node changes nothing; that
    handlers answer (no panic) where the client keeps Go's convention of a value or an error, and where they do
    panic.
  \<^item> Starting the process (\<open>main\<close> and \<open>handle\<close> of \<open>main.go\<close>) always ends and gives the controller and the node server the other theorems
    are about; the server's goroutines, interleaved with calls of \<open>Stop\<close> and \<open>ForceStop\<close> that are inside one of their own
    calls; the interceptors, around handlers that write log lines of their own (this theory).
  \<open>Sample_Cloud\<close>, \<open>Sample_Account\<close> and \<open>Sample_Host\<close> are an API and a host kept in memory: concrete instances on which the
  hypotheses of the theorems are checked.

  \<^bold>\<open>Fuel.\<close> Only reading the file with the instance's ID loops on outside answers. \<open>readAll\<close> has fuel
  \<open>LinodeIDFuel\<close> = 1025 and returns \<open>None\<close> without it. The reader is limited to 1024 bytes, so a file
  whose reads give a byte or an error needs at most 1025 of them (\<open>readAll_returns\<close>), and the start of the process never
  runs out (\<open>startup_ends\<close>). Every other loop of the
  source runs over a list.

  \<^bold>\<open>Not modelled.\<close>
  \<^item> The mocks under \<open>mocks/\<close> and the tests.
  \<^item> Which log lines a handler writes itself (those of \<open>LogGRPC\<close> and of the start and the completion of a method are modelled), measured times,
    and the spans opened inside handlers: no result depends on them. The guard in front of each span is modelled (\<open>start_span_if_enabled\<close>) and shown not to panic after
    set-up.
  \<^item> The libraries: linodego, mount-utils, exec, go-cryptsetup, \<open>os\<close>, klog and OpenTelemetry are parameters, or what the driver
    hands to them.
  \<^item> Deadlines and cancellation of a context are answers of the outside calls. Go's memory model: goroutines interleave at their calls
    to the outside world, and the metrics are atomic.
  \<^item> How flags are parsed and how \<open>maxprocs\<close> chooses a number: arguments of \<open>main\<close>. The environment is an argument of \<open>loadConfig\<close>.
\<close>

section \<open>Configuration\<close>

text \<open>
  C34. Setting up the driver succeeds exactly when it has a name, a label prefix of at most 12
  letters, digits, dashes and underscores, a mounter, device utilities and a client; then the
  controller and the node server use the prefix, the client and the metadata they were given, and
  the driver is not ready before it runs. Starting a trace span never panics after it: spans are enabled only
  with a tracer.
\<close>

theorem setup_succeeds_iff:
  "(fst (SetupLinodeDriver GetLinodeDriver cli mo du md nm ver p enc em mp et tp) = None \<longleftrightarrow>
      nm \<noteq> [] \<and> prefix_matched p \<and> mo \<noteq> None \<and> du \<noteq> None \<and> cli \<noteq> None) \<and>
   (\<forall>st. SetupLinodeDriver GetLinodeDriver cli mo du md nm ver p enc em mp et tp = (None, st) \<longrightarrow>
      (\<exists>cs ns. ds_cs st = Some cs \<and> ds_ns st = Some ns \<and> ds_ids st \<and>
         Drv_volumeLabelPrefix (cs_driver cs) = p \<and> cli = Some (cs_client cs) \<and> cli = Some (ns_client ns) \<and>
         cs_metadata cs = md \<and> ns_metadata ns = md \<and>
         \<not> Probe (ds_driver st) \<and> Probe (ds_driver (fst (Run st))) \<and>
         GetPluginInfo (ds_driver st) = Inr (nm, ver) \<and>
         (\<exists>sp. start_span_if_enabled caller (ds_otel st) = (Done sp, ds_otel st))))"
proof -
  let ?run = "SetupLinodeDriver GetLinodeDriver cli mo du md nm ver p enc em mp et tp"
  have "\<exists>cs ns. ds_cs st = Some cs \<and> ds_ns st = Some ns \<and> ds_ids st \<and>
         Drv_volumeLabelPrefix (cs_driver cs) = p \<and> cli = Some (cs_client cs) \<and> cli = Some (ns_client ns) \<and>
         cs_metadata cs = md \<and> ns_metadata ns = md \<and>
         \<not> Probe (ds_driver st) \<and> Probe (ds_driver (fst (Run st))) \<and>
         GetPluginInfo (ds_driver st) = Inr (nm, ver)" if "?run = (None, st)" for st
    using that by (auto simp: SetupLinodeDriver_def NewNodeServer_def NewIdentityServer_def NewControllerServer_def
        Let_def GetLinodeDriver_def Probe_def Run_def GetPluginInfo_def split: option.splits if_splits)
  moreover have "\<exists>sp. start_span_if_enabled caller (ds_otel st) = (Done sp, ds_otel st)" if "?run = (None, st)" for st
    using SetupLinodeDriver_tracer [OF that] by (rule start_span_safe)
  ultimately show ?thesis using SetupLinodeDriver_ok [of GetLinodeDriver cli mo du md nm ver p enc em mp et tp] by meson
qed

theorem setup_succeeds_iff_witness:
  "\<exists>st cs. SetupLinodeDriver GetLinodeDriver (Some box_client) (Some box_mounter) (Some (NewDeviceUtils box_fs box_exec))
      sample_metadata Name ''v1'' ''csi-'' (NewLuksEncryption box_exec box_fs box_crypt) [] ''8081'' [] ''4318'' = (None, st) \<and>
    ds_cs st = Some cs \<and> Drv_volumeLabelPrefix (cs_driver cs) = ''csi-''"
proof -
  let ?run = "SetupLinodeDriver GetLinodeDriver (Some box_client) (Some box_mounter) (Some (NewDeviceUtils box_fs box_exec))
      sample_metadata Name ''v1'' ''csi-'' (NewLuksEncryption box_exec box_fs box_crypt) [] ''8081'' [] ''4318''"
  note p = setup_succeeds_iff [of "Some box_client" "Some box_mounter" "Some (NewDeviceUtils box_fs box_exec)"
      sample_metadata Name "''v1''" "''csi-''" "NewLuksEncryption box_exec box_fs box_crypt" "[]" "''8081''" "[]" "''4318''"]
  have "fst ?run = None"
    using p by (simp add: Name_def prefix_matched_def is_label_char_def MaxVolumeLabelPrefixLength_def Let_def)
  then obtain st where "?run = (None, st)" by (metis prod.collapse)
  with p show ?thesis by blast
qed

text \<open>
  The label of a created volume has at most 32 bytes and starts with the whole prefix of the
  driver; what follows is the beginning of the requested name.
\<close>

lemma label_keeps_prefix:
  assumes "prefix_matched p"
  shows "length (GetNormalizedLabelWithPrefix (CreateLinodeVolumeKey i name) p) \<le> 32 \<and>
    GetNormalizedLabelWithPrefix (CreateLinodeVolumeKey i name) p = p @ take (32 - length p) name"
  using assms by (auto simp: GetNormalizedLabelWithPrefix_take CreateLinodeVolumeKey_def prefix_matched_def
      MaxVolumeLabelPrefixLength_def min_def)

section \<open>Attachment limits\<close>

text \<open>
  C29. The node and the controller agree on how many volumes an instance can take: the number
  the node reports to the orchestrator is the limit the controller applies to the instance,
  when the node's metadata comes from the same instance and both see the same disks.
\<close>

theorem attach_limits_agree:
  assumes "Inst_Specs i = Some specs" and "0 \<le> Spec_Memory specs" and "Inst_ID i = Meta_ID (ns_metadata ns)"
    and "Meta_Memory (ns_metadata ns) = memoryToBytes (Spec_Memory specs)" and "ns_client ns = cs_client cs"
    and "ListInstanceDisks_api (cs_client cs) (Inst_ID i) None (Ext s) = ((disks, None), w)"
  shows "\<exists>info limit. fst (NodeGetInfo ns s) = Done (Inr info) \<and>
    fst (maxAllowedVolumeAttachments cs (Some i) s) = Done (Inr limit) \<and> GI_MaxVolumesPerNode info = limit \<and>
    8 - int (length disks) \<le> limit \<and> limit \<le> 64 - int (length disks)"
proof -
  have "maxVolumeAttachments (memoryToBytes (Spec_Memory specs)) = maxVolumeAttachments (push_bit 20 (word_of_int (Spec_Memory specs)))"
    using assms(2) by (rule memoryToBytes_limit)
  with assms maxVolumeAttachments_bounds show ?thesis
    by (simp add: NodeGetInfo_def maxAllowedVolumeAttachments_def call_def Let_def)
qed

theorem attach_limits_agree_witness:
  "\<exists>info. fst (NodeGetInfo (node_of sample_driver sample_metadata box_host) box_state) = Done (Inr info) \<and> GI_MaxVolumesPerNode info \<le> 63"
proof -
  let ?ns = "node_of sample_driver sample_metadata box_host"
  let ?cs = "\<lparr>cs_driver = sample_driver, cs_client = box_client, cs_metadata = sample_metadata\<rparr>"
  have "ListInstanceDisks_api (cs_client ?cs) (Inst_ID sample_instance) None (Ext box_state) = (([\<lparr>Disk_ID = 9\<rparr>], None), Ext box_state)"
    by (simp add: box_client_def in_box_def cloud_client_def sample_instance_def)
  from attach_limits_agree [OF _ _ _ _ _ this, of "\<lparr>Spec_Memory = 8192\<rparr>" ?ns] show ?thesis
    by (auto simp: sample_instance_def sample_metadata_def)
qed

section \<open>Starting up\<close>

text \<open>
  C35. Starting the process always ends, with an exit code or with a running driver, when reads of files make
  progress and the clients return a value or an error: the read of the file with the instance's ID ends and nothing
  panics. A driver that runs has a version and a token, reports ready, has metadata with an ID other than zero, and its
  controller and node server use the same client and metadata; its node server is the one built from the host's interfaces. When the
  flag of the log cannot be set, the process exits with the code of success.
\<close>

theorem startup_ends:
  assumes "progressing (NewFileSystem os)" and "reads_at_most (NewFileSystem os)" and "\<forall>k. 0 < room k"
    and "\<forall>set i. returns_value (GetInstance_api (mk set) i)"
    and "\<forall>c e w w'. newc w = ((Some c, e), w') \<longrightarrow> returns_value c"
  shows "\<exists>r s'. main setLog parseFlags setProcs (handle ver cfg mk parse mo ex os cr newc room) s = (Done (Some r), s') \<and>
    (\<forall>st p. r = Serves st p \<longrightarrow> ver \<noteq> [] \<and> linodeToken cfg \<noteq> [] \<and> Probe (ds_driver st) \<and>
      (\<exists>cli md cs. ds_cs st = Some cs \<and> cs_client cs = cli \<and> cs_metadata cs = md \<and> Meta_ID md \<noteq> 0 \<and>
         Drv_volumeLabelPrefix (cs_driver cs) = volumeLabelPrefix cfg \<and> prefix_matched (volumeLabelPrefix cfg) \<and>
         (\<exists>drv. ds_ns st = Some (node_of drv md \<lparr>h_fs = NewFileSystem os, h_mounter = mo ex, h_exec = ex, h_crypt = cr, h_client = cli\<rparr>))) \<and>
      server_reach (started True True True (Drv_enableMetrics (ds_driver st)) (Drv_metricsPort (ds_driver st))) p) \<and>
    (fst (setLog (Ext s)) \<noteq> None \<longrightarrow> r = Exit 0)"
proof -
  have node: "ns = node_of (ns_driver ns) (ns_metadata ns) \<lparr>h_fs = NewFileSystem os, h_mounter = mo ex, h_exec = ex, h_crypt = cr, h_client = ns_client ns\<rparr>"
    if "ns_mounter ns = mo ex" "ns_deviceutils ns = NewDeviceUtils (NewFileSystem os) ex" "ns_encrypt ns = NewLuksEncryption ex (NewFileSystem os) cr" for ns
    using that by (simp add: node_of_def)
  let ?run = "main setLog parseFlags setProcs (handle ver cfg mk parse mo ex os cr newc room)"
  have "yields (\<lambda>r. \<exists>a. r = Some a \<and> (\<forall>st p. a = Serves st p \<longrightarrow> ver \<noteq> [] \<and> linodeToken cfg \<noteq> [] \<and>
      (\<exists>cli. NewLinodeClient mk parse (linodeToken cfg) (''LinodeCSI/'' @ ver) (linodeURL cfg) = Inr cli \<and>
         runs_with cli (mo ex) (NewDeviceUtils (NewFileSystem os) ex) (NewLuksEncryption ex (NewFileSystem os) cr) (volumeLabelPrefix cfg) (st, p)))) ?run"
    by (rule main_yields, rule handle_yields [OF assms(1,2)]) (use assms(3-5) in blast)+
  from yieldsD [OF this, of s] obtain a s' where run: "?run s = (Done (Some a), s')"
    and a: "\<forall>st p. a = Serves st p \<longrightarrow> ver \<noteq> [] \<and> linodeToken cfg \<noteq> [] \<and>
      (\<exists>cli. runs_with cli (mo ex) (NewDeviceUtils (NewFileSystem os) ex) (NewLuksEncryption ex (NewFileSystem os) cr) (volumeLabelPrefix cfg) (st, p))"
    by blast
  have "ver \<noteq> [] \<and> linodeToken cfg \<noteq> [] \<and> Probe (ds_driver st) \<and>
      (\<exists>cli md cs. ds_cs st = Some cs \<and> cs_client cs = cli \<and> cs_metadata cs = md \<and> Meta_ID md \<noteq> 0 \<and>
         Drv_volumeLabelPrefix (cs_driver cs) = volumeLabelPrefix cfg \<and> prefix_matched (volumeLabelPrefix cfg) \<and>
         (\<exists>drv. ds_ns st = Some (node_of drv md \<lparr>h_fs = NewFileSystem os, h_mounter = mo ex, h_exec = ex, h_crypt = cr, h_client = cli\<rparr>))) \<and>
      server_reach (started True True True (Drv_enableMetrics (ds_driver st)) (Drv_metricsPort (ds_driver st))) p"
    if sp: "a = Serves st p" for st p
  proof -
    from a sp have version: "ver \<noteq> []" "linodeToken cfg \<noteq> []" by blast+
    from a sp obtain cli where
      "runs_with cli (mo ex) (NewDeviceUtils (NewFileSystem os) ex) (NewLuksEncryption ex (NewFileSystem os) cr) (volumeLabelPrefix cfg) (st, p)" by blast
    then obtain cs ns where ready: "Probe (ds_driver st)"
      and cs: "ds_cs st = Some cs" "cs_client cs = cli" "cs_metadata cs = ns_metadata ns" "Meta_ID (ns_metadata ns) \<noteq> 0"
        "Drv_volumeLabelPrefix (cs_driver cs) = volumeLabelPrefix cfg" "prefix_matched (volumeLabelPrefix cfg)"
      and ns: "ds_ns st = Some ns" "ns_client ns = cli" "ns_mounter ns = mo ex" "ns_deviceutils ns = NewDeviceUtils (NewFileSystem os) ex"
        "ns_encrypt ns = NewLuksEncryption ex (NewFileSystem os) cr"
      and p: "p = started True True True (Drv_enableMetrics (ds_driver st)) (Drv_metricsPort (ds_driver st))"
      unfolding runs_with_def fst_conv snd_conv by blast
    have "\<exists>drv. ds_ns st = Some (node_of drv (ns_metadata ns)
        \<lparr>h_fs = NewFileSystem os, h_mounter = mo ex, h_exec = ex, h_crypt = cr, h_client = cli\<rparr>)"
      using node [OF ns(3-5)] ns(1,2) by metis
    with version ready cs p show ?thesis by (auto intro: server_start)
  qed
  moreover have "fst (setLog (Ext s)) \<noteq> None \<longrightarrow> a = Exit 0"
    using main_exits [OF _ run] by blast
  ultimately show ?thesis using run by blast
qed

definition sample_service :: "box \<Rightarrow> (box MetadataClient option \<times> error option) \<times> box" where
  "sample_service w =
     ((Some (\<lambda>w. ((Some \<lparr>ID_ID = 9, ID_Label = ''node'', ID_Region = ''us-east'', ID_Memory = 8192\<rparr>, None), w)), None), w)"

definition sample_config :: configuration where
  "sample_config = loadConfig [''LINODE_TOKEN'' \<mapsto> ''secret'', ''LINODE_VOLUME_LABEL_PREFIX'' \<mapsto> ''csi-''] []"

definition sample_handle :: "(box world, (error + (box DriverState \<times> server_process)) option) prog" where
  "sample_handle = handle ''v1'' sample_config
     (\<lambda>st. box_client) (\<lambda>u. Inl io_EOF) (\<lambda>x. box_mounter) box_exec box_os box_crypt sample_service (\<lambda>n. 512)"

definition sample_main :: "(box world, box main_end option) prog" where
  "sample_main = main (\<lambda>w. (None, w)) (\<lambda>w. (None, w)) (\<lambda>w. ((\<lambda>w'. ((), w'), None), w)) sample_handle"

lemma sample_main_runs: "\<exists>st p s'. sample_main box_state = (Done (Some (Serves st p)), s')"
proof -
  let ?md = "\<lparr>Meta_ID = 9, Meta_Label = ''node'', Meta_Region = ''us-east'', Meta_Memory = memoryToBytes 8192\<rparr>"
  let ?set_up = "SetupLinodeDriver GetLinodeDriver (Some box_client) (Some box_mounter) (Some (NewDeviceUtils box_fs box_exec)) ?md
     Name ''v1'' ''csi-'' (NewLuksEncryption box_exec box_fs box_crypt) [] ''8081'' [] ''4318''"
  have "fst ?set_up = None"
    by (simp add: SetupLinodeDriver_ok Name_def prefix_matched_def is_label_char_def MaxVolumeLabelPrefixLength_def Let_def)
  then obtain st where "?set_up = (None, st)" by (metis prod.collapse)
  then have "sample_handle s = (Done (Some (Inr (Run st))), s)" for s
    by (simp add: sample_handle_def sample_config_def handle_def NewSafeMounter_def loadConfig_def NewLinodeClient_def GetNodeMetadata_def
        GetMetadata_def call_def sample_service_def Let_def)
  then show ?thesis by (simp add: sample_main_def main_def maxProcs_def with_defer_def call_def split: prod.splits)
qed

theorem startup_ends_witness:
  "\<exists>st p s' cs. sample_main box_state = (Done (Some (Serves st p)), s') \<and> Probe (ds_driver st) \<and>
     ds_cs st = Some cs \<and> Meta_ID (cs_metadata cs) \<noteq> 0"
proof -
  obtain st p s' where run: "sample_main box_state = (Done (Some (Serves st p)), s')" using sample_main_runs by blast
  have fs: "progressing (NewFileSystem box_os)" "reads_at_most (NewFileSystem box_os)" "\<forall>k. 0 < (512 :: nat)"
    by (auto simp: progressing_def reads_at_most_def box_fs_def)
  have inst: "\<forall>(set :: ClientSettings) i. returns_value (GetInstance_api box_client i)"
    by (auto simp: returns_value_def box_client_def in_box_def cloud_client_def split: option.splits)
  have service: "\<forall>c e w w'. sample_service w = ((Some c, e), w') \<longrightarrow> returns_value c"
    by (auto simp: sample_service_def returns_value_def)
  from startup_ends [OF fs inst service, of "\<lambda>w. (None, w)" "\<lambda>w. (None, w)" "\<lambda>w. ((\<lambda>w'. ((), w'), None), w)"
      "''v1''" sample_config "\<lambda>u. Inl io_EOF" "\<lambda>x. box_mounter" box_exec box_crypt box_state]
  have "Probe (ds_driver st) \<and> (\<exists>cs. ds_cs st = Some cs \<and> Meta_ID (cs_metadata cs) \<noteq> 0)"
    unfolding sample_handle_def [symmetric] sample_main_def [symmetric] run by auto
  with run show ?thesis by blast
qed

section \<open>The gRPC server\<close>



text \<open>
  C37. Without metrics, the server's \<open>Wait\<close> never returns, so the process serves for ever; and
  \<open>Stop\<close> and \<open>ForceStop\<close> panic in every state, because they call through the pointer to the metrics
  server that was never set.
\<close>

theorem server_without_metrics:
  assumes "server_reach (snd (Run st)) p" and "ParseBool (Drv_enableMetrics (ds_driver st)) \<noteq> Some True"
  shows "\<not> wait_returns p \<and> fst (Stop p) = Panic \<and> fst (ForceStop p) = Panic"
proof -
  have "server_inv False p"
    using server_reach_inv [OF assms(1) [unfolded Run_started]] assms(2) by simp
  then have "metricsServer p = None" "wg p = 1" by (auto simp: server_inv_def)
  then show ?thesis by (simp add: wait_returns_def ForceStop_Stop Stop_Panic)
qed

theorem server_without_metrics_witness:
  "\<not> wait_returns (snd (Run (GetLinodeDriver :: box DriverState))) \<and>
   fst (Stop (snd (Run (GetLinodeDriver :: box DriverState)))) = Panic"
proof -
  have "ParseBool (Drv_enableMetrics (ds_driver (GetLinodeDriver :: box DriverState))) \<noteq> Some True"
    by (simp add: GetLinodeDriver_def ParseBool_def)
  then show ?thesis using server_without_metrics [OF server_start] by blast
qed

section \<open>Interceptors\<close>


text \<open>\<open>Probe\<close>, with the line it writes itself.\<close>

definition probe_body :: "unit \<Rightarrow> Logger \<Rightarrow> (LinodeDriver rpc_state, bool answer) prog" where
  "probe_body req log =
     andThen (Info (Logger_V log 2) ''Processing request'' []) (\<lambda>_. on_inner (\<lambda>drv. ret (Some (Probe drv), None) drv))"


end
